(* ===== verification/Domain_Errors.thy ===== *)
theory Domain_Errors
  imports Wallet_Prelude
begin

text \<open>
  Errors as values. The sentinels are the exported \<^verbatim>\<open>Err\<close> variables of the
  domain packages, of \<^verbatim>\<open>pkg/vo\<close> and of \<^verbatim>\<open>pkg/ofx\<close>; a Go error is a
  sentinel, a \<^verbatim>\<open>pq.Error\<close> with its SQLSTATE, another error of a library or a
  driver, any of them wrapped by \<^verbatim>\<open>fmt.Errorf\<close> with \<^verbatim>\<open>%w\<close>, or an
  \<^verbatim>\<open>AppError\<close> of \<^verbatim>\<open>pkg/apperror\<close> with its code, message and wrapped error. A run-time
  panic, which unwinds the goroutine and is no error value in Go, is the last constructor.
  \<^verbatim>\<open>errors_is\<close> and \<^verbatim>\<open>pq_code\<close> are \<^verbatim>\<open>errors.Is\<close> and
  \<^verbatim>\<open>errors.As\<close> on this chain.
\<close>

datatype sentinel =
    ErrInvalidID
  | ErrInvalidEmail | ErrInvalidPassword | ErrPasswordTooShort | ErrPasswordNoLetter
  | ErrPasswordNoNumber | ErrPasswordNoSpecial
  | ErrUserNotFound | ErrPasswordAlreadySet | ErrPasswordMismatch | ErrInvalidCredentials
  | ErrUserInactive
  | ErrRoleNotFound | ErrDuplicateRoleName | ErrRoleAlreadyAssigned | ErrRoleNotAssigned
  | ErrForbidden
  | ErrInvalidAccountType | ErrInvalidCreditLimit
  | ErrAccountNotFound | ErrCreditLimitRequired | ErrCreditLimitNotAllowed
  | ErrInvalidStatementType | ErrInvalidAmount
  | ErrStatementNotFound | ErrAlreadyReversed | ErrAccountNotActive
  | OfxErrInvalidFormat | OfxErrNoTransactions | OfxErrInvalidAmount | OfxErrInvalidDate
  | ErrInvalidCategoryType | ErrCategoryInvalidName | ErrCategoryNotFound | ErrCategoryDuplicate
  | ErrCategoryReadOnly | ErrCategoryInUse | ErrCategoryTypeMismatch | ErrCategoryNotVisible
  | ErrTagInvalidName | ErrTagNotFound | ErrTagDuplicate | ErrTagReadOnly | ErrTagNotVisible
  | ErrTagLimitExceeded

datatype go_error =
    Sentinel sentinel
  | PqError string
  | ErrNoRows
  | LibError string
  | Wrapped string go_error
  | AppErr string string "go_error option"
  | Panic string

type_synonym 'a go_result = "go_error + 'a"

fun errors_is :: "go_error \<Rightarrow> sentinel \<Rightarrow> bool" where
  "errors_is (Sentinel s) t = (s = t)"
| "errors_is (Wrapped m e) t = errors_is e t"
| "errors_is (AppErr c m (Some e)) t = errors_is e t"
| "errors_is _ t = False"

fun is_no_rows :: "go_error \<Rightarrow> bool" where
  "is_no_rows ErrNoRows = True"
| "is_no_rows (Wrapped m e) = is_no_rows e"
| "is_no_rows (AppErr c m (Some e)) = is_no_rows e"
| "is_no_rows _ = False"

fun pq_code :: "go_error \<Rightarrow> string option" where
  "pq_code (PqError c) = Some c"
| "pq_code (Wrapped m e) = pq_code e"
| "pq_code (AppErr c m (Some e)) = pq_code e"
| "pq_code _ = None"

definition isUniqueViolation :: "go_error \<Rightarrow> bool" where
  "isUniqueViolation e = (pq_code e = Some ''23505'')"

definition isForeignKeyViolation :: "go_error \<Rightarrow> bool" where
  "isForeignKeyViolation e = (pq_code e = Some ''23503'')"

lemma violations_disjoint: "isUniqueViolation e \<Longrightarrow> \<not> isForeignKeyViolation e"
  by (simp add: isUniqueViolation_def isForeignKeyViolation_def)

lemma errors_is_unique: "errors_is e s \<Longrightarrow> errors_is e t \<Longrightarrow> s = t"
  by (induction e s rule: errors_is.induct) auto

lemma errors_is_pq: "pq_code e = Some c \<Longrightarrow> \<not> errors_is e s"
  by (induction e s rule: errors_is.induct) auto

text \<open>\<^verbatim>\<open>pkgvo.ID\<close>: a string that \<^verbatim>\<open>uuid.Parse\<close> accepts. The parser is
  \<^verbatim>\<open>github.com/google/uuid\<close>, a parameter here.\<close>

definition ParseID :: "(string \<Rightarrow> bool) \<Rightarrow> string \<Rightarrow> string go_result" where
  "ParseID uuid_ok s = (if \<not> uuid_ok s then Inl (Sentinel ErrInvalidID) else Inr s)"

lemma ParseID_Inr [simp]: "ParseID ok s = Inr i \<longleftrightarrow> ok s \<and> i = s"
  by (auto simp: ParseID_def)

lemma ParseID_Inl [simp]: "ParseID ok s = Inl e \<longleftrightarrow> \<not> ok s \<and> e = Sentinel ErrInvalidID"
  by (auto simp: ParseID_def)

definition ID_Scan :: "(string \<Rightarrow> bool) \<Rightarrow> string option \<Rightarrow> string go_result" where
  "ID_Scan uuid_ok v = (case v of
      None \<Rightarrow> Inl (LibError ''ID cannot be empty'')
    | Some sv \<Rightarrow> if \<not> uuid_ok sv then Inl (Sentinel ErrInvalidID) else Inr sv)"

end
