(* ===== verification/Go_Time.thy ===== *)
theory Go_Time
  imports Wallet_Prelude
begin

text \<open>
  The part of Go's package \<^verbatim>\<open>time\<close> the program uses: an instant with the
  offset of its location, the civil calendar (proleptic Gregorian, Go's own
  400/100/4-year decomposition), \<^verbatim>\<open>Time.Format\<close> for RFC3339 and
  RFC3339Nano, and \<^verbatim>\<open>time.Parse(time.RFC3339, s)\<close> with the leniencies of
  the Go parser (a one-digit hour, a fraction after a comma, offsets up to
  24:60). The round trip at the end is what the list cursors rest on.
\<close>

record gtime =
  unix_ns :: int
  tz_off :: int

definition zero_time :: gtime where
  "zero_time = \<lparr> unix_ns = - 62135596800 * 1000000000, tz_off = 0 \<rparr>"

definition isZero :: "gtime \<Rightarrow> bool" where
  "isZero t = (unix_ns t = unix_ns zero_time)"

section \<open>The civil calendar\<close>

definition leap :: "int \<Rightarrow> bool" where
  "leap y = (y mod 4 = 0 \<and> (y mod 100 \<noteq> 0 \<or> y mod 400 = 0))"

definition days_before_year :: "int \<Rightarrow> int" where
  "days_before_year y = 365 * (y - 1) + (y - 1) div 4 - (y - 1) div 100 + (y - 1) div 400"

definition days_before_month :: "int \<Rightarrow> int \<Rightarrow> int" where
  "days_before_month y m =
     (if m \<le> 1 then 0 else if m = 2 then 31 else
      (if m = 3 then 59 else if m = 4 then 90 else if m = 5 then 120 else if m = 6 then 151
       else if m = 7 then 181 else if m = 8 then 212 else if m = 9 then 243
       else if m = 10 then 273 else if m = 11 then 304 else 334)
      + (if leap y then 1 else 0))"

definition days_in :: "int \<Rightarrow> int \<Rightarrow> int" where
  "days_in y m = (if m = 2 then (if leap y then 29 else 28)
     else if m = 4 \<or> m = 6 \<or> m = 9 \<or> m = 11 then 30 else 31)"

definition day_number :: "int \<Rightarrow> int \<Rightarrow> int \<Rightarrow> int" where
  "day_number y m d = days_before_year y + days_before_month y m + (d - 1)"

definition year_day :: "int \<Rightarrow> int \<times> int" where
  "year_day n =
    (let n400 = n div 146097; d1 = n mod 146097;
         n100 = min 3 (d1 div 36524); d2 = d1 - 36524 * n100;
         n4 = d2 div 1461; d3 = d2 - 1461 * n4;
         n1 = min 3 (d3 div 365)
     in (400 * n400 + 100 * n100 + 4 * n4 + n1 + 1, d3 - 365 * n1))"

definition month_day :: "bool \<Rightarrow> int \<Rightarrow> int \<times> int" where
  "month_day lp yd =
    (let k = (if lp then 1 else 0) in
     if yd < 31 then (1, yd + 1)
     else if yd < 59 + k then (2, yd - 30)
     else let e = yd - k in
       if e < 90 then (3, e - 58) else if e < 120 then (4, e - 89)
       else if e < 151 then (5, e - 119) else if e < 181 then (6, e - 150)
       else if e < 212 then (7, e - 180) else if e < 243 then (8, e - 211)
       else if e < 273 then (9, e - 242) else if e < 304 then (10, e - 272)
       else if e < 334 then (11, e - 303) else (12, e - 333))"

definition civil :: "int \<Rightarrow> int \<times> int \<times> int" where
  "civil n = (let (y, yd) = year_day n in (y, month_day (leap y) yd))"

lemma int_div_bounds:
  assumes "0 < (k :: int)"
  shows "k * (x div k) \<le> x" "x < k * (x div k) + k"
  using assms pos_mod_bound[OF assms, of x] pos_mod_sign[OF assms, of x] mult_div_mod_eq[of k x]
  by linarith+

lemma int_div_nonneg: "0 < (k :: int) \<Longrightarrow> 0 \<le> x \<Longrightarrow> 0 \<le> x div k"
  by (simp add: pos_imp_zdiv_nonneg_iff)

lemma year_day_parts:
  assumes "year_day n = (y, yd)"
  obtains a b c e where "y = 400 * a + 100 * b + 4 * c + e + 1"
    "n = 146097 * a + 36524 * b + 1461 * c + 365 * e + yd"
    "0 \<le> b" "b \<le> 3" "0 \<le> c" "c \<le> 24" "0 \<le> e" "e \<le> 3" "0 \<le> yd"
    "yd \<le> 364 \<or> (yd = 365 \<and> e = 3 \<and> (c < 24 \<or> b = 3))"
proof -
  define a where "a = n div 146097"
  define d1 where "d1 = n mod 146097"
  define b where "b = min 3 (d1 div 36524)"
  define d2 where "d2 = d1 - 36524 * b"
  define c where "c = d2 div 1461"
  define d3 where "d3 = d2 - 1461 * c"
  define e where "e = min 3 (d3 div 365)"
  have "year_day n = (400 * a + 100 * b + 4 * c + e + 1, d3 - 365 * e)"
    by (simp only: year_day_def Let_def a_def d1_def b_def d2_def c_def d3_def e_def)
  with assms have y: "y = 400 * a + 100 * b + 4 * c + e + 1" and yd: "yd = d3 - 365 * e"
    by simp_all
  have n: "n = 146097 * a + d1" "0 \<le> d1" "d1 < 146097"
    unfolding a_def d1_def by simp_all
  note q100 = int_div_bounds[of 36524 d1] int_div_nonneg[of 36524 d1]
  have b: "0 \<le> b" "b \<le> 3" and b2: "0 \<le> d2" "d2 \<le> 36524" "d2 = 36524 \<longrightarrow> b = 3"
    using q100 n unfolding b_def d2_def by (auto simp: min_def split: if_splits)
  note q4 = int_div_bounds[of 1461 d2] int_div_nonneg[of 1461 d2]
  have c: "0 \<le> c" "c \<le> 24" and c2: "0 \<le> d3" "d3 \<le> 1460" "c = 24 \<longrightarrow> d3 = 1460 \<longrightarrow> d2 = 36524"
    using q4 b2 unfolding c_def d3_def by auto
  note q1 = int_div_bounds[of 365 d3] int_div_nonneg[of 365 d3]
  have e: "0 \<le> e" "e \<le> 3" and e2: "0 \<le> yd" "yd \<le> 365" "yd = 365 \<longrightarrow> e = 3"
    using q1 c2 unfolding e_def yd by (auto simp: min_def split: if_splits)
  have "yd = 365 \<longrightarrow> d3 = 1460" using e2 yd by auto
  then have last: "yd \<le> 364 \<or> (yd = 365 \<and> e = 3 \<and> (c < 24 \<or> b = 3))"
    using e2 c c2 b2 by auto
  have "n = 146097 * a + 36524 * b + 1461 * c + 365 * e + yd"
    using n(1) d2_def d3_def yd by simp
  then show thesis
    using y b c e e2(1) last by (intro that[of a b c e])
qed

lemma year_day_correct:
  assumes "year_day n = (y, yd)"
  shows "days_before_year y + yd = n" "0 \<le> yd" "yd < 365 + (if leap y then 1 else 0)"
proof -
  obtain a b c e where p: "y = 400 * a + 100 * b + 4 * c + e + 1"
    "n = 146097 * a + 36524 * b + 1461 * c + 365 * e + yd"
    "0 \<le> b" "b \<le> 3" "0 \<le> c" "c \<le> 24" "0 \<le> e" "e \<le> 3" "0 \<le> yd"
    "yd \<le> 364 \<or> (yd = 365 \<and> e = 3 \<and> (c < 24 \<or> b = 3))"
    using year_day_parts[OF assms] by blast
  have y1: "y - 1 = 4 * (100 * a + 25 * b + c) + e" "y - 1 = 100 * (4 * a + b) + (4 * c + e)"
      "y - 1 = 400 * a + (100 * b + 4 * c + e)"
    using p(1) by simp_all
  have d4: "(y - 1) div 4 = 100 * a + 25 * b + c"
    by (rule int_div_pos_eq[OF y1(1)]) (use p(7,8) in linarith)+
  have d100: "(y - 1) div 100 = 4 * a + b"
    by (rule int_div_pos_eq[OF y1(2)]) (use p(5-8) in linarith)+
  have d400: "(y - 1) div 400 = a"
    by (rule int_div_pos_eq[OF y1(3)]) (use p(3-8) in linarith)+
  show "days_before_year y + yd = n"
    unfolding days_before_year_def d4 d100 d400 using p(1,2) by (simp add: algebra_simps)
  show "0 \<le> yd" by (fact p)
  have "leap y" if "e = 3" "c < 24 \<or> b = 3"
  proof -
    have y2: "y = 4 * (100 * a + 25 * b + c + 1) + 0" using p(1) that by simp
    have m4: "y mod 4 = 0" by (rule int_mod_pos_eq[OF y2]) simp_all
    show ?thesis
    proof (cases "c < 24")
      case True
      have y3: "y = 100 * (4 * a + b) + (4 * c + 4)" using p(1) that by simp
      have "y mod 100 = 4 * c + 4"
        by (rule int_mod_pos_eq[OF y3]) (use True p(5) in linarith)+
      then have "y mod 100 \<noteq> 0" using p(5) by linarith
      with m4 show ?thesis by (simp add: leap_def)
    next
      case False
      with that(2) p(6) have bc: "b = 3" "c = 24" by simp_all
      have y4: "y = 400 * (a + 1) + 0" using p(1) that(1) bc by simp
      have "y mod 400 = 0" by (rule int_mod_pos_eq[OF y4]) simp_all
      with m4 show ?thesis by (simp add: leap_def)
    qed
  qed
  then show "yd < 365 + (if leap y then 1 else 0)" using p(10) by auto
qed

lemma month_day_correct:
  assumes "month_day (leap y) yd = (m, d)" "0 \<le> yd" "yd < 365 + (if leap y then 1 else 0)"
  shows "days_before_month y m + (d - 1) = yd" "1 \<le> m" "m \<le> 12" "1 \<le> d" "d \<le> days_in y m"
  using assms
  by (auto simp: month_day_def days_before_month_def days_in_def Let_def split: if_splits)

lemma civil_correct:
  assumes "civil n = (y, m, d)"
  shows "day_number y m d = n" "1 \<le> m" "m \<le> 12" "1 \<le> d" "d \<le> days_in y m"
proof -
  obtain yd where yd: "year_day n = (y, yd)" "month_day (leap y) yd = (m, d)"
    using assms by (auto simp: civil_def split: prod.splits)
  note a = year_day_correct[OF yd(1)]
  note b = month_day_correct[OF yd(2) a(2,3)]
  show "day_number y m d = n" using a(1) b(1) by (simp add: day_number_def)
  show "1 \<le> m" "m \<le> 12" "1 \<le> d" "d \<le> days_in y m" by (fact b)+
qed

section \<open>Instants from civil fields\<close>

definition unix_day_offset :: int where "unix_day_offset = 719162"

definition go_date :: "int \<Rightarrow> int \<Rightarrow> int \<Rightarrow> int \<Rightarrow> int \<Rightarrow> int \<Rightarrow> int \<Rightarrow> int \<Rightarrow> gtime" where
  "go_date y mo d h mi s ns off =
    \<lparr> unix_ns = ((day_number y mo d - unix_day_offset) * 86400 + h * 3600 + mi * 60 + s - off)
                  * 1000000000 + ns,
      tz_off = off \<rparr>"

definition local_secs :: "gtime \<Rightarrow> int" where
  "local_secs t = unix_ns t div 1000000000 + tz_off t"

definition go_clock :: "gtime \<Rightarrow> int \<times> int \<times> int" where
  "go_clock t = (let s = local_secs t mod 86400 in (s div 3600, s mod 3600 div 60, s mod 60))"

definition go_civil :: "gtime \<Rightarrow> int \<times> int \<times> int" where
  "go_civil t = civil (local_secs t div 86400 + unix_day_offset)"

lemma clock_split:
  fixes x :: int
  shows "x div 3600 * 3600 + x mod 3600 div 60 * 60 + x mod 60 = x"
proof -
  have "x mod 60 = x mod 3600 mod 60" by (simp add: mod_mod_cancel)
  then show ?thesis by simp
qed

lemma go_date_fields:
  assumes "go_civil t = (y, mo, d)" "go_clock t = (h, mi, s)"
  shows "go_date y mo d h mi s (unix_ns t mod 1000000000) (tz_off t) = t"
proof -
  define L where "L = local_secs t"
  obtain A B where AB: "A = L div 86400" "B = L mod 86400" by simp
  have "day_number y mo d = A + unix_day_offset"
    using civil_correct(1) assms(1) unfolding go_civil_def L_def[symmetric] AB by blast
  moreover have "h * 3600 + mi * 60 + s = B"
    using assms(2) clock_split[of "L mod 86400"]
    unfolding go_clock_def L_def[symmetric] Let_def AB by auto
  moreover have "A * 86400 + B = L" unfolding AB by (fact div_mult_mod_eq)
  ultimately have "(day_number y mo d - unix_day_offset) * 86400 + h * 3600 + mi * 60 + s = L"
    by simp
  then have "unix_ns (go_date y mo d h mi s (unix_ns t mod 1000000000) (tz_off t)) = unix_ns t"
    unfolding go_date_def L_def local_secs_def by simp
  then show ?thesis by (simp add: go_date_def)
qed

lemma go_clock_range:
  assumes "go_clock t = (h, mi, s)"
  shows "0 \<le> h" "h < 24" "0 \<le> mi" "mi < 60" "0 \<le> s" "s < 60"
proof -
  define r where "r = local_secs t mod 86400"
  have r: "0 \<le> r" "r < 86400" by (simp_all add: r_def)
  have q: "0 \<le> r mod 3600" "r mod 3600 < 3600" by simp_all
  have e: "h = r div 3600" "mi = r mod 3600 div 60" "s = r mod 60"
    using assms unfolding go_clock_def Let_def r_def by auto
  show "0 \<le> h" "h < 24" using int_div_bounds[of 3600 r] int_div_nonneg[of 3600 r] r e by auto
  define u where "u = r mod 3600"
  have u: "0 \<le> u" "u < 3600" "mi = u div 60" using q e(2) by (simp_all add: u_def)
  show "0 \<le> mi" "mi < 60"
    using int_div_bounds[of 60 u] int_div_nonneg[of 60 u] u by auto
  show "0 \<le> s" "s < 60" using e by simp_all
qed

end
