(* ===== verification/Entities.thy ===== *)
theory Entities
  imports Domain_Errors Go_Time
begin

text \<open>
  Value objects and entities of the domain packages
  (\<^verbatim>\<open>internal/domain/{account,statement,category,tag}\<close>): typed strings with
  their valid sets, positive amounts, bounded credit limits, the entity records,
  their constructors and methods, and the pagination filters. Pointers are options;
  a method with a pointer receiver returns the updated entity. Constructors take the
  identifier and the clock readings they draw as arguments.
\<close>

section \<open>Account\<close>

abbreviation TypeBankAccount :: string where "TypeBankAccount \<equiv> ''bank_account''"
abbreviation TypeCreditCard :: string where "TypeCreditCard \<equiv> ''credit_card''"
abbreviation TypeCash :: string where "TypeCash \<equiv> ''cash''"

definition validAccountTypes :: "string list" where
  "validAccountTypes = [TypeBankAccount, TypeCreditCard, TypeCash]"

definition NewAccountType :: "string \<Rightarrow> string go_result" where
  "NewAccountType value =
     (if value \<notin> set validAccountTypes then Inl (Sentinel ErrInvalidAccountType) else Inr value)"

definition MaxCreditLimit :: i64 where "MaxCreditLimit = 1000000000000"

definition NewCreditLimit :: "i64 \<Rightarrow> i64 go_result" where
  "NewCreditLimit value =
     (if value \<le>s 0 \<or> MaxCreditLimit <s value then Inl (Sentinel ErrInvalidCreditLimit)
      else Inr value)"

record account =
  a_ID :: string
  a_UserID :: string
  a_Name :: string
  a_Type :: string
  a_Description :: string
  a_Balance :: i64
  a_Active :: bool
  a_CreatedAt :: gtime
  a_UpdatedAt :: gtime
  a_CreditLimit :: "i64 option"

definition AcceptsCreditLimit :: "string \<Rightarrow> bool" where
  "AcceptsCreditLimit accountType = (accountType = TypeCreditCard)"

definition resolveCreditLimit :: "string \<Rightarrow> i64 option \<Rightarrow> i64 option go_result" where
  "resolveCreditLimit accountType cents =
     (if \<not> AcceptsCreditLimit accountType then
        (case cents of Some _ \<Rightarrow> Inl (Sentinel ErrCreditLimitNotAllowed) | None \<Rightarrow> Inr None)
      else case cents of
          None \<Rightarrow> Inl (Sentinel ErrCreditLimitRequired)
        | Some c \<Rightarrow> bindE (NewCreditLimit c) (\<lambda>limit. Inr (Some limit)))"

definition NewAccount :: "string \<Rightarrow> gtime \<Rightarrow> gtime \<Rightarrow> string \<Rightarrow> string \<Rightarrow> string \<Rightarrow> string \<Rightarrow>
    i64 option \<Rightarrow> account go_result" where
  "NewAccount newID now1 now2 userID name accountType description creditLimitCents =
     bindE (resolveCreditLimit accountType creditLimitCents) (\<lambda>creditLimit. Inr
       \<lparr> a_ID = newID, a_UserID = userID, a_Name = name, a_Type = accountType,
         a_Description = description, a_Balance = 0, a_Active = True,
         a_CreatedAt = now1, a_UpdatedAt = now2, a_CreditLimit = creditLimit \<rparr>)"

definition SetCreditLimit :: "gtime \<Rightarrow> i64 \<Rightarrow> account \<Rightarrow> account go_result" where
  "SetCreditLimit now cents a =
     (if \<not> AcceptsCreditLimit (a_Type a) then Inl (Sentinel ErrCreditLimitNotAllowed)
      else bindE (NewCreditLimit cents) (\<lambda>limit.
             Inr (a\<lparr>a_CreditLimit := Some limit, a_UpdatedAt := now\<rparr>)))"

definition Deactivate :: "gtime \<Rightarrow> account \<Rightarrow> account" where
  "Deactivate now a = a\<lparr>a_Active := False, a_UpdatedAt := now\<rparr>"

definition UpdateName :: "gtime \<Rightarrow> string \<Rightarrow> account \<Rightarrow> account" where
  "UpdateName now name a = a\<lparr>a_Name := name, a_UpdatedAt := now\<rparr>"

definition UpdateDescription :: "gtime \<Rightarrow> string \<Rightarrow> account \<Rightarrow> account" where
  "UpdateDescription now description a = a\<lparr>a_Description := description, a_UpdatedAt := now\<rparr>"

text \<open>What the credit-limit rules keep: a limit exactly on credit cards, within bounds.
  The same condition is the \<^verbatim>\<open>CHECK\<close> of migration 20260823232448.\<close>

definition credit_limit_ok :: "string \<Rightarrow> i64 option \<Rightarrow> bool" where
  "credit_limit_ok ty lim = (case lim of
      None \<Rightarrow> ty \<noteq> TypeCreditCard
    | Some c \<Rightarrow> ty = TypeCreditCard \<and> 0 <s c \<and> c \<le>s 1000000000000)"

lemma NewCreditLimit_Inr: "NewCreditLimit v = Inr c \<longleftrightarrow> c = v \<and> 0 <s v \<and> v \<le>s 1000000000000"
  by (auto simp: NewCreditLimit_def MaxCreditLimit_def i64_sle_iff i64_sless_iff)

lemma resolveCreditLimit_ok: "resolveCreditLimit ty cents = Inr lim \<Longrightarrow> credit_limit_ok ty lim"
  by (auto simp: resolveCreditLimit_def AcceptsCreditLimit_def credit_limit_ok_def
      NewCreditLimit_Inr split: if_splits option.splits)

lemma resolveCreditLimit_complete: "credit_limit_ok ty cents \<Longrightarrow> resolveCreditLimit ty cents = Inr cents"
  by (auto simp: resolveCreditLimit_def AcceptsCreditLimit_def credit_limit_ok_def
      NewCreditLimit_Inr split: option.splits)

lemma NewAccount_credit_limit:
  "NewAccount i t1 t2 u n ty d cents = Inr a \<Longrightarrow> credit_limit_ok (a_Type a) (a_CreditLimit a)
     \<and> a_Type a = ty \<and> a_Balance a = 0 \<and> a_Active a \<and> a_ID a = i \<and> a_UserID a = u"
  by (auto simp: NewAccount_def dest: resolveCreditLimit_ok)

lemma SetCreditLimit_Inr: "SetCreditLimit now cents a = Inr b \<longleftrightarrow>
    a_Type a = TypeCreditCard \<and> 0 <s cents \<and> cents \<le>s 1000000000000 \<and>
    b = a\<lparr>a_CreditLimit := Some cents, a_UpdatedAt := now\<rparr>"
  by (auto simp: SetCreditLimit_def AcceptsCreditLimit_def NewCreditLimit_Inr)

section \<open>Statement\<close>

abbreviation TypeCredit :: string where "TypeCredit \<equiv> ''credit''"
abbreviation TypeDebit :: string where "TypeDebit \<equiv> ''debit''"

definition validStatementTypes :: "string list" where
  "validStatementTypes = [TypeCredit, TypeDebit]"

definition NewStatementType :: "string \<Rightarrow> string go_result" where
  "NewStatementType value =
     (if value \<notin> set validStatementTypes then Inl (Sentinel ErrInvalidStatementType) else Inr value)"

definition Opposite :: "string \<Rightarrow> string" where
  "Opposite t = (if t = TypeCredit then TypeDebit else TypeCredit)"

definition NewAmount :: "i64 \<Rightarrow> i64 go_result" where
  "NewAmount value = (if value \<le>s 0 then Inl (Sentinel ErrInvalidAmount) else Inr value)"

record tag_ref =
  tr_ID :: string
  tr_Name :: string

record category_ref =
  cr_ID :: string
  cr_Name :: string
  cr_Type :: string

record stmt =
  s_ID :: string
  s_AccountID :: string
  s_Type :: string
  s_Amount :: i64
  s_Description :: string
  s_ReferenceID :: "string option"
  s_ExternalID :: "string option"
  s_BalanceAfter :: i64
  s_PostedAt :: gtime
  s_CreatedAt :: gtime
  s_CategoryID :: "string option"
  s_Category :: "category_ref option"
  s_Tags :: "tag_ref list"

definition NewStatement :: "string \<Rightarrow> gtime \<Rightarrow> string \<Rightarrow> string \<Rightarrow> i64 \<Rightarrow> string \<Rightarrow> stmt" where
  "NewStatement newID now accountID stmtType amount description =
     \<lparr> s_ID = newID, s_AccountID = accountID, s_Type = stmtType, s_Amount = amount,
       s_Description = description, s_ReferenceID = None, s_ExternalID = None,
       s_BalanceAfter = 0, s_PostedAt = now, s_CreatedAt = now, s_CategoryID = None,
       s_Category = None, s_Tags = [] \<rparr>"

definition NewReversalStatement ::
    "string \<Rightarrow> gtime \<Rightarrow> string \<Rightarrow> string \<Rightarrow> i64 \<Rightarrow> string \<Rightarrow> string \<Rightarrow> stmt" where
  "NewReversalStatement newID now accountID stmtType amount description referenceID =
     \<lparr> s_ID = newID, s_AccountID = accountID, s_Type = stmtType, s_Amount = amount,
       s_Description = description, s_ReferenceID = Some referenceID, s_ExternalID = None,
       s_BalanceAfter = 0, s_PostedAt = now, s_CreatedAt = now, s_CategoryID = None,
       s_Category = None, s_Tags = [] \<rparr>"

definition NewImportedStatement ::
    "string \<Rightarrow> gtime \<Rightarrow> string \<Rightarrow> string \<Rightarrow> i64 \<Rightarrow> string \<Rightarrow> string \<Rightarrow> gtime \<Rightarrow> stmt" where
  "NewImportedStatement newID now accountID stmtType amount description externalID postedAt =
     \<lparr> s_ID = newID, s_AccountID = accountID, s_Type = stmtType, s_Amount = amount,
       s_Description = description, s_ReferenceID = None, s_ExternalID = Some externalID,
       s_BalanceAfter = 0, s_PostedAt = postedAt, s_CreatedAt = now, s_CategoryID = None,
       s_Category = None, s_Tags = [] \<rparr>"

definition SetBalanceAfter :: "i64 \<Rightarrow> stmt \<Rightarrow> stmt" where
  "SetBalanceAfter balance s = s\<lparr>s_BalanceAfter := balance\<rparr>"

definition WithCategory :: "string \<Rightarrow> stmt \<Rightarrow> stmt" where
  "WithCategory i s = s\<lparr>s_CategoryID := Some i\<rparr>"

definition WithTags :: "tag_ref list \<Rightarrow> stmt \<Rightarrow> stmt" where
  "WithTags refs s = s\<lparr>s_Tags := refs\<rparr>"

lemma NewStatementType_Inr [simp]: "NewStatementType v = Inr t \<longleftrightarrow> t = v \<and> (v = TypeCredit \<or> v = TypeDebit)"
  by (auto simp: NewStatementType_def validStatementTypes_def)

lemma NewAmount_Inr [simp]: "NewAmount v = Inr a \<longleftrightarrow> a = v \<and> 0 <s v"
  by (auto simp: NewAmount_def i64_sle_iff i64_sless_iff)

lemma Opposite_valid: "Opposite t = TypeCredit \<or> Opposite t = TypeDebit"
  by (simp add: Opposite_def)

lemma Opposite_involution: "t = TypeCredit \<or> t = TypeDebit \<Longrightarrow> Opposite (Opposite t) = t"
  by (auto simp: Opposite_def)

section \<open>Category and tag\<close>

definition NewCategoryType :: "string \<Rightarrow> string go_result" where
  "NewCategoryType value =
     (if value \<noteq> ''credit'' \<and> value \<noteq> ''debit'' then Inl (Sentinel ErrInvalidCategoryType)
      else Inr value)"

record category =
  c_ID :: string
  c_UserID :: "string option"
  c_Name :: string
  c_Type :: string
  c_CreatedAt :: gtime
  c_UpdatedAt :: gtime

definition NewCategory :: "string \<Rightarrow> gtime \<Rightarrow> string \<Rightarrow> string \<Rightarrow> string \<Rightarrow> category" where
  "NewCategory newID now userID name categoryType =
     \<lparr> c_ID = newID, c_UserID = Some userID, c_Name = name, c_Type = categoryType,
       c_CreatedAt = now, c_UpdatedAt = now \<rparr>"

definition NewSystemCategory :: "string \<Rightarrow> gtime \<Rightarrow> string \<Rightarrow> string \<Rightarrow> category" where
  "NewSystemCategory newID now name categoryType =
     \<lparr> c_ID = newID, c_UserID = None, c_Name = name, c_Type = categoryType,
       c_CreatedAt = now, c_UpdatedAt = now \<rparr>"

definition Category_IsSystem :: "category \<Rightarrow> bool" where
  "Category_IsSystem c = (c_UserID c = None)"

definition Category_Rename :: "gtime \<Rightarrow> string \<Rightarrow> category \<Rightarrow> category go_result" where
  "Category_Rename now name c =
     (if Category_IsSystem c then Inl (Sentinel ErrCategoryReadOnly)
      else Inr (c\<lparr>c_Name := name, c_UpdatedAt := now\<rparr>))"

definition SystemCategoryEstornoCreditID :: string where
  "SystemCategoryEstornoCreditID = ''00000000-0000-0000-0000-210000000006''"

definition SystemCategoryEstornoDebitID :: string where
  "SystemCategoryEstornoDebitID = ''00000000-0000-0000-0000-22000000000c''"

definition MaxTagsPerStatement :: nat where "MaxTagsPerStatement = 10"

record tag =
  t_ID :: string
  t_UserID :: "string option"
  t_Name :: string
  t_CreatedAt :: gtime
  t_UpdatedAt :: gtime

definition NewTag :: "string \<Rightarrow> gtime \<Rightarrow> string \<Rightarrow> string \<Rightarrow> tag" where
  "NewTag newID now userID name =
     \<lparr> t_ID = newID, t_UserID = Some userID, t_Name = name, t_CreatedAt = now, t_UpdatedAt = now \<rparr>"

definition NewSystemTag :: "string \<Rightarrow> gtime \<Rightarrow> string \<Rightarrow> tag" where
  "NewSystemTag newID now name =
     \<lparr> t_ID = newID, t_UserID = None, t_Name = name, t_CreatedAt = now, t_UpdatedAt = now \<rparr>"

definition Tag_IsSystem :: "tag \<Rightarrow> bool" where
  "Tag_IsSystem t = (t_UserID t = None)"

definition Tag_Rename :: "gtime \<Rightarrow> string \<Rightarrow> tag \<Rightarrow> tag go_result" where
  "Tag_Rename now name t =
     (if Tag_IsSystem t then Inl (Sentinel ErrTagReadOnly)
      else Inr (t\<lparr>t_Name := name, t_UpdatedAt := now\<rparr>))"

section \<open>Pagination filters\<close>

record stmt_filter =
  f_AccountID :: string
  f_Type :: "string option"
  f_DateFrom :: "gtime option"
  f_DateTo :: "gtime option"
  f_CategoryID :: "string option"
  f_TagIDs :: "string list"
  f_Page :: i64
  f_Limit :: i64
  f_CursorPostedAt :: "gtime option"
  f_CursorID :: "string option"

record account_filter =
  g_Page :: i64
  g_Limit :: i64
  g_UserID :: string
  g_Name :: string
  g_Type :: string
  g_ActiveOnly :: bool
  g_CursorCreatedAt :: "gtime option"
  g_CursorID :: "string option"

definition norm_page :: "i64 \<Rightarrow> i64" where
  "norm_page page = (if page <s 1 then 1 else page)"

definition norm_limit :: "i64 \<Rightarrow> i64 \<Rightarrow> i64" where
  "norm_limit dflt limit =
     (let limit = (if limit <s 1 then dflt else limit) in if 100 <s limit then 100 else limit)"

definition page_offset :: "i64 \<Rightarrow> i64 \<Rightarrow> i64" where
  "page_offset page limit = (page - 1) * limit"

definition StmtFilter_UseCursor :: "stmt_filter \<Rightarrow> bool" where
  "StmtFilter_UseCursor f = (f_CursorPostedAt f \<noteq> None \<and> f_CursorID f \<noteq> None)"

definition StmtFilter_Normalize :: "stmt_filter \<Rightarrow> stmt_filter" where
  "StmtFilter_Normalize f = f\<lparr>f_Page := norm_page (f_Page f), f_Limit := norm_limit 20 (f_Limit f)\<rparr>"

definition StmtFilter_Offset :: "stmt_filter \<Rightarrow> i64" where
  "StmtFilter_Offset f = page_offset (f_Page f) (f_Limit f)"

definition AccountFilter_UseCursor :: "account_filter \<Rightarrow> bool" where
  "AccountFilter_UseCursor f = (g_CursorCreatedAt f \<noteq> None \<and> g_CursorID f \<noteq> None)"

definition AccountFilter_Normalize :: "account_filter \<Rightarrow> account_filter" where
  "AccountFilter_Normalize f = f\<lparr>g_Page := norm_page (g_Page f), g_Limit := norm_limit 10 (g_Limit f)\<rparr>"

definition AccountFilter_Offset :: "account_filter \<Rightarrow> i64" where
  "AccountFilter_Offset f = page_offset (g_Page f) (g_Limit f)"

lemma norm_page_pos: "1 \<le> sint (norm_page p)"
  by (auto simp: norm_page_def i64_sless_iff)

lemma norm_limit_range:
  assumes "d = 10 \<or> d = 20"
  shows "1 \<le> sint (norm_limit d l)" "sint (norm_limit d l) \<le> 100"
  using assms by (auto simp: norm_limit_def i64_sless_iff Let_def)

lemma norm_limit_idem: "d = 10 \<or> d = 20 \<Longrightarrow> norm_limit d (norm_limit d l) = norm_limit d l"
  by (auto simp: norm_limit_def i64_sless_iff Let_def)

lemma norm_page_idem: "norm_page (norm_page p) = norm_page p"
  by (auto simp: norm_page_def i64_sless_iff)

text \<open>The offset is exact while page times limit stays below the word size: up to
  page 92233720368547758 with the largest limit.\<close>

lemma page_offset_exact:
  assumes "1 \<le> sint p" "1 \<le> sint l" "sint l \<le> 100" "sint p \<le> 92233720368547758"
  shows "sint (page_offset p l) = (sint p - 1) * sint l"
proof -
  have p1: "sint (p - 1) = sint p - 1"
    using assms by (subst sint_diff_no_overflow) auto
  have "0 \<le> (sint p - 1) * sint l" using assms by simp
  moreover have "(sint p - 1) * sint l \<le> 92233720368547757 * 100"
    by (rule mult_mono) (use assms in auto)
  ultimately show ?thesis
    unfolding page_offset_def using p1 by (subst sint_mult_no_overflow) auto
qed

end
