(* ===== verification/Go_Strings.thy ===== *)
theory Go_Strings
  imports Wallet_Prelude
begin

text \<open>
  The parts of Go's \<^verbatim>\<open>strings\<close>, \<^verbatim>\<open>strconv\<close> and \<^verbatim>\<open>encoding/base64\<close>
  the program uses, on byte lists: decimal digits, \<^verbatim>\<open>TrimSpace\<close> with Unicode's
  white space in its UTF-8 form, \<^verbatim>\<open>SplitN(s, sep, 2)\<close>, \<^verbatim>\<open>Index\<close>,
  \<^verbatim>\<open>ParseInt(s, 10, 64)\<close>, and URL-safe padded base64. Lemmas: decimal and
  base64 round trips, the split of a string at a separator it contains.
\<close>

abbreviation byte :: "char \<Rightarrow> nat" where
  "byte c \<equiv> of_char c"

section \<open>Digits\<close>

definition dig :: "nat \<Rightarrow> char" where
  "dig n = char_of (48 + n)"

definition is_digit :: "char \<Rightarrow> bool" where
  "is_digit c = (48 \<le> byte c \<and> byte c \<le> 57)"

definition undig :: "char \<Rightarrow> nat" where
  "undig c = byte c - 48"

definition dec_val :: "string \<Rightarrow> nat" where
  "dec_val s = foldl (\<lambda>a c. 10 * a + undig c) 0 s"

fun dec_pad :: "nat \<Rightarrow> nat \<Rightarrow> string" where
  "dec_pad 0 n = []"
| "dec_pad (Suc w) n = dec_pad w (n div 10) @ [dig (n mod 10)]"

fun dec_str :: "nat \<Rightarrow> string" where
  "dec_str n = (if n < 10 then [dig n] else dec_str (n div 10) @ [dig (n mod 10)])"

declare dec_str.simps [simp del]

lemma byte_dig: "n < 10 \<Longrightarrow> byte (dig n) = 48 + n"
  by (simp add: dig_def)

lemma is_digit_dig [simp]: "n < 10 \<Longrightarrow> is_digit (dig n)"
  by (simp add: is_digit_def byte_dig)

lemma undig_dig [simp]: "n < 10 \<Longrightarrow> undig (dig n) = n"
  by (simp add: undig_def byte_dig)

lemma dec_val_Nil [simp]: "dec_val [] = 0"
  by (simp add: dec_val_def)

lemma dec_val_snoc [simp]: "dec_val (s @ [c]) = 10 * dec_val s + undig c"
  by (simp add: dec_val_def)

lemma length_dec_pad [simp]: "length (dec_pad w n) = w"
  by (induction w arbitrary: n) auto

lemma digits_dec_pad [simp]: "c \<in> set (dec_pad w n) \<Longrightarrow> is_digit c"
  by (induction w arbitrary: n) auto

lemma dec_val_pad: "n < 10 ^ w \<Longrightarrow> dec_val (dec_pad w n) = n"
proof (induction w arbitrary: n)
  case (Suc w)
  then have "n div 10 < 10 ^ w" by (simp add: less_mult_imp_div_less)
  with Suc.IH show ?case by simp
qed simp

lemma digits_dec_str: "c \<in> set (dec_str n) \<Longrightarrow> is_digit c"
proof (induction n rule: dec_str.induct)
  case (1 n)
  then show ?case by (subst (asm) (2) dec_str.simps) (auto split: if_splits)
qed

lemma dec_val_str [simp]: "dec_val (dec_str n) = n"
proof (induction n rule: dec_str.induct)
  case (1 n)
  show ?case
  proof (cases "n < 10")
    case True
    then show ?thesis by (simp add: dec_str.simps[of n] dec_val_def)
  next
    case False
    with 1 show ?thesis by (subst dec_str.simps) simp
  qed
qed

lemma dec_str_nonempty [simp]: "dec_str n \<noteq> []"
  by (subst dec_str.simps) simp

section \<open>Searching and splitting\<close>

text \<open>\<^verbatim>\<open>strings.Index(s, c)\<close> for a one-byte separator, and
  \<^verbatim>\<open>strings.SplitN(s, c, 2)\<close>.\<close>

fun index_byte :: "char \<Rightarrow> string \<Rightarrow> nat option" where
  "index_byte c [] = None"
| "index_byte c (x # xs) = (if x = c then Some 0 else map_option Suc (index_byte c xs))"

definition split2 :: "char \<Rightarrow> string \<Rightarrow> string \<times> string option" where
  "split2 c s = (case index_byte c s of
      None \<Rightarrow> (s, None)
    | Some i \<Rightarrow> (take i s, Some (drop (Suc i) s)))"

lemma index_byte_None: "index_byte c s = None \<longleftrightarrow> c \<notin> set s"
  by (induction s) auto

lemma index_byte_app [simp]: "c \<notin> set s \<Longrightarrow> index_byte c (s @ c # t) = Some (length s)"
  by (induction s) auto

lemma split2_app: "c \<notin> set s \<Longrightarrow> split2 c (s @ c # t) = (s, Some t)"
  by (simp add: split2_def)

lemma split2_none: "c \<notin> set s \<Longrightarrow> split2 c s = (s, None)"
  by (simp add: split2_def index_byte_None[THEN iffD2])

section \<open>TrimSpace\<close>

text \<open>The UTF-8 encodings of the runes with the \<^verbatim>\<open>White_Space\<close> property, the
  cut set of \<^verbatim>\<open>strings.TrimSpace\<close>.\<close>

definition space_encodings :: "string list" where
  "space_encodings =
    [[CHR 0x09], [CHR 0x0A], [CHR 0x0B], [CHR 0x0C], [CHR 0x0D], [CHR 0x20],
     [CHR 0xC2, CHR 0x85], [CHR 0xC2, CHR 0xA0], [CHR 0xE1, CHR 0x9A, CHR 0x80],
     [CHR 0xE2, CHR 0x80, CHR 0x80], [CHR 0xE2, CHR 0x80, CHR 0x81],
     [CHR 0xE2, CHR 0x80, CHR 0x82], [CHR 0xE2, CHR 0x80, CHR 0x83],
     [CHR 0xE2, CHR 0x80, CHR 0x84], [CHR 0xE2, CHR 0x80, CHR 0x85],
     [CHR 0xE2, CHR 0x80, CHR 0x86], [CHR 0xE2, CHR 0x80, CHR 0x87],
     [CHR 0xE2, CHR 0x80, CHR 0x88], [CHR 0xE2, CHR 0x80, CHR 0x89],
     [CHR 0xE2, CHR 0x80, CHR 0x8A], [CHR 0xE2, CHR 0x80, CHR 0xA8],
     [CHR 0xE2, CHR 0x80, CHR 0xA9], [CHR 0xE2, CHR 0x80, CHR 0xAF],
     [CHR 0xE2, CHR 0x81, CHR 0x9F], [CHR 0xE3, CHR 0x80, CHR 0x80]]"

definition starts_with :: "string \<Rightarrow> string \<Rightarrow> bool" where
  "starts_with p s = (take (length p) s = p)"

definition drop_space :: "string list \<Rightarrow> string \<Rightarrow> string option" where
  "drop_space ws s = (case List.find (\<lambda>w. w \<noteq> [] \<and> starts_with w s) ws of
      None \<Rightarrow> None | Some w \<Rightarrow> Some (drop (length w) s))"

lemma drop_space_shorter: "drop_space ws s = Some t \<Longrightarrow> length t < length s"
  by (cases s) (auto simp: drop_space_def starts_with_def split: option.splits dest!: find_Some_set)

function trim_left :: "string list \<Rightarrow> string \<Rightarrow> string" where
  "trim_left ws s = (case drop_space ws s of None \<Rightarrow> s | Some t \<Rightarrow> trim_left ws t)"
  by pat_completeness auto
termination
  by (relation "measure (\<lambda>(ws, s). length s)") (auto dest: drop_space_shorter)

declare trim_left.simps [simp del]

definition trim_right :: "string list \<Rightarrow> string \<Rightarrow> string" where
  "trim_right ws s = rev (trim_left (map rev ws) (rev s))"

definition TrimSpace :: "string \<Rightarrow> string" where
  "TrimSpace s = trim_right space_encodings (trim_left space_encodings s)"

lemma trim_left_done: "drop_space ws s = None \<Longrightarrow> trim_left ws s = s"
  by (subst trim_left.simps) simp

lemma trim_left_fix: "drop_space ws (trim_left ws s) = None"
proof (induction ws s rule: trim_left.induct)
  case (1 ws s)
  show ?case
  proof (cases "drop_space ws s")
    case None
    then show ?thesis by (simp add: trim_left_done)
  next
    case (Some t)
    with 1 show ?thesis by (subst trim_left.simps) simp
  qed
qed

lemma trim_left_suffix: "\<exists>p. s = p @ trim_left ws s"
proof (induction ws s rule: trim_left.induct)
  case (1 ws s)
  show ?case
  proof (cases "drop_space ws s")
    case None
    then show ?thesis by (auto simp: trim_left_done)
  next
    case (Some t)
    then have "trim_left ws s = trim_left ws t" by (subst trim_left.simps) simp
    moreover obtain w where "s = w @ t"
      using Some by (auto simp: drop_space_def starts_with_def split: option.splits dest!: find_Some_set)
        (metis append_take_drop_id)
    ultimately show ?thesis using 1 Some by (metis append_assoc)
  qed
qed

text \<open>A string whose first and last byte are printable ASCII is left unchanged.\<close>

definition plain :: "char \<Rightarrow> bool" where
  "plain c = (32 < byte c \<and> byte c < 127)"

lemma space_heads: "w \<in> set space_encodings \<Longrightarrow> w \<noteq> [] \<and> \<not> plain (hd w) \<and> \<not> plain (last w)"
  by (auto simp: space_encodings_def plain_def)

lemma drop_space_plain:
  assumes "\<forall>w\<in>set ws. w \<noteq> [] \<and> \<not> plain (hd w)" "s = [] \<or> plain (hd s)"
  shows "drop_space ws s = None"
proof -
  have "\<not> (w \<noteq> [] \<and> starts_with w s)" if "w \<in> set ws" for w
    using bspec[OF assms(1) that] assms(2) by (cases w; cases s) (auto simp: starts_with_def)
  then have "List.find (\<lambda>w. w \<noteq> [] \<and> starts_with w s) ws = None"
    by (auto simp: find_None_set)
  then show ?thesis by (simp add: drop_space_def)
qed

lemma TrimSpace_plain:
  assumes "s = [] \<or> (plain (hd s) \<and> plain (last s))"
  shows "TrimSpace s = s"
proof -
  have "trim_left space_encodings s = s"
    by (rule trim_left_done, rule drop_space_plain) (use assms space_heads in auto)
  moreover have "trim_left (map rev space_encodings) (rev s) = rev s"
  proof (rule trim_left_done, rule drop_space_plain)
    show "\<forall>w\<in>set (map rev space_encodings). w \<noteq> [] \<and> \<not> plain (hd w)"
      using space_heads by (auto simp: hd_rev)
    show "rev s = [] \<or> plain (hd (rev s))" using assms by (auto simp: hd_rev)
  qed
  ultimately show ?thesis by (simp add: TrimSpace_def trim_right_def)
qed

lemma TrimSpace_empty [simp]: "TrimSpace [] = []"
  by (simp add: TrimSpace_plain)

section \<open>ParseInt\<close>

text \<open>\<^verbatim>\<open>strconv.ParseInt(s, 10, 64)\<close>: one optional sign, at least one decimal
  digit and nothing else, and the value must fit (\<^verbatim>\<open>ErrRange\<close> otherwise).\<close>

definition parse_digits :: "string \<Rightarrow> nat option" where
  "parse_digits s = (if s \<noteq> [] \<and> list_all is_digit s then Some (dec_val s) else None)"

definition ParseInt64 :: "string \<Rightarrow> i64 option" where
  "ParseInt64 s =
    (let neg = (s \<noteq> [] \<and> hd s = CHR ''-'');
         body = (if s \<noteq> [] \<and> (hd s = CHR ''-'' \<or> hd s = CHR ''+'') then tl s else s)
     in case parse_digits body of
          None \<Rightarrow> None
        | Some n \<Rightarrow>
            if \<not> neg \<and> n < 2 ^ 63 then Some (word_of_int (int n))
            else if neg \<and> n \<le> 2 ^ 63 then Some (word_of_int (- int n))
            else None)"

lemma ParseInt64_digits:
  assumes "s \<noteq> []" "list_all is_digit s" "dec_val s < 2 ^ 63"
  shows "ParseInt64 s = Some (word_of_int (int (dec_val s)))"
proof -
  have "is_digit (hd s)" using assms(1,2) by (cases s) auto
  then have "hd s \<noteq> CHR ''-'' \<and> hd s \<noteq> CHR ''+''" by (auto simp: is_digit_def)
  then show ?thesis using assms by (simp add: ParseInt64_def parse_digits_def Let_def)
qed

end
