(* ===== verification/Go_Time_Format.thy ===== *)
theory Go_Time_Format
  imports Go_Time Go_Strings
begin

text \<open>
  \<^verbatim>\<open>Time.Format(time.RFC3339)\<close>, \<^verbatim>\<open>Time.Format(time.RFC3339Nano)\<close> and
  \<^verbatim>\<open>time.Parse\<close> of RFC3339 (the nano layout parses the same strings). The
  theorem at the end: parsing what was formatted gives the same instant.
\<close>

section \<open>Format\<close>

definition year_str :: "int \<Rightarrow> string" where
  "year_str y = (if 0 \<le> y \<and> y < 10000 then dec_pad 4 (nat y)
     else if y < 0 then CHR ''-'' # (if - y < 10000 then dec_pad 4 (nat (- y)) else dec_str (nat (- y)))
     else dec_str (nat y))"

definition zone_str :: "int \<Rightarrow> string" where
  "zone_str off =
    (if off = 0 then ''Z''
     else let m = nat (\<bar>off\<bar> div 60)
          in (if \<bar>off\<bar> div 60 * sgn off < 0 then CHR ''-'' else CHR ''+'')
             # dec_pad 2 (m div 60) @ CHR '':'' # dec_pad 2 (m mod 60))"

definition frac_str :: "nat \<Rightarrow> string" where
  "frac_str n = (if n = 0 then []
     else CHR ''.'' # rev (dropWhile (\<lambda>c. c = CHR ''0'') (rev (dec_pad 9 n))))"

definition format_with :: "string \<Rightarrow> gtime \<Rightarrow> string" where
  "format_with frac t =
    (let (y, mo, d) = go_civil t; (h, mi, s) = go_clock t
     in year_str y @ CHR ''-'' # dec_pad 2 (nat mo) @ CHR ''-'' # dec_pad 2 (nat d)
        @ CHR ''T'' # dec_pad 2 (nat h) @ CHR '':'' # dec_pad 2 (nat mi)
        @ CHR '':'' # dec_pad 2 (nat s) @ frac @ zone_str (tz_off t))"

definition formatRFC3339 :: "gtime \<Rightarrow> string" where
  "formatRFC3339 t = format_with [] t"

definition formatRFC3339Nano :: "gtime \<Rightarrow> string" where
  "formatRFC3339Nano t = format_with (frac_str (nat (unix_ns t mod 1000000000))) t"

text \<open>The same digits computed on binary integers: the equations evaluation uses.\<close>

fun pad_digits :: "nat \<Rightarrow> int \<Rightarrow> string" where
  "pad_digits 0 k = []"
| "pad_digits (Suc w) k = pad_digits w (k div 10) @ [char_of (48 + k mod 10)]"

lemma dec_pad_digits: "dec_pad w n = pad_digits w (int n)"
proof (induction w arbitrary: n)
  case (Suc w)
  have "dig (n mod 10) = char_of (48 + int n mod 10)"
    unfolding dig_def by (metis char_of_nat of_nat_add of_nat_mod of_nat_numeral)
  with Suc show ?case by (simp add: zdiv_int)
qed simp

lemma dec_pad_nat: "dec_pad w (nat k) = pad_digits w (max 0 k)"
  by (simp add: dec_pad_digits max_def)

lemma year_str_code [code]: "year_str y = (if 0 \<le> y \<and> y < 10000 then pad_digits 4 (max 0 y)
     else if y < 0 then CHR ''-'' # (if - y < 10000 then pad_digits 4 (max 0 (- y)) else dec_str (nat (- y)))
     else dec_str (nat y))"
  unfolding year_str_def dec_pad_nat ..

lemma format_with_code [code]: "format_with frac t =
    (let (y, mo, d) = go_civil t; (h, mi, s) = go_clock t
     in year_str y @ CHR ''-'' # pad_digits 2 (max 0 mo) @ CHR ''-'' # pad_digits 2 (max 0 d)
        @ CHR ''T'' # pad_digits 2 (max 0 h) @ CHR '':'' # pad_digits 2 (max 0 mi)
        @ CHR '':'' # pad_digits 2 (max 0 s) @ frac @ zone_str (tz_off t))"
  unfolding format_with_def dec_pad_nat ..
section \<open>Parse\<close>

text \<open>Fixed-width numbers, literal bytes, and the hour, which may have one digit.\<close>

definition num_fixed :: "nat \<Rightarrow> string \<Rightarrow> (nat \<times> string) option" where
  "num_fixed w s = (if w \<le> length s \<and> list_all is_digit (take w s)
     then Some (dec_val (take w s), drop w s) else None)"

definition num_loose :: "string \<Rightarrow> (nat \<times> string) option" where
  "num_loose s = (case s of
      [] \<Rightarrow> None
    | [a] \<Rightarrow> if is_digit a then Some (undig a, []) else None
    | a # b # r \<Rightarrow> if \<not> is_digit a then None
        else if is_digit b then Some (10 * undig a + undig b, r) else Some (undig a, b # r))"

definition lit :: "char \<Rightarrow> string \<Rightarrow> string option" where
  "lit c s = (case s of [] \<Rightarrow> None | x # r \<Rightarrow> if x = c then Some r else None)"

definition parse_frac :: "string \<Rightarrow> nat \<times> string" where
  "parse_frac s = (case s of
      p # c # r \<Rightarrow>
        if (p = CHR ''.'' \<or> p = CHR '','') \<and> is_digit c
        then let ds = takeWhile is_digit (c # r); u = take 9 ds
             in (dec_val u * 10 ^ (9 - length u), dropWhile is_digit (c # r))
        else (0, s)
    | _ \<Rightarrow> (0, s))"

definition parse_zone :: "string \<Rightarrow> (int \<times> string) option" where
  "parse_zone s = (case s of
      [] \<Rightarrow> None
    | sg # r \<Rightarrow>
        if sg = CHR ''Z'' then Some (0, r)
        else if length s < 6 \<or> s ! 3 \<noteq> CHR '':'' then None
        else case num_fixed 2 (take 2 r) of None \<Rightarrow> None | Some (hh, _) \<Rightarrow>
          (case num_fixed 2 (take 2 (drop 3 r)) of None \<Rightarrow> None | Some (mm, _) \<Rightarrow>
            if 24 < hh \<or> 60 < mm then None
            else if sg = CHR ''+'' then Some (int (hh * 60 + mm) * 60, drop 5 r)
            else if sg = CHR ''-'' then Some (- (int (hh * 60 + mm) * 60), drop 5 r)
            else None))"

definition parseRFC3339 :: "string \<Rightarrow> gtime option" where
  "parseRFC3339 s =
    Option.bind (num_fixed 4 s) (\<lambda>(y, s).
    Option.bind (lit (CHR ''-'') s) (\<lambda>s.
    Option.bind (num_fixed 2 s) (\<lambda>(mo, s).
    if mo = 0 \<or> 12 < mo then None else
    Option.bind (lit (CHR ''-'') s) (\<lambda>s.
    Option.bind (num_fixed 2 s) (\<lambda>(d, s).
    Option.bind (lit (CHR ''T'') s) (\<lambda>s.
    Option.bind (num_loose s) (\<lambda>(h, s).
    if 24 \<le> h then None else
    Option.bind (lit (CHR '':'') s) (\<lambda>s.
    Option.bind (num_fixed 2 s) (\<lambda>(mi, s).
    if 60 \<le> mi then None else
    Option.bind (lit (CHR '':'') s) (\<lambda>s.
    Option.bind (num_fixed 2 s) (\<lambda>(sec, s).
    if 60 \<le> sec then None else
    (case parse_frac s of (ns, s) \<Rightarrow>
    Option.bind (parse_zone s) (\<lambda>(off, s).
    if s \<noteq> [] then None
    else if d < 1 \<or> days_in (int y) (int mo) < int d then None
    else Some (go_date (int y) (int mo) (int d) (int h) (int mi) (int sec) (int ns) off)
    )))))))))))))"

section \<open>Round trip\<close>

text \<open>Times the database hands out: a year of four digits, an offset of whole minutes
  below a day.\<close>

definition printable_time :: "gtime \<Rightarrow> bool" where
  "printable_time t = (0 \<le> fst (go_civil t) \<and> fst (go_civil t) < 10000 \<and>
     tz_off t mod 60 = 0 \<and> \<bar>tz_off t\<bar> < 86400)"

lemma num_fixed_pad: "n < 10 ^ w \<Longrightarrow> num_fixed w (dec_pad w n @ r) = Some (n, r)"
  by (simp add: num_fixed_def list_all_iff dec_val_pad)

lemma dec_pad2: "n < 100 \<Longrightarrow> dec_pad 2 n = [dig (n div 10), dig (n mod 10)]"
  by (simp add: numeral_2_eq_2)

lemma num_loose_pad: "n < 100 \<Longrightarrow> num_loose (dec_pad 2 n @ r) = Some (n, r)"
proof -
  assume n: "n < 100"
  have "num_loose (dec_pad 2 n @ r) = Some (10 * (n div 10) + n mod 10, r)"
    using n by (simp add: dec_pad2 num_loose_def)
  then show ?thesis by simp
qed

lemma lit_eq [simp]: "lit c (c # r) = Some r"
  by (simp add: lit_def)

lemma zone_chars: "zone_str off \<noteq> []" "\<not> is_digit (hd (zone_str off))"
    "hd (zone_str off) \<noteq> CHR ''.''" "hd (zone_str off) \<noteq> CHR '',''"
  by (auto simp: zone_str_def Let_def is_digit_def)

lemma dec_val_strip:
  assumes "rev ds = replicate k (CHR ''0'') @ rs"
  shows "dec_val ds = dec_val (rev rs) * 10 ^ k"
  using assms
proof (induction k arbitrary: ds)
  case (Suc k)
  define u where "u = rev (replicate k (CHR ''0'') @ rs)"
  have "ds = u @ [CHR ''0'']"
    using Suc.prems unfolding u_def
    by (metis append_Cons replicate_Suc rev.simps(2) rev_rev_ident)
  moreover have "dec_val u = dec_val (rev rs) * 10 ^ k" by (rule Suc.IH) (simp add: u_def)
  ultimately show ?case by (simp add: undig_def)
qed (metis append_Nil mult.right_neutral power_0 replicate_0 rev_rev_ident)

lemma parse_frac_digits:
  assumes "is_digit c" "takeWhile is_digit (c # r) = D" "dropWhile is_digit (c # r) = Z"
  shows "parse_frac (CHR ''.'' # c # r) = (dec_val (take 9 D) * 10 ^ (9 - length (take 9 D)), Z)"
  unfolding parse_frac_def list.case Let_def assms(2,3) using assms(1) by simp

lemma parse_frac_frac_str:
  assumes "n < 1000000000"
  shows "parse_frac (frac_str n @ zone_str off) = (n, zone_str off)"
proof (cases "n = 0")
  case True
  obtain z zs where z: "zone_str off = z # zs" using zone_chars(1) by (cases "zone_str off") auto
  with zone_chars[of off] have "z \<noteq> CHR ''.''" "z \<noteq> CHR '',''" by simp_all
  then show ?thesis using True z by (simp add: frac_str_def parse_frac_def split: list.splits)
next
  case False
  define D where "D = dec_pad 9 n"
  define rs where "rs = dropWhile (\<lambda>c. c = CHR ''0'') (rev D)"
  define k where "k = length (takeWhile (\<lambda>c. c = CHR ''0'') (rev D))"
  have tk: "takeWhile (\<lambda>c. c = CHR ''0'') (rev D) = replicate k (CHR ''0'')"
    unfolding k_def by (rule replicate_length_same[symmetric]) (auto dest: set_takeWhileD)
  have split: "rev D = replicate k (CHR ''0'') @ rs"
    unfolding rs_def tk[symmetric] by (rule takeWhile_dropWhile_id[symmetric])
  have val: "n = dec_val (rev rs) * 10 ^ k"
  proof -
    have "n < 10 ^ 9" using assms by simp
    then have "dec_val D = n" unfolding D_def by (rule dec_val_pad)
    with dec_val_strip[OF split] show ?thesis by (simp only:)
  qed
  have ne: "rs \<noteq> []"
  proof
    assume "rs = []"
    then have "dec_val (rev rs) * 10 ^ k = 0" by simp
    then have "n = 0" unfolding val[symmetric] .
    with False show False by simp
  qed
  have len: "length rs + k = 9"
    using arg_cong[OF split, of length] unfolding D_def by simp
  have "set (rev rs) \<subseteq> set D" unfolding rs_def by (auto dest: set_dropWhileD)
  then have dig: "\<forall>c\<in>set (rev rs). is_digit c" unfolding D_def using digits_dec_pad by blast
  obtain c r where cr: "rev rs = c # r" using ne by (cases "rev rs") auto
  have nz: "takeWhile is_digit (zone_str off) = []" "dropWhile is_digit (zone_str off) = zone_str off"
    using zone_chars(1,2)[of off] by (cases "zone_str off"; simp)+
  have tw: "takeWhile is_digit (rev rs @ zone_str off) = rev rs"
   and dw: "dropWhile is_digit (rev rs @ zone_str off) = zone_str off"
    using nz takeWhile_append2[of "rev rs" is_digit "zone_str off"]
      dropWhile_append2[of "rev rs" is_digit "zone_str off"] dig by auto
  have t9: "take 9 (rev rs) = rev rs" and l9: "9 - length (rev rs) = k" using len by simp_all
  have "parse_frac (CHR ''.'' # c # (r @ zone_str off))
      = (dec_val (take 9 (rev rs)) * 10 ^ (9 - length (take 9 (rev rs))), zone_str off)"
    by (rule parse_frac_digits) (use tw dw dig cr in simp_all)
  then have "parse_frac (CHR ''.'' # rev rs @ zone_str off) = (n, zone_str off)"
    unfolding t9 l9 val[symmetric] by (simp only: cr append_Cons)
  moreover have "frac_str n = CHR ''.'' # rev rs"
    using False by (simp add: frac_str_def rs_def D_def )
  ultimately show ?thesis by simp
qed

lemma parse_zone_zone_str:
  assumes "off mod 60 = 0" "\<bar>off\<bar> < 86400"
  shows "parse_zone (zone_str off) = Some (off, [])"
proof (cases "off = 0")
  case True
  then show ?thesis by (simp add: zone_str_def parse_zone_def)
next
  case False
  define q where "q = \<bar>off\<bar> div 60"
  have q: "\<bar>off\<bar> = 60 * q" "0 < q" "q < 1440"
    unfolding q_def using assms False by (auto simp: abs_if)
  define m where "m = nat q"
  have m: "m < 1440" "0 < m" "int m = q" using q unfolding m_def by auto
  have h: "m div 60 < 24" using m by simp
  have hm: "int (m div 60 * 60 + m mod 60) * 60 = \<bar>off\<bar>" using m(3) q(1) by simp
  show ?thesis
  proof (cases "off < 0")
    case True
    then have "zone_str off = CHR ''-'' # dec_pad 2 (m div 60) @ CHR '':'' # dec_pad 2 (m mod 60)"
      using False q by (simp add: zone_str_def Let_def q_def[symmetric] m_def)
    then show ?thesis using h hm True m
      by (simp add: parse_zone_def num_fixed_pad[of _ 2 "[]", simplified] nth_append)
  next
    case pos: False
    then have "zone_str off = CHR ''+'' # dec_pad 2 (m div 60) @ CHR '':'' # dec_pad 2 (m mod 60)"
      using False q by (simp add: zone_str_def Let_def q_def[symmetric] m_def)
    then show ?thesis using h hm pos m
      by (simp add: parse_zone_def num_fixed_pad[of _ 2 "[]", simplified] nth_append)
  qed
qed

lemma parse_format_with:
  assumes "printable_time t" "n < 1000000000" "frac = frac_str n"
  shows "parseRFC3339 (format_with frac t) = Some (go_date (fst (go_civil t))
      (fst (snd (go_civil t))) (snd (snd (go_civil t)))
      (fst (go_clock t)) (fst (snd (go_clock t))) (snd (snd (go_clock t))) (int n) (tz_off t))"
proof -
  obtain y mo d where c: "go_civil t = (y, mo, d)" by (cases "go_civil t") auto
  obtain h mi s where k: "go_clock t = (h, mi, s)" by (cases "go_clock t") auto
  have y: "0 \<le> y" "y < 10000" "tz_off t mod 60 = 0" "\<bar>tz_off t\<bar> < 86400"
    using assms(1) c by (auto simp: printable_time_def)
  have md: "1 \<le> mo" "mo \<le> 12" "1 \<le> d" "d \<le> days_in y mo"
    using civil_correct(2-5)[of _ y mo d] c unfolding go_civil_def by auto
  have d31: "d \<le> 31" using md(4) by (auto simp: days_in_def split: if_splits)
  note r = go_clock_range[OF k]
  have ys: "year_str y = dec_pad 4 (nat y)" using y by (simp add: year_str_def)
  have b: "nat mo \<noteq> 0" "\<not> 12 < nat mo" "\<not> nat d < 1" "\<not> 24 \<le> nat h" "\<not> 60 \<le> nat mi" "\<not> 60 \<le> nat s"
    "nat y < 10 ^ 4" "nat mo < 10 ^ 2" "nat d < 10 ^ 2" "nat h < 100" "nat mi < 10 ^ 2" "nat s < 10 ^ 2"
    using y md d31 r by auto
  note pads = num_fixed_pad[OF b(7)] num_fixed_pad[OF b(8)] num_fixed_pad[OF b(9)]
    num_loose_pad[OF b(10)] num_fixed_pad[OF b(11)] num_fixed_pad[OF b(12)]
  show ?thesis
    unfolding format_with_def parseRFC3339_def c k prod.case Let_def assms(3) ys
    using y(3,4) md(4) y(1) md(1,3) r(1,3,5) b(1-6)
    by (simp add: pads parse_frac_frac_str[OF assms(2)] parse_zone_zone_str)
qed

lemma parse_formatRFC3339Nano:
  assumes "printable_time t"
  shows "parseRFC3339 (formatRFC3339Nano t) = Some t"
proof -
  have "nat (unix_ns t mod 1000000000) < 1000000000" by (simp add: nat_less_iff)
  then show ?thesis
    unfolding formatRFC3339Nano_def
    using parse_format_with[OF assms _ refl] go_date_fields[of t]
    by (cases "go_civil t"; cases "go_clock t") simp
qed

text \<open>The output DTOs print whole seconds: parsing gives the second the instant is in.\<close>

lemma parse_formatRFC3339:
  assumes "printable_time t"
  shows "parseRFC3339 (formatRFC3339 t) = Some (t\<lparr>unix_ns := unix_ns t div 1000000000 * 1000000000\<rparr>)"
proof -
  let ?t = "t\<lparr>unix_ns := unix_ns t div 1000000000 * 1000000000\<rparr>"
  have e: "local_secs ?t = local_secs t" by (simp add: local_secs_def)
  then have f: "go_civil ?t = go_civil t" "go_clock ?t = go_clock t"
    by (simp_all add: go_civil_def go_clock_def)
  have "parseRFC3339 (format_with [] t) = Some ?t"
    using parse_format_with[OF assms, of 0 "[]"] go_date_fields[of ?t] f
    by (cases "go_civil t"; cases "go_clock t") (simp add: frac_str_def)
  then show ?thesis by (simp add: formatRFC3339_def)
qed

lemma printable_no_bar:
  assumes "printable_time t"
  shows "CHR ''|'' \<notin> set (formatRFC3339Nano t)"
proof -
  have nd: "CHR ''|'' \<notin> set (dec_pad w n)" for w n
    using digits_dec_pad[of "CHR ''|''" w n] by (auto simp: is_digit_def)
  have ns: "CHR ''|'' \<notin> set (dec_str n)" for n
    using digits_dec_str[of "CHR ''|''" n] by (auto simp: is_digit_def)
  have "CHR ''|'' \<notin> set (frac_str n)" for n
    using nd
    by (auto simp: frac_str_def dest!: set_dropWhileD)
  moreover have "CHR ''|'' \<notin> set (zone_str off)" for off
    using nd by (auto simp: zone_str_def Let_def)
  ultimately show ?thesis
    using nd ns assms by (auto simp: formatRFC3339Nano_def format_with_def year_str_def
        printable_time_def split: prod.splits)
qed

end
