(* ===== verification/Postgres.thy ===== *)
theory Postgres
  imports Entities Go_Time_Format
begin

text \<open>
  The database the repositories talk to, from the migrations
  (\<^verbatim>\<open>internal/infrastructure/db/postgres/migration\<close>) and the SQL text of the
  repositories: tables as lists of rows in insertion order, the constraints each
  statement checks, and the connection: a writer on the primary and a reader on a
  replica when one is configured.

  What is outside the repository is in the environment record: the UUID parser and
  generator, the clock, how Postgres reads text into its types (\<^verbatim>\<open>uuid\<close>,
  \<^verbatim>\<open>varchar\<close>, \<^verbatim>\<open>timestamptz\<close>), its case folding and collation, and the
  failures of a connection. A call may be refused, or its reply may be lost after
  the server has executed it: then the effect of an autocommitted statement or of a
  commit stands although the caller sees an error.

  One transaction is one step: its statements run on one state. The row lock on the
  account (\<^verbatim>\<open>SELECT ... FOR UPDATE\<close>) is what makes this so for the balance.
\<close>

datatype fault = Refused string | ReplyLost string

fun fault_msg :: "fault \<Rightarrow> string" where
  "fault_msg (Refused m) = m"
| "fault_msg (ReplyLost m) = m"

record ext =
  x_uuid_ok :: "string \<Rightarrow> bool"
  x_new_id :: "nat \<Rightarrow> string"
  x_clock :: "nat \<Rightarrow> gtime"
  x_sql_now :: gtime
  x_pg_uuid :: "string \<Rightarrow> string option"
  x_pg_text :: "nat option \<Rightarrow> string \<Rightarrow> string + string"
  x_pg_time :: "gtime \<Rightarrow> gtime"
  x_pg_lower :: "string \<Rightarrow> string"
  x_pg_sort :: "string \<Rightarrow> string"
  x_fault :: "string \<Rightarrow> nat \<Rightarrow> fault option"

text \<open>Documented behaviour of the environment: a canonical UUID is a fixed point that
  \<^verbatim>\<open>uuid.Parse\<close> accepts; a stored time reads back as the same instant with an
  offset of whole minutes; reading text never reports a constraint violation, and
  ASCII text that fits is stored as it is.\<close>

definition ext_ok :: "ext \<Rightarrow> bool" where
  "ext_ok x \<longleftrightarrow>
    (\<forall>s c. x_pg_uuid x s = Some c \<longrightarrow> x_pg_uuid x c = Some c \<and> x_uuid_ok x c) \<and>
    (\<forall>t. tz_off (x_pg_time x t) mod 60 = 0 \<and> \<bar>tz_off (x_pg_time x t)\<bar> < 86400 \<and>
        x_pg_time x (x_pg_time x t) = x_pg_time x t) \<and>
    (\<forall>t u. unix_ns t = unix_ns u \<longrightarrow> x_pg_time x t = x_pg_time x u) \<and>
    (\<forall>n s c. x_pg_text x n s = Inl c \<longrightarrow> c \<noteq> ''23505'' \<and> c \<noteq> ''23503'') \<and>
    (\<forall>n s. list_all (\<lambda>c. 32 \<le> byte c \<and> byte c < 127) s \<and> (\<forall>k. n = Some k \<longrightarrow> length s \<le> k)
        \<longrightarrow> x_pg_text x n s = Inr s)"

section \<open>Tables\<close>

record user_row =
  u_ID :: string
  u_Name :: string
  u_Email :: string
  u_PasswordHash :: "string option"
  u_Active :: bool
  u_CreatedAt :: gtime
  u_UpdatedAt :: gtime

record accountDB =
  ad_ID :: string
  ad_UserID :: string
  ad_Name :: string
  ad_Type :: string
  ad_Description :: string
  ad_Balance :: i64
  ad_Active :: bool
  ad_CreatedAt :: gtime
  ad_UpdatedAt :: gtime
  ad_CreditLimit :: "i64 option"

record stmt_row =
  sd_ID :: string
  sd_AccountID :: string
  sd_Type :: string
  sd_Amount :: i64
  sd_Description :: string
  sd_ReferenceID :: "string option"
  sd_ExternalID :: "string option"
  sd_BalanceAfter :: i64
  sd_PostedAt :: gtime
  sd_CreatedAt :: gtime
  sd_CategoryID :: "string option"

record categoryDB =
  cd_ID :: string
  cd_UserID :: "string option"
  cd_Name :: string
  cd_Type :: string
  cd_CreatedAt :: gtime
  cd_UpdatedAt :: gtime

record tagDB =
  td_ID :: string
  td_UserID :: "string option"
  td_Name :: string
  td_CreatedAt :: gtime
  td_UpdatedAt :: gtime

record roleDB =
  rd_ID :: string
  rd_Name :: string
  rd_Description :: string
  rd_CreatedAt :: gtime
  rd_UpdatedAt :: gtime

record permission_row =
  pm_ID :: string
  pm_Name :: string

record user_role_row =
  ur_UserID :: string
  ur_RoleID :: string
  ur_CreatedAt :: gtime

record db =
  users :: "user_row list"
  accounts :: "accountDB list"
  statements :: "stmt_row list"
  categories :: "categoryDB list"
  tags :: "tagDB list"
  stmt_tags :: "(string \<times> string) list"
  roles :: "roleDB list"
  permissions :: "permission_row list"
  role_permissions :: "(string \<times> string) list"
  user_roles :: "user_role_row list"

definition empty_db :: db where
  "empty_db = \<lparr> users = [], accounts = [], statements = [], categories = [], tags = [],
     stmt_tags = [], roles = [], permissions = [], role_permissions = [], user_roles = [] \<rparr>"

record cluster =
  primary :: db
  replica :: "db option"

definition reader :: "cluster \<Rightarrow> db" where
  "reader c = (case replica c of None \<Rightarrow> primary c | Some r \<Rightarrow> r)"

section \<open>The connection\<close>

definition attempt :: "ext \<Rightarrow> string \<Rightarrow> nat \<Rightarrow> 'a go_result \<Rightarrow> 'a go_result" where
  "attempt x site i r = (case x_fault x site i of
      Some f \<Rightarrow> Inl (LibError (fault_msg f)) | None \<Rightarrow> r)"

text \<open>An autocommitted statement on the writer, with its count of affected rows.\<close>

definition exec :: "ext \<Rightarrow> string \<Rightarrow> (db \<Rightarrow> (nat \<times> db) go_result) \<Rightarrow> cluster \<Rightarrow>
    nat go_result \<times> cluster" where
  "exec x site q c = (case x_fault x site 0 of
      Some (Refused m) \<Rightarrow> (Inl (LibError m), c)
    | Some (ReplyLost m) \<Rightarrow> (Inl (LibError m),
        case q (primary c) of Inl e \<Rightarrow> c | Inr (n, d) \<Rightarrow> c\<lparr>primary := d\<rparr>)
    | None \<Rightarrow> (case q (primary c) of
          Inl e \<Rightarrow> (Inl e, c) | Inr (n, d) \<Rightarrow> (Inr n, c\<lparr>primary := d\<rparr>)))"

text \<open>A transaction on the writer: an error of the body rolls back (the deferred
  \<^verbatim>\<open>tx.Rollback()\<close>), the commit is the last call.\<close>

definition transact :: "ext \<Rightarrow> string \<Rightarrow> (db \<Rightarrow> ('a \<times> db) go_result) \<Rightarrow> cluster \<Rightarrow>
    'a go_result \<times> cluster" where
  "transact x site body c = (case x_fault x (site @ ''/begin'') 0 of
      Some f \<Rightarrow> (Inl (Wrapped ''beginning transaction'' (LibError (fault_msg f))), c)
    | None \<Rightarrow> (case body (primary c) of
          Inl e \<Rightarrow> (Inl e, c)
        | Inr (a, d) \<Rightarrow> (case x_fault x (site @ ''/commit'') 0 of
              Some (Refused m) \<Rightarrow> (Inl (LibError m), c)
            | Some (ReplyLost m) \<Rightarrow> (Inl (LibError m), c\<lparr>primary := d\<rparr>)
            | None \<Rightarrow> (Inr a, c\<lparr>primary := d\<rparr>))))"

text \<open>Either nothing happened or the whole body did; on success it did.\<close>

lemma transact_outcome:
  "transact x site body c = (r, c') \<Longrightarrow>
    (\<exists>e. r = Inl e \<and> c' = c) \<or>
    (\<exists>e a d m. r = Inl e \<and> body (primary c) = Inr (a, d) \<and> c' = c\<lparr>primary := d\<rparr> \<and>
       x_fault x (site @ ''/commit'') 0 = Some (ReplyLost m)) \<or>
    (\<exists>a d. r = Inr a \<and> body (primary c) = Inr (a, d) \<and> c' = c\<lparr>primary := d\<rparr>)"
  unfolding transact_def
  by (auto split: option.split_asm sum.split_asm prod.split_asm fault.split_asm)

lemma exec_outcome:
  "exec x site q c = (r, c') \<Longrightarrow>
    (\<exists>e. r = Inl e \<and> c' = c) \<or>
    (\<exists>e n d m. r = Inl e \<and> q (primary c) = Inr (n, d) \<and> c' = c\<lparr>primary := d\<rparr> \<and>
       x_fault x site 0 = Some (ReplyLost m)) \<or>
    (\<exists>n d. r = Inr n \<and> q (primary c) = Inr (n, d) \<and> c' = c\<lparr>primary := d\<rparr>)"
  unfolding exec_def
  by (auto split: option.split_asm sum.split_asm prod.split_asm fault.split_asm)

lemma transact_replica [simp]: "replica (snd (transact x site body c)) = replica c"
  by (auto simp: transact_def split: option.splits sum.splits prod.splits fault.splits)

lemma exec_replica [simp]: "replica (snd (exec x site q c)) = replica c"
  by (auto simp: exec_def split: option.splits sum.splits prod.splits fault.splits)

lemma attempt_Inr [simp]: "attempt x site i r = Inr a \<longleftrightarrow> x_fault x site i = None \<and> r = Inr a"
  by (auto simp: attempt_def split: option.splits)

section \<open>Reading parameters into column types\<close>

definition pg_id :: "ext \<Rightarrow> string \<Rightarrow> string go_result" where
  "pg_id x s = (case x_pg_uuid x s of None \<Rightarrow> Inl (PqError ''22P02'') | Some c \<Rightarrow> Inr c)"

definition pg_str :: "ext \<Rightarrow> nat option \<Rightarrow> string \<Rightarrow> string go_result" where
  "pg_str x n s = (case x_pg_text x n s of Inl c \<Rightarrow> Inl (PqError c) | Inr v \<Rightarrow> Inr v)"

lemma pg_id_Inr [simp]: "pg_id x s = Inr c \<longleftrightarrow> x_pg_uuid x s = Some c"
  by (auto simp: pg_id_def split: option.splits)

definition account_conv :: "ext \<Rightarrow> accountDB \<Rightarrow> accountDB go_result" where
  "account_conv x a =
    bindE (pg_id x (ad_ID a)) (\<lambda>i.
    bindE (pg_id x (ad_UserID a)) (\<lambda>u.
    bindE (pg_str x (Some 255) (ad_Name a)) (\<lambda>n.
    bindE (pg_str x (Some 50) (ad_Type a)) (\<lambda>t.
    bindE (pg_str x None (ad_Description a)) (\<lambda>d.
    Inr \<lparr> ad_ID = i, ad_UserID = u, ad_Name = n, ad_Type = t, ad_Description = d,
          ad_Balance = ad_Balance a, ad_Active = ad_Active a,
          ad_CreatedAt = x_pg_time x (ad_CreatedAt a), ad_UpdatedAt = x_pg_time x (ad_UpdatedAt a),
          ad_CreditLimit = ad_CreditLimit a \<rparr>)))))"

definition stmt_conv :: "ext \<Rightarrow> stmt_row \<Rightarrow> stmt_row go_result" where
  "stmt_conv x s =
    bindE (pg_id x (sd_ID s)) (\<lambda>i.
    bindE (pg_id x (sd_AccountID s)) (\<lambda>a.
    bindE (pg_str x (Some 10) (sd_Type s)) (\<lambda>t.
    bindE (pg_str x None (sd_Description s)) (\<lambda>d.
    bindE (optE (pg_id x) (sd_ReferenceID s)) (\<lambda>r.
    bindE (optE (pg_str x (Some 255)) (sd_ExternalID s)) (\<lambda>e.
    bindE (optE (pg_id x) (sd_CategoryID s)) (\<lambda>c.
    Inr \<lparr> sd_ID = i, sd_AccountID = a, sd_Type = t, sd_Amount = sd_Amount s,
          sd_Description = d, sd_ReferenceID = r, sd_ExternalID = e,
          sd_BalanceAfter = sd_BalanceAfter s, sd_PostedAt = x_pg_time x (sd_PostedAt s),
          sd_CreatedAt = x_pg_time x (sd_CreatedAt s), sd_CategoryID = c \<rparr>)))))))"

definition category_conv :: "ext \<Rightarrow> categoryDB \<Rightarrow> categoryDB go_result" where
  "category_conv x c =
    bindE (pg_id x (cd_ID c)) (\<lambda>i.
    bindE (optE (pg_id x) (cd_UserID c)) (\<lambda>u.
    bindE (pg_str x (Some 60) (cd_Name c)) (\<lambda>n.
    bindE (pg_str x (Some 10) (cd_Type c)) (\<lambda>t.
    Inr \<lparr> cd_ID = i, cd_UserID = u, cd_Name = n, cd_Type = t,
          cd_CreatedAt = x_pg_time x (cd_CreatedAt c), cd_UpdatedAt = x_pg_time x (cd_UpdatedAt c) \<rparr>))))"

definition tag_conv :: "ext \<Rightarrow> tagDB \<Rightarrow> tagDB go_result" where
  "tag_conv x t =
    bindE (pg_id x (td_ID t)) (\<lambda>i.
    bindE (optE (pg_id x) (td_UserID t)) (\<lambda>u.
    bindE (pg_str x (Some 40) (td_Name t)) (\<lambda>n.
    Inr \<lparr> td_ID = i, td_UserID = u, td_Name = n,
          td_CreatedAt = x_pg_time x (td_CreatedAt t), td_UpdatedAt = x_pg_time x (td_UpdatedAt t) \<rparr>)))"

section \<open>Constraints\<close>

definition account_check :: "accountDB \<Rightarrow> bool" where
  "account_check a \<longleftrightarrow> ad_Type a \<in> {''bank_account'', ''credit_card'', ''cash''} \<and>
     credit_limit_ok (ad_Type a) (ad_CreditLimit a)"

definition stmt_check :: "stmt_row \<Rightarrow> bool" where
  "stmt_check s \<longleftrightarrow> sd_Type s \<in> {''credit'', ''debit''} \<and> 0 <s sd_Amount s"

definition stmt_conflict :: "stmt_row \<Rightarrow> stmt_row \<Rightarrow> bool" where
  "stmt_conflict s t \<longleftrightarrow> sd_ID s = sd_ID t \<or>
     (sd_ExternalID s \<noteq> None \<and> sd_AccountID s = sd_AccountID t \<and> sd_ExternalID s = sd_ExternalID t) \<or>
     (sd_ReferenceID s \<noteq> None \<and> sd_ReferenceID s = sd_ReferenceID t)"

definition stmt_fk :: "db \<Rightarrow> stmt_row list \<Rightarrow> stmt_row \<Rightarrow> bool" where
  "stmt_fk d all s \<longleftrightarrow> sd_AccountID s \<in> ad_ID ` set (accounts d) \<and>
     (case sd_ReferenceID s of None \<Rightarrow> True | Some r \<Rightarrow> r \<in> sd_ID ` set all) \<and>
     (case sd_CategoryID s of None \<Rightarrow> True | Some c \<Rightarrow> c \<in> cd_ID ` set (categories d))"

definition category_conflict :: "ext \<Rightarrow> categoryDB \<Rightarrow> categoryDB \<Rightarrow> bool" where
  "category_conflict x c e \<longleftrightarrow> cd_ID c = cd_ID e \<or>
     (cd_UserID c = cd_UserID e \<and> x_pg_lower x (cd_Name c) = x_pg_lower x (cd_Name e) \<and>
      cd_Type c = cd_Type e)"

definition tag_conflict :: "ext \<Rightarrow> tagDB \<Rightarrow> tagDB \<Rightarrow> bool" where
  "tag_conflict x t u \<longleftrightarrow> td_ID t = td_ID u \<or>
     (td_UserID t = td_UserID u \<and> x_pg_lower x (td_Name t) = x_pg_lower x (td_Name u))"

definition user_exists :: "db \<Rightarrow> string option \<Rightarrow> bool" where
  "user_exists d u = (case u of None \<Rightarrow> True | Some i \<Rightarrow> i \<in> u_ID ` set (users d))"

section \<open>Statements of the repositories\<close>

definition insert_account :: "ext \<Rightarrow> accountDB \<Rightarrow> db \<Rightarrow> (nat \<times> db) go_result" where
  "insert_account x a d =
    bindE (account_conv x a) (\<lambda>a.
      if \<not> account_check a then Inl (PqError ''23514'')
      else if ad_ID a \<in> ad_ID ` set (accounts d) then Inl (PqError ''23505'')
      else if \<not> user_exists d (Some (ad_UserID a)) then Inl (PqError ''23503'')
      else Inr (1, d\<lparr>accounts := accounts d @ [a]\<rparr>))"

definition insert_stmt_row :: "stmt_row \<Rightarrow> stmt_row list \<Rightarrow> stmt_row list go_result" where
  "insert_stmt_row s all =
    (if \<not> stmt_check s then Inl (PqError ''23514'')
     else if list_ex (stmt_conflict s) all then Inl (PqError ''23505'')
     else Inr (all @ [s]))"

definition insert_stmts :: "ext \<Rightarrow> stmt_row list \<Rightarrow> db \<Rightarrow> db go_result" where
  "insert_stmts x rows d =
    bindE (mapE (stmt_conv x) rows) (\<lambda>rows.
    bindE (foldE insert_stmt_row rows (statements d)) (\<lambda>all.
      if list_all (stmt_fk d all) rows then Inr (d\<lparr>statements := all\<rparr>)
      else Inl (PqError ''23503'')))"

definition lock_balance :: "ext \<Rightarrow> string \<Rightarrow> db \<Rightarrow> i64 go_result" where
  "lock_balance x accountID d =
    bindE (pg_id x accountID) (\<lambda>i.
      case List.find (\<lambda>a. ad_ID a = i) (accounts d) of
        None \<Rightarrow> Inl ErrNoRows | Some a \<Rightarrow> Inr (ad_Balance a))"

definition set_balance :: "ext \<Rightarrow> i64 \<Rightarrow> string \<Rightarrow> db \<Rightarrow> db go_result" where
  "set_balance x bal accountID d =
    bindE (pg_id x accountID) (\<lambda>i.
      Inr (d\<lparr>accounts := update_where (\<lambda>a. ad_ID a = i)
        (\<lambda>a. a\<lparr>ad_Balance := bal, ad_UpdatedAt := x_pg_time x (x_sql_now x)\<rparr>) (accounts d)\<rparr>))"

definition insert_tag_pair :: "string \<times> string \<Rightarrow> (string \<times> string) list \<Rightarrow>
    (string \<times> string) list go_result" where
  "insert_tag_pair p all = (if p \<in> set all then Inl (PqError ''23505'') else Inr (all @ [p]))"

definition insert_stmt_tags :: "ext \<Rightarrow> (string \<times> string) list \<Rightarrow> db \<Rightarrow> db go_result" where
  "insert_stmt_tags x pairs d =
    bindE (mapE (\<lambda>(s, t). bindE (pg_id x s) (\<lambda>s. bindE (pg_id x t) (\<lambda>t. Inr (s, t)))) pairs) (\<lambda>ps.
    bindE (foldE insert_tag_pair ps (stmt_tags d)) (\<lambda>all.
      if list_all (\<lambda>(s, t). s \<in> sd_ID ` set (statements d) \<and> t \<in> td_ID ` set (tags d)) ps
      then Inr (d\<lparr>stmt_tags := all\<rparr>) else Inl (PqError ''23503'')))"

definition delete_stmt_tags :: "ext \<Rightarrow> string \<Rightarrow> db \<Rightarrow> db go_result" where
  "delete_stmt_tags x stmtID d =
    bindE (pg_id x stmtID) (\<lambda>i. Inr (d\<lparr>stmt_tags := filter (\<lambda>(s, t). s \<noteq> i) (stmt_tags d)\<rparr>))"

text \<open>Every conversion leaves the amounts and balances alone.\<close>

lemma stmt_conv_fields:
  assumes "stmt_conv x s = Inr r"
  shows "x_pg_uuid x (sd_ID s) = Some (sd_ID r)" "x_pg_uuid x (sd_AccountID s) = Some (sd_AccountID r)"
    "sd_Amount r = sd_Amount s" "sd_BalanceAfter r = sd_BalanceAfter s"
    "sd_PostedAt r = x_pg_time x (sd_PostedAt s)" "sd_CreatedAt r = x_pg_time x (sd_CreatedAt s)"
    "pg_str x (Some 10) (sd_Type s) = Inr (sd_Type r)"
    "optE (pg_id x) (sd_ReferenceID s) = Inr (sd_ReferenceID r)"
    "optE (pg_str x (Some 255)) (sd_ExternalID s) = Inr (sd_ExternalID r)"
    "optE (pg_id x) (sd_CategoryID s) = Inr (sd_CategoryID r)"
    "pg_str x None (sd_Description s) = Inr (sd_Description r)"
  using assms by (auto simp: stmt_conv_def)

lemma insert_stmt_row_Inr [simp]: "insert_stmt_row s all = Inr all' \<longleftrightarrow>
    stmt_check s \<and> \<not> list_ex (stmt_conflict s) all \<and> all' = all @ [s]"
  by (auto simp: insert_stmt_row_def)

lemma insert_stmt_rows_Inr: "foldE insert_stmt_row rows all = Inr all' \<Longrightarrow>
    all' = all @ rows \<and> list_all stmt_check rows"
proof (induction rows arbitrary: all)
  case (Cons r rows)
  then have "stmt_check r" "foldE insert_stmt_row rows (all @ [r]) = Inr all'" by auto
  with Cons.IH[of "all @ [r]"] show ?case by simp
qed simp

lemma insert_stmts_Inr:
  assumes "insert_stmts x rows d = Inr d'"
  obtains rs where "list_all2 (\<lambda>s r. stmt_conv x s = Inr r) rows rs"
    "foldE insert_stmt_row rs (statements d) = Inr (statements d @ rs)"
    "list_all stmt_check rs" "list_all (stmt_fk d (statements d @ rs)) rs"
    "d' = d\<lparr>statements := statements d @ rs\<rparr>"
proof -
  obtain rs all where a: "mapE (stmt_conv x) rows = Inr rs"
      "foldE insert_stmt_row rs (statements d) = Inr all"
      "list_all (stmt_fk d all) rs" "d' = d\<lparr>statements := all\<rparr>"
    using assms by (auto simp: insert_stmts_def split: if_splits)
  from insert_stmt_rows_Inr[OF a(2)] have "all = statements d @ rs" "list_all stmt_check rs" by auto
  with a show thesis by (intro that[of rs]) (auto simp: mapE_Inr)
qed

end
