(* ===== verification/Go_Base64.thy ===== *)
theory Go_Base64
  imports Go_Strings
begin

text \<open>
  \<^verbatim>\<open>base64.URLEncoding\<close>: the padded URL-safe alphabet. The decoder skips CR and
  LF as Go's does, needs the padding, and does not check the unused bits of the last
  symbol. The round trip holds for every byte string.
\<close>

definition enc6 :: "nat \<Rightarrow> char" where
  "enc6 n = (if n < 26 then char_of (65 + n) else if n < 52 then char_of (71 + n)
     else if n < 62 then char_of (n - 4) else if n = 62 then CHR ''-'' else CHR ''_'')"

definition dec6 :: "char \<Rightarrow> nat option" where
  "dec6 c = (let n = byte c in
     if 65 \<le> n \<and> n \<le> 90 then Some (n - 65) else if 97 \<le> n \<and> n \<le> 122 then Some (n - 71)
     else if 48 \<le> n \<and> n \<le> 57 then Some (n + 4) else if c = CHR ''-'' then Some 62
     else if c = CHR ''_'' then Some 63 else None)"

fun b64_encode :: "string \<Rightarrow> string" where
  "b64_encode [] = []"
| "b64_encode [a] = [enc6 (byte a div 4), enc6 (byte a mod 4 * 16), CHR ''='', CHR ''='']"
| "b64_encode [a, b] = [enc6 (byte a div 4), enc6 (byte a mod 4 * 16 + byte b div 16),
     enc6 (byte b mod 16 * 4), CHR ''='']"
| "b64_encode (a # b # c # r) = enc6 (byte a div 4) # enc6 (byte a mod 4 * 16 + byte b div 16)
     # enc6 (byte b mod 16 * 4 + byte c div 64) # enc6 (byte c mod 64) # b64_encode r"

definition quad :: "nat \<Rightarrow> nat \<Rightarrow> nat \<Rightarrow> nat \<Rightarrow> string" where
  "quad i j k l = [char_of (i * 4 + j div 16), char_of (j mod 16 * 16 + k div 4),
     char_of (k mod 4 * 64 + l)]"

fun b64_quads :: "string \<Rightarrow> string option" where
  "b64_quads [] = Some []"
| "b64_quads (a # b # c # d # r) =
    (case (dec6 a, dec6 b) of
       (Some i, Some j) \<Rightarrow>
         (case (dec6 c, dec6 d) of
            (Some k, Some l) \<Rightarrow> map_option (\<lambda>t. quad i j k l @ t) (b64_quads r)
          | (Some k, None) \<Rightarrow> if d = CHR ''='' \<and> r = [] then Some (take 2 (quad i j k 0)) else None
          | _ \<Rightarrow> if c = CHR ''='' \<and> d = CHR ''='' \<and> r = [] then Some (take 1 (quad i j 0 0)) else None)
     | _ \<Rightarrow> None)"
| "b64_quads _ = None"

definition b64_decode :: "string \<Rightarrow> string option" where
  "b64_decode s = b64_quads (filter (\<lambda>c. c \<noteq> CHR 0x0A \<and> c \<noteq> CHR 0x0D) s)"

lemma byte_enc6: "n < 64 \<Longrightarrow> byte (enc6 n) = (if n < 26 then 65 + n else if n < 52 then 71 + n
    else if n < 62 then n - 4 else if n = 62 then 45 else 95)"
  by (simp add: enc6_def)

lemma char_eq_byte: "c = d \<longleftrightarrow> byte c = byte d"
  by simp

lemma dec6_enc6 [simp]: "n < 64 \<Longrightarrow> dec6 (enc6 n) = Some n"
  unfolding dec6_def Let_def char_eq_byte
  by (simp add: byte_enc6) auto

lemma enc6_no_newline: "n < 64 \<Longrightarrow> enc6 n \<noteq> CHR 0x0A \<and> enc6 n \<noteq> CHR 0x0D"
  unfolding char_eq_byte by (auto simp: byte_enc6)

lemma dec6_pad [simp]: "dec6 (CHR ''='') = None"
  by (simp add: dec6_def)

lemma byte_bound: "byte c < 256"
  by (rule nat_of_char_less_256)

lemma sextets:
  "byte a div 4 < 64" "byte a mod 4 * 16 + byte b div 16 < 64" "byte a mod 4 * 16 < 64"
  "byte b mod 16 * 4 + byte c div 64 < 64" "byte b mod 16 * 4 < 64" "byte c mod 64 < 64"
  using byte_bound[of a] byte_bound[of b] byte_bound[of c] by linarith+

lemma quad_sextets:
  "quad (byte a div 4) (byte a mod 4 * 16 + byte b div 16) (byte b mod 16 * 4 + byte c div 64)
      (byte c mod 64) = [a, b, c]"
proof -
  have lo: "byte b div 16 < 16" "byte c div 64 < 4"
    using byte_bound[of b] byte_bound[of c] by linarith+
  have "byte a div 4 * 4 + (byte a mod 4 * 16 + byte b div 16) div 16 = byte a"
    using lo(1) by (simp add: div_less)
  moreover have "(byte a mod 4 * 16 + byte b div 16) mod 16 * 16
      + (byte b mod 16 * 4 + byte c div 64) div 4 = byte b"
    using lo by (simp add: div_less mod_less)
  moreover have "(byte b mod 16 * 4 + byte c div 64) mod 4 * 64 + byte c mod 64 = byte c"
    using lo(2) by (simp add: mod_less)
  ultimately show ?thesis by (simp add: quad_def)
qed

lemma b64_quads_encode: "b64_quads (b64_encode s) = Some s"
proof (induction s rule: b64_encode.induct)
  case (2 a)
  show ?case using quad_sextets[of a "CHR 0x00" "CHR 0x00"] by (simp add: sextets)
next
  case (3 a b)
  show ?case using quad_sextets[of a b "CHR 0x00"] by (simp add: sextets)
next
  case (4 a b c r)
  then show ?case by (simp add: sextets quad_sextets)
qed simp

lemma b64_encode_clean: "filter (\<lambda>c. c \<noteq> CHR 0x0A \<and> c \<noteq> CHR 0x0D) (b64_encode s) = b64_encode s"
  by (induction s rule: b64_encode.induct) (simp_all add: enc6_no_newline sextets)

lemma b64_roundtrip: "b64_decode (b64_encode s) = Some s"
  by (simp add: b64_decode_def b64_encode_clean b64_quads_encode)

end
