(* ===== verification/Pagination.thy ===== *)
theory Pagination
  imports Postgres Go_Base64 "HOL-Library.Signed_Division"
begin

text \<open>
  What the paginated lists share: the order by (time, id) descending, LIMIT and
  OFFSET, the keyset condition, and the opaque cursor (base64 of the last row's time
  in RFC3339 with nanoseconds, a bar, and its id) with its decoder. Lemmas: decoding
  undoes encoding, and the rows after a cursor are the rows that follow its row.
\<close>

type_synonym page_key = "int \<times> string"

definition order_desc :: "('a \<Rightarrow> page_key) \<Rightarrow> 'a list \<Rightarrow> 'a list" where
  "order_desc key rows = rev (sort_key key rows)"

definition limit_offset :: "i64 \<Rightarrow> i64 \<Rightarrow> 'a list \<Rightarrow> 'a list go_result" where
  "limit_offset lim off rows =
    (if off <s 0 then Inl (PqError ''2201X'')
     else Inr (take (nat (sint lim)) (drop (nat (sint off)) rows)))"

definition keyset :: "('a \<Rightarrow> page_key) \<Rightarrow> page_key \<Rightarrow> 'a list \<Rightarrow> 'a list" where
  "keyset key k rows = filter (\<lambda>r. key r < k) rows"

definition encode_cursor :: "gtime \<Rightarrow> string \<Rightarrow> string" where
  "encode_cursor t i = b64_encode (formatRFC3339Nano t @ CHR ''|'' # i)"

definition decodeCursor :: "(string \<Rightarrow> bool) \<Rightarrow> string \<Rightarrow> (gtime \<times> string) go_result" where
  "decodeCursor uuid_ok cursor =
    (case b64_decode cursor of
       None \<Rightarrow> Inl (Wrapped ''invalid cursor'' (LibError ''illegal base64 data''))
     | Some raw \<Rightarrow> (case split2 (CHR ''|'') raw of
         (_, None) \<Rightarrow> Inl (LibError ''invalid cursor format'')
       | (ts, Some i) \<Rightarrow> (case parseRFC3339 ts of
           None \<Rightarrow> Inl (Wrapped ''invalid cursor timestamp'' (LibError ''parsing time''))
         | Some t \<Rightarrow> (case ParseID uuid_ok i of
             Inl e \<Rightarrow> Inl (Wrapped ''invalid cursor ID'' e)
           | Inr i \<Rightarrow> Inr (t, i)))))"

lemma decode_encode_cursor:
  assumes "printable_time t" "uuid_ok i"
  shows "decodeCursor uuid_ok (encode_cursor t i) = Inr (t, i)"
proof -
  have "split2 (CHR ''|'') (formatRFC3339Nano t @ CHR ''|'' # i) = (formatRFC3339Nano t, Some i)"
    by (rule split2_app[OF printable_no_bar[OF assms(1)]])
  then show ?thesis
    using assms by (simp add: decodeCursor_def encode_cursor_def b64_roundtrip
        parse_formatRFC3339Nano ParseID_def)
qed

lemma set_order_desc [simp]: "set (order_desc key rows) = set rows"
  by (simp add: order_desc_def)

lemma length_order_desc [simp]: "length (order_desc key rows) = length rows"
  by (simp add: order_desc_def)

lemma order_desc_sorted: "sorted_wrt (\<ge>) (map key (order_desc key rows))"
  by (simp add: order_desc_def rev_map[symmetric] sorted_wrt_rev)

lemma filter_sort_key: "filter P (sort_key f xs) = sort_key f (filter P xs)"
  by (simp add: filter_sort)

lemma order_desc_filter: "filter P (order_desc key rows) = order_desc key (filter P rows)"
  by (simp add: order_desc_def filter_sort flip: rev_filter)

text \<open>In a list strictly descending in its key, the rows below the key of one row are
  the rows after it.\<close>

lemma strictly_desc:
  assumes "distinct (map key rows)"
  shows "sorted_wrt (>) (map key (order_desc key rows))"
proof -
  have "sorted (map key (sort_key key rows))" by simp
  moreover have "distinct (map key (sort_key key rows))"
    using assms by (simp add: distinct_map)
  ultimately have "sorted_wrt (<) (map key (sort_key key rows))"
    by (simp add: strict_sorted_iff)
  then show ?thesis by (simp add: order_desc_def rev_map[symmetric] sorted_wrt_rev)
qed

lemma keyset_after:
  assumes "distinct (map key rows)" "order_desc key rows = us @ r # vs"
  shows "keyset key (key r) (order_desc key rows) = vs"
proof -
  have s: "sorted_wrt (>) (map key us @ key r # map key vs)"
    using strictly_desc[OF assms(1)] assms(2) by simp
  then have "\<forall>u\<in>set us. \<not> key u < key r" "\<forall>v\<in>set vs. key v < key r"
    by (auto simp: sorted_wrt_append)
  then show ?thesis by (simp add: keyset_def assms(2) filter_empty_conv)
qed

text \<open>Following the cursor of a full page gives the next page of the same order.\<close>

lemma keyset_next_page:
  assumes "distinct (map key rows)" "L > 0" "n + L \<le> length rows"
    "page = take L (drop n (order_desc key rows))"
  shows "keyset key (key (last page)) (order_desc key rows) = drop (n + L) (order_desc key rows)"
proof -
  let ?S = "order_desc key rows"
  have len: "n + L - 1 < length ?S" using assms(2,3) by simp
  have page_len: "length page = L" using assms(3,4) by simp
  have "last page = ?S ! (n + L - 1)"
  proof -
    have "page \<noteq> []" using page_len assms(2) by auto
    then have "last page = page ! (L - 1)" using page_len by (simp add: last_conv_nth)
    also have "\<dots> = ?S ! (n + (L - 1))" using assms(2,3,4) by simp
    finally show ?thesis using assms(2) by simp
  qed
  moreover have "?S = take (n + L - 1) ?S @ ?S ! (n + L - 1) # drop (Suc (n + L - 1)) ?S"
    by (rule id_take_nth_drop[OF len])
  ultimately show ?thesis
    using keyset_after[OF assms(1)] assms(2) by (metis Suc_pred' add_gr_0)
qed

section \<open>Total pages\<close>

text \<open>Go's integer division truncates towards zero.\<close>

definition total_pages :: "i64 \<Rightarrow> i64 \<Rightarrow> i64" where
  "total_pages tot lim =
    (if 0 <s lim then word_of_int (signed_divide (sint (tot + lim - 1)) (sint lim)) else 0)"

lemma total_pages_ceiling:
  assumes "0 \<le> sint tot" "sint tot < 2 ^ 62" "1 \<le> sint lim" "sint lim \<le> 100"
  shows "(sint (total_pages tot lim) - 1) * sint lim < max 1 (sint tot)"
    "sint tot \<le> sint (total_pages tot lim) * sint lim"
proof -
  have a: "sint (tot + lim) = sint tot + sint lim"
    using assms by (subst sint_add_no_overflow) auto
  have b: "sint (tot + lim - 1) = sint tot + sint lim - 1"
    using assms a by (subst sint_diff_no_overflow) auto
  define q where "q = (sint tot + sint lim - 1) div sint lim"
  have q: "sint lim * q \<le> sint tot + sint lim - 1" "sint tot + sint lim - 1 < sint lim * q + sint lim"
    using int_div_bounds[of "sint lim" "sint tot + sint lim - 1"] assms(3)
    unfolding q_def by auto
  have q0: "0 \<le> q" unfolding q_def using assms by (intro int_div_nonneg) auto
  have "q \<le> sint lim * q" using q0 assms(3) by (simp add: mult_le_cancel_right1)
  then have qb: "q < 2 ^ 63" using q(1) assms by simp
  have "signed_divide (sint (tot + lim - 1)) (sint lim) = q"
    using assms by (simp add: b q_def signed_divide_int_def sgn_mult zdiv_zminus1_eq_if sgn_if abs_if)
  then have t: "sint (total_pages tot lim) = q"
    using assms q0 qb by (simp add: total_pages_def i64_sless_iff sint_of_int_i64)
  show "(sint (total_pages tot lim) - 1) * sint lim < max 1 (sint tot)"
    "sint tot \<le> sint (total_pages tot lim) * sint lim"
    unfolding t using q by (auto simp: algebra_simps)
qed

section \<open>ILIKE patterns\<close>

fun escapeILIKE :: "string \<Rightarrow> string" where
  "escapeILIKE [] = []"
| "escapeILIKE (c # s) =
     (if c = CHR 0x5C then CHR 0x5C # CHR 0x5C # escapeILIKE s
      else if c = CHR ''%'' then CHR 0x5C # CHR ''%'' # escapeILIKE s
      else if c = CHR ''_'' then CHR 0x5C # CHR ''_'' # escapeILIKE s
      else c # escapeILIKE s)"

text \<open>LIKE of Postgres: \<^verbatim>\<open>%\<close> any bytes, \<^verbatim>\<open>_\<close> one UTF-8 character, a backslash
  takes the next byte literally.\<close>

definition utf8_cont :: "char \<Rightarrow> bool" where
  "utf8_cont c = (128 \<le> byte c \<and> byte c < 192)"

function like :: "string \<Rightarrow> string \<Rightarrow> bool" where
  "like [] t = (t = [])"
| "like (p # ps) t =
    (if p = CHR ''%'' then like ps t \<or> (case t of [] \<Rightarrow> False | c # cs \<Rightarrow> like (p # ps) cs)
     else if p = CHR 0x5C then
       (case ps of [] \<Rightarrow> False | q # qs \<Rightarrow>
          (case t of [] \<Rightarrow> False | c # cs \<Rightarrow> c = q \<and> like qs cs))
     else (case t of [] \<Rightarrow> False | c # cs \<Rightarrow>
       (if p = CHR ''_'' then like ps (dropWhile utf8_cont cs) else c = p \<and> like ps cs)))"
  by pat_completeness auto
termination
proof (relation "measure (\<lambda>(p, t). length p + length t)", goal_cases)
  case (5 p ps t c cs)
  then show ?case using length_dropWhile_le[of utf8_cont cs] by auto
qed auto

declare like.simps(2) [simp del]

lemma like_literal:
  assumes "c \<noteq> CHR ''%''" "c \<noteq> CHR 0x5C" "c \<noteq> CHR ''_''"
  shows "like (c # ps) t \<longleftrightarrow> (\<exists>v. t = c # v \<and> like ps v)"
  using assms by (cases t) (auto simp: like.simps(2)[of c])

lemma like_backslash: "like (CHR 0x5C # c # ps) t \<longleftrightarrow> (\<exists>v. t = c # v \<and> like ps v)"
  by (cases t) (auto simp: like.simps(2)[of "CHR 0x5C"])

lemma like_escaped: "like (escapeILIKE s @ ps) t \<longleftrightarrow> (\<exists>v. t = s @ v \<and> like ps v)"
proof (induction s arbitrary: t)
  case (Cons c s)
  have "like (escapeILIKE (c # s) @ ps) t \<longleftrightarrow> (\<exists>v. t = c # v \<and> like (escapeILIKE s @ ps) v)"
    using like_literal[of c "escapeILIKE s @ ps" t] like_backslash[of c "escapeILIKE s @ ps" t]
    by (cases "c = CHR ''%'' \<or> c = CHR 0x5C \<or> c = CHR ''_''") auto
  with Cons.IH show ?case by auto
qed simp

lemma like_percent: "like (CHR ''%'' # ps) t \<longleftrightarrow> (\<exists>u v. t = u @ v \<and> like ps v)"
proof (induction t)
  case Nil
  show ?case by (subst like.simps(2)) simp
next
  case (Cons c t)
  have "like (CHR ''%'' # ps) (c # t) \<longleftrightarrow> like ps (c # t) \<or> like (CHR ''%'' # ps) t"
    by (subst like.simps(2)) simp
  also have "\<dots> \<longleftrightarrow> like ps (c # t) \<or> (\<exists>u v. t = u @ v \<and> like ps v)"
    by (simp only: Cons.IH)
  also have "\<dots> \<longleftrightarrow> (\<exists>u v. c # t = u @ v \<and> like ps v)"
  proof -
    have "(\<exists>u v. c # t = u @ v \<and> like ps v) \<longleftrightarrow>
        (\<exists>v. c # t = v \<and> like ps v) \<or> (\<exists>u v. t = u @ v \<and> like ps v)"
      by (metis append_Cons append_Nil list.inject neq_Nil_conv)
    then show ?thesis by simp
  qed
  finally show ?case .
qed

lemma like_contains: "like (CHR ''%'' # escapeILIKE s @ ''%'') t \<longleftrightarrow> (\<exists>u v. t = u @ s @ v)"
  by (auto simp: like_percent like_escaped)

end
