(* ===== verification/Statement_Repo.thy ===== *)
theory Statement_Repo
  imports Pagination
begin

text \<open>
  \<^verbatim>\<open>internal/infrastructure/db/postgres/repository/statement.go\<close>: the row model
  and its conversions, the hydrated SELECT (category by LEFT JOIN, tags by a
  subselect ordered by folded name), and every operation of
  \<^verbatim>\<open>StatementRepository\<close>. Create and CreateBatch are transactions that lock the
  account, insert, and write the new balance. The JSON text of the tag column is
  modelled as the list it encodes.
\<close>

section \<open>Row model\<close>

record statementDB = stmt_row +
  sd_CategoryName :: "string option"
  sd_CategoryType :: "string option"
  sd_Tags :: "(string \<times> string) list"

definition fromDomainStatement :: "stmt \<Rightarrow> stmt_row" where
  "fromDomainStatement s =
    \<lparr> sd_ID = s_ID s, sd_AccountID = s_AccountID s, sd_Type = s_Type s, sd_Amount = s_Amount s,
      sd_Description = s_Description s, sd_ReferenceID = s_ReferenceID s,
      sd_ExternalID = s_ExternalID s, sd_BalanceAfter = s_BalanceAfter s,
      sd_PostedAt = s_PostedAt s, sd_CreatedAt = s_CreatedAt s, sd_CategoryID = s_CategoryID s \<rparr>"

definition toStatement :: "ext \<Rightarrow> statementDB \<Rightarrow> stmt go_result" where
  "toStatement x s =
    (let pid = (\<lambda>what i. mapErr (Wrapped what) (ParseID (x_uuid_ok x) i)) in
    bindE (pid ''parsing statement ID'' (sd_ID s)) (\<lambda>i.
    bindE (pid ''parsing account ID'' (sd_AccountID s)) (\<lambda>a.
    bindE (optE (pid ''parsing reference ID'') (sd_ReferenceID s)) (\<lambda>r.
    bindE (optE (pid ''parsing category ID'') (sd_CategoryID s)) (\<lambda>c.
    bindE (mapE (\<lambda>(t, n). bindE (pid ''parsing tag ID'' t) (\<lambda>t.
             Inr \<lparr> tr_ID = t, tr_Name = n \<rparr>)) (sd_Tags s)) (\<lambda>refs.
    Inr \<lparr> s_ID = i, s_AccountID = a, s_Type = sd_Type s, s_Amount = sd_Amount s,
          s_Description = sd_Description s, s_ReferenceID = r, s_ExternalID = sd_ExternalID s,
          s_BalanceAfter = sd_BalanceAfter s, s_PostedAt = sd_PostedAt s,
          s_CreatedAt = sd_CreatedAt s, s_CategoryID = c,
          s_Category = (case (c, sd_CategoryName s, sd_CategoryType s) of
             (Some ci, Some n, Some t) \<Rightarrow> Some \<lparr> cr_ID = ci, cr_Name = n, cr_Type = t \<rparr>
           | _ \<Rightarrow> None),
          s_Tags = refs \<rparr>))))))"

definition hydrate :: "ext \<Rightarrow> db \<Rightarrow> stmt_row \<Rightarrow> statementDB" where
  "hydrate x d r =
    (let cat = (case sd_CategoryID r of None \<Rightarrow> None
                | Some c \<Rightarrow> List.find (\<lambda>k. cd_ID k = c) (categories d));
         assigned = map snd (filter (\<lambda>(s, t). s = sd_ID r) (stmt_tags d));
         joined = concat (map (\<lambda>t. filter (\<lambda>u. td_ID u = t) (tags d)) assigned)
     in stmt_row.extend r
       \<lparr> sd_CategoryName = map_option cd_Name cat, sd_CategoryType = map_option cd_Type cat,
         sd_Tags = map (\<lambda>u. (td_ID u, td_Name u))
           (sort_key (\<lambda>u. x_pg_sort x (x_pg_lower x (td_Name u))) joined) \<rparr>)"

section \<open>Create and CreateBatch\<close>

text \<open>Go's arithmetic on the balance, wrapping at 64 bits.\<close>

definition apply_amount :: "string \<Rightarrow> i64 \<Rightarrow> i64 \<Rightarrow> i64" where
  "apply_amount stmtType amount balance =
    (if stmtType = TypeCredit then balance + amount else balance - amount)"

definition lock_account :: "ext \<Rightarrow> string \<Rightarrow> string \<Rightarrow> db \<Rightarrow> i64 go_result" where
  "lock_account x site accountID d =
    (case attempt x site 0 (lock_balance x accountID d) of
       Inl e \<Rightarrow> Inl (if is_no_rows e then Sentinel ErrAccountNotFound
                      else Wrapped ''locking account'' e)
     | Inr b \<Rightarrow> Inr b)"

definition insertStatementTagsTx :: "ext \<Rightarrow> string \<Rightarrow> nat \<Rightarrow> string \<Rightarrow> tag_ref list \<Rightarrow> db \<Rightarrow> db go_result" where
  "insertStatementTagsTx x site n statementID refs d =
    (if refs = [] then Inr d
     else attempt x site n (insert_stmt_tags x (map (\<lambda>r. (statementID, tr_ID r)) refs) d))"

definition create_body :: "ext \<Rightarrow> stmt \<Rightarrow> string \<Rightarrow> db \<Rightarrow> (i64 \<times> db) go_result" where
  "create_body x s accountID d =
    bindE (lock_account x ''statements.Create/lock'' accountID d) (\<lambda>currentBalance.
    let newBalance = apply_amount (s_Type s) (s_Amount s) currentBalance in
    bindE (mapErr (Wrapped ''inserting statement'')
      (attempt x ''statements.Create/insert'' 0
        (insert_stmts x [(fromDomainStatement s)\<lparr>sd_BalanceAfter := newBalance\<rparr>] d))) (\<lambda>d.
    bindE (mapErr (Wrapped ''inserting statement tags'')
      (insertStatementTagsTx x ''statements.Create/tags'' 0 (s_ID s) (s_Tags s) d)) (\<lambda>d.
    bindE (mapErr (Wrapped ''updating account balance'')
      (attempt x ''statements.Create/update'' 0 (set_balance x newBalance accountID d))) (\<lambda>d.
    Inr (newBalance, d)))))"

definition StatementRepository_Create :: "ext \<Rightarrow> stmt \<Rightarrow> string \<Rightarrow> cluster \<Rightarrow> i64 go_result \<times> cluster" where
  "StatementRepository_Create x s accountID c =
    transact x ''statements.Create'' (create_body x s accountID) c"

fun running_rows :: "i64 \<Rightarrow> stmt list \<Rightarrow> stmt_row list \<times> i64" where
  "running_rows b [] = ([], b)"
| "running_rows b (s # ss) =
    (let b' = apply_amount (s_Type s) (s_Amount s) b;
         (rows, fin) = running_rows b' ss
     in ((fromDomainStatement s)\<lparr>sd_BalanceAfter := b'\<rparr> # rows, fin))"

fun batch_tags :: "ext \<Rightarrow> nat \<Rightarrow> stmt list \<Rightarrow> db \<Rightarrow> db go_result" where
  "batch_tags x n [] d = Inr d"
| "batch_tags x n (s # ss) d =
    bindE (mapErr (Wrapped ''inserting statement_tags'')
      (insertStatementTagsTx x ''statements.CreateBatch/tags'' n (s_ID s) (s_Tags s) d))
    (batch_tags x (Suc n) ss)"

text \<open>The multi-row INSERT has eleven parameters a row; the wire protocol counts
  parameters in 16 bits and \<^verbatim>\<open>lib/pq\<close> refuses more.\<close>

definition exec_params :: "nat \<Rightarrow> 'a go_result \<Rightarrow> 'a go_result" where
  "exec_params n r = (if 65535 < int n then Inl (LibError ''too many parameters'') else r)"

definition batch_body :: "ext \<Rightarrow> stmt list \<Rightarrow> string \<Rightarrow> db \<Rightarrow> (i64 \<times> db) go_result" where
  "batch_body x ss accountID d =
    bindE (lock_account x ''statements.CreateBatch/lock'' accountID d) (\<lambda>currentBalance.
    case running_rows currentBalance ss of (rows, runningBalance) \<Rightarrow>
    bindE (mapErr (Wrapped ''inserting statement batch'')
      (exec_params (11 * length ss)
        (attempt x ''statements.CreateBatch/insert'' 0 (insert_stmts x rows d)))) (\<lambda>d.
    bindE (batch_tags x 0 ss d) (\<lambda>d.
    bindE (mapErr (Wrapped ''updating account balance'')
      (attempt x ''statements.CreateBatch/update'' 0 (set_balance x runningBalance accountID d))) (\<lambda>d.
    Inr (runningBalance, d)))))"

definition StatementRepository_CreateBatch ::
    "ext \<Rightarrow> stmt list \<Rightarrow> string \<Rightarrow> cluster \<Rightarrow> i64 go_result \<times> cluster" where
  "StatementRepository_CreateBatch x ss accountID c =
    (if ss = [] then (Inr 0, c)
     else transact x ''statements.CreateBatch'' (batch_body x ss accountID) c)"

section \<open>Reads\<close>

definition StatementRepository_FindByID :: "ext \<Rightarrow> string \<Rightarrow> cluster \<Rightarrow> stmt go_result" where
  "StatementRepository_FindByID x sid c =
    (case attempt x ''statements.FindByID'' 0
        (bindE (pg_id x sid) (\<lambda>i. case List.find (\<lambda>r. sd_ID r = i) (statements (reader c)) of
            None \<Rightarrow> Inl ErrNoRows | Some r \<Rightarrow> Inr (hydrate x (reader c) r))) of
       Inl e \<Rightarrow> if is_no_rows e then Inl (Sentinel ErrStatementNotFound)
                else Inl (Wrapped ''finding statement by ID'' e)
     | Inr r \<Rightarrow> toStatement x r)"

record stmt_list =
  sl_Statements :: "stmt list"
  sl_Total :: i64
  sl_Page :: i64
  sl_Limit :: i64
  sl_NextCursor :: string

definition stmt_key :: "('a) stmt_row_scheme \<Rightarrow> page_key" where
  "stmt_key r = (unix_ns (sd_PostedAt r), sd_ID r)"

text \<open>The WHERE clause of the count and of the page query.\<close>

definition stmt_where :: "ext \<Rightarrow> stmt_filter \<Rightarrow> db \<Rightarrow> (stmt_row \<Rightarrow> bool) go_result" where
  "stmt_where x f d =
    bindE (pg_id x (f_AccountID f)) (\<lambda>a.
    bindE (optE (pg_str x None) (f_Type f)) (\<lambda>ty.
    bindE (optE (pg_id x) (f_CategoryID f)) (\<lambda>cat.
    bindE (mapE (pg_id x) (f_TagIDs f)) (\<lambda>tgs.
    Inr (\<lambda>r. sd_AccountID r = a
      \<and> (case ty of None \<Rightarrow> True | Some t \<Rightarrow> sd_Type r = t)
      \<and> (case f_DateFrom f of None \<Rightarrow> True
         | Some t \<Rightarrow> unix_ns (x_pg_time x t) \<le> unix_ns (sd_PostedAt r))
      \<and> (case f_DateTo f of None \<Rightarrow> True
         | Some t \<Rightarrow> unix_ns (sd_PostedAt r) \<le> unix_ns (x_pg_time x t))
      \<and> (case cat of None \<Rightarrow> True | Some c \<Rightarrow> sd_CategoryID r = Some c)
      \<and> (f_TagIDs f = [] \<or> list_ex (\<lambda>(s, t). s = sd_ID r \<and> t \<in> set tgs) (stmt_tags d)))))))"

definition stmt_page :: "ext \<Rightarrow> stmt_filter \<Rightarrow> (stmt_row \<Rightarrow> bool) \<Rightarrow> db \<Rightarrow> stmt_row list go_result" where
  "stmt_page x f p d =
    (case (f_CursorPostedAt f, f_CursorID f) of
       (Some t, Some i) \<Rightarrow> bindE (pg_id x i) (\<lambda>i.
          limit_offset (f_Limit f) 0 (order_desc stmt_key
            (filter (\<lambda>r. p r \<and> stmt_key r < (unix_ns (x_pg_time x t), i)) (statements d))))
     | _ \<Rightarrow> limit_offset (f_Limit f) (StmtFilter_Offset f)
              (order_desc stmt_key (filter p (statements d))))"

definition stmt_next_cursor :: "i64 \<Rightarrow> stmt list \<Rightarrow> string" where
  "stmt_next_cursor lim ss =
    (if of_nat (length ss) = lim \<and> ss \<noteq> []
     then encode_cursor (s_PostedAt (last ss)) (s_ID (last ss)) else [])"

definition StatementRepository_List :: "ext \<Rightarrow> stmt_filter \<Rightarrow> cluster \<Rightarrow> stmt_list go_result" where
  "StatementRepository_List x filter0 c =
    (let f = StmtFilter_Normalize filter0; d = reader c in
     bindE (mapErr (Wrapped ''beginning read transaction'')
              (attempt x ''statements.List/begin'' 0 (Inr ()))) (\<lambda>_.
     bindE (attempt x ''statements.List/count'' 0
              (bindE (stmt_where x f d) (\<lambda>p. Inr (p, count_where p (statements d))))) (\<lambda>(p, tot).
     bindE (attempt x ''statements.List/select'' 0
              (bindE (stmt_page x f p d) (\<lambda>rs. Inr (map (hydrate x d) rs)))) (\<lambda>rows.
     bindE (mapErr (Wrapped ''committing read transaction'')
              (attempt x ''statements.List/commit'' 0 (Inr ()))) (\<lambda>_.
     bindE (mapE (toStatement x) rows) (\<lambda>ss.
     Inr \<lparr> sl_Statements = ss, sl_Total = of_nat tot, sl_Page = f_Page f, sl_Limit = f_Limit f,
           sl_NextCursor = stmt_next_cursor (f_Limit f) ss \<rparr>))))))"

definition HasReversal :: "ext \<Rightarrow> string \<Rightarrow> cluster \<Rightarrow> bool go_result" where
  "HasReversal x sid c =
    mapErr (Wrapped ''checking reversal'') (attempt x ''statements.HasReversal'' 0
      (bindE (pg_id x sid) (\<lambda>i.
        Inr (list_ex (\<lambda>r. sd_ReferenceID r = Some i) (statements (primary c))))))"

text \<open>The map of found identifiers is the list of its keys.\<close>

definition FindExternalIDs :: "ext \<Rightarrow> string \<Rightarrow> string list \<Rightarrow> cluster \<Rightarrow> string list go_result" where
  "FindExternalIDs x accountID externalIDs c =
    (if externalIDs = [] then Inr []
     else mapErr (Wrapped ''finding external IDs'') (attempt x ''statements.FindExternalIDs'' 0
       (bindE (pg_id x accountID) (\<lambda>a. bindE (mapE (pg_str x None) externalIDs) (\<lambda>es.
         Inr (concat (map (\<lambda>r. case sd_ExternalID r of None \<Rightarrow> []
                               | Some e \<Rightarrow> if sd_AccountID r = a \<and> e \<in> set es then [e] else [])
                (statements (primary c)))))))))"

definition CountByCategory :: "ext \<Rightarrow> string \<Rightarrow> cluster \<Rightarrow> i64 go_result" where
  "CountByCategory x cid c =
    mapErr (Wrapped ''counting statements by category'') (attempt x ''statements.CountByCategory'' 0
      (bindE (pg_id x cid) (\<lambda>i.
        Inr (of_nat (count_where (\<lambda>s. sd_CategoryID s = Some i) (statements (reader c)))))))"

section \<open>Metadata writes\<close>

definition set_category :: "ext \<Rightarrow> string \<Rightarrow> string option \<Rightarrow> db \<Rightarrow> (nat \<times> db) go_result" where
  "set_category x sid cat d =
    bindE (optE (pg_id x) cat) (\<lambda>cat.
    bindE (pg_id x sid) (\<lambda>i.
      let hit = (\<lambda>r. sd_ID r = i)
      in if list_ex hit (statements d) \<and>
            (case cat of None \<Rightarrow> False | Some c \<Rightarrow> c \<notin> cd_ID ` set (categories d))
         then Inl (PqError ''23503'')
         else Inr (count_where hit (statements d),
                   d\<lparr>statements := update_where hit (\<lambda>r. r\<lparr>sd_CategoryID := cat\<rparr>) (statements d)\<rparr>)))"

definition UpdateCategory :: "ext \<Rightarrow> string \<Rightarrow> string option \<Rightarrow> cluster \<Rightarrow> unit go_result \<times> cluster" where
  "UpdateCategory x sid cat c =
    (case exec x ''statements.UpdateCategory'' (set_category x sid cat) c of
       (Inl e, c) \<Rightarrow> (Inl (if isForeignKeyViolation e then Sentinel ErrStatementNotFound
                            else Wrapped ''updating statement category'' e), c)
     | (Inr n, c) \<Rightarrow> (if n = 0 then Inl (Sentinel ErrStatementNotFound) else Inr (), c))"

definition replace_body :: "ext \<Rightarrow> string \<Rightarrow> string list \<Rightarrow> db \<Rightarrow> (unit \<times> db) go_result" where
  "replace_body x sid tagIDs d =
    bindE (mapErr (Wrapped ''checking statement existence'')
      (attempt x ''statements.ReplaceTags/exists'' 0
        (bindE (pg_id x sid) (\<lambda>i. Inr (list_ex (\<lambda>r. sd_ID r = i) (statements d)))))) (\<lambda>present.
    if \<not> present then Inl (Sentinel ErrStatementNotFound) else
    bindE (mapErr (Wrapped ''deleting statement_tags'')
      (attempt x ''statements.ReplaceTags/delete'' 0 (delete_stmt_tags x sid d))) (\<lambda>d.
    bindE (if tagIDs = [] then Inr d
           else mapErr (Wrapped ''inserting statement_tags'')
             (insertStatementTagsTx x ''statements.ReplaceTags/insert'' 0 sid
               (map (\<lambda>i. \<lparr> tr_ID = i, tr_Name = [] \<rparr>) tagIDs) d)) (\<lambda>d.
    Inr ((), d))))"

definition ReplaceTags :: "ext \<Rightarrow> string \<Rightarrow> string list \<Rightarrow> cluster \<Rightarrow> unit go_result \<times> cluster" where
  "ReplaceTags x sid tagIDs c = transact x ''statements.ReplaceTags'' (replace_body x sid tagIDs) c"

end
