(* ===== verification/Account_Repo.thy ===== *)
theory Account_Repo
  imports Pagination
begin

text \<open>
  \<^verbatim>\<open>internal/infrastructure/db/postgres/repository/account.go\<close>: the account
  model of the database and its conversions, and the operations of
  \<^verbatim>\<open>AccountRepository\<close>. Reads go to the reader, writes to the writer.
\<close>

definition toAccount :: "ext \<Rightarrow> accountDB \<Rightarrow> account go_result" where
  "toAccount x a =
    bindE (mapErr (Wrapped ''parsing account ID'') (ParseID (x_uuid_ok x) (ad_ID a))) (\<lambda>i.
    bindE (mapErr (Wrapped ''parsing user ID'') (ParseID (x_uuid_ok x) (ad_UserID a))) (\<lambda>u.
    Inr \<lparr> a_ID = i, a_UserID = u, a_Name = ad_Name a, a_Type = ad_Type a,
          a_Description = ad_Description a, a_Balance = ad_Balance a, a_Active = ad_Active a,
          a_CreatedAt = ad_CreatedAt a, a_UpdatedAt = ad_UpdatedAt a,
          a_CreditLimit = ad_CreditLimit a \<rparr>))"

definition fromDomainAccount :: "account \<Rightarrow> accountDB" where
  "fromDomainAccount a =
    \<lparr> ad_ID = a_ID a, ad_UserID = a_UserID a, ad_Name = a_Name a, ad_Type = a_Type a,
      ad_Description = a_Description a, ad_Balance = a_Balance a, ad_Active = a_Active a,
      ad_CreatedAt = a_CreatedAt a, ad_UpdatedAt = a_UpdatedAt a,
      ad_CreditLimit = a_CreditLimit a \<rparr>"

definition AccountRepository_Create :: "ext \<Rightarrow> account \<Rightarrow> cluster \<Rightarrow> unit go_result \<times> cluster" where
  "AccountRepository_Create x a c =
    (case exec x ''accounts.Create'' (insert_account x (fromDomainAccount a)) c of
       (r, c) \<Rightarrow> (bindE r (\<lambda>_. Inr ()), c))"

definition find_active :: "string \<Rightarrow> db \<Rightarrow> accountDB option" where
  "find_active i d = List.find (\<lambda>a. ad_ID a = i \<and> ad_Active a) (accounts d)"

definition AccountRepository_FindByID :: "ext \<Rightarrow> string \<Rightarrow> cluster \<Rightarrow> account go_result" where
  "AccountRepository_FindByID x aid c =
    (case attempt x ''accounts.FindByID'' 0
            (bindE (pg_id x aid) (\<lambda>i. case find_active i (reader c) of
                None \<Rightarrow> Inl ErrNoRows | Some a \<Rightarrow> Inr a)) of
       Inl e \<Rightarrow> if is_no_rows e then Inl (Sentinel ErrAccountNotFound) else Inl e
     | Inr a \<Rightarrow> toAccount x a)"

record account_list =
  al_Accounts :: "account list"
  al_Total :: i64
  al_Page :: i64
  al_Limit :: i64
  al_NextCursor :: string

definition account_key :: "accountDB \<Rightarrow> page_key" where
  "account_key a = (unix_ns (ad_CreatedAt a), ad_ID a)"

text \<open>The WHERE clause of the count and of the page query.\<close>

definition account_where :: "ext \<Rightarrow> account_filter \<Rightarrow> (accountDB \<Rightarrow> bool) go_result" where
  "account_where x f =
    bindE (pg_id x (g_UserID f)) (\<lambda>u.
    bindE (if g_Name f = [] then Inr (\<lambda>_. True)
           else bindE (pg_str x None (''%'' @ escapeILIKE (g_Name f) @ ''%'')) (\<lambda>pat.
             Inr (\<lambda>n. like (x_pg_lower x pat) (x_pg_lower x n)))) (\<lambda>name_ok.
    bindE (if g_Type f = [] then Inr (\<lambda>_. True)
           else bindE (pg_str x None (g_Type f)) (\<lambda>ty. Inr (\<lambda>t. t = ty))) (\<lambda>type_ok.
    Inr (\<lambda>a. ad_UserID a = u \<and> (g_ActiveOnly f \<longrightarrow> ad_Active a) \<and> name_ok (ad_Name a) \<and>
             type_ok (ad_Type a)))))"

definition account_page :: "ext \<Rightarrow> account_filter \<Rightarrow> (accountDB \<Rightarrow> bool) \<Rightarrow> db \<Rightarrow>
    accountDB list go_result" where
  "account_page x f p d =
    (case (g_CursorCreatedAt f, g_CursorID f) of
       (Some t, Some i) \<Rightarrow> bindE (pg_id x i) (\<lambda>i.
          limit_offset (g_Limit f) 0 (order_desc account_key
            (filter (\<lambda>a. p a \<and> account_key a < (unix_ns (x_pg_time x t), i)) (accounts d))))
     | _ \<Rightarrow> limit_offset (g_Limit f) (AccountFilter_Offset f)
              (order_desc account_key (filter p (accounts d))))"

definition account_next_cursor :: "i64 \<Rightarrow> account list \<Rightarrow> string" where
  "account_next_cursor lim accs =
    (if of_nat (length accs) = lim \<and> accs \<noteq> []
     then encode_cursor (a_CreatedAt (last accs)) (a_ID (last accs)) else [])"

definition AccountRepository_List :: "ext \<Rightarrow> account_filter \<Rightarrow> cluster \<Rightarrow> account_list go_result" where
  "AccountRepository_List x filter0 c =
    (let f = AccountFilter_Normalize filter0 in
     if g_UserID f = [] then Inl (LibError ''list accounts: user_id is required'')
     else
       bindE (mapErr (Wrapped ''beginning read transaction'')
                (attempt x ''accounts.List/begin'' 0 (Inr ()))) (\<lambda>_.
       bindE (attempt x ''accounts.List/count'' 0
                (bindE (account_where x f) (\<lambda>p. Inr (p, count_where p (accounts (reader c)))))) (\<lambda>(p, tot).
       bindE (attempt x ''accounts.List/select'' 0 (account_page x f p (reader c))) (\<lambda>rows.
       bindE (mapErr (Wrapped ''committing read transaction'')
                (attempt x ''accounts.List/commit'' 0 (Inr ()))) (\<lambda>_.
       bindE (mapE (toAccount x) rows) (\<lambda>accs.
       Inr \<lparr> al_Accounts = accs, al_Total = of_nat tot, al_Page = g_Page f, al_Limit = g_Limit f,
             al_NextCursor = account_next_cursor (g_Limit f) accs \<rparr>))))))"

definition update_account :: "ext \<Rightarrow> accountDB \<Rightarrow> db \<Rightarrow> (nat \<times> db) go_result" where
  "update_account x a d =
    bindE (pg_str x (Some 255) (ad_Name a)) (\<lambda>n.
    bindE (pg_str x None (ad_Description a)) (\<lambda>ds.
    bindE (pg_id x (ad_ID a)) (\<lambda>i.
      let hit = (\<lambda>r. ad_ID r = i);
          upd = (\<lambda>r. r\<lparr>ad_Name := n, ad_Description := ds, ad_Active := ad_Active a,
                       ad_UpdatedAt := x_pg_time x (ad_UpdatedAt a),
                       ad_CreditLimit := ad_CreditLimit a\<rparr>)
      in if list_ex (\<lambda>r. hit r \<and> \<not> account_check (upd r)) (accounts d)
         then Inl (PqError ''23514'')
         else Inr (count_where hit (accounts d), d\<lparr>accounts := update_where hit upd (accounts d)\<rparr>))))"

definition AccountRepository_Update :: "ext \<Rightarrow> account \<Rightarrow> cluster \<Rightarrow> unit go_result \<times> cluster" where
  "AccountRepository_Update x a c =
    (case exec x ''accounts.Update'' (update_account x (fromDomainAccount a)) c of
       (r, c) \<Rightarrow> (bindE r (\<lambda>n. if n = 0 then Inl (Sentinel ErrAccountNotFound) else Inr ()), c))"

definition deactivate_account :: "ext \<Rightarrow> gtime \<Rightarrow> string \<Rightarrow> db \<Rightarrow> (nat \<times> db) go_result" where
  "deactivate_account x now aid d =
    bindE (pg_id x aid) (\<lambda>i.
      let hit = (\<lambda>r. ad_ID r = i \<and> ad_Active r)
      in Inr (count_where hit (accounts d),
              d\<lparr>accounts := update_where hit
                 (\<lambda>r. r\<lparr>ad_Active := False, ad_UpdatedAt := x_pg_time x now\<rparr>) (accounts d)\<rparr>))"

definition AccountRepository_Delete :: "ext \<Rightarrow> gtime \<Rightarrow> string \<Rightarrow> cluster \<Rightarrow> unit go_result \<times> cluster" where
  "AccountRepository_Delete x now aid c =
    (case exec x ''accounts.Delete'' (deactivate_account x now aid) c of
       (r, c) \<Rightarrow> (bindE r (\<lambda>n. if n = 0 then Inl (Sentinel ErrAccountNotFound) else Inr ()), c))"

section \<open>Facts\<close>

lemma toAccount_Inr: "toAccount x r = Inr a \<longleftrightarrow> x_uuid_ok x (ad_ID r) \<and> x_uuid_ok x (ad_UserID r) \<and>
    a = \<lparr> a_ID = ad_ID r, a_UserID = ad_UserID r, a_Name = ad_Name r, a_Type = ad_Type r,
          a_Description = ad_Description r, a_Balance = ad_Balance r, a_Active = ad_Active r,
          a_CreatedAt = ad_CreatedAt r, a_UpdatedAt = ad_UpdatedAt r,
          a_CreditLimit = ad_CreditLimit r \<rparr>"
  by (auto simp: toAccount_def ParseID_def)

lemma from_toAccount: "toAccount x r = Inr a \<Longrightarrow> fromDomainAccount a = r"
  by (auto simp: toAccount_Inr fromDomainAccount_def)

lemma find_active_Some: "find_active i d = Some r \<Longrightarrow>
    r \<in> set (accounts d) \<and> ad_ID r = i \<and> ad_Active r"
  by (auto simp: find_active_def dest: find_Some_set)

lemma FindByID_Inr: "AccountRepository_FindByID x aid c = Inr a \<longleftrightarrow>
    x_fault x ''accounts.FindByID'' 0 = None \<and>
    (\<exists>i r. x_pg_uuid x aid = Some i \<and> find_active i (reader c) = Some r \<and> toAccount x r = Inr a)"
  by (auto simp: AccountRepository_FindByID_def attempt_def pg_id_def split: option.splits)

lemma FindByID_active:
  assumes "AccountRepository_FindByID x aid c = Inr a"
  shows "a_Active a" "x_pg_uuid x aid = Some (a_ID a)"
    "\<exists>r\<in>set (accounts (reader c)). ad_ID r = a_ID a \<and> ad_UserID r = a_UserID a"
  using assms by (auto simp: FindByID_Inr toAccount_Inr dest!: find_active_Some)

lemma FindByID_missing:
  assumes "x_fault x ''accounts.FindByID'' 0 = None" "x_pg_uuid x aid = Some i"
    "find_active i (reader c) = None"
  shows "AccountRepository_FindByID x aid c = Inl (Sentinel ErrAccountNotFound)"
  using assms by (simp add: AccountRepository_FindByID_def attempt_def pg_id_def)

lemma insert_account_Inr: "insert_account x a d = Inr (n, d') \<longleftrightarrow>
    (\<exists>r. account_conv x a = Inr r \<and> account_check r \<and> ad_ID r \<notin> ad_ID ` set (accounts d) \<and>
         user_exists d (Some (ad_UserID r)) \<and> n = 1 \<and> d' = d\<lparr>accounts := accounts d @ [r]\<rparr>)"
  by (auto simp: insert_account_def)

lemma update_account_Inr:
  assumes "update_account x a d = Inr (n, d')"
  obtains i nm ds where "x_pg_uuid x (ad_ID a) = Some i"
    "d' = d\<lparr>accounts := update_where (\<lambda>r. ad_ID r = i)
       (\<lambda>r. r\<lparr>ad_Name := nm, ad_Description := ds, ad_Active := ad_Active a,
              ad_UpdatedAt := x_pg_time x (ad_UpdatedAt a), ad_CreditLimit := ad_CreditLimit a\<rparr>)
       (accounts d)\<rparr>"
    "n = count_where (\<lambda>r. ad_ID r = i) (accounts d)"
    "\<forall>r\<in>set (accounts d). ad_ID r = i \<longrightarrow> credit_limit_ok (ad_Type r) (ad_CreditLimit a) \<and>
        account_check (r\<lparr>ad_CreditLimit := ad_CreditLimit a\<rparr>)"
  using assms
  by (auto simp: update_account_def Let_def list_ex_iff account_check_def split: if_splits)

end
