(* ===== verification/Catalog_Repo.thy ===== *)
theory Catalog_Repo
  imports Pagination
begin

text \<open>
  \<^verbatim>\<open>internal/infrastructure/db/postgres/repository/category.go\<close> and
  \<^verbatim>\<open>tag.go\<close>: the two catalogs of statement metadata. System rows have no owner;
  a user sees the system rows and the user's own. The locale states what the
  statement use cases rely on in a catalog; both repositories are shown to provide it.
\<close>

section \<open>Categories\<close>

definition toCategory :: "ext \<Rightarrow> categoryDB \<Rightarrow> category go_result" where
  "toCategory x c =
    bindE (mapErr (Wrapped ''parsing category ID'') (ParseID (x_uuid_ok x) (cd_ID c))) (\<lambda>i.
    bindE (optE (\<lambda>u. mapErr (Wrapped ''parsing category user_id'') (ParseID (x_uuid_ok x) u))
             (cd_UserID c)) (\<lambda>u.
    Inr \<lparr> c_ID = i, c_UserID = u, c_Name = cd_Name c, c_Type = cd_Type c,
          c_CreatedAt = cd_CreatedAt c, c_UpdatedAt = cd_UpdatedAt c \<rparr>))"

definition fromDomainCategory :: "category \<Rightarrow> categoryDB" where
  "fromDomainCategory c =
    \<lparr> cd_ID = c_ID c, cd_UserID = c_UserID c, cd_Name = c_Name c, cd_Type = c_Type c,
      cd_CreatedAt = c_CreatedAt c, cd_UpdatedAt = c_UpdatedAt c \<rparr>"

definition insert_category :: "ext \<Rightarrow> categoryDB \<Rightarrow> db \<Rightarrow> (nat \<times> db) go_result" where
  "insert_category x c d =
    bindE (category_conv x c) (\<lambda>c.
      if cd_Type c \<notin> {''credit'', ''debit''} then Inl (PqError ''23514'')
      else if list_ex (category_conflict x c) (categories d) then Inl (PqError ''23505'')
      else if \<not> user_exists d (cd_UserID c) then Inl (PqError ''23503'')
      else Inr (1, d\<lparr>categories := categories d @ [c]\<rparr>))"

definition CategoryRepository_Create :: "ext \<Rightarrow> category \<Rightarrow> cluster \<Rightarrow> unit go_result \<times> cluster" where
  "CategoryRepository_Create x cat c =
    (case exec x ''categories.Create'' (insert_category x (fromDomainCategory cat)) c of
       (Inl e, c) \<Rightarrow> (Inl (if isUniqueViolation e then Sentinel ErrCategoryDuplicate else e), c)
     | (Inr n, c) \<Rightarrow> (Inr (), c))"

definition select_one :: "ext \<Rightarrow> string \<Rightarrow> sentinel \<Rightarrow> 'r option go_result \<Rightarrow> 'r go_result" where
  "select_one x site missing q =
    (case attempt x site 0 (bindE q (\<lambda>r. case r of None \<Rightarrow> Inl ErrNoRows | Some r \<Rightarrow> Inr r)) of
       Inl e \<Rightarrow> if is_no_rows e then Inl (Sentinel missing) else Inl e
     | Inr r \<Rightarrow> Inr r)"

definition CategoryRepository_FindByID :: "ext \<Rightarrow> string \<Rightarrow> cluster \<Rightarrow> category go_result" where
  "CategoryRepository_FindByID x cid c =
    bindE (select_one x ''categories.FindByID'' ErrCategoryNotFound
      (bindE (pg_id x cid) (\<lambda>i. Inr (List.find (\<lambda>r. cd_ID r = i) (categories (reader c))))))
    (toCategory x)"

definition CategoryRepository_FindVisible :: "ext \<Rightarrow> string \<Rightarrow> string \<Rightarrow> cluster \<Rightarrow> category go_result" where
  "CategoryRepository_FindVisible x cid uid c =
    bindE (select_one x ''categories.FindVisible'' ErrCategoryNotVisible
      (bindE (pg_id x cid) (\<lambda>i. bindE (pg_id x uid) (\<lambda>u.
         Inr (List.find (\<lambda>r. cd_ID r = i \<and> (cd_UserID r = Some u \<or> cd_UserID r = None))
                (categories (reader c)))))))
    (toCategory x)"

record category_filter =
  cf_UserID :: string
  cf_Type :: "string option"
  cf_Scope :: string

text \<open>The WHERE clause with the precedence of SQL: AND binds tighter than OR, so in the
  default scope the type condition joins only the system rows.\<close>

definition category_where :: "ext \<Rightarrow> category_filter \<Rightarrow> (categoryDB \<Rightarrow> bool) go_result" where
  "category_where x f =
    bindE (case cf_Type f of None \<Rightarrow> Inr (\<lambda>r. True)
           | Some ty \<Rightarrow> bindE (pg_str x None ty) (\<lambda>ty. Inr (\<lambda>r. cd_Type r = ty))) (\<lambda>type_ok.
    if cf_Scope f = ''system'' then Inr (\<lambda>r. cd_UserID r = None \<and> type_ok r)
    else bindE (pg_id x (cf_UserID f)) (\<lambda>u.
      if cf_Scope f = ''user'' then Inr (\<lambda>r. cd_UserID r = Some u \<and> type_ok r)
      else Inr (\<lambda>r. cd_UserID r = Some u \<or> (cd_UserID r = None \<and> type_ok r))))"

definition owner_first :: "string option \<Rightarrow> nat \<times> string" where
  "owner_first u = (case u of None \<Rightarrow> (0, []) | Some i \<Rightarrow> (1, i))"

definition catalog_order :: "ext \<Rightarrow> ('r \<Rightarrow> string option) \<Rightarrow> ('r \<Rightarrow> string) \<Rightarrow> 'r list \<Rightarrow> 'r list" where
  "catalog_order x owner name rows =
    sort_key (\<lambda>r. (owner_first (owner r), x_pg_sort x (x_pg_lower x (name r)))) rows"

definition CategoryRepository_List :: "ext \<Rightarrow> category_filter \<Rightarrow> cluster \<Rightarrow> category list go_result" where
  "CategoryRepository_List x f c =
    bindE (attempt x ''categories.List'' 0
      (bindE (category_where x f) (\<lambda>p.
         Inr (catalog_order x cd_UserID cd_Name (filter p (categories (reader c))))))) (\<lambda>rows.
    mapE (toCategory x) rows)"

definition rename_category :: "ext \<Rightarrow> category \<Rightarrow> db \<Rightarrow> (nat \<times> db) go_result" where
  "rename_category x cat d =
    bindE (pg_str x (Some 60) (c_Name cat)) (\<lambda>n.
    bindE (pg_id x (c_ID cat)) (\<lambda>i.
      let upd = (\<lambda>r. r\<lparr>cd_Name := n, cd_UpdatedAt := x_pg_time x (c_UpdatedAt cat)\<rparr>)
      in if list_ex (\<lambda>r. cd_ID r = i \<and>
              list_ex (\<lambda>o'. cd_ID o' \<noteq> i \<and> category_conflict x (upd r) o') (categories d)) (categories d)
         then Inl (PqError ''23505'')
         else Inr (count_where (\<lambda>r. cd_ID r = i) (categories d),
                   d\<lparr>categories := update_where (\<lambda>r. cd_ID r = i) upd (categories d)\<rparr>)))"

definition CategoryRepository_Update :: "ext \<Rightarrow> category \<Rightarrow> cluster \<Rightarrow> unit go_result \<times> cluster" where
  "CategoryRepository_Update x cat c =
    (case exec x ''categories.Update'' (rename_category x cat) c of
       (Inl e, c) \<Rightarrow> (Inl (if isUniqueViolation e then Sentinel ErrCategoryDuplicate else e), c)
     | (Inr n, c) \<Rightarrow> (if n = 0 then Inl (Sentinel ErrCategoryNotFound) else Inr (), c))"

definition delete_category :: "ext \<Rightarrow> string \<Rightarrow> db \<Rightarrow> (nat \<times> db) go_result" where
  "delete_category x cid d =
    bindE (pg_id x cid) (\<lambda>i.
      if list_ex (\<lambda>r. cd_ID r = i) (categories d) \<and>
         list_ex (\<lambda>s. sd_CategoryID s = Some i) (statements d)
      then Inl (PqError ''23503'')
      else Inr (count_where (\<lambda>r. cd_ID r = i) (categories d),
                d\<lparr>categories := filter (\<lambda>r. cd_ID r \<noteq> i) (categories d)\<rparr>))"

definition CategoryRepository_Delete :: "ext \<Rightarrow> string \<Rightarrow> cluster \<Rightarrow> unit go_result \<times> cluster" where
  "CategoryRepository_Delete x cid c =
    (case exec x ''categories.Delete'' (delete_category x cid) c of
       (Inl e, c) \<Rightarrow> (Inl (if isForeignKeyViolation e then Sentinel ErrCategoryInUse else e), c)
     | (Inr n, c) \<Rightarrow> (if n = 0 then Inl (Sentinel ErrCategoryNotFound) else Inr (), c))"

definition CountStatementsUsing :: "ext \<Rightarrow> string \<Rightarrow> cluster \<Rightarrow> i64 go_result" where
  "CountStatementsUsing x cid c =
    attempt x ''categories.CountStatementsUsing'' 0
      (bindE (pg_id x cid) (\<lambda>i.
         Inr (of_nat (count_where (\<lambda>s. sd_CategoryID s = Some i) (statements (reader c))))))"

section \<open>Tags\<close>

definition toTag :: "ext \<Rightarrow> tagDB \<Rightarrow> tag go_result" where
  "toTag x t =
    bindE (mapErr (Wrapped ''parsing tag ID'') (ParseID (x_uuid_ok x) (td_ID t))) (\<lambda>i.
    bindE (optE (\<lambda>u. mapErr (Wrapped ''parsing tag user_id'') (ParseID (x_uuid_ok x) u))
             (td_UserID t)) (\<lambda>u.
    Inr \<lparr> t_ID = i, t_UserID = u, t_Name = td_Name t,
          t_CreatedAt = td_CreatedAt t, t_UpdatedAt = td_UpdatedAt t \<rparr>))"

definition fromDomainTag :: "tag \<Rightarrow> tagDB" where
  "fromDomainTag t =
    \<lparr> td_ID = t_ID t, td_UserID = t_UserID t, td_Name = t_Name t,
      td_CreatedAt = t_CreatedAt t, td_UpdatedAt = t_UpdatedAt t \<rparr>"

definition insert_tag :: "ext \<Rightarrow> tagDB \<Rightarrow> db \<Rightarrow> (nat \<times> db) go_result" where
  "insert_tag x t d =
    bindE (tag_conv x t) (\<lambda>t.
      if list_ex (tag_conflict x t) (tags d) then Inl (PqError ''23505'')
      else if \<not> user_exists d (td_UserID t) then Inl (PqError ''23503'')
      else Inr (1, d\<lparr>tags := tags d @ [t]\<rparr>))"

definition TagRepository_Create :: "ext \<Rightarrow> tag \<Rightarrow> cluster \<Rightarrow> unit go_result \<times> cluster" where
  "TagRepository_Create x t c =
    (case exec x ''tags.Create'' (insert_tag x (fromDomainTag t)) c of
       (Inl e, c) \<Rightarrow> (Inl (if isUniqueViolation e then Sentinel ErrTagDuplicate else e), c)
     | (Inr n, c) \<Rightarrow> (Inr (), c))"

definition TagRepository_FindByID :: "ext \<Rightarrow> string \<Rightarrow> cluster \<Rightarrow> tag go_result" where
  "TagRepository_FindByID x tid c =
    bindE (select_one x ''tags.FindByID'' ErrTagNotFound
      (bindE (pg_id x tid) (\<lambda>i. Inr (List.find (\<lambda>r. td_ID r = i) (tags (reader c))))))
    (toTag x)"

definition tag_visible :: "string \<Rightarrow> tagDB \<Rightarrow> bool" where
  "tag_visible u r = (td_UserID r = Some u \<or> td_UserID r = None)"

definition TagRepository_FindVisible :: "ext \<Rightarrow> string \<Rightarrow> string \<Rightarrow> cluster \<Rightarrow> tag go_result" where
  "TagRepository_FindVisible x tid uid c =
    bindE (select_one x ''tags.FindVisible'' ErrTagNotVisible
      (bindE (pg_id x tid) (\<lambda>i. bindE (pg_id x uid) (\<lambda>u.
         Inr (List.find (\<lambda>r. td_ID r = i \<and> tag_visible u r) (tags (reader c)))))))
    (toTag x)"

definition TagRepository_FindManyVisible ::
    "ext \<Rightarrow> string list \<Rightarrow> string \<Rightarrow> cluster \<Rightarrow> tag list go_result" where
  "TagRepository_FindManyVisible x ids uid c =
    (if ids = [] then Inr []
     else bindE (attempt x ''tags.FindManyVisible'' 0
        (bindE (mapE (pg_id x) ids) (\<lambda>is. bindE (pg_id x uid) (\<lambda>u.
           Inr (filter (\<lambda>r. td_ID r \<in> set is \<and> tag_visible u r) (tags (reader c))))))) (\<lambda>rows.
        mapE (toTag x) rows))"

record tag_filter =
  tf_UserID :: string
  tf_Scope :: string

definition tag_where :: "ext \<Rightarrow> tag_filter \<Rightarrow> (tagDB \<Rightarrow> bool) go_result" where
  "tag_where x f =
    (if tf_Scope f = ''system'' then Inr (\<lambda>r. td_UserID r = None)
     else bindE (pg_id x (tf_UserID f)) (\<lambda>u.
       if tf_Scope f = ''user'' then Inr (\<lambda>r. td_UserID r = Some u)
       else Inr (tag_visible u)))"

definition TagRepository_List :: "ext \<Rightarrow> tag_filter \<Rightarrow> cluster \<Rightarrow> tag list go_result" where
  "TagRepository_List x f c =
    bindE (attempt x ''tags.List'' 0
      (bindE (tag_where x f) (\<lambda>p.
         Inr (catalog_order x td_UserID td_Name (filter p (tags (reader c))))))) (\<lambda>rows.
    mapE (toTag x) rows)"

definition rename_tag :: "ext \<Rightarrow> tag \<Rightarrow> db \<Rightarrow> (nat \<times> db) go_result" where
  "rename_tag x t d =
    bindE (pg_str x (Some 40) (t_Name t)) (\<lambda>n.
    bindE (pg_id x (t_ID t)) (\<lambda>i.
      let upd = (\<lambda>r. r\<lparr>td_Name := n, td_UpdatedAt := x_pg_time x (t_UpdatedAt t)\<rparr>)
      in if list_ex (\<lambda>r. td_ID r = i \<and>
              list_ex (\<lambda>o'. td_ID o' \<noteq> i \<and> tag_conflict x (upd r) o') (tags d)) (tags d)
         then Inl (PqError ''23505'')
         else Inr (count_where (\<lambda>r. td_ID r = i) (tags d),
                   d\<lparr>tags := update_where (\<lambda>r. td_ID r = i) upd (tags d)\<rparr>)))"

definition TagRepository_Update :: "ext \<Rightarrow> tag \<Rightarrow> cluster \<Rightarrow> unit go_result \<times> cluster" where
  "TagRepository_Update x t c =
    (case exec x ''tags.Update'' (rename_tag x t) c of
       (Inl e, c) \<Rightarrow> (Inl (if isUniqueViolation e then Sentinel ErrTagDuplicate else e), c)
     | (Inr n, c) \<Rightarrow> (if n = 0 then Inl (Sentinel ErrTagNotFound) else Inr (), c))"

text \<open>Deleting a tag cascades to the assignments.\<close>

definition delete_tag :: "ext \<Rightarrow> string \<Rightarrow> db \<Rightarrow> (nat \<times> db) go_result" where
  "delete_tag x tid d =
    bindE (pg_id x tid) (\<lambda>i.
      Inr (count_where (\<lambda>r. td_ID r = i) (tags d),
           d\<lparr>tags := filter (\<lambda>r. td_ID r \<noteq> i) (tags d),
             stmt_tags := filter (\<lambda>(s, t). t \<noteq> i) (stmt_tags d)\<rparr>))"

definition TagRepository_Delete :: "ext \<Rightarrow> string \<Rightarrow> cluster \<Rightarrow> unit go_result \<times> cluster" where
  "TagRepository_Delete x tid c =
    (case exec x ''tags.Delete'' (delete_tag x tid) c of
       (Inl e, c) \<Rightarrow> (Inl e, c)
     | (Inr n, c) \<Rightarrow> (if n = 0 then Inl (Sentinel ErrTagNotFound) else Inr (), c))"

section \<open>Visible rows\<close>

text \<open>What the statement use cases rely on: a lookup returns a row with the identifier that
  is a system row or the user's own, and reports any other as not visible.\<close>

lemma select_one_Inr [simp]: "select_one x site miss q = Inr r \<longleftrightarrow>
    x_fault x site 0 = None \<and> q = Inr (Some r)"
  by (auto simp: select_one_def attempt_def bindE_Inl split: option.splits sum.splits)

locale visible_catalog =
  fixes rows :: "db \<Rightarrow> 'r list"
    and key :: "'r \<Rightarrow> string"
    and owner :: "'r \<Rightarrow> string option"
    and conv :: "ext \<Rightarrow> 'r \<Rightarrow> 'v go_result"
    and find_visible :: "ext \<Rightarrow> string \<Rightarrow> string \<Rightarrow> cluster \<Rightarrow> 'v go_result"
    and site :: string
    and not_visible :: sentinel
  assumes visible_rule: "find_visible x i u c = bindE (select_one x site not_visible
      (bindE (pg_id x i) (\<lambda>i. bindE (pg_id x u) (\<lambda>u.
         Inr (List.find (\<lambda>r. key r = i \<and> (owner r = Some u \<or> owner r = None)) (rows (reader c)))))))
      (conv x)"
begin

lemma visible_found:
  assumes "find_visible x i u c = Inr v"
  obtains k w r where "x_pg_uuid x i = Some k" "x_pg_uuid x u = Some w" "r \<in> set (rows (reader c))"
    "key r = k" "owner r = Some w \<or> owner r = None" "conv x r = Inr v"
proof -
  obtain k w r where h: "x_pg_uuid x i = Some k" "x_pg_uuid x u = Some w" "conv x r = Inr v"
    "List.find (\<lambda>r. key r = k \<and> (owner r = Some w \<or> owner r = None)) (rows (reader c)) = Some r"
    using assms by (auto simp: visible_rule)
  show thesis using find_Some_set[OF h(4)] by (intro that[OF h(1,2) _ _ _ h(3)]) auto
qed

lemma invisible:
  assumes "x_fault x site 0 = None" "x_pg_uuid x i = Some k" "x_pg_uuid x u = Some w"
    "\<forall>r\<in>set (rows (reader c)). key r = k \<longrightarrow> owner r \<noteq> None \<and> owner r \<noteq> Some w"
  shows "find_visible x i u c = Inl (Sentinel not_visible)"
proof -
  have "List.find (\<lambda>r. key r = k \<and> (owner r = Some w \<or> owner r = None)) (rows (reader c)) = None"
    using assms(4) by (auto simp: find_None_set)
  then show ?thesis
    using assms(1-3) by (simp add: visible_rule select_one_def attempt_def pg_id_def)
qed

end

interpretation visible_cats: visible_catalog categories cd_ID cd_UserID toCategory
    CategoryRepository_FindVisible "''categories.FindVisible''" ErrCategoryNotVisible
  by unfold_locales (simp add: CategoryRepository_FindVisible_def)

interpretation visible_labels: visible_catalog tags td_ID td_UserID toTag
    TagRepository_FindVisible "''tags.FindVisible''" ErrTagNotVisible
  by unfold_locales (simp add: TagRepository_FindVisible_def tag_visible_def)

end
