(* ===== verification/Ledger.thy ===== *)
theory Ledger
  imports Statement_Repo Account_Repo Catalog_Repo
begin

text \<open>
  The invariant of the stored data. Every account's balance is the sum of its
  statements, and each statement's \<^verbatim>\<open>balance_after\<close> is the one before it plus
  its own amount, all at 64 bits; keys are unique (so a statement has at most one
  reversal and an external identifier occurs once per account), references resolve
  and the column checks hold. One lemma per write operation shows it is kept.
\<close>

section \<open>The invariant\<close>

definition delta :: "stmt_row \<Rightarrow> i64" where
  "delta r = (if sd_Type r = ''credit'' then sd_Amount r else - sd_Amount r)"

definition acct_stmts :: "string \<Rightarrow> stmt_row list \<Rightarrow> stmt_row list" where
  "acct_stmts i ss = filter (\<lambda>r. sd_AccountID r = i) ss"

fun chain :: "i64 \<Rightarrow> stmt_row list \<Rightarrow> bool" where
  "chain b [] = True"
| "chain b (r # rs) = (sd_BalanceAfter r = b + delta r \<and> chain (b + delta r) rs)"

definition ledger_sum :: "stmt_row list \<Rightarrow> i64" where
  "ledger_sum rs = sum_list (map delta rs)"

definition balances_ok :: "db \<Rightarrow> bool" where
  "balances_ok d \<longleftrightarrow> (\<forall>a\<in>set (accounts d). chain 0 (acct_stmts (ad_ID a) (statements d)) \<and>
      ad_Balance a = ledger_sum (acct_stmts (ad_ID a) (statements d)))"

definition keys_ok :: "db \<Rightarrow> bool" where
  "keys_ok d \<longleftrightarrow> distinct (map ad_ID (accounts d)) \<and>
     sorted_wrt (\<lambda>s t. \<not> stmt_conflict t s) (statements d) \<and>
     distinct (map cd_ID (categories d)) \<and> distinct (map td_ID (tags d)) \<and> distinct (stmt_tags d)"

definition refs_ok :: "db \<Rightarrow> bool" where
  "refs_ok d \<longleftrightarrow> (\<forall>s\<in>set (statements d). stmt_fk d (statements d) s) \<and>
     (\<forall>(s, t)\<in>set (stmt_tags d). s \<in> sd_ID ` set (statements d) \<and> t \<in> td_ID ` set (tags d))"

definition checks_ok :: "db \<Rightarrow> bool" where
  "checks_ok d \<longleftrightarrow> (\<forall>a\<in>set (accounts d). account_check a) \<and> (\<forall>s\<in>set (statements d). stmt_check s)"

definition db_ok :: "db \<Rightarrow> bool" where
  "db_ok d \<longleftrightarrow> balances_ok d \<and> keys_ok d \<and> refs_ok d \<and> checks_ok d"

lemma chain_append: "chain b (xs @ ys) \<longleftrightarrow> chain b xs \<and> chain (b + ledger_sum xs) ys"
  by (induction xs arbitrary: b) (auto simp: ledger_sum_def add.assoc)

lemma ledger_sum_append [simp]: "ledger_sum (xs @ ys) = ledger_sum xs + ledger_sum ys"
  by (simp add: ledger_sum_def)

lemma ledger_sum_simps [simp]: "ledger_sum [] = 0" "ledger_sum (r # rs) = delta r + ledger_sum rs"
  by (simp_all add: ledger_sum_def)

lemma acct_stmts_append [simp]: "acct_stmts i (xs @ ys) = acct_stmts i xs @ acct_stmts i ys"
  by (simp add: acct_stmts_def)

lemma acct_stmts_same: "(\<And>r. r \<in> set rs \<Longrightarrow> sd_AccountID r = i) \<Longrightarrow> acct_stmts i rs = rs"
  by (simp add: acct_stmts_def filter_id_conv)

lemma acct_stmts_other: "(\<And>r. r \<in> set rs \<Longrightarrow> sd_AccountID r \<noteq> i) \<Longrightarrow> acct_stmts i rs = []"
  by (simp add: acct_stmts_def filter_empty_conv)

lemma ext_okD:
  assumes "ext_ok x"
  shows "x_pg_uuid x s = Some c \<Longrightarrow> x_pg_uuid x c = Some c"
    "x_pg_uuid x s = Some c \<Longrightarrow> x_uuid_ok x c"
    "x_pg_time x (x_pg_time x t) = x_pg_time x t"
    "unix_ns t = unix_ns u \<Longrightarrow> x_pg_time x t = x_pg_time x u"
    "tz_off (x_pg_time x t) mod 60 = 0" "\<bar>tz_off (x_pg_time x t)\<bar> < 86400"
  using assms unfolding ext_ok_def by blast+

lemma ext_ok_text:
  assumes "ext_ok x" "list_all (\<lambda>c. 32 \<le> byte c \<and> byte c < 127) s"
    "\<And>k. n = Some k \<Longrightarrow> length s \<le> k"
  shows "pg_str x n s = Inr s"
  using assms by (simp add: ext_ok_def pg_str_def)

lemma pg_type_id:
  assumes "ext_ok x" "t = TypeCredit \<or> t = TypeDebit"
  shows "pg_str x (Some 10) t = Inr t"
  using assms by (intro ext_ok_text) auto

section \<open>Posting statements\<close>

definition valid_type :: "stmt \<Rightarrow> bool" where
  "valid_type s \<longleftrightarrow> s_Type s = TypeCredit \<or> s_Type s = TypeDebit"

lemma apply_amount_delta:
  assumes "ext_ok x" "valid_type s"
    "stmt_conv x ((fromDomainStatement s)\<lparr>sd_BalanceAfter := b'\<rparr>) = Inr r"
  shows "apply_amount (s_Type s) (s_Amount s) b = b + delta r" "sd_BalanceAfter r = b'"
proof -
  note f = stmt_conv_fields[OF assms(3)]
  have "sd_Type r = s_Type s"
    using f(7) pg_type_id[OF assms(1)] assms(2) by (auto simp: valid_type_def fromDomainStatement_def)
  then show "apply_amount (s_Type s) (s_Amount s) b = b + delta r"
    using f(3) assms(2) by (auto simp: apply_amount_def delta_def fromDomainStatement_def valid_type_def)
  show "sd_BalanceAfter r = b'" using f(4) by simp
qed

lemma running_rows_chain:
  assumes "ext_ok x" "\<forall>s\<in>set ss. valid_type s" "running_rows b ss = (rows, fin)"
    "list_all2 (\<lambda>s r. stmt_conv x s = Inr r) rows rs"
  shows "chain b rs" "fin = b + ledger_sum rs"
  using assms(2-4)
proof (induction ss arbitrary: b rows rs)
  case (Cons s ss)
  {
    case 1
    obtain b' rows' where b': "b' = apply_amount (s_Type s) (s_Amount s) b"
      "running_rows b' ss = (rows', fin)"
      "rows = (fromDomainStatement s)\<lparr>sd_BalanceAfter := b'\<rparr> # rows'"
      using 1 by (auto simp: Let_def split: prod.splits)
    obtain r rs' where r: "rs = r # rs'" "stmt_conv x ((fromDomainStatement s)\<lparr>sd_BalanceAfter := b'\<rparr>) = Inr r"
      "list_all2 (\<lambda>s r. stmt_conv x s = Inr r) rows' rs'"
      using 1(3) b'(3) by (auto simp: list_all2_Cons1)
    have v: "valid_type s" "\<forall>s\<in>set ss. valid_type s" using 1(1) by auto
    note d = apply_amount_delta[OF assms(1) v(1) r(2)]
    have "b' = b + delta r" using d(1)[of b] b'(1) by simp
    then show ?case using Cons.IH(1)[OF v(2) b'(2) r(3)] d(2) r(1) by simp
  next
    case 2
    obtain b' rows' where b': "b' = apply_amount (s_Type s) (s_Amount s) b"
      "running_rows b' ss = (rows', fin)"
      "rows = (fromDomainStatement s)\<lparr>sd_BalanceAfter := b'\<rparr> # rows'"
      using 2 by (auto simp: Let_def split: prod.splits)
    obtain r rs' where r: "rs = r # rs'" "stmt_conv x ((fromDomainStatement s)\<lparr>sd_BalanceAfter := b'\<rparr>) = Inr r"
      "list_all2 (\<lambda>s r. stmt_conv x s = Inr r) rows' rs'"
      using 2(3) b'(3) by (auto simp: list_all2_Cons1)
    have v: "valid_type s" "\<forall>s\<in>set ss. valid_type s" using 2(1) by auto
    note d = apply_amount_delta[OF assms(1) v(1) r(2)]
    have "b' = b + delta r" using d(1)[of b] b'(1) by simp
    then show ?case using Cons.IH(2)[OF v(2) b'(2) r(3)] r(1) by simp
  }
qed auto

text \<open>What a successful posting transaction does to the database: appends rows to one
  account and moves its balance by their sum.\<close>

definition posted :: "ext \<Rightarrow> string \<Rightarrow> stmt_row list \<Rightarrow> db \<Rightarrow> db \<Rightarrow> bool" where
  "posted x i rs d d' \<longleftrightarrow>
    (\<exists>a ps. List.find (\<lambda>a. ad_ID a = i) (accounts d) = Some a \<and>
       chain (ad_Balance a) rs \<and> (\<forall>r\<in>set rs. sd_AccountID r = i \<and> stmt_check r) \<and>
       foldE insert_stmt_row rs (statements d) = Inr (statements d @ rs) \<and>
       (\<forall>r\<in>set rs. stmt_fk d (statements d @ rs) r) \<and>
       distinct (stmt_tags d @ ps) = distinct (stmt_tags d) \<and>
       (\<forall>(s, t)\<in>set ps. s \<in> sd_ID ` set (statements d @ rs) \<and> t \<in> td_ID ` set (tags d)) \<and>
       d' = d\<lparr>statements := statements d @ rs, stmt_tags := stmt_tags d @ ps,
              accounts := update_where (\<lambda>a. ad_ID a = i)
                (\<lambda>b. b\<lparr>ad_Balance := ad_Balance a + ledger_sum rs,
                       ad_UpdatedAt := x_pg_time x (x_sql_now x)\<rparr>) (accounts d)\<rparr>)"

lemma insert_tag_pair_Inr [simp]:
  "insert_tag_pair p all = Inr all' \<longleftrightarrow> p \<notin> set all \<and> all' = all @ [p]"
  by (auto simp: insert_tag_pair_def)

lemma insert_tag_pairs_Inr:
  assumes "foldE insert_tag_pair ps all = Inr all'"
  shows "all' = all @ ps \<and> distinct (all @ ps) = distinct all"
  using assms
proof (induction ps arbitrary: all)
  case (Cons p ps)
  then have p: "p \<notin> set all" "foldE insert_tag_pair ps (all @ [p]) = Inr all'"
    by auto
  from Cons.IH[OF p(2)] have "all' = all @ p # ps" "distinct (all @ p # ps) = distinct (all @ [p])"
    by simp_all
  then show ?case using p(1) by simp
qed simp

lemma insert_stmt_tags_Inr:
  assumes "insert_stmt_tags x pairs d = Inr d'"
  obtains ps where "d' = d\<lparr>stmt_tags := stmt_tags d @ ps\<rparr>"
    "distinct (stmt_tags d @ ps) = distinct (stmt_tags d)"
    "\<forall>(s, t)\<in>set ps. s \<in> sd_ID ` set (statements d) \<and> t \<in> td_ID ` set (tags d)"
    "list_all2 (\<lambda>(s, t) (s', t'). x_pg_uuid x s = Some s' \<and> x_pg_uuid x t = Some t') pairs ps"
proof -
  obtain ps all where p: "mapE (\<lambda>(s, t). bindE (pg_id x s) (\<lambda>s. bindE (pg_id x t) (\<lambda>t. Inr (s, t)))) pairs = Inr ps"
    "foldE insert_tag_pair ps (stmt_tags d) = Inr all"
    "list_all (\<lambda>(s, t). s \<in> sd_ID ` set (statements d) \<and> t \<in> td_ID ` set (tags d)) ps"
    "d' = d\<lparr>stmt_tags := all\<rparr>"
    using assms by (auto simp: insert_stmt_tags_def split: if_splits)
  have "list_all2 (\<lambda>(s, t) (s', t'). x_pg_uuid x s = Some s' \<and> x_pg_uuid x t = Some t') pairs ps"
    using p(1) unfolding mapE_Inr by (rule list_all2_mono) auto
  with p insert_tag_pairs_Inr[OF p(2)] show thesis
    by (intro that[of ps]) (auto simp: list_all_iff)
qed

lemma insertStatementTagsTx_Inr:
  assumes "insertStatementTagsTx x site n sid refs d = Inr d'"
  obtains ps where "d' = d\<lparr>stmt_tags := stmt_tags d @ ps\<rparr>"
    "distinct (stmt_tags d @ ps) = distinct (stmt_tags d)"
    "\<forall>(s, t)\<in>set ps. s \<in> sd_ID ` set (statements d) \<and> t \<in> td_ID ` set (tags d)"
    "refs = [] \<longrightarrow> ps = []"
    "list_all2 (\<lambda>r (s', t'). x_pg_uuid x sid = Some s' \<and> x_pg_uuid x (tr_ID r) = Some t') refs ps"
proof (cases "refs = []")
  case True
  with assms have "d' = d" by (simp add: insertStatementTagsTx_def)
  with True show thesis by (intro that[of "[]"]) auto
next
  case False
  with assms have "insert_stmt_tags x (map (\<lambda>r. (sid, tr_ID r)) refs) d = Inr d'"
    by (simp add: insertStatementTagsTx_def)
  from insert_stmt_tags_Inr[OF this] obtain ps where "d' = d\<lparr>stmt_tags := stmt_tags d @ ps\<rparr>"
    "distinct (stmt_tags d @ ps) = distinct (stmt_tags d)"
    "\<forall>(s, t)\<in>set ps. s \<in> sd_ID ` set (statements d) \<and> t \<in> td_ID ` set (tags d)"
    "list_all2 (\<lambda>(s, t) (s', t'). x_pg_uuid x s = Some s' \<and> x_pg_uuid x t = Some t')
       (map (\<lambda>r. (sid, tr_ID r)) refs) ps"
    by blast
  with False show thesis by (intro that[of ps]) (auto simp: list_all2_map1)
qed

lemma lock_account_Inr: "lock_account x site aid d = Inr b \<longleftrightarrow> x_fault x site 0 = None \<and>
    (\<exists>i a. x_pg_uuid x aid = Some i \<and> List.find (\<lambda>a. ad_ID a = i) (accounts d) = Some a \<and>
           b = ad_Balance a)"
  by (auto simp: lock_account_def lock_balance_def attempt_def pg_id_def split: option.splits)

lemma set_balance_Inr: "set_balance x bal aid d = Inr d' \<longleftrightarrow>
    (\<exists>i. x_pg_uuid x aid = Some i \<and>
      d' = d\<lparr>accounts := update_where (\<lambda>a. ad_ID a = i)
        (\<lambda>a. a\<lparr>ad_Balance := bal, ad_UpdatedAt := x_pg_time x (x_sql_now x)\<rparr>) (accounts d)\<rparr>)"
  by (auto simp: set_balance_def)

lemma create_body_Inr:
  assumes "create_body x s aid d = Inr (b, d')"
  obtains i a r ps where "x_pg_uuid x aid = Some i"
    "List.find (\<lambda>a. ad_ID a = i) (accounts d) = Some a"
    "b = apply_amount (s_Type s) (s_Amount s) (ad_Balance a)"
    "stmt_conv x ((fromDomainStatement s)\<lparr>sd_BalanceAfter := b\<rparr>) = Inr r"
    "foldE insert_stmt_row [r] (statements d) = Inr (statements d @ [r])"
    "stmt_check r" "stmt_fk d (statements d @ [r]) r"
    "distinct (stmt_tags d @ ps) = distinct (stmt_tags d)"
    "\<forall>(s, t)\<in>set ps. s \<in> sd_ID ` set (statements d @ [r]) \<and> t \<in> td_ID ` set (tags d)"
    "list_all2 (\<lambda>g (s', t'). x_pg_uuid x (s_ID s) = Some s' \<and> x_pg_uuid x (tr_ID g) = Some t')
       (s_Tags s) ps"
    "d' = d\<lparr>statements := statements d @ [r], stmt_tags := stmt_tags d @ ps,
            accounts := update_where (\<lambda>a. ad_ID a = i)
                (\<lambda>a. a\<lparr>ad_Balance := b, ad_UpdatedAt := x_pg_time x (x_sql_now x)\<rparr>) (accounts d)\<rparr>"
proof -
  obtain cur d1 d2 where
    l: "lock_account x ''statements.Create/lock'' aid d = Inr cur"
    and b: "b = apply_amount (s_Type s) (s_Amount s) cur"
    and i1: "insert_stmts x [(fromDomainStatement s)\<lparr>sd_BalanceAfter := b\<rparr>] d = Inr d1"
    and i2: "insertStatementTagsTx x ''statements.Create/tags'' 0 (s_ID s) (s_Tags s) d1 = Inr d2"
    and i3: "set_balance x b aid d2 = Inr d'"
    using assms by (auto simp: create_body_def Let_def)
  obtain i a where a: "x_pg_uuid x aid = Some i"
    "List.find (\<lambda>a. ad_ID a = i) (accounts d) = Some a" "cur = ad_Balance a"
    using l by (auto simp: lock_account_Inr)
  obtain rs where rs: "list_all2 (\<lambda>s r. stmt_conv x s = Inr r) [(fromDomainStatement s)\<lparr>sd_BalanceAfter := b\<rparr>] rs"
    "foldE insert_stmt_row rs (statements d) = Inr (statements d @ rs)"
    "list_all stmt_check rs" "list_all (stmt_fk d (statements d @ rs)) rs"
    "d1 = d\<lparr>statements := statements d @ rs\<rparr>"
    using insert_stmts_Inr[OF i1] by blast
  obtain r where r: "rs = [r]" "stmt_conv x ((fromDomainStatement s)\<lparr>sd_BalanceAfter := b\<rparr>) = Inr r"
    using rs(1) by (auto simp: list_all2_Cons1)
  obtain ps where ps: "d2 = d1\<lparr>stmt_tags := stmt_tags d1 @ ps\<rparr>"
    "distinct (stmt_tags d1 @ ps) = distinct (stmt_tags d1)"
    "\<forall>(s, t)\<in>set ps. s \<in> sd_ID ` set (statements d1) \<and> t \<in> td_ID ` set (tags d1)"
    "list_all2 (\<lambda>g (s', t'). x_pg_uuid x (s_ID s) = Some s' \<and> x_pg_uuid x (tr_ID g) = Some t')
       (s_Tags s) ps"
    using insertStatementTagsTx_Inr[OF i2] by metis
  show thesis
  proof (rule that[OF a(1,2) _ r(2)])
    show "b = apply_amount (s_Type s) (s_Amount s) (ad_Balance a)" using b a(3) by simp
    show "foldE insert_stmt_row [r] (statements d) = Inr (statements d @ [r])" using rs(2) r(1) by simp
    show "stmt_check r" "stmt_fk d (statements d @ [r]) r" using rs(3,4) r(1) by simp_all
    show "distinct (stmt_tags d @ ps) = distinct (stmt_tags d)"
      "\<forall>(s, t)\<in>set ps. s \<in> sd_ID ` set (statements d @ [r]) \<and> t \<in> td_ID ` set (tags d)"
      "list_all2 (\<lambda>g (s', t'). x_pg_uuid x (s_ID s) = Some s' \<and> x_pg_uuid x (tr_ID g) = Some t')
       (s_Tags s) ps"
      using ps(2-4) rs(5) r(1) by simp_all
    show "d' = d\<lparr>statements := statements d @ [r], stmt_tags := stmt_tags d @ ps,
            accounts := update_where (\<lambda>a. ad_ID a = i)
                (\<lambda>a. a\<lparr>ad_Balance := b, ad_UpdatedAt := x_pg_time x (x_sql_now x)\<rparr>) (accounts d)\<rparr>"
      using i3 a(1) ps(1) rs(5) r(1) by (auto simp: set_balance_Inr)
  qed
qed

lemma create_body_posted:
  assumes "ext_ok x" "valid_type s" "s_AccountID s = aid" "create_body x s aid d = Inr (b, d')"
  obtains i r where "x_pg_uuid x aid = Some i" "posted x i [r] d d'"
    "stmt_conv x ((fromDomainStatement s)\<lparr>sd_BalanceAfter := b\<rparr>) = Inr r"
proof -
  obtain i a r ps where c: "x_pg_uuid x aid = Some i"
    "List.find (\<lambda>a. ad_ID a = i) (accounts d) = Some a"
    "b = apply_amount (s_Type s) (s_Amount s) (ad_Balance a)"
    "stmt_conv x ((fromDomainStatement s)\<lparr>sd_BalanceAfter := b\<rparr>) = Inr r"
    "foldE insert_stmt_row [r] (statements d) = Inr (statements d @ [r])"
    "stmt_check r" "stmt_fk d (statements d @ [r]) r"
    "distinct (stmt_tags d @ ps) = distinct (stmt_tags d)"
    "\<forall>(s, t)\<in>set ps. s \<in> sd_ID ` set (statements d @ [r]) \<and> t \<in> td_ID ` set (tags d)"
    "d' = d\<lparr>statements := statements d @ [r], stmt_tags := stmt_tags d @ ps,
            accounts := update_where (\<lambda>a. ad_ID a = i)
                (\<lambda>a. a\<lparr>ad_Balance := b, ad_UpdatedAt := x_pg_time x (x_sql_now x)\<rparr>) (accounts d)\<rparr>"
    by (rule create_body_Inr[OF assms(4)]) (rule that; assumption)
  have f: "sd_AccountID r = i"
    using stmt_conv_fields(2)[OF c(4)] c(1) assms(3) by (simp add: fromDomainStatement_def)
  have b: "b = ad_Balance a + delta r" "sd_BalanceAfter r = b"
    using apply_amount_delta[OF assms(1,2) c(4)] c(3) by simp_all
  have "posted x i [r] d d'"
    unfolding posted_def
    apply (rule exI[of _ a], rule exI[of _ ps])
    using c f b by simp
  with c(1,4) show thesis by (intro that)
qed

lemma batch_tags_Inr:
  assumes "batch_tags x n ss d = Inr d'"
  obtains ps where "d' = d\<lparr>stmt_tags := stmt_tags d @ ps\<rparr>"
    "distinct (stmt_tags d @ ps) = distinct (stmt_tags d)"
    "\<forall>(s, t)\<in>set ps. s \<in> sd_ID ` set (statements d) \<and> t \<in> td_ID ` set (tags d)"
  using assms
proof (induction ss arbitrary: n d thesis)
  case Nil
  then show ?case by (intro Nil.prems(1)[of "[]"]) simp_all
next
  case (Cons s ss)
  obtain d1 where d1: "insertStatementTagsTx x ''statements.CreateBatch/tags'' n (s_ID s) (s_Tags s) d = Inr d1"
    "batch_tags x (Suc n) ss d1 = Inr d'"
    using Cons.prems(2) by (auto simp del: split_paired_Ex)
  obtain ps where ps: "d1 = d\<lparr>stmt_tags := stmt_tags d @ ps\<rparr>"
    "distinct (stmt_tags d @ ps) = distinct (stmt_tags d)"
    "\<forall>(s, t)\<in>set ps. s \<in> sd_ID ` set (statements d) \<and> t \<in> td_ID ` set (tags d)"
    by (rule insertStatementTagsTx_Inr[OF d1(1)]) (rule that; assumption)
  obtain qs where qs: "d' = d1\<lparr>stmt_tags := stmt_tags d1 @ qs\<rparr>"
    "distinct (stmt_tags d1 @ qs) = distinct (stmt_tags d1)"
    "\<forall>(s, t)\<in>set qs. s \<in> sd_ID ` set (statements d1) \<and> t \<in> td_ID ` set (tags d1)"
    using Cons.IH[OF _ d1(2)] by blast
  show ?case
  proof (rule Cons.prems(1)[of "ps @ qs"])
    show "d' = d\<lparr>stmt_tags := stmt_tags d @ (ps @ qs)\<rparr>" using ps(1) qs(1) by simp
    show "distinct (stmt_tags d @ (ps @ qs)) = distinct (stmt_tags d)"
      using ps(1,2) qs(2) by simp
    show "\<forall>(s, t)\<in>set (ps @ qs). s \<in> sd_ID ` set (statements d) \<and> t \<in> td_ID ` set (tags d)"
      using ps(1,3) qs(3) by (simp add: ball_Un)
  qed
qed

lemma exec_params_Inr [simp]: "exec_params n r = Inr a \<longleftrightarrow> int n \<le> 65535 \<and> r = Inr a"
  by (auto simp: exec_params_def)

lemma running_rows_account:
  assumes "running_rows b ss = (rows, fin)" "list_all2 (\<lambda>s r. stmt_conv x s = Inr r) rows rs"
    "\<forall>s\<in>set ss. s_AccountID s = aid" "x_pg_uuid x aid = Some i"
  shows "\<forall>r\<in>set rs. sd_AccountID r = i"
  using assms(1-3)
proof (induction ss arbitrary: b rows rs)
  case (Cons s ss)
  obtain b' rows' where b': "running_rows b' ss = (rows', fin)"
    "rows = (fromDomainStatement s)\<lparr>sd_BalanceAfter := b'\<rparr> # rows'"
    using Cons.prems(1) by (auto simp: Let_def split: prod.splits)
  obtain r rs' where r: "rs = r # rs'" "stmt_conv x ((fromDomainStatement s)\<lparr>sd_BalanceAfter := b'\<rparr>) = Inr r"
    "list_all2 (\<lambda>s r. stmt_conv x s = Inr r) rows' rs'"
    using Cons.prems(2) b'(2) by (auto simp: list_all2_Cons1)
  have "sd_AccountID r = i"
    using stmt_conv_fields(2)[OF r(2)] Cons.prems(3) assms(4) by (simp add: fromDomainStatement_def)
  then show ?case using Cons.IH[OF b'(1) r(3)] Cons.prems(3) r(1) by simp
qed auto

lemma running_rows_length: "running_rows b ss = (rows, fin) \<Longrightarrow> length rows = length ss"
  by (induction ss arbitrary: b rows) (auto simp: Let_def split: prod.splits)

lemma batch_body_Inr:
  assumes "batch_body x ss aid d = Inr (b, d')"
  obtains i a rows rs ps where "x_pg_uuid x aid = Some i"
    "List.find (\<lambda>a. ad_ID a = i) (accounts d) = Some a"
    "running_rows (ad_Balance a) ss = (rows, b)"
    "list_all2 (\<lambda>s r. stmt_conv x s = Inr r) rows rs"
    "foldE insert_stmt_row rs (statements d) = Inr (statements d @ rs)"
    "list_all stmt_check rs" "list_all (stmt_fk d (statements d @ rs)) rs"
    "distinct (stmt_tags d @ ps) = distinct (stmt_tags d)"
    "\<forall>(s, t)\<in>set ps. s \<in> sd_ID ` set (statements d @ rs) \<and> t \<in> td_ID ` set (tags d)"
    "d' = d\<lparr>statements := statements d @ rs, stmt_tags := stmt_tags d @ ps,
            accounts := update_where (\<lambda>a. ad_ID a = i)
                (\<lambda>a. a\<lparr>ad_Balance := b, ad_UpdatedAt := x_pg_time x (x_sql_now x)\<rparr>) (accounts d)\<rparr>"
proof -
  obtain cur rows d1 d2 where
    l: "lock_account x ''statements.CreateBatch/lock'' aid d = Inr cur"
    and rr: "running_rows cur ss = (rows, b)"
    and i1: "insert_stmts x rows d = Inr d1"
    and i2: "batch_tags x 0 ss d1 = Inr d2"
    and i3: "set_balance x b aid d2 = Inr d'"
  proof -
    obtain cur where c: "lock_account x ''statements.CreateBatch/lock'' aid d = Inr cur"
      using assms by (auto simp: batch_body_def)
    obtain rows fin where r: "running_rows cur ss = (rows, fin)" by fastforce
    show thesis using assms that[of cur rows] by (auto simp: batch_body_def c r)
  qed
  obtain i a where a: "x_pg_uuid x aid = Some i"
    "List.find (\<lambda>a. ad_ID a = i) (accounts d) = Some a" "cur = ad_Balance a"
    using l by (auto simp: lock_account_Inr)
  obtain rs where rs: "list_all2 (\<lambda>s r. stmt_conv x s = Inr r) rows rs"
    "foldE insert_stmt_row rs (statements d) = Inr (statements d @ rs)"
    "list_all stmt_check rs" "list_all (stmt_fk d (statements d @ rs)) rs"
    "d1 = d\<lparr>statements := statements d @ rs\<rparr>"
    using insert_stmts_Inr[OF i1] by blast
  obtain ps where ps: "d2 = d1\<lparr>stmt_tags := stmt_tags d1 @ ps\<rparr>"
    "distinct (stmt_tags d1 @ ps) = distinct (stmt_tags d1)"
    "\<forall>(s, t)\<in>set ps. s \<in> sd_ID ` set (statements d1) \<and> t \<in> td_ID ` set (tags d1)"
    by (rule batch_tags_Inr[OF i2]) (rule that; assumption)
  show thesis
  proof (rule that[OF a(1,2) _ rs(1-4)])
    show "running_rows (ad_Balance a) ss = (rows, b)" using rr a(3) by simp
    show "distinct (stmt_tags d @ ps) = distinct (stmt_tags d)"
      "\<forall>(s, t)\<in>set ps. s \<in> sd_ID ` set (statements d @ rs) \<and> t \<in> td_ID ` set (tags d)"
      using ps(2,3) rs(5) by simp_all
    show "d' = d\<lparr>statements := statements d @ rs, stmt_tags := stmt_tags d @ ps,
            accounts := update_where (\<lambda>a. ad_ID a = i)
                (\<lambda>a. a\<lparr>ad_Balance := b, ad_UpdatedAt := x_pg_time x (x_sql_now x)\<rparr>) (accounts d)\<rparr>"
      using i3 a(1) ps(1) rs(5) by (auto simp: set_balance_Inr)
  qed
qed

lemma batch_body_posted:
  assumes "ext_ok x" "\<forall>s\<in>set ss. valid_type s \<and> s_AccountID s = aid"
    "batch_body x ss aid d = Inr (b, d')"
  obtains i rs where "x_pg_uuid x aid = Some i" "posted x i rs d d'" "length rs = length ss"
proof -
  obtain i a rows rs ps where c: "x_pg_uuid x aid = Some i"
    "List.find (\<lambda>a. ad_ID a = i) (accounts d) = Some a"
    "running_rows (ad_Balance a) ss = (rows, b)"
    "list_all2 (\<lambda>s r. stmt_conv x s = Inr r) rows rs"
    "foldE insert_stmt_row rs (statements d) = Inr (statements d @ rs)"
    "list_all stmt_check rs" "list_all (stmt_fk d (statements d @ rs)) rs"
    "distinct (stmt_tags d @ ps) = distinct (stmt_tags d)"
    "\<forall>(s, t)\<in>set ps. s \<in> sd_ID ` set (statements d @ rs) \<and> t \<in> td_ID ` set (tags d)"
    "d' = d\<lparr>statements := statements d @ rs, stmt_tags := stmt_tags d @ ps,
            accounts := update_where (\<lambda>a. ad_ID a = i)
                (\<lambda>a. a\<lparr>ad_Balance := b, ad_UpdatedAt := x_pg_time x (x_sql_now x)\<rparr>) (accounts d)\<rparr>"
    by (rule batch_body_Inr[OF assms(3)]) (rule that; assumption)
  note ch = running_rows_chain[OF assms(1) _ c(3,4)]
  have acc: "\<forall>r\<in>set rs. sd_AccountID r = i"
    using running_rows_account[OF c(3,4) _ c(1)] assms(2) by blast
  have len: "length rs = length ss"
    using running_rows_length[OF c(3)] list_all2_lengthD[OF c(4)] by simp
  have "posted x i rs d d'"
    unfolding posted_def
    apply (rule exI[of _ a], rule exI[of _ ps])
    using c ch acc assms(2) by (simp add: list_all_iff)
  with c(1) len show thesis by (intro that)
qed

section \<open>Every write keeps the invariant\<close>

lemma insert_rows_conflicts:
  assumes "foldE insert_stmt_row rs ss = Inr (ss @ rs)" "sorted_wrt (\<lambda>s t. \<not> stmt_conflict t s) ss"
  shows "sorted_wrt (\<lambda>s t. \<not> stmt_conflict t s) (ss @ rs)"
  using assms
proof (induction rs arbitrary: ss)
  case (Cons r rs)
  then have r: "\<not> list_ex (stmt_conflict r) ss" "foldE insert_stmt_row rs (ss @ [r]) = Inr ((ss @ [r]) @ rs)"
    by auto
  have "sorted_wrt (\<lambda>s t. \<not> stmt_conflict t s) (ss @ [r])"
    using Cons.prems(2) r(1) by (auto simp: sorted_wrt_append list_ex_iff)
  from Cons.IH[OF r(2) this] show ?case by simp
qed simp

lemma posted_accounts:
  assumes "posted x i rs d d'"
  obtains a where "a \<in> set (accounts d)" "ad_ID a = i" "map ad_ID (accounts d') = map ad_ID (accounts d)"
    "\<And>b'. b' \<in> set (accounts d') \<Longrightarrow>
      \<exists>b\<in>set (accounts d). ad_ID b' = ad_ID b \<and> ad_Type b' = ad_Type b \<and> ad_CreditLimit b' = ad_CreditLimit b \<and>
        ad_Balance b' = (if ad_ID b = i then ad_Balance a + ledger_sum rs else ad_Balance b)"
    "chain (ad_Balance a) rs"
proof -
  obtain a where p: "List.find (\<lambda>a. ad_ID a = i) (accounts d) = Some a" "chain (ad_Balance a) rs"
     "accounts d' = update_where (\<lambda>a. ad_ID a = i)
       (\<lambda>b. b\<lparr>ad_Balance := ad_Balance a + ledger_sum rs, ad_UpdatedAt := x_pg_time x (x_sql_now x)\<rparr>) (accounts d)"
    using assms unfolding posted_def by auto
  show thesis
    by (rule that[of a]) (use find_Some_set[OF p(1)] p(2) in \<open>auto simp: p(3) in_update_where map_update_where\<close>)
qed

lemma posted_rows:
  assumes "posted x i rs d d'"
  obtains ps where "statements d' = statements d @ rs" "stmt_tags d' = stmt_tags d @ ps" "tags d' = tags d"
    "categories d' = categories d" "users d' = users d" "\<forall>r\<in>set rs. sd_AccountID r = i \<and> stmt_check r"
    "foldE insert_stmt_row rs (statements d) = Inr (statements d @ rs)"
    "\<forall>r\<in>set rs. stmt_fk d (statements d @ rs) r" "distinct (stmt_tags d @ ps) = distinct (stmt_tags d)"
    "\<forall>(s, t)\<in>set ps. s \<in> sd_ID ` set (statements d @ rs) \<and> t \<in> td_ID ` set (tags d)"
  using assms unfolding posted_def by auto

lemma posted_balances_ok:
  assumes "posted x i rs d d'" "balances_ok d"
  shows "balances_ok d'"
  unfolding balances_ok_def
proof
  fix b' assume b': "b' \<in> set (accounts d')"
  obtain a where a: "a \<in> set (accounts d)" "ad_ID a = i" "chain (ad_Balance a) rs"
    and "\<exists>b\<in>set (accounts d). ad_ID b' = ad_ID b \<and>
      ad_Balance b' = (if ad_ID b = i then ad_Balance a + ledger_sum rs else ad_Balance b)"
    using posted_accounts[OF assms(1)] b' by metis
  then obtain b where b: "b \<in> set (accounts d)" "ad_ID b' = ad_ID b"
    "ad_Balance b' = (if ad_ID b = i then ad_Balance a + ledger_sum rs else ad_Balance b)" by blast
  obtain ps where st: "statements d' = statements d @ rs" "\<forall>r\<in>set rs. sd_AccountID r = i \<and> stmt_check r"
    by (rule posted_rows[OF assms(1)])
  have old: "chain 0 (acct_stmts (ad_ID b) (statements d))" "ad_Balance b = ledger_sum (acct_stmts (ad_ID b) (statements d))"
    using assms(2) b(1) by (auto simp: balances_ok_def)
  show "chain 0 (acct_stmts (ad_ID b') (statements d')) \<and>
      ad_Balance b' = ledger_sum (acct_stmts (ad_ID b') (statements d'))"
  proof (cases "ad_ID b = i")
    case True
    have "ad_Balance a = ledger_sum (acct_stmts i (statements d))"
      using assms(2) a by (auto simp: balances_ok_def)
    moreover have "acct_stmts i rs = rs" using st(2) by (simp add: acct_stmts_same)
    ultimately show ?thesis using True b old a(3) st(1) by (simp add: chain_append)
  next
    case False
    then have "acct_stmts (ad_ID b) rs = []" using st(2) by (intro acct_stmts_other) auto
    then show ?thesis using False b old st(1) by simp
  qed
qed

lemma posted_refs_ok:
  assumes "posted x i rs d d'" "refs_ok d"
  shows "refs_ok d'"
proof -
  obtain ps where r: "statements d' = statements d @ rs" "stmt_tags d' = stmt_tags d @ ps" "tags d' = tags d"
    "categories d' = categories d" "\<forall>r\<in>set rs. stmt_fk d (statements d @ rs) r"
    "\<forall>(s, t)\<in>set ps. s \<in> sd_ID ` set (statements d @ rs) \<and> t \<in> td_ID ` set (tags d)" "users d' = users d"
    by (rule posted_rows[OF assms(1)])
  obtain a where "map ad_ID (accounts d') = map ad_ID (accounts d)" by (rule posted_accounts[OF assms(1)])
  then have acc: "ad_ID ` set (accounts d') = ad_ID ` set (accounts d)" by (metis list.set_map)
  have "stmt_fk d (statements d) s \<Longrightarrow> stmt_fk d' (statements d @ rs) s"
    "stmt_fk d (statements d @ rs) s \<Longrightarrow> stmt_fk d' (statements d @ rs) s" for s
    unfolding stmt_fk_def acc by (auto simp: r(1-4) split: option.splits)
  then show ?thesis using assms(2) r unfolding refs_ok_def by (auto simp: ball_Un)
qed

lemma posted_checks_ok:
  assumes "posted x i rs d d'" "checks_ok d"
  shows "checks_ok d'"
proof -
  have "account_check b'" if b': "b' \<in> set (accounts d')" for b'
  proof -
    obtain b where "b \<in> set (accounts d)" "ad_Type b' = ad_Type b" "ad_CreditLimit b' = ad_CreditLimit b"
      using posted_accounts[OF assms(1)] b' by metis
    then show ?thesis using assms(2) by (auto simp: checks_ok_def account_check_def)
  qed
  moreover obtain ps where "statements d' = statements d @ rs" "\<forall>r\<in>set rs. sd_AccountID r = i \<and> stmt_check r"
    by (rule posted_rows[OF assms(1)])
  ultimately show ?thesis using assms(2) by (auto simp: checks_ok_def)
qed

lemma posted_db_ok:
  assumes "posted x i rs d d'" "db_ok d"
  shows "db_ok d'"
proof -
  obtain ps where r: "statements d' = statements d @ rs" "stmt_tags d' = stmt_tags d @ ps" "tags d' = tags d"
    "categories d' = categories d" "foldE insert_stmt_row rs (statements d) = Inr (statements d @ rs)"
    "distinct (stmt_tags d @ ps) = distinct (stmt_tags d)" "users d' = users d"
    by (rule posted_rows[OF assms(1)])
  obtain a where "map ad_ID (accounts d') = map ad_ID (accounts d)" by (rule posted_accounts[OF assms(1)])
  then have "keys_ok d'"
    using assms(2) insert_rows_conflicts[OF r(5)] r unfolding db_ok_def keys_ok_def by simp
  then show ?thesis
    using assms posted_balances_ok posted_refs_ok posted_checks_ok by (simp add: db_ok_def)
qed

text \<open>Writes that leave the statements and the balances alone.\<close>

lemma accounts_metadata_ok:
  assumes "db_ok d" "\<And>a. ad_ID (f a) = ad_ID a \<and> ad_Balance (f a) = ad_Balance a"
    "\<And>a. a \<in> set (accounts d) \<Longrightarrow> p a \<Longrightarrow> account_check (f a)"
  shows "db_ok (d\<lparr>accounts := update_where p f (accounts d)\<rparr>)"
proof -
  let ?A = "update_where p f (accounts d)"
  have ids: "map ad_ID ?A = map ad_ID (accounts d)" using assms(2) by (simp add: map_update_where)
  have el: "b \<in> set ?A \<Longrightarrow> \<exists>a\<in>set (accounts d). ad_ID b = ad_ID a \<and> ad_Balance b = ad_Balance a" for b
    using assms(2) by (auto simp: in_update_where)
  have ck: "b \<in> set ?A \<Longrightarrow> account_check b" for b
    using assms(1,3) by (auto simp: in_update_where db_ok_def checks_ok_def)
  have acc: "ad_ID ` set ?A = ad_ID ` set (accounts d)" using arg_cong[OF ids, of set] by simp
  have "balances_ok (d\<lparr>accounts := ?A\<rparr>)"
    unfolding balances_ok_def
  proof
    fix b assume "b \<in> set (accounts (d\<lparr>accounts := ?A\<rparr>))"
    then obtain a where "a \<in> set (accounts d)" "ad_ID b = ad_ID a" "ad_Balance b = ad_Balance a"
      using el by auto
    then show "chain 0 (acct_stmts (ad_ID b) (statements (d\<lparr>accounts := ?A\<rparr>))) \<and>
        ad_Balance b = ledger_sum (acct_stmts (ad_ID b) (statements (d\<lparr>accounts := ?A\<rparr>)))"
      using assms(1) by (auto simp: db_ok_def balances_ok_def)
  qed
  moreover have "keys_ok (d\<lparr>accounts := ?A\<rparr>)" using assms(1) ids by (simp add: db_ok_def keys_ok_def)
  moreover have "refs_ok (d\<lparr>accounts := ?A\<rparr>)"
    using assms(1) acc by (auto simp: db_ok_def refs_ok_def stmt_fk_def split: option.splits)
  moreover have "checks_ok (d\<lparr>accounts := ?A\<rparr>)"
    using assms(1) ck by (simp add: db_ok_def checks_ok_def)
  ultimately show ?thesis by (simp add: db_ok_def)
qed

lemma insert_account_db_ok:
  assumes "insert_account x a d = Inr (n, d')" "ad_Balance a = 0" "db_ok d"
  shows "db_ok d'"
proof -
  obtain r where r: "account_conv x a = Inr r" "account_check r"
    "ad_ID r \<notin> ad_ID ` set (accounts d)" "d' = d\<lparr>accounts := accounts d @ [r]\<rparr>"
    using assms(1) by (auto simp: insert_account_Inr)
  have b0: "ad_Balance r = 0" using r(1) assms(2) by (auto simp: account_conv_def)
  have none: "acct_stmts (ad_ID r) (statements d) = []"
  proof (rule acct_stmts_other)
    fix s assume "s \<in> set (statements d)"
    then have "sd_AccountID s \<in> ad_ID ` set (accounts d)"
      using assms(3) by (auto simp: db_ok_def refs_ok_def stmt_fk_def)
    with r(3) show "sd_AccountID s \<noteq> ad_ID r" by auto
  qed
  have "balances_ok d'" using assms(3) b0 none unfolding r(4) by (auto simp: db_ok_def balances_ok_def)
  moreover have "keys_ok d'" using assms(3) r(3) unfolding r(4) by (auto simp: db_ok_def keys_ok_def)
  moreover have "refs_ok d'" using assms(3) unfolding r(4)
    by (auto simp: db_ok_def refs_ok_def stmt_fk_def split: option.splits)
  moreover have "checks_ok d'" using assms(3) r(2) unfolding r(4) by (auto simp: db_ok_def checks_ok_def)
  ultimately show ?thesis by (simp add: db_ok_def)
qed

lemma update_account_db_ok:
  assumes "update_account x a d = Inr (n, d')" "db_ok d"
  shows "db_ok d'"
proof -
  obtain i nm ds where u: "d' = d\<lparr>accounts := update_where (\<lambda>r. ad_ID r = i)
       (\<lambda>r. r\<lparr>ad_Name := nm, ad_Description := ds, ad_Active := ad_Active a,
              ad_UpdatedAt := x_pg_time x (ad_UpdatedAt a), ad_CreditLimit := ad_CreditLimit a\<rparr>)
       (accounts d)\<rparr>"
    "\<forall>r\<in>set (accounts d). ad_ID r = i \<longrightarrow> credit_limit_ok (ad_Type r) (ad_CreditLimit a) \<and>
        account_check (r\<lparr>ad_CreditLimit := ad_CreditLimit a\<rparr>)"
    by (rule update_account_Inr[OF assms(1)]) (rule that; assumption)
  show ?thesis
    unfolding u(1) using u(2)
    by (intro accounts_metadata_ok[OF assms(2)]) (auto simp: account_check_def)
qed

lemma deactivate_account_db_ok:
  assumes "deactivate_account x t i d = Inr (n, d')" "db_ok d"
  shows "db_ok d'"
proof -
  obtain j where j: "d' = d\<lparr>accounts := update_where (\<lambda>r. ad_ID r = j \<and> ad_Active r)
      (\<lambda>r. r\<lparr>ad_Active := False, ad_UpdatedAt := x_pg_time x t\<rparr>) (accounts d)\<rparr>"
    using assms(1) by (auto simp: deactivate_account_def Let_def)
  show ?thesis
    unfolding j
  proof (rule accounts_metadata_ok[OF assms(2)])
    fix a assume "a \<in> set (accounts d)"
    with assms(2) have "account_check a" by (simp add: db_ok_def checks_ok_def)
    then show "account_check (a\<lparr>ad_Active := False, ad_UpdatedAt := x_pg_time x t\<rparr>)"
      by (simp add: account_check_def)
  qed simp
qed

lemma set_category_Inr: "set_category x sid cat d = Inr (n, d') \<longleftrightarrow>
    (\<exists>c i. optE (pg_id x) cat = Inr c \<and> x_pg_uuid x sid = Some i \<and>
      \<not> (list_ex (\<lambda>r. sd_ID r = i) (statements d) \<and>
         (case c of None \<Rightarrow> False | Some c \<Rightarrow> c \<notin> cd_ID ` set (categories d))) \<and>
      n = count_where (\<lambda>r. sd_ID r = i) (statements d) \<and>
      d' = d\<lparr>statements := update_where (\<lambda>r. sd_ID r = i) (\<lambda>r. r\<lparr>sd_CategoryID := c\<rparr>) (statements d)\<rparr>)"
  unfolding set_category_def Let_def bindE_Inr pg_id_Inr if_Inl_Inr sum.inject prod.inject by blast

lemma set_category_db_ok:
  assumes "set_category x sid cat d = Inr (n, d')" "db_ok d"
  shows "db_ok d'"
proof -
  obtain i c where i: "d' = d\<lparr>statements := update_where (\<lambda>r. sd_ID r = i) (\<lambda>r. r\<lparr>sd_CategoryID := c\<rparr>) (statements d)\<rparr>"
    "\<forall>r\<in>set (statements d). sd_ID r = i \<longrightarrow>
       (case c of None \<Rightarrow> True | Some c \<Rightarrow> c \<in> cd_ID ` set (categories d))"
  proof -
    obtain i c where a: "\<not> (list_ex (\<lambda>r. sd_ID r = i) (statements d) \<and>
         (case c of None \<Rightarrow> False | Some c \<Rightarrow> c \<notin> cd_ID ` set (categories d)))"
      "d' = d\<lparr>statements := update_where (\<lambda>r. sd_ID r = i) (\<lambda>r. r\<lparr>sd_CategoryID := c\<rparr>) (statements d)\<rparr>"
      using assms(1) unfolding set_category_Inr by blast
    show thesis by (rule that[OF a(2)]) (use a(1) in \<open>auto simp: list_ex_iff split: option.splits\<close>)
  qed
  let ?f = "\<lambda>r. if sd_ID r = i then r\<lparr>sd_CategoryID := c\<rparr> else r"
  have st: "statements d' = map ?f (statements d)" unfolding i(1) by (simp add: update_where_def)
  have fs: "sd_AccountID (?f r) = sd_AccountID r" "delta (?f r) = delta r"
    "sd_BalanceAfter (?f r) = sd_BalanceAfter r" "sd_ID (?f r) = sd_ID r"
    "sd_ReferenceID (?f r) = sd_ReferenceID r" "stmt_check (?f r) = stmt_check r"
    "sd_ExternalID (?f r) = sd_ExternalID r" for r
    by (simp_all add: delta_def stmt_check_def)
  have acct: "acct_stmts j (statements d') = map ?f (acct_stmts j (statements d))" for j
    unfolding st acct_stmts_def by (simp add: filter_map o_def fs(1))
  have ch: "chain b (map ?f rs) = chain b rs" for b rs
    by (induction rs arbitrary: b) (simp_all only: list.map chain.simps fs)
  have sm: "ledger_sum (map ?f rs) = ledger_sum rs" for rs
    by (induction rs) (simp_all only: list.map ledger_sum_simps fs)
  have cf: "stmt_conflict (?f s) (?f t) = stmt_conflict s t" for s t
    unfolding stmt_conflict_def fs ..
  have "balances_ok d'"
    using assms(2) unfolding db_ok_def balances_ok_def acct ch sm by (simp add: i(1))
  moreover have "keys_ok d'"
  proof -
    have "sorted_wrt (\<lambda>s t. \<not> stmt_conflict t s) (statements d')"
      unfolding st sorted_wrt_map cf using assms(2) by (simp add: db_ok_def keys_ok_def)
    then show ?thesis using assms(2) by (simp add: db_ok_def keys_ok_def i(1))
  qed
  moreover have "refs_ok d'"
  proof -
    have ids: "sd_ID ` set (statements d') = sd_ID ` set (statements d)"
      unfolding st set_map image_image fs(4) ..
    have "stmt_fk d' (statements d') (?f s)" if "s \<in> set (statements d)" for s
      using assms(2) that i(2) unfolding stmt_fk_def ids fs
      by (auto simp: i(1) db_ok_def refs_ok_def stmt_fk_def split: option.splits)
    moreover have "set (statements d') = ?f ` set (statements d)" by (simp only: st set_map)
    ultimately have "\<forall>s\<in>set (statements d'). stmt_fk d' (statements d') s"
      by (simp only: ball_simps(9)) blast
    moreover have "\<forall>(s, t)\<in>set (stmt_tags d'). s \<in> sd_ID ` set (statements d') \<and> t \<in> td_ID ` set (tags d')"
      unfolding ids using assms(2) by (simp add: db_ok_def refs_ok_def i(1))
    ultimately show ?thesis by (simp add: refs_ok_def)
  qed
  moreover have "checks_ok d'"
  proof -
    have "\<forall>s\<in>set (statements d'). stmt_check s"
      unfolding st set_map ball_simps(9) fs(6) using assms(2) by (simp add: db_ok_def checks_ok_def)
    then show ?thesis using assms(2) by (simp add: db_ok_def checks_ok_def i(1))
  qed
  ultimately show ?thesis by (simp add: db_ok_def)
qed

lemma replace_body_Inr:
  assumes "replace_body x sid tagIDs d = Inr (u, d')"
  obtains i ps where "x_pg_uuid x sid = Some i" "i \<in> sd_ID ` set (statements d)"
    "d' = d\<lparr>stmt_tags := filter (\<lambda>(s, t). s \<noteq> i) (stmt_tags d) @ ps\<rparr>"
    "distinct (filter (\<lambda>(s, t). s \<noteq> i) (stmt_tags d) @ ps) = distinct (filter (\<lambda>(s, t). s \<noteq> i) (stmt_tags d))"
    "\<forall>(s, t)\<in>set ps. s \<in> sd_ID ` set (statements d) \<and> t \<in> td_ID ` set (tags d)"
    "list_all2 (\<lambda>t (s', t'). s' = i \<and> x_pg_uuid x t = Some t') tagIDs ps"
proof -
  obtain i where i: "x_pg_uuid x sid = Some i" "i \<in> sd_ID ` set (statements d)"
    using assms by (auto simp: replace_body_def list_ex_iff)
  define d1 where "d1 = d\<lparr>stmt_tags := filter (\<lambda>(s, t). s \<noteq> i) (stmt_tags d)\<rparr>"
  have ins: "insertStatementTagsTx x ''statements.ReplaceTags/insert'' 0 sid
      (map (\<lambda>i. \<lparr> tr_ID = i, tr_Name = [] \<rparr>) tagIDs) d1 = Inr d'"
    using assms i(1)
    by (cases "tagIDs = []") (auto simp: replace_body_def delete_stmt_tags_def d1_def insertStatementTagsTx_def)
  obtain ps where ps: "d' = d1\<lparr>stmt_tags := stmt_tags d1 @ ps\<rparr>"
    "distinct (stmt_tags d1 @ ps) = distinct (stmt_tags d1)"
    "\<forall>(s, t)\<in>set ps. s \<in> sd_ID ` set (statements d1) \<and> t \<in> td_ID ` set (tags d1)"
    "list_all2 (\<lambda>r (s', t'). x_pg_uuid x sid = Some s' \<and> x_pg_uuid x (tr_ID r) = Some t')
       (map (\<lambda>i. \<lparr> tr_ID = i, tr_Name = [] \<rparr>) tagIDs) ps"
    by (rule insertStatementTagsTx_Inr[OF ins]) (rule that; assumption)
  have "list_all2 (\<lambda>t (s', t'). s' = i \<and> x_pg_uuid x t = Some t') tagIDs ps"
    using ps(4) i(1) by (simp add: list_all2_map1 case_prod_beta) (erule list_all2_mono, auto)
  then show thesis
    using ps i by (intro that[of i ps]) (simp_all add: d1_def)
qed

lemma replace_body_db_ok:
  assumes "replace_body x sid tagIDs d = Inr (u, d')" "db_ok d"
  shows "db_ok d'"
proof -
  obtain i ps where r: "d' = d\<lparr>stmt_tags := filter (\<lambda>(s, t). s \<noteq> i) (stmt_tags d) @ ps\<rparr>"
    "distinct (filter (\<lambda>(s, t). s \<noteq> i) (stmt_tags d) @ ps) = distinct (filter (\<lambda>(s, t). s \<noteq> i) (stmt_tags d))"
    "\<forall>(s, t)\<in>set ps. s \<in> sd_ID ` set (statements d) \<and> t \<in> td_ID ` set (tags d)"
    by (rule replace_body_Inr[OF assms(1)]) (rule that; assumption)
  have "keys_ok d'" using assms(2) r(2) unfolding r(1) by (simp add: db_ok_def keys_ok_def)
  moreover have "refs_ok d'"
    using assms(2) r(3) unfolding r(1)
    by (auto simp: db_ok_def refs_ok_def stmt_fk_def split: option.splits)
  moreover have "balances_ok d'" "checks_ok d'"
    using assms(2) unfolding r(1) by (simp_all add: db_ok_def balances_ok_def checks_ok_def)
  ultimately show ?thesis by (simp add: db_ok_def)
qed

text \<open>A change of the categories keeps the invariant when the referenced ones stay; a
  change of the tags when the assignments follow.\<close>

lemma catalog_db_ok:
  assumes "db_ok d" "distinct (map cd_ID cs)" "distinct (map td_ID ts)" "distinct ps"
    "\<forall>s\<in>set (statements d). (\<forall>c. sd_CategoryID s = Some c \<longrightarrow> c \<in> cd_ID ` set cs)"
    "\<forall>(s, t)\<in>set ps. s \<in> sd_ID ` set (statements d) \<and> t \<in> td_ID ` set ts"
  shows "db_ok (d\<lparr>categories := cs, tags := ts, stmt_tags := ps\<rparr>)"
proof -
  let ?d = "d\<lparr>categories := cs, tags := ts, stmt_tags := ps\<rparr>"
  have "keys_ok ?d" using assms(1-4) by (simp add: db_ok_def keys_ok_def)
  moreover have "stmt_fk ?d (statements d) s" if "s \<in> set (statements d)" for s
    using assms(1,5) that by (auto simp: db_ok_def refs_ok_def stmt_fk_def split: option.splits)
  then have "refs_ok ?d" using assms(6) by (simp add: refs_ok_def)
  moreover have "balances_ok ?d" "checks_ok ?d"
    using assms(1) by (simp_all add: db_ok_def balances_ok_def checks_ok_def)
  ultimately show ?thesis by (simp add: db_ok_def)
qed

lemma db_okD:
  assumes "db_ok d"
  shows "distinct (map ad_ID (accounts d))" "distinct (map cd_ID (categories d))"
    "distinct (map td_ID (tags d))" "distinct (stmt_tags d)"
    "s \<in> set (statements d) \<Longrightarrow> sd_CategoryID s = Some c \<Longrightarrow> c \<in> cd_ID ` set (categories d)"
    "(i, t) \<in> set (stmt_tags d) \<Longrightarrow> i \<in> sd_ID ` set (statements d) \<and> t \<in> td_ID ` set (tags d)"
    "sorted_wrt (\<lambda>s t. \<not> stmt_conflict t s) (statements d)"
  using assms by (auto simp: db_ok_def keys_ok_def refs_ok_def stmt_fk_def)

lemma categories_db_ok:
  assumes "db_ok d" "distinct (map cd_ID cs)"
    "\<And>s c. s \<in> set (statements d) \<Longrightarrow> sd_CategoryID s = Some c \<Longrightarrow> c \<in> cd_ID ` set cs"
  shows "db_ok (d\<lparr>categories := cs\<rparr>)"
proof -
  have "db_ok (d\<lparr>categories := cs, tags := tags d, stmt_tags := stmt_tags d\<rparr>)"
    by (rule catalog_db_ok[OF assms(1,2) db_okD(3,4)[OF assms(1)]])
      (use assms(3) db_okD(6)[OF assms(1)] in auto)
  then show ?thesis by simp
qed

lemma tags_db_ok:
  assumes "db_ok d" "distinct (map td_ID ts)" "distinct ps"
    "\<And>s t. (s, t) \<in> set ps \<Longrightarrow> s \<in> sd_ID ` set (statements d) \<and> t \<in> td_ID ` set ts"
  shows "db_ok (d\<lparr>tags := ts, stmt_tags := ps\<rparr>)"
proof -
  have "db_ok (d\<lparr>categories := categories d, tags := ts, stmt_tags := ps\<rparr>)"
    by (rule catalog_db_ok[OF assms(1) db_okD(2)[OF assms(1)] assms(2,3)])
      (use assms(4) db_okD(5)[OF assms(1)] in auto)
  then show ?thesis by simp
qed

lemma tags_only_db_ok:
  assumes "db_ok d" "distinct (map td_ID ts)" "td_ID ` set (tags d) \<subseteq> td_ID ` set ts"
  shows "db_ok (d\<lparr>tags := ts\<rparr>)"
proof -
  have "db_ok (d\<lparr>tags := ts, stmt_tags := stmt_tags d\<rparr>)"
    by (rule tags_db_ok[OF assms(1,2) db_okD(4)[OF assms(1)]])
      (use assms(3) db_okD(6)[OF assms(1)] in blast)
  then show ?thesis by simp
qed

lemma insert_category_db_ok:
  assumes "insert_category x cat d = Inr (n, d')" "db_ok d"
  shows "db_ok d'"
proof -
  obtain r where r: "\<not> list_ex (category_conflict x r) (categories d)"
    "d' = d\<lparr>categories := categories d @ [r]\<rparr>"
    using assms(1) by (auto simp: insert_category_def)
  have "cd_ID r \<notin> cd_ID ` set (categories d)"
    using r(1) by (auto simp: list_ex_iff category_conflict_def)
  then show ?thesis unfolding r(2)
    using db_okD(2,5)[OF assms(2)] by (intro categories_db_ok[OF assms(2)]) auto
qed

lemma rename_category_db_ok:
  assumes "rename_category x c d = Inr (n, d')" "db_ok d"
  shows "db_ok d'"
proof -
  obtain cs where r: "d' = d\<lparr>categories := cs\<rparr>" "map cd_ID cs = map cd_ID (categories d)"
    using assms(1) by (auto simp: rename_category_def Let_def map_update_where)
  have "cd_ID ` set cs = cd_ID ` set (categories d)" using r(2) by (metis set_map)
  then show ?thesis unfolding r(1)
    using db_okD(2,5)[OF assms(2)] r(2) by (intro categories_db_ok[OF assms(2)]) auto
qed

lemma delete_category_db_ok:
  assumes "delete_category x cid d = Inr (n, d')" "db_ok d"
  shows "db_ok d'"
proof -
  obtain j where r: "\<not> (list_ex (\<lambda>r. cd_ID r = j) (categories d) \<and>
       list_ex (\<lambda>s. sd_CategoryID s = Some j) (statements d))"
    "d' = d\<lparr>categories := filter (\<lambda>r. cd_ID r \<noteq> j) (categories d)\<rparr>"
    using assms(1) by (auto simp: delete_category_def)
  show ?thesis unfolding r(2)
  proof (rule categories_db_ok[OF assms(2)])
    show "distinct (map cd_ID (filter (\<lambda>r. cd_ID r \<noteq> j) (categories d)))"
      using db_okD(2)[OF assms(2)] by (rule distinct_map_filter)
    fix s c assume s: "s \<in> set (statements d)" "sd_CategoryID s = Some c"
    from db_okD(5)[OF assms(2) this] r(1) s
    show "c \<in> cd_ID ` set (filter (\<lambda>r. cd_ID r \<noteq> j) (categories d))" by (auto simp: list_ex_iff)
  qed
qed

lemma insert_tag_db_ok:
  assumes "insert_tag x t d = Inr (n, d')" "db_ok d"
  shows "db_ok d'"
proof -
  obtain r where r: "\<not> list_ex (tag_conflict x r) (tags d)" "d' = d\<lparr>tags := tags d @ [r]\<rparr>"
    using assms(1) by (auto simp: insert_tag_def)
  have "td_ID r \<notin> td_ID ` set (tags d)" using r(1) by (auto simp: list_ex_iff tag_conflict_def)
  then show ?thesis unfolding r(2)
    using db_okD(3)[OF assms(2)] by (intro tags_only_db_ok[OF assms(2)]) auto
qed

lemma rename_tag_db_ok:
  assumes "rename_tag x t d = Inr (n, d')" "db_ok d"
  shows "db_ok d'"
proof -
  obtain ts where r: "d' = d\<lparr>tags := ts\<rparr>" "map td_ID ts = map td_ID (tags d)"
    using assms(1) by (auto simp: rename_tag_def Let_def map_update_where)
  have "td_ID ` set ts = td_ID ` set (tags d)" using r(2) by (metis set_map)
  then show ?thesis unfolding r(1)
    using db_okD(3)[OF assms(2)] r(2) by (intro tags_only_db_ok[OF assms(2)]) auto
qed

lemma delete_tag_db_ok:
  assumes "delete_tag x tid d = Inr (n, d')" "db_ok d"
  shows "db_ok d'"
proof -
  obtain j where r: "d' = d\<lparr>tags := filter (\<lambda>r. td_ID r \<noteq> j) (tags d),
             stmt_tags := filter (\<lambda>(s, t). t \<noteq> j) (stmt_tags d)\<rparr>"
    using assms(1) by (auto simp: delete_tag_def)
  show ?thesis unfolding r
  proof (rule tags_db_ok[OF assms(2)])
    show "distinct (map td_ID (filter (\<lambda>r. td_ID r \<noteq> j) (tags d)))"
      using db_okD(3)[OF assms(2)] by (rule distinct_map_filter)
    show "distinct (filter (\<lambda>(s, t). t \<noteq> j) (stmt_tags d))"
      using db_okD(4)[OF assms(2)] by (rule distinct_filter)
    fix s t assume "(s, t) \<in> set (filter (\<lambda>(s, t). t \<noteq> j) (stmt_tags d))"
    then show "s \<in> sd_ID ` set (statements d) \<and> t \<in> td_ID ` set (filter (\<lambda>r. td_ID r \<noteq> j) (tags d))"
      using db_okD(6)[OF assms(2), of s t] by auto
  qed
qed

end
