(* ===== verification/Statement_UC.thy ===== *)
theory Statement_UC
  imports Account_Repo Catalog_Repo Statement_Repo
begin

text \<open>
  \<^verbatim>\<open>internal/usecases/statement\<close>: the metadata helpers, the output DTO, and one
  definition per use case. A use case that writes is split where the code calls the
  writing repository method: \<^verbatim>\<open>_prepare\<close> is everything before it (reads and
  validation), \<^verbatim>\<open>_Execute\<close> the whole. Other requests can run between the two,
  which is how the races of the program are stated.
\<close>

section \<open>Metadata helpers\<close>

fun dedup_loop :: "string list \<Rightarrow> string list \<Rightarrow> string list" where
  "dedup_loop seen [] = []"
| "dedup_loop seen (i # is) =
    (if i \<in> set seen then dedup_loop seen is else i # dedup_loop (i # seen) is)"

definition dedupTagIDs :: "string list \<Rightarrow> string list" where
  "dedupTagIDs ids = dedup_loop [] ids"

definition resolveCategory ::
    "ext \<Rightarrow> string option \<Rightarrow> string \<Rightarrow> string \<Rightarrow> cluster \<Rightarrow> category option go_result" where
  "resolveCategory x categoryID userID stmtType c =
    (case categoryID of
       None \<Rightarrow> Inr None
     | Some raw \<Rightarrow> if raw = [] then Inr None else
         bindE (ParseID (x_uuid_ok x) raw) (\<lambda>cid.
         bindE (CategoryRepository_FindVisible x cid userID c) (\<lambda>cat.
         if c_Type cat \<noteq> stmtType then Inl (Sentinel ErrCategoryTypeMismatch)
         else Inr (Some cat))))"

definition resolveTags :: "ext \<Rightarrow> string list \<Rightarrow> string \<Rightarrow> cluster \<Rightarrow> tag list go_result" where
  "resolveTags x rawIDs userID c =
    (let unique = dedupTagIDs rawIDs in
     if unique = [] then Inr []
     else if length unique > MaxTagsPerStatement then Inl (Sentinel ErrTagLimitExceeded)
     else bindE (mapE (ParseID (x_uuid_ok x)) unique) (\<lambda>parsed.
       bindE (TagRepository_FindManyVisible x parsed userID c) (\<lambda>found.
       if length found \<noteq> length unique then Inl (Sentinel ErrTagNotVisible)
       else Inr found)))"

definition verifyStatementOwnership :: "ext \<Rightarrow> stmt \<Rightarrow> string \<Rightarrow> cluster \<Rightarrow> string go_result" where
  "verifyStatementOwnership x s requestingUserID c =
    bindE (AccountRepository_FindByID x (s_AccountID s) c) (\<lambda>account.
      if requestingUserID \<noteq> [] \<and> a_UserID account \<noteq> requestingUserID
      then Inl (Sentinel ErrStatementNotFound)
      else Inr (a_UserID account))"

definition applyMetadataToStatement :: "category option \<Rightarrow> tag list \<Rightarrow> stmt \<Rightarrow> stmt" where
  "applyMetadataToStatement cat tgs s =
    (let s = (case cat of None \<Rightarrow> s
        | Some k \<Rightarrow> (WithCategory (c_ID k) s)\<lparr>s_Category :=
            Some \<lparr> cr_ID = c_ID k, cr_Name = c_Name k, cr_Type = c_Type k \<rparr>\<rparr>)
     in if tgs = [] then s
        else WithTags (map (\<lambda>t. \<lparr> tr_ID = t_ID t, tr_Name = t_Name t \<rparr>) tgs) s)"

section \<open>Output\<close>

record stmt_output =
  o_ID :: string
  o_AccountID :: string
  o_Type :: string
  o_Amount :: i64
  o_Description :: string
  o_ReferenceID :: "string option"
  o_ExternalID :: "string option"
  o_BalanceAfter :: i64
  o_PostedAt :: string
  o_CreatedAt :: string
  o_Category :: "category_ref option"
  o_Tags :: "tag_ref list"

definition toOutput :: "stmt \<Rightarrow> stmt_output" where
  "toOutput s =
    \<lparr> o_ID = s_ID s, o_AccountID = s_AccountID s, o_Type = s_Type s, o_Amount = s_Amount s,
      o_Description = s_Description s, o_ReferenceID = s_ReferenceID s,
      o_ExternalID = s_ExternalID s, o_BalanceAfter = s_BalanceAfter s,
      o_PostedAt = formatRFC3339 (s_PostedAt s), o_CreatedAt = formatRFC3339 (s_CreatedAt s),
      o_Category = s_Category s, o_Tags = s_Tags s \<rparr>"

section \<open>Create\<close>

record create_input =
  ci_AccountID :: string
  ci_RequestingUserID :: string
  ci_Type :: string
  ci_Amount :: i64
  ci_Description :: string
  ci_PostedAt :: string
  ci_CategoryID :: "string option"
  ci_TagIDs :: "string list"

definition parse_time :: "string \<Rightarrow> gtime go_result" where
  "parse_time s = (case parseRFC3339 s of None \<Rightarrow> Inl (LibError ''parsing time'') | Some t \<Rightarrow> Inr t)"

text \<open>The account a request names, with the ownership check the use cases share: an empty
  requesting user skips it, a mismatch reads as a missing statement.\<close>

definition owned_account :: "ext \<Rightarrow> string \<Rightarrow> string \<Rightarrow> cluster \<Rightarrow> account go_result" where
  "owned_account x accountID requestingUserID c =
    bindE (AccountRepository_FindByID x accountID c) (\<lambda>account.
      if requestingUserID \<noteq> [] \<and> a_UserID account \<noteq> requestingUserID
      then Inl (Sentinel ErrStatementNotFound) else Inr account)"

definition Create_prepare :: "ext \<Rightarrow> create_input \<Rightarrow> cluster \<Rightarrow> stmt go_result" where
  "Create_prepare x inp c =
    bindE (ParseID (x_uuid_ok x) (ci_AccountID inp)) (\<lambda>accountID.
    bindE (owned_account x accountID (ci_RequestingUserID inp) c) (\<lambda>account.
    if \<not> a_Active account then Inl (Sentinel ErrAccountNotActive) else
    bindE (NewStatementType (ci_Type inp)) (\<lambda>stmtType.
    bindE (NewAmount (ci_Amount inp)) (\<lambda>amount.
    bindE (if ci_PostedAt inp = [] then Inr zero_time else parse_time (ci_PostedAt inp)) (\<lambda>postedAt.
    bindE (resolveCategory x (ci_CategoryID inp) (a_UserID account) stmtType c) (\<lambda>cat.
    bindE (resolveTags x (ci_TagIDs inp) (a_UserID account) c) (\<lambda>tgs.
    let s = NewStatement (x_new_id x 0) (x_clock x 0) accountID stmtType amount (ci_Description inp);
        s = (if isZero postedAt then s else s\<lparr>s_PostedAt := postedAt\<rparr>)
    in Inr (applyMetadataToStatement cat tgs s))))))))"

definition Create_Execute :: "ext \<Rightarrow> create_input \<Rightarrow> cluster \<Rightarrow> stmt_output go_result \<times> cluster" where
  "Create_Execute x inp c =
    (case Create_prepare x inp c of
       Inl e \<Rightarrow> (Inl e, c)
     | Inr s \<Rightarrow> (case StatementRepository_Create x s (s_AccountID s) c of
         (Inl e, c) \<Rightarrow> (Inl e, c)
       | (Inr balanceAfter, c) \<Rightarrow> (Inr (toOutput (SetBalanceAfter balanceAfter s)), c)))"

section \<open>Get\<close>

definition Get_Execute :: "ext \<Rightarrow> string \<Rightarrow> string \<Rightarrow> string \<Rightarrow> cluster \<Rightarrow> stmt_output go_result" where
  "Get_Execute x rawStatement rawAccount requestingUserID c =
    bindE (ParseID (x_uuid_ok x) rawStatement) (\<lambda>statementID.
    bindE (ParseID (x_uuid_ok x) rawAccount) (\<lambda>accountID.
    bindE (owned_account x accountID requestingUserID c) (\<lambda>account.
    bindE (StatementRepository_FindByID x statementID c) (\<lambda>s.
    if s_AccountID s \<noteq> accountID then Inl (Sentinel ErrStatementNotFound)
    else Inr (toOutput s)))))"

section \<open>Reverse\<close>

record reverse_input =
  ri_StatementID :: string
  ri_AccountID :: string
  ri_RequestingUserID :: string
  ri_Description :: string

definition defaultEstornoCategoryID :: "string \<Rightarrow> string" where
  "defaultEstornoCategoryID t =
    (if t = TypeCredit then SystemCategoryEstornoCreditID else SystemCategoryEstornoDebitID)"

definition Reverse_prepare :: "ext \<Rightarrow> reverse_input \<Rightarrow> cluster \<Rightarrow> stmt go_result" where
  "Reverse_prepare x inp c =
    bindE (ParseID (x_uuid_ok x) (ri_StatementID inp)) (\<lambda>statementID.
    bindE (ParseID (x_uuid_ok x) (ri_AccountID inp)) (\<lambda>accountID.
    bindE (owned_account x accountID (ri_RequestingUserID inp) c) (\<lambda>account.
    if \<not> a_Active account then Inl (Sentinel ErrAccountNotActive) else
    bindE (StatementRepository_FindByID x statementID c) (\<lambda>orig.
    if s_AccountID orig \<noteq> accountID then Inl (Sentinel ErrStatementNotFound) else
    bindE (HasReversal x statementID c) (\<lambda>hasReversal.
    if hasReversal then Inl (Sentinel ErrAlreadyReversed) else
    let description = (if ri_Description inp = [] then ''Reversal of statement '' @ statementID
                       else ri_Description inp);
        reversal = NewReversalStatement (x_new_id x 0) (x_clock x 0) accountID
                     (Opposite (s_Type orig)) (s_Amount orig) description statementID;
        estornoID = defaultEstornoCategoryID (s_Type reversal)
    in Inr ((WithCategory estornoID reversal)\<lparr>s_Category :=
         Some \<lparr> cr_ID = estornoID, cr_Name = ''Estorno'', cr_Type = s_Type reversal \<rparr>\<rparr>))))))"

definition Reverse_Execute :: "ext \<Rightarrow> reverse_input \<Rightarrow> cluster \<Rightarrow> stmt_output go_result \<times> cluster" where
  "Reverse_Execute x inp c =
    (case Reverse_prepare x inp c of
       Inl e \<Rightarrow> (Inl e, c)
     | Inr reversal \<Rightarrow> (case StatementRepository_Create x reversal (s_AccountID reversal) c of
         (Inl e, c) \<Rightarrow> (Inl e, c)
       | (Inr balanceAfter, c) \<Rightarrow> (Inr (toOutput (SetBalanceAfter balanceAfter reversal)), c)))"

section \<open>Import\<close>

record ofx_txn =
  tx_FITID :: string
  tx_Type :: string
  tx_Amount :: i64
  tx_Name :: string
  tx_Memo :: string
  tx_DatePosted :: gtime

definition buildDescription :: "string \<Rightarrow> string \<Rightarrow> string" where
  "buildDescription name memo =
    (let name = TrimSpace name; memo = TrimSpace memo in
     if name \<noteq> [] \<and> memo \<noteq> [] then name @ '' - '' @ memo
     else if name \<noteq> [] then name else memo)"

definition mapOFXTransaction :: "ext \<Rightarrow> nat \<Rightarrow> ofx_txn \<Rightarrow> string \<Rightarrow> stmt go_result" where
  "mapOFXTransaction x n txn accountID =
    (let stmtType = (if 0 \<le>s tx_Amount txn then TypeCredit else TypeDebit);
         absCents = (if tx_Amount txn <s 0 then - tx_Amount txn else tx_Amount txn)
     in bindE (NewAmount absCents) (\<lambda>amount.
        let description = buildDescription (tx_Name txn) (tx_Memo txn) in
        Inr (if tx_FITID txn \<noteq> []
             then NewImportedStatement (x_new_id x n) (x_clock x n) accountID stmtType amount
                    description (tx_FITID txn) (tx_DatePosted txn)
             else (NewStatement (x_new_id x n) (x_clock x n) accountID stmtType amount
                    description)\<lparr>s_PostedAt := tx_DatePosted txn\<rparr>)))"

definition skip_txn :: "string list \<Rightarrow> ofx_txn \<Rightarrow> bool" where
  "skip_txn existing txn =
    ((tx_FITID txn \<noteq> [] \<and> tx_FITID txn \<in> set existing) \<or> tx_Amount txn = 0)"

text \<open>The loop over the transactions: the statements built so far in reverse, and the
  number skipped.\<close>

fun import_loop :: "ext \<Rightarrow> string list \<Rightarrow> string \<Rightarrow> ofx_txn list \<Rightarrow> stmt list \<Rightarrow> nat \<Rightarrow>
    (stmt list \<times> nat) go_result" where
  "import_loop x existing accountID [] acc skipped = Inr (rev acc, skipped)"
| "import_loop x existing accountID (txn # txns) acc skipped =
    (if skip_txn existing txn then import_loop x existing accountID txns acc (Suc skipped)
     else bindE (mapOFXTransaction x (length acc) txn accountID) (\<lambda>s.
            import_loop x existing accountID txns (s # acc) skipped))"

record import_input =
  ii_AccountID :: string
  ii_RequestingUserID :: string
  ii_FileContent :: string

record import_output =
  io_TotalTransactions :: nat
  io_Created :: nat
  io_Skipped :: nat

definition Import_prepare :: "(string \<Rightarrow> ofx_txn list go_result) \<Rightarrow> ext \<Rightarrow> import_input \<Rightarrow> cluster \<Rightarrow>
    (string \<times> ofx_txn list \<times> stmt list \<times> nat) go_result" where
  "Import_prepare parse x inp c =
    bindE (ParseID (x_uuid_ok x) (ii_AccountID inp)) (\<lambda>accountID.
    bindE (owned_account x accountID (ii_RequestingUserID inp) c) (\<lambda>account.
    if \<not> a_Active account then Inl (Sentinel ErrAccountNotActive) else
    bindE (parse (ii_FileContent inp)) (\<lambda>txns.
    bindE (FindExternalIDs x accountID (filter (\<lambda>i. i \<noteq> []) (map tx_FITID txns)) c) (\<lambda>existing.
    bindE (import_loop x existing accountID txns [] 0) (\<lambda>(ss, skipped).
    Inr (accountID, txns, ss, skipped))))))"

definition Import_Execute :: "(string \<Rightarrow> ofx_txn list go_result) \<Rightarrow> ext \<Rightarrow> import_input \<Rightarrow> cluster \<Rightarrow>
    import_output go_result \<times> cluster" where
  "Import_Execute parse x inp c =
    (case Import_prepare parse x inp c of
       Inl e \<Rightarrow> (Inl e, c)
     | Inr (accountID, txns, ss, skipped) \<Rightarrow>
        (case (if ss = [] then (Inr 0, c) else StatementRepository_CreateBatch x ss accountID c) of
           (Inl e, c) \<Rightarrow> (Inl e, c)
         | (Inr _, c) \<Rightarrow> (Inr \<lparr> io_TotalTransactions = length txns, io_Created = length ss,
                                io_Skipped = skipped \<rparr>, c)))"

section \<open>List\<close>

record list_input =
  li_AccountID :: string
  li_RequestingUserID :: string
  li_Type :: string
  li_DateFrom :: string
  li_DateTo :: string
  li_CategoryID :: string
  li_TagIDs :: "string list"
  li_Page :: i64
  li_Limit :: i64
  li_Cursor :: string

record list_output =
  lo_Data :: "stmt_output list"
  lo_Page :: i64
  lo_Limit :: i64
  lo_Total :: i64
  lo_TotalPages :: i64
  lo_NextCursor :: "string option"

text \<open>An optional query parameter: empty means absent.\<close>

definition opt_param :: "(string \<Rightarrow> 'a go_result) \<Rightarrow> string \<Rightarrow> 'a option go_result" where
  "opt_param f s = (if s = [] then Inr None else bindE (f s) (\<lambda>v. Inr (Some v)))"

definition List_filter :: "ext \<Rightarrow> list_input \<Rightarrow> string \<Rightarrow> stmt_filter go_result" where
  "List_filter x inp accountID =
    bindE (opt_param (decodeCursor (x_uuid_ok x)) (li_Cursor inp)) (\<lambda>cursor.
    bindE (opt_param NewStatementType (li_Type inp)) (\<lambda>ty.
    bindE (opt_param parse_time (li_DateFrom inp)) (\<lambda>dateFrom.
    bindE (opt_param parse_time (li_DateTo inp)) (\<lambda>dateTo.
    bindE (opt_param (ParseID (x_uuid_ok x)) (li_CategoryID inp)) (\<lambda>cat.
    bindE (mapE (ParseID (x_uuid_ok x)) (dedupTagIDs (li_TagIDs inp))) (\<lambda>tgs.
    Inr \<lparr> f_AccountID = accountID, f_Type = ty, f_DateFrom = dateFrom, f_DateTo = dateTo,
          f_CategoryID = cat, f_TagIDs = tgs, f_Page = li_Page inp, f_Limit = li_Limit inp,
          f_CursorPostedAt = map_option fst cursor, f_CursorID = map_option snd cursor \<rparr>))))))"

definition List_Execute :: "ext \<Rightarrow> list_input \<Rightarrow> cluster \<Rightarrow> list_output go_result" where
  "List_Execute x inp c =
    bindE (ParseID (x_uuid_ok x) (li_AccountID inp)) (\<lambda>accountID.
    bindE (owned_account x accountID (li_RequestingUserID inp) c) (\<lambda>account.
    bindE (List_filter x inp accountID) (\<lambda>f.
    bindE (StatementRepository_List x (StmtFilter_Normalize f) c) (\<lambda>res.
    Inr \<lparr> lo_Data = map toOutput (sl_Statements res), lo_Page = sl_Page res, lo_Limit = sl_Limit res,
          lo_Total = sl_Total res, lo_TotalPages = total_pages (sl_Total res) (sl_Limit res),
          lo_NextCursor = (if sl_NextCursor res = [] then None else Some (sl_NextCursor res)) \<rparr>))))"

section \<open>Update category and replace tags\<close>

record update_category_input =
  uc_StatementID :: string
  uc_RequestingUserID :: string
  uc_CategoryID :: "string option"

definition UpdateCategory_prepare :: "ext \<Rightarrow> update_category_input \<Rightarrow> cluster \<Rightarrow> stmt go_result" where
  "UpdateCategory_prepare x inp c =
    bindE (ParseID (x_uuid_ok x) (uc_StatementID inp)) (\<lambda>stmtID.
    bindE (StatementRepository_FindByID x stmtID c) (\<lambda>s.
    bindE (verifyStatementOwnership x s (uc_RequestingUserID inp) c) (\<lambda>requesterID.
    bindE (resolveCategory x (uc_CategoryID inp) requesterID (s_Type s) c) (\<lambda>cat.
    Inr (case cat of
         None \<Rightarrow> s\<lparr>s_CategoryID := None, s_Category := None\<rparr>
       | Some k \<Rightarrow> s\<lparr>s_CategoryID := Some (c_ID k), s_Category :=
           Some \<lparr> cr_ID = c_ID k, cr_Name = c_Name k, cr_Type = s_Type s \<rparr>\<rparr>)))))"

definition UpdateCategory_Execute :: "ext \<Rightarrow> update_category_input \<Rightarrow> cluster \<Rightarrow>
    stmt_output go_result \<times> cluster" where
  "UpdateCategory_Execute x inp c =
    (case UpdateCategory_prepare x inp c of
       Inl e \<Rightarrow> (Inl e, c)
     | Inr s \<Rightarrow> (case UpdateCategory x (uc_StatementID inp) (s_CategoryID s) c of
         (Inl e, c) \<Rightarrow> (Inl e, c)
       | (Inr _, c) \<Rightarrow> (Inr (toOutput s), c)))"

record replace_tags_input =
  rt_StatementID :: string
  rt_RequestingUserID :: string
  rt_TagIDs :: "string list"

definition ReplaceTags_prepare :: "ext \<Rightarrow> replace_tags_input \<Rightarrow> cluster \<Rightarrow> (stmt \<times> tag list) go_result" where
  "ReplaceTags_prepare x inp c =
    bindE (ParseID (x_uuid_ok x) (rt_StatementID inp)) (\<lambda>stmtID.
    bindE (StatementRepository_FindByID x stmtID c) (\<lambda>s.
    bindE (verifyStatementOwnership x s (rt_RequestingUserID inp) c) (\<lambda>requesterID.
    bindE (resolveTags x (rt_TagIDs inp) requesterID c) (\<lambda>tgs.
    Inr (s, tgs)))))"

definition ReplaceTags_Execute :: "ext \<Rightarrow> replace_tags_input \<Rightarrow> cluster \<Rightarrow>
    stmt_output go_result \<times> cluster" where
  "ReplaceTags_Execute x inp c =
    (case ReplaceTags_prepare x inp c of
       Inl e \<Rightarrow> (Inl e, c)
     | Inr (s, tgs) \<Rightarrow> (case ReplaceTags x (rt_StatementID inp) (map t_ID tgs) c of
         (Inl e, c) \<Rightarrow> (Inl e, c)
       | (Inr _, c) \<Rightarrow> (Inr (toOutput (s\<lparr>s_Tags :=
             map (\<lambda>t. \<lparr> tr_ID = t_ID t, tr_Name = t_Name t \<rparr>) tgs\<rparr>)), c)))"

end
