(* ===== verification/Account_UC.thy ===== *)
theory Account_UC
  imports Account_Repo
begin

text \<open>
  \<^verbatim>\<open>internal/usecases/account\<close>: create, get, list, update and delete (a soft
  delete) of accounts, with the ownership rule: an empty requesting user skips the
  check, any other user's account reads as missing.
\<close>

record account_create_input =
  aci_UserID :: string
  aci_Name :: string
  aci_Type :: string
  aci_Description :: string
  aci_CreditLimit :: "i64 option"

record account_create_output =
  aco_ID :: string
  aco_CreatedAt :: string

definition AccountCreate_prepare :: "ext \<Rightarrow> account_create_input \<Rightarrow> account go_result" where
  "AccountCreate_prepare x inp =
    bindE (ParseID (x_uuid_ok x) (aci_UserID inp)) (\<lambda>userID.
    bindE (NewAccountType (aci_Type inp)) (\<lambda>accountType.
    NewAccount (x_new_id x 0) (x_clock x 0) (x_clock x 1) userID (aci_Name inp) accountType
      (aci_Description inp) (aci_CreditLimit inp)))"

definition AccountCreate_Execute :: "ext \<Rightarrow> account_create_input \<Rightarrow> cluster \<Rightarrow>
    account_create_output go_result \<times> cluster" where
  "AccountCreate_Execute x inp c =
    (case AccountCreate_prepare x inp of
       Inl e \<Rightarrow> (Inl e, c)
     | Inr a \<Rightarrow> (case AccountRepository_Create x a c of
         (Inl e, c) \<Rightarrow> (Inl e, c)
       | (Inr _, c) \<Rightarrow> (Inr \<lparr> aco_ID = a_ID a, aco_CreatedAt = formatRFC3339 (a_CreatedAt a) \<rparr>, c)))"

record account_output =
  ao_ID :: string
  ao_UserID :: string
  ao_Name :: string
  ao_Type :: string
  ao_Description :: string
  ao_Balance :: i64
  ao_Active :: bool
  ao_CreatedAt :: string
  ao_UpdatedAt :: string
  ao_CreditLimit :: "i64 option"

definition creditLimitCents :: "i64 option \<Rightarrow> i64 option" where
  "creditLimitCents limit = limit"

definition account_to_output :: "account \<Rightarrow> account_output" where
  "account_to_output a =
    \<lparr> ao_ID = a_ID a, ao_UserID = a_UserID a, ao_Name = a_Name a, ao_Type = a_Type a,
      ao_Description = a_Description a, ao_Balance = a_Balance a, ao_Active = a_Active a,
      ao_CreatedAt = formatRFC3339 (a_CreatedAt a), ao_UpdatedAt = formatRFC3339 (a_UpdatedAt a),
      ao_CreditLimit = creditLimitCents (a_CreditLimit a) \<rparr>"

text \<open>The account a request names: a wrong owner reads as not found.\<close>

definition account_of :: "ext \<Rightarrow> string \<Rightarrow> string \<Rightarrow> cluster \<Rightarrow> account go_result" where
  "account_of x aid requestingUserID c =
    bindE (AccountRepository_FindByID x aid c) (\<lambda>a.
      if requestingUserID \<noteq> [] \<and> a_UserID a \<noteq> requestingUserID
      then Inl (Sentinel ErrAccountNotFound) else Inr a)"

definition AccountGet_Execute :: "ext \<Rightarrow> string \<Rightarrow> string \<Rightarrow> cluster \<Rightarrow> account_output go_result" where
  "AccountGet_Execute x rawID requestingUserID c =
    bindE (ParseID (x_uuid_ok x) rawID) (\<lambda>aid.
    bindE (account_of x aid requestingUserID c) (\<lambda>a. Inr (account_to_output a)))"

record account_update_input =
  aui_ID :: string
  aui_RequestingUserID :: string
  aui_Name :: "string option"
  aui_Description :: "string option"
  aui_CreditLimit :: "i64 option"

record account_update_output =
  auo_ID :: string
  auo_UserID :: string
  auo_Name :: string
  auo_Type :: string
  auo_Description :: string
  auo_Active :: bool
  auo_UpdatedAt :: string
  auo_CreditLimit :: "i64 option"

definition account_update_to_output :: "account \<Rightarrow> account_update_output" where
  "account_update_to_output a =
    \<lparr> auo_ID = a_ID a, auo_UserID = a_UserID a, auo_Name = a_Name a, auo_Type = a_Type a,
      auo_Description = a_Description a, auo_Active = a_Active a,
      auo_UpdatedAt = formatRFC3339 (a_UpdatedAt a), auo_CreditLimit = creditLimitCents (a_CreditLimit a) \<rparr>"

definition AccountUpdate_prepare :: "ext \<Rightarrow> account_update_input \<Rightarrow> cluster \<Rightarrow> account go_result" where
  "AccountUpdate_prepare x inp c =
    bindE (ParseID (x_uuid_ok x) (aui_ID inp)) (\<lambda>aid.
    bindE (account_of x aid (aui_RequestingUserID inp) c) (\<lambda>a.
    let a = (case aui_Name inp of None \<Rightarrow> a | Some n \<Rightarrow> UpdateName (x_clock x 0) n a);
        a = (case aui_Description inp of None \<Rightarrow> a | Some d \<Rightarrow> UpdateDescription (x_clock x 1) d a)
    in (case aui_CreditLimit inp of None \<Rightarrow> Inr a | Some l \<Rightarrow> SetCreditLimit (x_clock x 2) l a)))"

definition AccountUpdate_Execute :: "ext \<Rightarrow> account_update_input \<Rightarrow> cluster \<Rightarrow>
    account_update_output go_result \<times> cluster" where
  "AccountUpdate_Execute x inp c =
    (case AccountUpdate_prepare x inp c of
       Inl e \<Rightarrow> (Inl e, c)
     | Inr a \<Rightarrow> (case AccountRepository_Update x a c of
         (Inl e, c) \<Rightarrow> (Inl e, c)
       | (Inr _, c) \<Rightarrow> (Inr (account_update_to_output a), c)))"

definition AccountDelete_prepare :: "ext \<Rightarrow> string \<Rightarrow> string \<Rightarrow> cluster \<Rightarrow> string go_result" where
  "AccountDelete_prepare x rawID requestingUserID c =
    bindE (ParseID (x_uuid_ok x) rawID) (\<lambda>aid.
    if requestingUserID = [] then Inr aid
    else bindE (account_of x aid requestingUserID c) (\<lambda>_. Inr aid))"

text \<open>The output: the identifier as given and the time of the answer.\<close>

definition AccountDelete_Execute :: "ext \<Rightarrow> string \<Rightarrow> string \<Rightarrow> cluster \<Rightarrow>
    (string \<times> string) go_result \<times> cluster" where
  "AccountDelete_Execute x rawID requestingUserID c =
    (case AccountDelete_prepare x rawID requestingUserID c of
       Inl e \<Rightarrow> (Inl e, c)
     | Inr aid \<Rightarrow> (case AccountRepository_Delete x (x_clock x 0) aid c of
         (Inl e, c) \<Rightarrow> (Inl e, c)
       | (Inr _, c) \<Rightarrow> (Inr (rawID, formatRFC3339 (x_clock x 1)), c)))"

record account_list_input =
  ali_UserID :: string
  ali_Page :: i64
  ali_Limit :: i64
  ali_Name :: string
  ali_Type :: string
  ali_ActiveOnly :: bool
  ali_Cursor :: string

record account_list_output =
  alo_Data :: "account_output list"
  alo_Page :: i64
  alo_Limit :: i64
  alo_Total :: i64
  alo_TotalPages :: i64
  alo_NextCursor :: "string option"

text \<open>\<^verbatim>\<open>decodeAccountCursor\<close> is \<^verbatim>\<open>decodeCursor\<close> of the statement list, line for line.\<close>

definition decodeAccountCursor :: "(string \<Rightarrow> bool) \<Rightarrow> string \<Rightarrow> (gtime \<times> string) go_result" where
  "decodeAccountCursor uuid_ok cursor =
    (case b64_decode cursor of
       None \<Rightarrow> Inl (Wrapped ''invalid cursor'' (LibError ''illegal base64 data''))
     | Some raw \<Rightarrow> (case split2 (CHR ''|'') raw of
         (_, None) \<Rightarrow> Inl (LibError ''invalid cursor format'')
       | (ts, Some i) \<Rightarrow> (case parseRFC3339 ts of
           None \<Rightarrow> Inl (Wrapped ''invalid cursor timestamp'' (LibError ''parsing time''))
         | Some t \<Rightarrow> (case ParseID uuid_ok i of
             Inl e \<Rightarrow> Inl (Wrapped ''invalid cursor ID'' e)
           | Inr i \<Rightarrow> Inr (t, i)))))"

lemma decodeAccountCursor_eq: "decodeAccountCursor = decodeCursor"
  by (simp add: fun_eq_iff decodeAccountCursor_def decodeCursor_def)

definition AccountList_Execute :: "ext \<Rightarrow> account_list_input \<Rightarrow> cluster \<Rightarrow> account_list_output go_result" where
  "AccountList_Execute x inp c =
    bindE (ParseID (x_uuid_ok x) (ali_UserID inp)) (\<lambda>userID.
    bindE (if ali_Cursor inp = [] then Inr None
           else bindE (decodeAccountCursor (x_uuid_ok x) (ali_Cursor inp)) (\<lambda>k. Inr (Some k))) (\<lambda>cursor.
    bindE (AccountRepository_List x
       \<lparr> g_Page = ali_Page inp, g_Limit = ali_Limit inp, g_UserID = userID, g_Name = ali_Name inp,
         g_Type = ali_Type inp, g_ActiveOnly = ali_ActiveOnly inp,
         g_CursorCreatedAt = map_option fst cursor, g_CursorID = map_option snd cursor \<rparr> c) (\<lambda>res.
    Inr \<lparr> alo_Data = map account_to_output (al_Accounts res), alo_Page = al_Page res,
          alo_Limit = al_Limit res, alo_Total = al_Total res,
          alo_TotalPages = total_pages (al_Total res) (al_Limit res),
          alo_NextCursor = (if al_NextCursor res = [] then None else Some (al_NextCursor res)) \<rparr>)))"

end
