(* ===== verification/Catalog_UC.thy ===== *)
theory Catalog_UC
  imports Catalog_Repo
begin

text \<open>
  \<^verbatim>\<open>internal/usecases/category\<close> and \<^verbatim>\<open>internal/usecases/tag\<close>: create,
  rename, delete and list. System rows are read-only; another user's row reads as
  missing; a category in use cannot be deleted.
\<close>

section \<open>Categories\<close>

record category_output =
  co_ID :: string
  co_Name :: string
  co_Type :: string
  co_Scope :: string
  co_CreatedAt :: string
  co_UpdatedAt :: string

definition Category_FromDomain :: "category \<Rightarrow> category_output" where
  "Category_FromDomain c =
    \<lparr> co_ID = c_ID c, co_Name = c_Name c, co_Type = c_Type c,
      co_Scope = (if Category_IsSystem c then ''system'' else ''user''),
      co_CreatedAt = formatRFC3339 (c_CreatedAt c), co_UpdatedAt = formatRFC3339 (c_UpdatedAt c) \<rparr>"

definition CategoryCreate_Execute :: "ext \<Rightarrow> string \<Rightarrow> string \<Rightarrow> string \<Rightarrow> cluster \<Rightarrow>
    category_output go_result \<times> cluster" where
  "CategoryCreate_Execute x rawUser rawName rawType c =
    (case (bindE (ParseID (x_uuid_ok x) rawUser) (\<lambda>userID.
           let name = TrimSpace rawName in
           if name = [] then Inl (Sentinel ErrCategoryInvalidName) else
           bindE (NewCategoryType rawType) (\<lambda>ty.
           Inr (NewCategory (x_new_id x 0) (x_clock x 0) userID name ty)))) of
       Inl e \<Rightarrow> (Inl e, c)
     | Inr cat \<Rightarrow> (case CategoryRepository_Create x cat c of
         (Inl e, c) \<Rightarrow> (Inl e, c)
       | (Inr _, c) \<Rightarrow> (Inr (Category_FromDomain cat), c)))"

definition own_category :: "ext \<Rightarrow> string \<Rightarrow> string \<Rightarrow> cluster \<Rightarrow> category go_result" where
  "own_category x userID cid c =
    bindE (CategoryRepository_FindByID x cid c) (\<lambda>cat.
      if Category_IsSystem cat then Inl (Sentinel ErrCategoryReadOnly)
      else if c_UserID cat \<noteq> Some userID then Inl (Sentinel ErrCategoryNotFound)
      else Inr cat)"

definition CategoryUpdate_prepare :: "ext \<Rightarrow> string \<Rightarrow> string \<Rightarrow> string \<Rightarrow> cluster \<Rightarrow> category go_result" where
  "CategoryUpdate_prepare x rawUser rawID rawName c =
    bindE (ParseID (x_uuid_ok x) rawUser) (\<lambda>userID.
    bindE (ParseID (x_uuid_ok x) rawID) (\<lambda>cid.
    let name = TrimSpace rawName in
    if name = [] then Inl (Sentinel ErrCategoryInvalidName) else
    bindE (own_category x userID cid c) (Category_Rename (x_clock x 0) name)))"

definition CategoryUpdate_Execute :: "ext \<Rightarrow> string \<Rightarrow> string \<Rightarrow> string \<Rightarrow> cluster \<Rightarrow>
    category_output go_result \<times> cluster" where
  "CategoryUpdate_Execute x rawUser rawID rawName c =
    (case CategoryUpdate_prepare x rawUser rawID rawName c of
       Inl e \<Rightarrow> (Inl e, c)
     | Inr cat \<Rightarrow> (case CategoryRepository_Update x cat c of
         (Inl e, c) \<Rightarrow> (Inl e, c)
       | (Inr _, c) \<Rightarrow> (Inr (Category_FromDomain cat), c)))"

definition CategoryDelete_prepare :: "ext \<Rightarrow> string \<Rightarrow> string \<Rightarrow> cluster \<Rightarrow> string go_result" where
  "CategoryDelete_prepare x rawUser rawID c =
    bindE (ParseID (x_uuid_ok x) rawUser) (\<lambda>userID.
    bindE (ParseID (x_uuid_ok x) rawID) (\<lambda>cid.
    bindE (own_category x userID cid c) (\<lambda>_.
    bindE (CountStatementsUsing x cid c) (\<lambda>count.
    if 0 <s count then Inl (Sentinel ErrCategoryInUse) else Inr cid))))"

definition CategoryDelete_Execute :: "ext \<Rightarrow> string \<Rightarrow> string \<Rightarrow> cluster \<Rightarrow>
    (string \<times> string) go_result \<times> cluster" where
  "CategoryDelete_Execute x rawUser rawID c =
    (case CategoryDelete_prepare x rawUser rawID c of
       Inl e \<Rightarrow> (Inl e, c)
     | Inr cid \<Rightarrow> (case CategoryRepository_Delete x cid c of
         (Inl e, c) \<Rightarrow> (Inl e, c)
       | (Inr _, c) \<Rightarrow> (Inr (rawID, formatRFC3339 (x_clock x 0)), c)))"

definition list_scope :: "string \<Rightarrow> string" where
  "list_scope s = (if s = ''system'' then ''system'' else if s = ''user'' then ''user'' else [])"

definition CategoryList_Execute :: "ext \<Rightarrow> string \<Rightarrow> string \<Rightarrow> string \<Rightarrow> cluster \<Rightarrow>
    category_output list go_result" where
  "CategoryList_Execute x rawUser rawType rawScope c =
    bindE (ParseID (x_uuid_ok x) rawUser) (\<lambda>userID.
    bindE (if rawType = [] then Inr None
           else bindE (NewCategoryType rawType) (\<lambda>t. Inr (Some t))) (\<lambda>ty.
    bindE (CategoryRepository_List x
       \<lparr> cf_UserID = userID, cf_Type = ty, cf_Scope = list_scope rawScope \<rparr> c) (\<lambda>cats.
    Inr (map Category_FromDomain cats))))"

section \<open>Tags\<close>

record tag_output =
  to_ID :: string
  to_Name :: string
  to_Scope :: string
  to_CreatedAt :: string
  to_UpdatedAt :: string

definition Tag_FromDomain :: "tag \<Rightarrow> tag_output" where
  "Tag_FromDomain t =
    \<lparr> to_ID = t_ID t, to_Name = t_Name t,
      to_Scope = (if Tag_IsSystem t then ''system'' else ''user''),
      to_CreatedAt = formatRFC3339 (t_CreatedAt t), to_UpdatedAt = formatRFC3339 (t_UpdatedAt t) \<rparr>"

definition TagCreate_Execute :: "ext \<Rightarrow> string \<Rightarrow> string \<Rightarrow> cluster \<Rightarrow> tag_output go_result \<times> cluster" where
  "TagCreate_Execute x rawUser rawName c =
    (case (bindE (ParseID (x_uuid_ok x) rawUser) (\<lambda>userID.
           let name = TrimSpace rawName in
           if name = [] then Inl (Sentinel ErrTagInvalidName) else
           Inr (NewTag (x_new_id x 0) (x_clock x 0) userID name))) of
       Inl e \<Rightarrow> (Inl e, c)
     | Inr t \<Rightarrow> (case TagRepository_Create x t c of
         (Inl e, c) \<Rightarrow> (Inl e, c)
       | (Inr _, c) \<Rightarrow> (Inr (Tag_FromDomain t), c)))"

definition own_tag :: "ext \<Rightarrow> string \<Rightarrow> string \<Rightarrow> cluster \<Rightarrow> tag go_result" where
  "own_tag x userID tid c =
    bindE (TagRepository_FindByID x tid c) (\<lambda>t.
      if Tag_IsSystem t then Inl (Sentinel ErrTagReadOnly)
      else if t_UserID t \<noteq> Some userID then Inl (Sentinel ErrTagNotFound)
      else Inr t)"

definition TagUpdate_prepare :: "ext \<Rightarrow> string \<Rightarrow> string \<Rightarrow> string \<Rightarrow> cluster \<Rightarrow> tag go_result" where
  "TagUpdate_prepare x rawUser rawID rawName c =
    bindE (ParseID (x_uuid_ok x) rawUser) (\<lambda>userID.
    bindE (ParseID (x_uuid_ok x) rawID) (\<lambda>tid.
    let name = TrimSpace rawName in
    if name = [] then Inl (Sentinel ErrTagInvalidName) else
    bindE (own_tag x userID tid c) (Tag_Rename (x_clock x 0) name)))"

definition TagUpdate_Execute :: "ext \<Rightarrow> string \<Rightarrow> string \<Rightarrow> string \<Rightarrow> cluster \<Rightarrow>
    tag_output go_result \<times> cluster" where
  "TagUpdate_Execute x rawUser rawID rawName c =
    (case TagUpdate_prepare x rawUser rawID rawName c of
       Inl e \<Rightarrow> (Inl e, c)
     | Inr t \<Rightarrow> (case TagRepository_Update x t c of
         (Inl e, c) \<Rightarrow> (Inl e, c)
       | (Inr _, c) \<Rightarrow> (Inr (Tag_FromDomain t), c)))"

definition TagDelete_prepare :: "ext \<Rightarrow> string \<Rightarrow> string \<Rightarrow> cluster \<Rightarrow> string go_result" where
  "TagDelete_prepare x rawUser rawID c =
    bindE (ParseID (x_uuid_ok x) rawUser) (\<lambda>userID.
    bindE (ParseID (x_uuid_ok x) rawID) (\<lambda>tid.
    bindE (own_tag x userID tid c) (\<lambda>_. Inr tid)))"

definition TagDelete_Execute :: "ext \<Rightarrow> string \<Rightarrow> string \<Rightarrow> cluster \<Rightarrow>
    (string \<times> string) go_result \<times> cluster" where
  "TagDelete_Execute x rawUser rawID c =
    (case TagDelete_prepare x rawUser rawID c of
       Inl e \<Rightarrow> (Inl e, c)
     | Inr tid \<Rightarrow> (case TagRepository_Delete x tid c of
         (Inl e, c) \<Rightarrow> (Inl e, c)
       | (Inr _, c) \<Rightarrow> (Inr (rawID, formatRFC3339 (x_clock x 0)), c)))"

definition TagList_Execute :: "ext \<Rightarrow> string \<Rightarrow> string \<Rightarrow> cluster \<Rightarrow> tag_output list go_result" where
  "TagList_Execute x rawUser rawScope c =
    bindE (ParseID (x_uuid_ok x) rawUser) (\<lambda>userID.
    bindE (TagRepository_List x \<lparr> tf_UserID = userID, tf_Scope = list_scope rawScope \<rparr> c) (\<lambda>tgs.
    Inr (map Tag_FromDomain tgs)))"

section \<open>The ownership contract of a catalog\<close>

text \<open>Categories and tags share one rule: a row is found by its identifier, a row without an
  owner is read-only, a row of another user reads as missing, and update and delete
  stop there without writing.\<close>

locale owned_catalog =
  fixes find_row :: "ext \<Rightarrow> string \<Rightarrow> cluster \<Rightarrow> 'v go_result"
    and owner :: "'v \<Rightarrow> string option"
    and own :: "ext \<Rightarrow> string \<Rightarrow> string \<Rightarrow> cluster \<Rightarrow> 'v go_result"
    and update :: "ext \<Rightarrow> string \<Rightarrow> string \<Rightarrow> string \<Rightarrow> cluster \<Rightarrow> 'o go_result \<times> cluster"
    and delete :: "ext \<Rightarrow> string \<Rightarrow> string \<Rightarrow> cluster \<Rightarrow> 'p go_result \<times> cluster"
    and read_only :: sentinel
    and missing :: sentinel
  assumes own_rule: "own x u i c = bindE (find_row x i c) (\<lambda>v.
      if owner v = None then Inl (Sentinel read_only)
      else if owner v \<noteq> Some u then Inl (Sentinel missing) else Inr v)"
    and update_stops: "x_uuid_ok x u \<Longrightarrow> x_uuid_ok x i \<Longrightarrow> TrimSpace n \<noteq> [] \<Longrightarrow>
      own x u i c = Inl e \<Longrightarrow> update x u i n c = (Inl e, c)"
    and delete_stops: "x_uuid_ok x u \<Longrightarrow> x_uuid_ok x i \<Longrightarrow>
      own x u i c = Inl e \<Longrightarrow> delete x u i c = (Inl e, c)"
begin

lemma own_row: "own x u i c = Inr v \<longleftrightarrow> find_row x i c = Inr v \<and> owner v = Some u"
  by (auto simp: own_rule)

lemma own_refused: "find_row x i c = Inr v \<Longrightarrow> owner v \<noteq> Some u \<Longrightarrow>
    own x u i c = Inl (Sentinel (if owner v = None then read_only else missing))"
  by (simp add: own_rule)

lemma update_refused:
  assumes "x_uuid_ok x u" "x_uuid_ok x i" "TrimSpace n \<noteq> []" "find_row x i c = Inr v" "owner v \<noteq> Some u"
  shows "update x u i n c = (Inl (Sentinel (if owner v = None then read_only else missing)), c)"
  by (rule update_stops[OF assms(1-3) own_refused[OF assms(4,5)]])

lemma delete_refused:
  assumes "x_uuid_ok x u" "x_uuid_ok x i" "find_row x i c = Inr v" "owner v \<noteq> Some u"
  shows "delete x u i c = (Inl (Sentinel (if owner v = None then read_only else missing)), c)"
  by (rule delete_stops[OF assms(1,2) own_refused[OF assms(3,4)]])

end

interpretation cats: owned_catalog CategoryRepository_FindByID c_UserID own_category
    CategoryUpdate_Execute CategoryDelete_Execute ErrCategoryReadOnly ErrCategoryNotFound
  by unfold_locales
    (simp_all add: own_category_def Category_IsSystem_def CategoryUpdate_Execute_def
      CategoryUpdate_prepare_def CategoryDelete_Execute_def CategoryDelete_prepare_def ParseID_def)

interpretation labels: owned_catalog TagRepository_FindByID t_UserID own_tag
    TagUpdate_Execute TagDelete_Execute ErrTagReadOnly ErrTagNotFound
  by unfold_locales
    (simp_all add: own_tag_def Tag_IsSystem_def TagUpdate_Execute_def
      TagUpdate_prepare_def TagDelete_Execute_def TagDelete_prepare_def ParseID_def)

end
