(* ===== verification/Wallet_Steps.thy ===== *)
theory Wallet_Steps
  imports Ledger Statement_UC Account_UC Catalog_UC
begin

text \<open>
  The program as a transition system: one step is one writing repository call, with
  any environment (any clock, identifiers and connection failures), or a copy of the
  primary to the replica. Requests interleave between these steps, so what holds in
  every reachable state holds under any interleaving of use cases. The locale is the
  contract of a writing operation; every operation is shown to provide it.
\<close>

definition cluster_ok :: "cluster \<Rightarrow> bool" where
  "cluster_ok c \<longleftrightarrow> db_ok (primary c) \<and> (\<forall>r. replica c = Some r \<longrightarrow> db_ok r)"

lemma cluster_ok_reader: "cluster_ok c \<Longrightarrow> db_ok (reader c)"
  by (auto simp: cluster_ok_def reader_def split: option.splits)

section \<open>The contract of a write\<close>

text \<open>A write runs a body on the primary: it changes nothing, or it leaves exactly the
  body's database, and a success is always the latter.\<close>

locale write_op =
  fixes run :: "'q \<Rightarrow> cluster \<Rightarrow> 'r go_result \<times> cluster"
    and body :: "'q \<Rightarrow> db \<Rightarrow> db option"
    and pre :: "'q \<Rightarrow> bool"
  assumes atomic: "run q c = (r, c') \<Longrightarrow>
      c' = c \<or> (\<exists>d. body q (primary c) = Some d \<and> c' = c\<lparr>primary := d\<rparr>)"
    and effective: "run q c = (Inr a, c') \<Longrightarrow>
      \<exists>d. body q (primary c) = Some d \<and> c' = c\<lparr>primary := d\<rparr>"
    and keeps: "pre q \<Longrightarrow> db_ok d \<Longrightarrow> body q d = Some d' \<Longrightarrow> db_ok d'"
begin

lemma replica_same: "run q c = (r, c') \<Longrightarrow> replica c' = replica c"
  using atomic[of q c r c'] by auto

lemma run_ok: "pre q \<Longrightarrow> cluster_ok c \<Longrightarrow> run q c = (r, c') \<Longrightarrow> cluster_ok c'"
  using atomic[of q c r c'] keeps[of q "primary c"] by (auto simp: cluster_ok_def)

lemma run_all_ok:
  assumes "\<forall>q\<in>set qs. pre q" "cluster_ok c"
  shows "cluster_ok (fold (\<lambda>q c. snd (run q c)) qs c)"
  using assms
proof (induction qs arbitrary: c)
  case (Cons q qs)
  have "cluster_ok (snd (run q c))"
    using Cons.prems run_ok[of q c "fst (run q c)"] by simp
  with Cons show ?case by simp
qed simp

end

definition body_of :: "('a \<times> db) go_result \<Rightarrow> db option" where
  "body_of r = (case r of Inl e \<Rightarrow> None | Inr (a, d) \<Rightarrow> Some d)"

lemma body_of_Some [simp]: "body_of r = Some d \<longleftrightarrow> (\<exists>a. r = Inr (a, d))"
  by (auto simp: body_of_def split: sum.splits)

lemma transact_atomic:
  assumes "transact x site b c = (r, c')"
  shows "c' = c \<or> (\<exists>d. body_of (b (primary c)) = Some d \<and> c' = c\<lparr>primary := d\<rparr>)"
  using transact_outcome[OF assms] by auto

lemma transact_effective:
  assumes "transact x site b c = (Inr a, c')"
  shows "\<exists>d. body_of (b (primary c)) = Some d \<and> c' = c\<lparr>primary := d\<rparr>"
  using transact_outcome[OF assms] by auto

lemma exec_atomic:
  assumes "exec x site b c = (r, c')"
  shows "c' = c \<or> (\<exists>d. body_of (b (primary c)) = Some d \<and> c' = c\<lparr>primary := d\<rparr>)"
  using exec_outcome[OF assms] by auto

lemma exec_effective:
  assumes "exec x site b c = (Inr a, c')"
  shows "\<exists>d. body_of (b (primary c)) = Some d \<and> c' = c\<lparr>primary := d\<rparr>"
  using exec_outcome[OF assms] by auto

definition post_pre :: "ext \<times> stmt \<times> string \<Rightarrow> bool" where
  "post_pre = (\<lambda>(x, s, aid). ext_ok x \<and> valid_type s \<and> s_AccountID s = aid)"

definition batch_pre :: "ext \<times> stmt list \<times> string \<Rightarrow> bool" where
  "batch_pre = (\<lambda>(x, ss, aid). ext_ok x \<and> (\<forall>s\<in>set ss. valid_type s \<and> s_AccountID s = aid))"

interpretation post: write_op "\<lambda>(x, s, aid). StatementRepository_Create x s aid"
  "\<lambda>(x, s, aid) d. body_of (create_body x s aid d)" post_pre
proof (unfold_locales, goal_cases)
  case (1 q c r c')
  then show ?case by (cases q) (auto simp: StatementRepository_Create_def dest!: transact_atomic)
next
  case (2 q c a c')
  then show ?case by (cases q) (auto simp: StatementRepository_Create_def dest!: transact_effective)
next
  case (3 q d d')
  obtain x s aid where q: "q = (x, s, aid)" by (cases q) auto
  obtain b where b: "create_body x s aid d = Inr (b, d')" using 3(3) q by auto
  have p: "ext_ok x" "valid_type s" "s_AccountID s = aid" using 3(1) q by (auto simp: post_pre_def)
  show ?case by (rule create_body_posted[OF p b]) (rule posted_db_ok[OF _ 3(2)])
qed

interpretation batch: write_op "\<lambda>(x, ss, aid). StatementRepository_CreateBatch x ss aid"
  "\<lambda>(x, ss, aid) d. if ss = [] then Some d else body_of (batch_body x ss aid d)" batch_pre
proof (unfold_locales, goal_cases)
  case (1 q c r c')
  obtain x ss aid where q: "q = (x, ss, aid)" by (cases q) auto
  show ?case
    using 1 q transact_atomic[of x "''statements.CreateBatch''" "batch_body x ss aid" c r c']
    by (cases "ss = []") (simp_all add: StatementRepository_CreateBatch_def)
next
  case (2 q c a c')
  obtain x ss aid where q: "q = (x, ss, aid)" by (cases q) auto
  show ?case
    using 2 q transact_effective[of x "''statements.CreateBatch''" "batch_body x ss aid" c a c']
    by (cases "ss = []") (auto simp: StatementRepository_CreateBatch_def)
next
  case (3 q d d')
  obtain x ss aid where q: "q = (x, ss, aid)" by (cases q) auto
  show ?case
  proof (cases "ss = []")
    case True
    then show ?thesis using 3 q by simp
  next
    case False
    then obtain b where b: "batch_body x ss aid d = Inr (b, d')" using 3(3) q by auto
    have p: "ext_ok x" "\<forall>s\<in>set ss. valid_type s \<and> s_AccountID s = aid"
      using 3(1) q by (auto simp: batch_pre_def)
    show ?thesis by (rule batch_body_posted[OF p b]) (rule posted_db_ok[OF _ 3(2)])
  qed
qed

interpretation open_account: write_op "\<lambda>(x, a). AccountRepository_Create x a"
  "\<lambda>(x, a) d. body_of (insert_account x (fromDomainAccount a) d)" "\<lambda>(x, a). a_Balance a = 0"
proof (unfold_locales, goal_cases)
  case (1 q c r c')
  then show ?case by (cases q) (auto simp: AccountRepository_Create_def split: prod.splits dest!: exec_atomic)
next
  case (2 q c a c')
  then show ?case
    by (cases q) (auto simp: AccountRepository_Create_def split: prod.splits dest!: exec_effective)
next
  case (3 q d d')
  then show ?case by (cases q) (auto simp: fromDomainAccount_def dest!: insert_account_db_ok)
qed

interpretation change_account: write_op "\<lambda>(x, a). AccountRepository_Update x a"
  "\<lambda>(x, a) d. body_of (update_account x (fromDomainAccount a) d)" "\<lambda>_. True"
proof (unfold_locales, goal_cases)
  case (1 q c r c')
  then show ?case by (cases q) (auto simp: AccountRepository_Update_def split: prod.splits dest!: exec_atomic)
next
  case (2 q c a c')
  then show ?case
    by (cases q) (auto simp: AccountRepository_Update_def split: prod.splits dest!: exec_effective)
next
  case (3 q d d')
  then show ?case by (cases q) (auto dest: update_account_db_ok)
qed

interpretation close_account: write_op "\<lambda>(x, t, i). AccountRepository_Delete x t i"
  "\<lambda>(x, t, i) d. body_of (deactivate_account x t i d)" "\<lambda>_. True"
proof (unfold_locales, goal_cases)
  case (1 q c r c')
  then show ?case by (cases q) (auto simp: AccountRepository_Delete_def split: prod.splits dest!: exec_atomic)
next
  case (2 q c a c')
  then show ?case
    by (cases q) (auto simp: AccountRepository_Delete_def split: prod.splits dest!: exec_effective)
next
  case (3 q d d')
  then show ?case by (cases q) (auto dest: deactivate_account_db_ok)
qed

interpretation classify: write_op "\<lambda>(x, s, k). UpdateCategory x s k"
  "\<lambda>(x, s, k) d. body_of (set_category x s k d)" "\<lambda>_. True"
proof (unfold_locales, goal_cases)
  case (1 q c r c')
  then show ?case
    by (cases q) (auto simp: UpdateCategory_def split: prod.splits sum.splits dest!: exec_atomic)
next
  case (2 q c a c')
  then show ?case
    by (cases q) (auto simp: UpdateCategory_def split: prod.splits sum.splits dest!: exec_effective)
next
  case (3 q d d')
  then show ?case by (cases q) (auto dest: set_category_db_ok)
qed

interpretation retag: write_op "\<lambda>(x, s, ts). ReplaceTags x s ts"
  "\<lambda>(x, s, ts) d. body_of (replace_body x s ts d)" "\<lambda>_. True"
proof (unfold_locales, goal_cases)
  case (1 q c r c')
  then show ?case by (cases q) (auto simp: ReplaceTags_def dest!: transact_atomic)
next
  case (2 q c a c')
  then show ?case by (cases q) (auto simp: ReplaceTags_def dest!: transact_effective)
next
  case (3 q d d')
  then show ?case by (cases q) (auto dest: replace_body_db_ok)
qed

text \<open>The six writes of the two catalogs share one proof pattern.\<close>

interpretation new_category: write_op "\<lambda>(x, k). CategoryRepository_Create x k"
  "\<lambda>(x, k) d. body_of (insert_category x (fromDomainCategory k) d)" "\<lambda>_. True"
  by unfold_locales (auto simp: CategoryRepository_Create_def split: prod.splits sum.splits
      dest: insert_category_db_ok dest!: exec_atomic exec_effective)

interpretation change_category: write_op "\<lambda>(x, k). CategoryRepository_Update x k"
  "\<lambda>(x, k) d. body_of (rename_category x k d)" "\<lambda>_. True"
  by unfold_locales (auto simp: CategoryRepository_Update_def split: prod.splits sum.splits
      dest: rename_category_db_ok dest!: exec_atomic exec_effective)

interpretation drop_category: write_op "\<lambda>(x, i). CategoryRepository_Delete x i"
  "\<lambda>(x, i) d. body_of (delete_category x i d)" "\<lambda>_. True"
  by unfold_locales (auto simp: CategoryRepository_Delete_def split: prod.splits sum.splits
      dest: delete_category_db_ok dest!: exec_atomic exec_effective)

interpretation new_tag: write_op "\<lambda>(x, t). TagRepository_Create x t"
  "\<lambda>(x, t) d. body_of (insert_tag x (fromDomainTag t) d)" "\<lambda>_. True"
  by unfold_locales (auto simp: TagRepository_Create_def split: prod.splits sum.splits
      dest: insert_tag_db_ok dest!: exec_atomic exec_effective)

interpretation change_tag: write_op "\<lambda>(x, t). TagRepository_Update x t"
  "\<lambda>(x, t) d. body_of (rename_tag x t d)" "\<lambda>_. True"
  by unfold_locales (auto simp: TagRepository_Update_def split: prod.splits sum.splits
      dest: rename_tag_db_ok dest!: exec_atomic exec_effective)

interpretation drop_tag: write_op "\<lambda>(x, i). TagRepository_Delete x i"
  "\<lambda>(x, i) d. body_of (delete_tag x i d)" "\<lambda>_. True"
  by unfold_locales (auto simp: TagRepository_Delete_def split: prod.splits sum.splits
      dest: delete_tag_db_ok dest!: exec_atomic exec_effective)

section \<open>Steps and reachable states\<close>

inductive wallet_step :: "cluster \<Rightarrow> cluster \<Rightarrow> bool" where
  Post: "post_pre (x, s, aid) \<Longrightarrow> StatementRepository_Create x s aid c = (r, c') \<Longrightarrow> wallet_step c c'"
| PostBatch: "batch_pre (x, ss, aid) \<Longrightarrow> StatementRepository_CreateBatch x ss aid c = (r, c') \<Longrightarrow>
    wallet_step c c'"
| OpenAccount: "a_Balance a = 0 \<Longrightarrow> AccountRepository_Create x a c = (u, c') \<Longrightarrow> wallet_step c c'"
| ChangeAccount: "AccountRepository_Update x a c = (u, c') \<Longrightarrow> wallet_step c c'"
| CloseAccount: "AccountRepository_Delete x t i c = (u, c') \<Longrightarrow> wallet_step c c'"
| Classify: "UpdateCategory x sid k c = (u, c') \<Longrightarrow> wallet_step c c'"
| Retag: "ReplaceTags x sid ts c = (u, c') \<Longrightarrow> wallet_step c c'"
| NewCategory: "CategoryRepository_Create x k c = (u, c') \<Longrightarrow> wallet_step c c'"
| ChangeCategory: "CategoryRepository_Update x k c = (u, c') \<Longrightarrow> wallet_step c c'"
| DropCategory: "CategoryRepository_Delete x i c = (u, c') \<Longrightarrow> wallet_step c c'"
| NewTag: "TagRepository_Create x t c = (u, c') \<Longrightarrow> wallet_step c c'"
| ChangeTag: "TagRepository_Update x t c = (u, c') \<Longrightarrow> wallet_step c c'"
| DropTag: "TagRepository_Delete x i c = (u, c') \<Longrightarrow> wallet_step c c'"
| AddUser: "c' = c\<lparr>primary := (primary c)\<lparr>users := users (primary c) @ [v]\<rparr>\<rparr> \<Longrightarrow> wallet_step c c'"
| Replicate: "replica c \<noteq> None \<Longrightarrow> c' = c\<lparr>replica := Some (primary c)\<rparr> \<Longrightarrow> wallet_step c c'"

definition initial :: "cluster \<Rightarrow> bool" where
  "initial c \<longleftrightarrow> (let d = primary c in accounts d = [] \<and> statements d = [] \<and> stmt_tags d = [] \<and>
     distinct (map cd_ID (categories d)) \<and> distinct (map td_ID (tags d))) \<and>
     (replica c = None \<or> replica c = Some (primary c))"

inductive reachable :: "cluster \<Rightarrow> bool" where
  Start: "initial c \<Longrightarrow> reachable c"
| Step: "reachable c \<Longrightarrow> wallet_step c c' \<Longrightarrow> reachable c'"

inductive_cases wallet_stepE: "wallet_step c c'"

lemma initial_ok: "initial c \<Longrightarrow> cluster_ok c"
  by (auto simp: initial_def cluster_ok_def db_ok_def balances_ok_def keys_ok_def refs_ok_def
      checks_ok_def Let_def)

lemma add_user_ok: "db_ok d \<Longrightarrow> db_ok (d\<lparr>users := us\<rparr>)"
  by (auto simp: db_ok_def balances_ok_def keys_ok_def refs_ok_def checks_ok_def stmt_fk_def
      split: option.splits)

lemma step_ok:
  assumes "wallet_step c c'" "cluster_ok c"
  shows "cluster_ok c'"
  using assms(1)
proof cases
  case (Post x s aid r)
  then show ?thesis using post.run_ok[where q = "(x, s, aid)" and c = c and r = r and c' = c'] assms(2) by simp
next
  case (PostBatch x ss aid r)
  then show ?thesis using batch.run_ok[where q = "(x, ss, aid)" and c = c and r = r and c' = c'] assms(2) by simp
next
  case (OpenAccount a x u)
  then show ?thesis using open_account.run_ok[where q = "(x, a)" and c = c and r = u and c' = c'] assms(2) by simp
next
  case (ChangeAccount x a u)
  then show ?thesis using change_account.run_ok[where q = "(x, a)" and c = c and r = u and c' = c'] assms(2) by simp
next
  case (CloseAccount x t i u)
  then show ?thesis using close_account.run_ok[where q = "(x, t, i)" and c = c and r = u and c' = c'] assms(2) by simp
next
  case (Classify x sid k u)
  then show ?thesis using classify.run_ok[where q = "(x, sid, k)" and c = c and r = u and c' = c'] assms(2) by simp
next
  case (Retag x sid ts u)
  then show ?thesis using retag.run_ok[where q = "(x, sid, ts)" and c = c and r = u and c' = c'] assms(2) by simp
next
  case (NewCategory x k u)
  then show ?thesis using new_category.run_ok[where q = "(x, k)" and c = c and r = u and c' = c'] assms(2) by simp
next
  case (ChangeCategory x k u)
  then show ?thesis using change_category.run_ok[where q = "(x, k)" and c = c and r = u and c' = c'] assms(2) by simp
next
  case (DropCategory x i u)
  then show ?thesis using drop_category.run_ok[where q = "(x, i)" and c = c and r = u and c' = c'] assms(2) by simp
next
  case (NewTag x t u)
  then show ?thesis using new_tag.run_ok[where q = "(x, t)" and c = c and r = u and c' = c'] assms(2) by simp
next
  case (ChangeTag x t u)
  then show ?thesis using change_tag.run_ok[where q = "(x, t)" and c = c and r = u and c' = c'] assms(2) by simp
next
  case (DropTag x i u)
  then show ?thesis using drop_tag.run_ok[where q = "(x, i)" and c = c and r = u and c' = c'] assms(2) by simp
next
  case (AddUser v)
  then show ?thesis using assms(2) add_user_ok by (simp add: cluster_ok_def)
next
  case Replicate
  then show ?thesis using assms(2) by (simp add: cluster_ok_def)
qed

lemma reachable_ok: "reachable c \<Longrightarrow> cluster_ok c"
  by (induction rule: reachable.induct) (auto intro: initial_ok step_ok)

section \<open>Every use case is made of steps\<close>

abbreviation wallet_steps :: "cluster \<Rightarrow> cluster \<Rightarrow> bool" where
  "wallet_steps \<equiv> rtranclp wallet_step"

lemma reachable_steps: "reachable c \<Longrightarrow> wallet_steps c c' \<Longrightarrow> reachable c'"
  by (rotate_tac 1, induction rule: rtranclp_induct) (auto intro: reachable.Step)

text \<open>What the preparations hand to the writes.\<close>

lemma owned_account_Inr: "owned_account x aid ru c = Inr a \<longleftrightarrow>
    AccountRepository_FindByID x aid c = Inr a \<and> (ru = [] \<or> a_UserID a = ru)"
  by (auto simp: owned_account_def)

lemma applyMetadata_fields [simp]:
  "s_ID (applyMetadataToStatement k ts s) = s_ID s"
  "s_AccountID (applyMetadataToStatement k ts s) = s_AccountID s"
  "s_Type (applyMetadataToStatement k ts s) = s_Type s"
  "s_Amount (applyMetadataToStatement k ts s) = s_Amount s"
  "s_ReferenceID (applyMetadataToStatement k ts s) = s_ReferenceID s"
  "s_ExternalID (applyMetadataToStatement k ts s) = s_ExternalID s"
  "s_PostedAt (applyMetadataToStatement k ts s) = s_PostedAt s"
  "s_CreatedAt (applyMetadataToStatement k ts s) = s_CreatedAt s"
  "s_Description (applyMetadataToStatement k ts s) = s_Description s"
  "s_BalanceAfter (applyMetadataToStatement k ts s) = s_BalanceAfter s"
  by (simp_all add: applyMetadataToStatement_def WithCategory_def WithTags_def Let_def split: option.splits)

lemma NewStatement_fields [simp]:
  "s_ID (NewStatement i t a ty am ds) = i" "s_AccountID (NewStatement i t a ty am ds) = a"
  "s_Type (NewStatement i t a ty am ds) = ty" "s_Amount (NewStatement i t a ty am ds) = am"
  "s_ReferenceID (NewStatement i t a ty am ds) = None"
  "s_ExternalID (NewStatement i t a ty am ds) = None"
  "s_CategoryID (NewStatement i t a ty am ds) = None" "s_Tags (NewStatement i t a ty am ds) = []"
  by (simp_all add: NewStatement_def)

lemma Create_prepare_Inr:
  assumes "Create_prepare x inp c = Inr s"
  obtains a cat tgs where "owned_account x (ci_AccountID inp) (ci_RequestingUserID inp) c = Inr a"
    "a_Active a" "ci_Type inp = TypeCredit \<or> ci_Type inp = TypeDebit" "0 <s ci_Amount inp"
    "resolveCategory x (ci_CategoryID inp) (a_UserID a) (ci_Type inp) c = Inr cat"
    "resolveTags x (ci_TagIDs inp) (a_UserID a) c = Inr tgs"
    "s_ID s = x_new_id x 0" "s_AccountID s = ci_AccountID inp" "s_Type s = ci_Type inp"
    "s_Amount s = ci_Amount inp" "s_ReferenceID s = None" "s_ExternalID s = None"
    "s_CategoryID s = map_option c_ID cat"
    "s_Tags s = map (\<lambda>t. \<lparr> tr_ID = t_ID t, tr_Name = t_Name t \<rparr>) tgs"
proof -
  obtain a p cat tgs where h: "owned_account x (ci_AccountID inp) (ci_RequestingUserID inp) c = Inr a"
    "a_Active a" "ci_Type inp = TypeCredit \<or> ci_Type inp = TypeDebit" "0 <s ci_Amount inp"
    "resolveCategory x (ci_CategoryID inp) (a_UserID a) (ci_Type inp) c = Inr cat"
    "resolveTags x (ci_TagIDs inp) (a_UserID a) c = Inr tgs"
    "s = applyMetadataToStatement cat tgs
      (if isZero p then NewStatement (x_new_id x 0) (x_clock x 0) (ci_AccountID inp) (ci_Type inp)
              (ci_Amount inp) (ci_Description inp)
       else (NewStatement (x_new_id x 0) (x_clock x 0) (ci_AccountID inp) (ci_Type inp)
              (ci_Amount inp) (ci_Description inp))\<lparr>s_PostedAt := p\<rparr>)"
    using assms unfolding Create_prepare_def Let_def bindE_Inr if_Inl_Inr ParseID_Inr
      NewStatementType_Inr NewAmount_Inr sum.inject by blast
  show thesis
    by (rule that[OF h(1-6)]) (simp_all add: h(7) applyMetadataToStatement_def WithCategory_def
        WithTags_def Let_def split: option.splits)
qed

lemma Reverse_prepare_Inr:
  assumes "Reverse_prepare x inp c = Inr s"
  obtains a orig where "owned_account x (ri_AccountID inp) (ri_RequestingUserID inp) c = Inr a"
    "a_Active a" "StatementRepository_FindByID x (ri_StatementID inp) c = Inr orig"
    "s_AccountID orig = ri_AccountID inp" "HasReversal x (ri_StatementID inp) c = Inr False"
    "s_ID s = x_new_id x 0" "s_AccountID s = ri_AccountID inp" "s_Type s = Opposite (s_Type orig)"
    "s_Amount s = s_Amount orig" "s_ReferenceID s = Some (ri_StatementID inp)" "s_ExternalID s = None"
    "s_CategoryID s = Some (defaultEstornoCategoryID (s_Type s))" "s_Tags s = []"
proof -
  obtain a orig h where p: "owned_account x (ri_AccountID inp) (ri_RequestingUserID inp) c = Inr a"
    "a_Active a" "StatementRepository_FindByID x (ri_StatementID inp) c = Inr orig"
    "s_AccountID orig = ri_AccountID inp" "HasReversal x (ri_StatementID inp) c = Inr h" "\<not> h"
    "s_ID s = x_new_id x 0" "s_AccountID s = ri_AccountID inp" "s_Type s = Opposite (s_Type orig)"
    "s_Amount s = s_Amount orig" "s_ReferenceID s = Some (ri_StatementID inp)" "s_ExternalID s = None"
    "s_CategoryID s = Some (defaultEstornoCategoryID (s_Type s))" "s_Tags s = []"
    using assms unfolding Reverse_prepare_def Let_def bindE_Inr if_Inl_Inr ParseID_Inr sum.inject
    by (auto simp: NewReversalStatement_def WithCategory_def)
  show thesis by (rule that[OF p(1-4) _ p(7-14)]) (use p(5,6) in simp)
qed

text \<open>The import loop: what it keeps of each transaction.\<close>

lemma mapOFX_Inr:
  assumes "mapOFXTransaction x n txn aid = Inr s"
  shows "s_AccountID s = aid" "valid_type s" "s_ReferenceID s = None" "s_Tags s = []"
    "s_CategoryID s = None" "s_ID s = x_new_id x n"
    "s_Type s = (if 0 \<le>s tx_Amount txn then TypeCredit else TypeDebit)"
    "s_Amount s = (if tx_Amount txn <s 0 then - tx_Amount txn else tx_Amount txn)"
    "s_ExternalID s = (if tx_FITID txn = [] then None else Some (tx_FITID txn))"
    "0 <s s_Amount s"
  using assms
  by (auto simp: mapOFXTransaction_def Let_def NewImportedStatement_def NewStatement_def valid_type_def
      split: if_splits)

lemma import_loop_Inr:
  assumes "import_loop x ex aid txns acc k = Inr (ss, skipped)"
  shows "\<exists>new. ss = rev acc @ new \<and> length new + (skipped - k) = length txns \<and> k \<le> skipped \<and>
    list_all2 (\<lambda>t s. \<exists>n. mapOFXTransaction x n t aid = Inr s)
      (filter (\<lambda>t. \<not> skip_txn ex t) txns) new"
  using assms
proof (induction txns arbitrary: acc k)
  case (Cons t txns)
  show ?case
  proof (cases "skip_txn ex t")
    case True
    with Cons.prems have "import_loop x ex aid txns acc (Suc k) = Inr (ss, skipped)" by simp
    from Cons.IH[OF this] True show ?thesis by auto
  next
    case False
    with Cons.prems obtain s where s: "mapOFXTransaction x (length acc) t aid = Inr s"
      "import_loop x ex aid txns (s # acc) k = Inr (ss, skipped)" by auto
    from Cons.IH[OF s(2)] obtain new where new: "ss = rev (s # acc) @ new"
      "length new + (skipped - k) = length txns" "k \<le> skipped"
      "list_all2 (\<lambda>t s. \<exists>n. mapOFXTransaction x n t aid = Inr s)
        (filter (\<lambda>t. \<not> skip_txn ex t) txns) new" by blast
    show ?thesis
      by (rule exI[of _ "s # new"]) (use new s(1) False in auto)
  qed
qed simp

lemma Import_prepare_Inr:
  assumes "Import_prepare parse x inp c = Inr (aid, txns, ss, skipped)"
  obtains a ex where "owned_account x (ii_AccountID inp) (ii_RequestingUserID inp) c = Inr a"
    "a_Active a" "aid = ii_AccountID inp" "parse (ii_FileContent inp) = Inr txns"
    "FindExternalIDs x aid (filter (\<lambda>i. i \<noteq> []) (map tx_FITID txns)) c = Inr ex"
    "length ss + skipped = length txns"
    "list_all2 (\<lambda>t s. \<exists>n. mapOFXTransaction x n t aid = Inr s)
      (filter (\<lambda>t. \<not> skip_txn ex t) txns) ss"
proof -
  obtain a ex where p: "owned_account x (ii_AccountID inp) (ii_RequestingUserID inp) c = Inr a"
    "a_Active a" "aid = ii_AccountID inp" "parse (ii_FileContent inp) = Inr txns"
    "FindExternalIDs x aid (filter (\<lambda>i. i \<noteq> []) (map tx_FITID txns)) c = Inr ex"
    "import_loop x ex aid txns [] 0 = Inr (ss, skipped)"
    using assms unfolding Import_prepare_def by (auto split: prod.splits)
  show thesis
    by (rule that[OF p(1-5)]) (use import_loop_Inr[OF p(6)] in auto)
qed

lemma imported_valid:
  assumes "list_all2 (\<lambda>t s. \<exists>n. mapOFXTransaction x n t aid = Inr s) ts ss"
  shows "\<forall>s\<in>set ss. valid_type s \<and> s_AccountID s = aid \<and> s_ReferenceID s = None \<and> s_Tags s = [] \<and>
    s_CategoryID s = None"
  using assms by (induction rule: list_all2_induct) (auto dest: mapOFX_Inr)

datatype request =
    ReqCreate ext create_input
  | ReqReverse ext reverse_input
  | ReqImport "string \<Rightarrow> ofx_txn list go_result" ext import_input
  | ReqSetCategory ext update_category_input
  | ReqSetTags ext replace_tags_input
  | ReqOpenAccount ext account_create_input
  | ReqChangeAccount ext account_update_input
  | ReqCloseAccount ext string string
  | ReqNewCategory ext string string string
  | ReqRenameCategory ext string string string
  | ReqDropCategory ext string string
  | ReqNewTag ext string string
  | ReqRenameTag ext string string string
  | ReqDropTag ext string string

fun serve :: "request \<Rightarrow> cluster \<Rightarrow> cluster" where
  "serve (ReqCreate x i) c = snd (Create_Execute x i c)"
| "serve (ReqReverse x i) c = snd (Reverse_Execute x i c)"
| "serve (ReqImport p x i) c = snd (Import_Execute p x i c)"
| "serve (ReqSetCategory x i) c = snd (UpdateCategory_Execute x i c)"
| "serve (ReqSetTags x i) c = snd (ReplaceTags_Execute x i c)"
| "serve (ReqOpenAccount x i) c = snd (AccountCreate_Execute x i c)"
| "serve (ReqChangeAccount x i) c = snd (AccountUpdate_Execute x i c)"
| "serve (ReqCloseAccount x i u) c = snd (AccountDelete_Execute x i u c)"
| "serve (ReqNewCategory x u n t) c = snd (CategoryCreate_Execute x u n t c)"
| "serve (ReqRenameCategory x u i n) c = snd (CategoryUpdate_Execute x u i n c)"
| "serve (ReqDropCategory x u i) c = snd (CategoryDelete_Execute x u i c)"
| "serve (ReqNewTag x u n) c = snd (TagCreate_Execute x u n c)"
| "serve (ReqRenameTag x u i n) c = snd (TagUpdate_Execute x u i n c)"
| "serve (ReqDropTag x u i) c = snd (TagDelete_Execute x u i c)"

fun request_env :: "request \<Rightarrow> ext" where
  "request_env (ReqCreate x i) = x"
| "request_env (ReqReverse x i) = x"
| "request_env (ReqImport p x i) = x"
| "request_env (ReqSetCategory x i) = x"
| "request_env (ReqSetTags x i) = x"
| "request_env (ReqOpenAccount x i) = x"
| "request_env (ReqChangeAccount x i) = x"
| "request_env (ReqCloseAccount x i u) = x"
| "request_env (ReqNewCategory x u n t) = x"
| "request_env (ReqRenameCategory x u i n) = x"
| "request_env (ReqDropCategory x u i) = x"
| "request_env (ReqNewTag x u n) = x"
| "request_env (ReqRenameTag x u i n) = x"
| "request_env (ReqDropTag x u i) = x"

lemma Create_step:
  assumes "ext_ok x" "Create_Execute x inp c = (r, c')"
  shows "c' = c \<or> wallet_step c c'"
proof (cases "Create_prepare x inp c")
  case (Inl e)
  then show ?thesis using assms(2) by (simp add: Create_Execute_def)
next
  case (Inr s)
  obtain b d where b: "StatementRepository_Create x s (s_AccountID s) c = (b, d)" by fastforce
  have "valid_type s" by (rule Create_prepare_Inr[OF Inr]) (simp add: valid_type_def)
  then have "post_pre (x, s, s_AccountID s)" using assms(1) by (simp add: post_pre_def)
  then have "wallet_step c d" using b by (rule wallet_step.Post)
  moreover have "c' = d" using assms(2) Inr b by (cases b) (auto simp: Create_Execute_def)
  ultimately show ?thesis by simp
qed

lemma Reverse_step:
  assumes "ext_ok x" "Reverse_Execute x inp c = (r, c')"
  shows "c' = c \<or> wallet_step c c'"
proof (cases "Reverse_prepare x inp c")
  case (Inl e)
  then show ?thesis using assms(2) by (simp add: Reverse_Execute_def)
next
  case (Inr s)
  obtain b d where b: "StatementRepository_Create x s (s_AccountID s) c = (b, d)" by fastforce
  have "valid_type s"
    by (rule Reverse_prepare_Inr[OF Inr]) (use Opposite_valid in \<open>simp add: valid_type_def\<close>)
  then have "post_pre (x, s, s_AccountID s)" using assms(1) by (simp add: post_pre_def)
  then have "wallet_step c d" using b by (rule wallet_step.Post)
  moreover have "c' = d" using assms(2) Inr b by (cases b) (auto simp: Reverse_Execute_def)
  ultimately show ?thesis by simp
qed

lemma Import_step:
  assumes "ext_ok x" "Import_Execute parse x inp c = (r, c')"
  shows "c' = c \<or> wallet_step c c'"
proof (cases "Import_prepare parse x inp c")
  case (Inl e)
  then show ?thesis using assms(2) by (simp add: Import_Execute_def)
next
  case (Inr v)
  obtain aid txns ss sk where v: "v = (aid, txns, ss, sk)" by (cases v) auto
  have "\<forall>s\<in>set ss. valid_type s \<and> s_AccountID s = aid"
    by (rule Import_prepare_Inr[OF Inr[unfolded v]]) (use imported_valid in blast)
  then have pre: "batch_pre (x, ss, aid)" using assms(1) by (simp add: batch_pre_def)
  obtain b d where b: "StatementRepository_CreateBatch x ss aid c = (b, d)" by fastforce
  have "wallet_step c d" using pre b by (rule wallet_step.PostBatch)
  moreover have "c' = c \<or> c' = d"
    using assms(2) Inr v b by (cases b; cases "ss = []") (auto simp: Import_Execute_def)
  ultimately show ?thesis by auto
qed

lemma serve_steps:
  assumes "ext_ok (request_env q)"
  shows "serve q c = c \<or> wallet_step c (serve q c)"
proof (cases q)
  case (ReqCreate x i)
  then show ?thesis using Create_step[of x i c "fst (Create_Execute x i c)"] assms by simp
next
  case (ReqReverse x i)
  then show ?thesis using Reverse_step[of x i c "fst (Reverse_Execute x i c)"] assms by simp
next
  case (ReqImport p x i)
  then show ?thesis using Import_step[of x p i c "fst (Import_Execute p x i c)"] assms by simp
next
  case (ReqSetCategory x i)
  then show ?thesis
    by (auto simp: UpdateCategory_Execute_def split: sum.splits prod.splits intro: wallet_step.Classify)
next
  case (ReqSetTags x i)
  then show ?thesis
    by (auto simp: ReplaceTags_Execute_def split: sum.splits prod.splits intro: wallet_step.Retag)
next
  case (ReqOpenAccount x i)
  have "a_Balance a = 0" if "AccountCreate_prepare x i = Inr a" for a
    using that by (auto simp: AccountCreate_prepare_def NewAccount_def)
  then show ?thesis using ReqOpenAccount
    by (auto simp: AccountCreate_Execute_def split: sum.splits prod.splits intro: wallet_step.OpenAccount)
next
  case (ReqChangeAccount x i)
  then show ?thesis
    by (auto simp: AccountUpdate_Execute_def split: sum.splits prod.splits intro: wallet_step.ChangeAccount)
next
  case (ReqCloseAccount x i u)
  then show ?thesis
    by (auto simp: AccountDelete_Execute_def split: sum.splits prod.splits intro: wallet_step.CloseAccount)
next
  case (ReqNewCategory x u n t)
  then show ?thesis
    by (auto simp: CategoryCreate_Execute_def split: sum.splits prod.splits intro: wallet_step.NewCategory)
next
  case (ReqRenameCategory x u i n)
  then show ?thesis
    by (auto simp: CategoryUpdate_Execute_def split: sum.splits prod.splits intro: wallet_step.ChangeCategory)
next
  case (ReqDropCategory x u i)
  then show ?thesis
    by (auto simp: CategoryDelete_Execute_def split: sum.splits prod.splits intro: wallet_step.DropCategory)
next
  case (ReqNewTag x u n)
  then show ?thesis
    by (auto simp: TagCreate_Execute_def split: sum.splits prod.splits intro: wallet_step.NewTag)
next
  case (ReqRenameTag x u i n)
  then show ?thesis
    by (auto simp: TagUpdate_Execute_def split: sum.splits prod.splits intro: wallet_step.ChangeTag)
next
  case (ReqDropTag x u i)
  then show ?thesis
    by (auto simp: TagDelete_Execute_def split: sum.splits prod.splits intro: wallet_step.DropTag)
qed

lemma serve_reachable: "ext_ok (request_env q) \<Longrightarrow> reachable c \<Longrightarrow> reachable (serve q c)"
  using serve_steps[of q c] reachable.Step by metis

end
