(* ===== verification/Wallet_Demo.thy ===== *)
theory Wallet_Demo
  imports Wallet_Steps
begin

text \<open>
  A concrete environment and a small database, for the closed instances of the
  theorems. Identifiers are short names; every conversion is the identity on them.
\<close>

definition demo_time :: gtime where
  "demo_time = \<lparr> unix_ns = 1767225600000000000, tz_off = 0 \<rparr>"

definition demo_fit :: "nat option \<Rightarrow> string \<Rightarrow> string + string" where
  "demo_fit n s = (case n of None \<Rightarrow> Inr s
     | Some k \<Rightarrow> if length s \<le> k then Inr s else Inl ''22001'')"

definition demo_stored :: "gtime \<Rightarrow> gtime" where
  "demo_stored t = \<lparr> unix_ns = unix_ns t div 1000 * 1000, tz_off = 0 \<rparr>"

definition demo_ext :: "string \<Rightarrow> ext" where
  "demo_ext p = \<lparr> x_uuid_ok = (\<lambda>s. s \<noteq> []), x_new_id = (\<lambda>n. p @ dec_pad 2 n),
     x_clock = (\<lambda>n. demo_time), x_sql_now = demo_time,
     x_pg_uuid = (\<lambda>s. if s = [] then None else Some s), x_pg_text = demo_fit,
     x_pg_time = demo_stored, x_pg_lower = (\<lambda>s. s), x_pg_sort = (\<lambda>s. s),
     x_fault = (\<lambda>s n. None) \<rparr>"

lemma demo_ext_ok: "ext_ok (demo_ext p)"
  by (auto simp: ext_ok_def demo_ext_def demo_stored_def demo_fit_def split: option.splits if_splits)

definition demo_user :: user_row where
  "demo_user = \<lparr> u_ID = ''u1'', u_Name = ''Ana'', u_Email = ''ana@x.org'', u_PasswordHash = None,
     u_Active = True, u_CreatedAt = demo_time, u_UpdatedAt = demo_time \<rparr>"

definition demo_category :: "string \<Rightarrow> string option \<Rightarrow> string \<Rightarrow> string \<Rightarrow> categoryDB" where
  "demo_category i u n t = \<lparr> cd_ID = i, cd_UserID = u, cd_Name = n, cd_Type = t,
     cd_CreatedAt = demo_time, cd_UpdatedAt = demo_time \<rparr>"

definition demo_tag :: "string \<Rightarrow> string option \<Rightarrow> string \<Rightarrow> tagDB" where
  "demo_tag i u n = \<lparr> td_ID = i, td_UserID = u, td_Name = n,
     td_CreatedAt = demo_time, td_UpdatedAt = demo_time \<rparr>"

lemma demo_outcome: "map_sum (\<lambda>_. ()) (\<lambda>a. a) (fst p) = Inr v \<Longrightarrow> \<exists>c. p = (Inr v, c)"
  by (cases p; cases "fst p") auto

text \<open>The seeded database: the two default categories and a default tag.\<close>

definition demo_start :: cluster where
  "demo_start = \<lparr> primary = empty_db\<lparr>users := [demo_user],
       categories := [demo_category SystemCategoryEstornoCreditID None ''Estorno'' ''credit'',
                      demo_category SystemCategoryEstornoDebitID None ''Estorno'' ''debit''],
       tags := [demo_tag ''g1'' None ''pessoal'']\<rparr>,
     replica = None \<rparr>"

lemma demo_initial: "initial demo_start"
  by (simp add: initial_def demo_start_def empty_db_def demo_category_def demo_tag_def
      SystemCategoryEstornoCreditID_def SystemCategoryEstornoDebitID_def)

definition demo_open :: request where
  "demo_open = ReqOpenAccount (demo_ext ''a'') \<lparr> aci_UserID = ''u1'', aci_Name = ''Conta'',
     aci_Type = ''bank_account'', aci_Description = [], aci_CreditLimit = None \<rparr>"

definition demo_credit_input :: create_input where
  "demo_credit_input = \<lparr> ci_AccountID = ''a00'', ci_RequestingUserID = ''u1'', ci_Type = ''credit'',
     ci_Amount = 500, ci_Description = ''salario'', ci_PostedAt = [], ci_CategoryID = None,
     ci_TagIDs = [''g1''] \<rparr>"

definition demo_credit :: request where
  "demo_credit = ReqCreate (demo_ext ''s'') demo_credit_input"

definition demo_account :: accountDB where
  "demo_account = \<lparr> ad_ID = ''a00'', ad_UserID = ''u1'', ad_Name = ''Conta'', ad_Type = ''bank_account'',
     ad_Description = [], ad_Balance = 0, ad_Active = True, ad_CreatedAt = demo_time,
     ad_UpdatedAt = demo_time, ad_CreditLimit = None \<rparr>"

definition demo_row :: stmt_row where
  "demo_row = \<lparr> sd_ID = ''s00'', sd_AccountID = ''a00'', sd_Type = ''credit'', sd_Amount = 500,
     sd_Description = ''salario'', sd_ReferenceID = None, sd_ExternalID = None, sd_BalanceAfter = 500,
     sd_PostedAt = demo_time, sd_CreatedAt = demo_time, sd_CategoryID = None \<rparr>"

definition demo_opened :: cluster where
  "demo_opened = demo_start\<lparr>primary := (primary demo_start)\<lparr>accounts := [demo_account]\<rparr>\<rparr>"

definition demo_funded :: cluster where
  "demo_funded = demo_start\<lparr>primary := (primary demo_start)\<lparr>
     accounts := [demo_account\<lparr>ad_Balance := 500\<rparr>], statements := [demo_row],
     stmt_tags := [(''s00'', ''g1'')]\<rparr>\<rparr>"

lemma demo_open_run: "serve demo_open demo_start = demo_opened"
  by code_simp

lemma demo_credit_run: "serve demo_credit demo_opened = demo_funded"
  by code_simp

lemma demo_opened_reachable: "reachable demo_opened"
  using serve_reachable[of demo_open demo_start] demo_ext_ok reachable.Start[OF demo_initial]
  by (simp add: demo_open_run) (simp add: demo_open_def)

lemma demo_funded_reachable: "reachable demo_funded"
  using serve_reachable[of demo_credit demo_opened] demo_ext_ok demo_opened_reachable
  by (simp add: demo_credit_run) (simp add: demo_credit_def)

definition demo_reverse_input :: reverse_input where
  "demo_reverse_input = \<lparr> ri_StatementID = ''s00'', ri_AccountID = ''a00'',
     ri_RequestingUserID = ''u1'', ri_Description = [] \<rparr>"

definition demo_reverse :: request where
  "demo_reverse = ReqReverse (demo_ext ''r'') demo_reverse_input"

definition demo_reversal :: stmt_row where
  "demo_reversal = \<lparr> sd_ID = ''r00'', sd_AccountID = ''a00'', sd_Type = ''debit'', sd_Amount = 500,
     sd_Description = ''Reversal of statement s00'', sd_ReferenceID = Some ''s00'',
     sd_ExternalID = None, sd_BalanceAfter = 0, sd_PostedAt = demo_time, sd_CreatedAt = demo_time,
     sd_CategoryID = Some SystemCategoryEstornoDebitID \<rparr>"

definition demo_reversed :: cluster where
  "demo_reversed = demo_start\<lparr>primary := (primary demo_start)\<lparr>
     accounts := [demo_account], statements := [demo_row, demo_reversal],
     stmt_tags := [(''s00'', ''g1'')]\<rparr>\<rparr>"

lemma demo_reverse_run: "serve demo_reverse demo_funded = demo_reversed"
  by code_simp

lemma demo_reversed_reachable: "reachable demo_reversed"
  using serve_reachable[of demo_reverse demo_funded] demo_ext_ok demo_funded_reachable
  by (simp add: demo_reverse_run) (simp add: demo_reverse_def)

lemmas demo_funded_ok = reachable_ok[OF demo_funded_reachable]

end
