(* ===== verification/Ledger_Properties.thy ===== *)
theory Ledger_Properties
  imports Wallet_Demo
begin

text \<open>
  The properties of the ledger over all reachable states and the effect of posting
  one statement.
\<close>

lemma conflict_free_unique:
  assumes "sorted_wrt (\<lambda>s t. \<not> stmt_conflict t s) ss" "s \<in> set ss" "t \<in> set ss"
    "stmt_conflict s t" "stmt_conflict t s"
  shows "s = t"
  using assms
proof (induction ss)
  case (Cons r ss)
  then show ?case by (auto simp: ball_Un)
qed simp

lemma create_step_facts:
  assumes "StatementRepository_Create x s aid c = (Inr b, c')"
  shows "\<exists>d. create_body x s aid (primary c) = Inr (b, d) \<and> c' = c\<lparr>primary := d\<rparr>"
  using transact_outcome[of x "''statements.Create''" "create_body x s aid" c "Inr b" c'] assms
  by (auto simp: StatementRepository_Create_def)

text \<open>C1. In every reachable state, under any interleaving of the repositories' writes, any
  clock and any connection failure, each account's balance is the 64-bit sum of its
  statements (credits plus, debits minus), and the \<^verbatim>\<open>balance_after\<close> of each
  statement is the previous one plus its own amount, starting from zero.\<close>

theorem ledger_balanced:
  assumes "reachable c" "a \<in> set (accounts (primary c))"
  shows "ad_Balance a = ledger_sum (acct_stmts (ad_ID a) (statements (primary c))) \<and>
    chain 0 (acct_stmts (ad_ID a) (statements (primary c)))"
  using reachable_ok[OF assms(1)] assms(2)
  by (auto simp: cluster_ok_def db_ok_def balances_ok_def)

lemma demo_funded_account: "demo_account\<lparr>ad_Balance := 500\<rparr> \<in> set (accounts (primary demo_funded))"
  by (simp add: demo_funded_def)

theorem ledger_balanced_witness:
  "(500 :: i64) = ledger_sum (acct_stmts ''a00'' (statements (primary demo_funded))) \<and>
    chain 0 (acct_stmts ''a00'' (statements (primary demo_funded)))"
  using ledger_balanced[OF demo_funded_reachable demo_funded_account] by (simp add: demo_account_def)



text \<open>C5. In every reachable state a statement has at most one reversal, and within an
  account an external identifier names at most one statement.\<close>

theorem one_reversal_one_import:
  assumes "reachable c" "s \<in> set (statements (primary c))" "t \<in> set (statements (primary c))"
    "(sd_ReferenceID s \<noteq> None \<and> sd_ReferenceID s = sd_ReferenceID t) \<or>
     (sd_ExternalID s \<noteq> None \<and> sd_ExternalID s = sd_ExternalID t \<and> sd_AccountID s = sd_AccountID t)"
  shows "s = t"
proof -
  have "db_ok (primary c)" using reachable_ok[OF assms(1)] by (simp add: cluster_ok_def)
  note u = conflict_free_unique[OF db_okD(7)[OF this] assms(2,3)]
  show ?thesis using assms(4) by (intro u) (auto simp: stmt_conflict_def)
qed

theorem one_reversal_one_import_witness: "demo_reversal = statements (primary demo_reversed) ! 1"
  by (rule one_reversal_one_import[OF demo_reversed_reachable])
    (simp_all add: demo_reversed_def demo_reversal_def)

text \<open>C2. A successful create of a statement appends exactly one row, of the requested type
  and amount, to the requested account; the answer's balance is the account's balance
  plus or minus the amount at 64 bits, and it is what the row and the account now
  hold. No other account changes, nor do the catalogs.\<close>

theorem create_posts_statement:
  assumes "ext_ok x" "Create_Execute x inp c = (Inr out, c')"
  shows "\<exists>i a r. x_pg_uuid x (ci_AccountID inp) = Some i \<and>
    a \<in> set (accounts (primary c)) \<and> ad_ID a = i \<and>
    o_BalanceAfter out = (if ci_Type inp = TypeCredit then ad_Balance a + ci_Amount inp
                          else ad_Balance a - ci_Amount inp) \<and>
    statements (primary c') = statements (primary c) @ [r] \<and>
    sd_AccountID r = i \<and> sd_Type r = ci_Type inp \<and> sd_Amount r = ci_Amount inp \<and> 0 <s sd_Amount r \<and>
    sd_BalanceAfter r = o_BalanceAfter out \<and>
    accounts (primary c') = update_where (\<lambda>b. ad_ID b = i)
      (\<lambda>b. b\<lparr>ad_Balance := o_BalanceAfter out, ad_UpdatedAt := x_pg_time x (x_sql_now x)\<rparr>)
      (accounts (primary c)) \<and>
    categories (primary c') = categories (primary c) \<and> tags (primary c') = tags (primary c) \<and>
    replica c' = replica c"
proof -
  obtain s b where s: "Create_prepare x inp c = Inr s"
    "StatementRepository_Create x s (s_AccountID s) c = (Inr b, c')"
    "out = toOutput (SetBalanceAfter b s)"
    using assms(2) by (auto simp: Create_Execute_def split: sum.splits prod.splits)
  obtain f: "ci_Type inp = TypeCredit \<or> ci_Type inp = TypeDebit" "0 <s ci_Amount inp"
    "s_AccountID s = ci_AccountID inp" "s_Type s = ci_Type inp" "s_Amount s = ci_Amount inp"
    by (rule Create_prepare_Inr[OF s(1)]) (rule that; assumption)
  obtain d where d: "create_body x s (s_AccountID s) (primary c) = Inr (b, d)" "c' = c\<lparr>primary := d\<rparr>"
    using create_step_facts[OF s(2)] by blast
  obtain i a r ps where p: "x_pg_uuid x (s_AccountID s) = Some i"
    "List.find (\<lambda>a. ad_ID a = i) (accounts (primary c)) = Some a"
    "b = apply_amount (s_Type s) (s_Amount s) (ad_Balance a)"
    "stmt_conv x ((fromDomainStatement s)\<lparr>sd_BalanceAfter := b\<rparr>) = Inr r"
    "d = (primary c)\<lparr>statements := statements (primary c) @ [r], stmt_tags := stmt_tags (primary c) @ ps,
            accounts := update_where (\<lambda>a. ad_ID a = i)
                (\<lambda>a. a\<lparr>ad_Balance := b, ad_UpdatedAt := x_pg_time x (x_sql_now x)\<rparr>) (accounts (primary c))\<rparr>"
    by (rule create_body_Inr[OF d(1)]) (rule that; assumption)
  note cv = stmt_conv_fields[OF p(4)]
  have ty: "sd_Type r = ci_Type inp"
    using cv(7) pg_type_id[OF assms(1) f(1)] f(4) by (simp add: fromDomainStatement_def)
  have out: "o_BalanceAfter out = b" using s(3) by (simp add: toOutput_def SetBalanceAfter_def)
  show ?thesis
    apply (rule exI[of _ i], rule exI[of _ a], rule exI[of _ r])
    using p f ty out cv(2-4) find_Some_set[OF p(2)] d(2)
    by (simp add: apply_amount_def fromDomainStatement_def)
qed

lemma demo_credit_execute: "fst (Create_Execute (demo_ext ''s'') demo_credit_input demo_opened) =
    Inr \<lparr> o_ID = ''s00'', o_AccountID = ''a00'', o_Type = ''credit'', o_Amount = 500,
      o_Description = ''salario'', o_ReferenceID = None, o_ExternalID = None, o_BalanceAfter = 500,
      o_PostedAt = ''2026-01-01T00:00:00Z'', o_CreatedAt = ''2026-01-01T00:00:00Z'',
      o_Category = None, o_Tags = [\<lparr> tr_ID = ''g1'', tr_Name = ''pessoal'' \<rparr>] \<rparr>"
  by code_simp

theorem create_posts_statement_witness:
  "\<exists>out c' r. Create_Execute (demo_ext ''s'') demo_credit_input demo_opened = (Inr out, c') \<and>
    statements (primary c') = statements (primary demo_opened) @ [r] \<and> o_BalanceAfter out = 500"
proof -
  obtain out c' where e: "Create_Execute (demo_ext ''s'') demo_credit_input demo_opened = (Inr out, c')"
    using demo_credit_execute by (metis prod.collapse)
  have "o_BalanceAfter out = 500" using demo_credit_execute e by auto
  with create_posts_statement[OF demo_ext_ok e] e show ?thesis by blast
qed



end
