(* ===== verification/Reversal_Properties.thy ===== *)
theory Reversal_Properties
  imports Wallet_Demo
begin

text \<open>
  Properties of the statement use cases around failure, ownership and reversal: what a
  refused request leaves behind, who may act on an account, and that a statement is
  reversed at most once even when two reversals run at the same time.
\<close>

lemma transact_unchanged:
  assumes "transact x site b c = (Inl e, c')" "\<forall>m. x_fault x (site @ ''/commit'') 0 \<noteq> Some (ReplyLost m)"
  shows "c' = c"
  using transact_outcome[OF assms(1)] assms(2) by auto

lemma create_inl_unchanged:
  assumes "StatementRepository_Create x s aid c = (Inl e, c')"
    "\<forall>m. x_fault x ''statements.Create/commit'' 0 \<noteq> Some (ReplyLost m)"
  shows "c' = c"
  using transact_unchanged[of x "''statements.Create''"] assms
  by (auto simp: StatementRepository_Create_def)

lemma batch_inl_unchanged:
  assumes "StatementRepository_CreateBatch x ss aid c = (Inl e, c')"
    "\<forall>m. x_fault x ''statements.CreateBatch/commit'' 0 \<noteq> Some (ReplyLost m)"
  shows "c' = c"
  using transact_unchanged[of x "''statements.CreateBatch''"] assms
  by (auto simp: StatementRepository_CreateBatch_def split: if_splits)

text \<open>C21. A failed create, reversal, import or tag replacement changes nothing: the cluster is
  the one before the request, unless the reply to the commit itself was lost.\<close>

theorem failed_requests_change_nothing:
  assumes "\<forall>s\<in>{''statements.Create/commit'', ''statements.CreateBatch/commit'',
      ''statements.ReplaceTags/commit''}. \<forall>m. x_fault x s 0 \<noteq> Some (ReplyLost m)"
  shows "(fst (Create_Execute x i1 c) = Inl e \<longrightarrow> snd (Create_Execute x i1 c) = c) \<and>
    (fst (Reverse_Execute x i2 c) = Inl e \<longrightarrow> snd (Reverse_Execute x i2 c) = c) \<and>
    (fst (Import_Execute parse x i3 c) = Inl e \<longrightarrow> snd (Import_Execute parse x i3 c) = c) \<and>
    (fst (ReplaceTags_Execute x i4 c) = Inl e \<longrightarrow> snd (ReplaceTags_Execute x i4 c) = c)"
proof (intro conjI)
  show "fst (Create_Execute x i1 c) = Inl e \<longrightarrow> snd (Create_Execute x i1 c) = c"
    using assms by (auto simp: Create_Execute_def split: sum.splits prod.splits dest: create_inl_unchanged)
  show "fst (Reverse_Execute x i2 c) = Inl e \<longrightarrow> snd (Reverse_Execute x i2 c) = c"
    using assms by (auto simp: Reverse_Execute_def split: sum.splits prod.splits dest: create_inl_unchanged)
  show "fst (Import_Execute parse x i3 c) = Inl e \<longrightarrow> snd (Import_Execute parse x i3 c) = c"
    using assms
    by (auto simp: Import_Execute_def split: sum.splits prod.splits if_splits dest: batch_inl_unchanged)
  show "fst (ReplaceTags_Execute x i4 c) = Inl e \<longrightarrow> snd (ReplaceTags_Execute x i4 c) = c"
    using assms transact_unchanged[of x "''statements.ReplaceTags''"]
    by (auto simp: ReplaceTags_Execute_def ReplaceTags_def split: sum.splits prod.splits)
qed

lemma demo_bad_type_execute:
  "fst (Create_Execute (demo_ext ''s'') (demo_credit_input\<lparr>ci_Type := ''pix''\<rparr>) demo_opened)
     = Inl (Sentinel ErrInvalidStatementType)"
  by code_simp

theorem failed_requests_change_nothing_witness:
  "snd (Create_Execute (demo_ext ''s'') (demo_credit_input\<lparr>ci_Type := ''pix''\<rparr>) demo_opened) = demo_opened"
  by (rule conjunct1[OF failed_requests_change_nothing, THEN mp, OF _ demo_bad_type_execute])
    (simp add: demo_ext_def)

text \<open>C22. Another user's account is closed to every statement request: create, reverse and
  import answer ``statement not found'' and change nothing, get and list answer the
  same (for well-formed identifiers).\<close>

theorem foreign_account_denied:
  assumes "x_uuid_ok x aid" "x_uuid_ok x sid" "AccountRepository_FindByID x aid c = Inr a"
    "ru \<noteq> []" "a_UserID a \<noteq> ru"
  shows "(\<forall>i. ci_AccountID i = aid \<and> ci_RequestingUserID i = ru \<longrightarrow>
           Create_Execute x i c = (Inl (Sentinel ErrStatementNotFound), c)) \<and>
    (\<forall>i. ri_AccountID i = aid \<and> ri_RequestingUserID i = ru \<and> ri_StatementID i = sid \<longrightarrow>
           Reverse_Execute x i c = (Inl (Sentinel ErrStatementNotFound), c)) \<and>
    (\<forall>i. ii_AccountID i = aid \<and> ii_RequestingUserID i = ru \<longrightarrow>
           Import_Execute parse x i c = (Inl (Sentinel ErrStatementNotFound), c)) \<and>
    Get_Execute x sid aid ru c = Inl (Sentinel ErrStatementNotFound) \<and>
    (\<forall>i. li_AccountID i = aid \<and> li_RequestingUserID i = ru \<longrightarrow>
           List_Execute x i c = Inl (Sentinel ErrStatementNotFound))"
proof -
  have o: "owned_account x aid ru c = Inl (Sentinel ErrStatementNotFound)"
    using assms(3-5) by (simp add: owned_account_def)
  show ?thesis
    using assms(1,2) o
    by (auto simp: Create_Execute_def Create_prepare_def Reverse_Execute_def Reverse_prepare_def
        Import_Execute_def Import_prepare_def Get_Execute_def List_Execute_def ParseID_def)
qed

lemma demo_find_account: "AccountRepository_FindByID (demo_ext ''x'') ''a00'' demo_funded =
   Inr \<lparr> a_ID = ''a00'', a_UserID = ''u1'', a_Name = ''Conta'', a_Type = ''bank_account'',
     a_Description = [], a_Balance = 500, a_Active = True, a_CreatedAt = demo_time,
     a_UpdatedAt = demo_time, a_CreditLimit = None \<rparr>"
  by code_simp

theorem foreign_account_denied_witness:
  "Get_Execute (demo_ext ''x'') ''s00'' ''a00'' ''u2'' demo_funded = Inl (Sentinel ErrStatementNotFound)"
proof -
  have u: "x_uuid_ok (demo_ext ''x'') ''a00''" "x_uuid_ok (demo_ext ''x'') ''s00''"
    by (simp_all add: demo_ext_def)
  show ?thesis using foreign_account_denied[OF u demo_find_account, of "''u2''"] by simp
qed

text \<open>A deactivated account takes no statement: create, reverse and import answer
  ``account not found'' and change nothing. The code's own answer for this case,
  ``account is not active'', is never reached, because the lookup filters on
  \<^verbatim>\<open>active = true\<close>.\<close>

theorem inactive_account_rejected:
  assumes "\<forall>s n. x_fault x s n = None" "x_uuid_ok x aid" "x_uuid_ok x sid" "x_pg_uuid x aid = Some i"
    "\<forall>a\<in>set (accounts (reader c)). ad_ID a = i \<longrightarrow> \<not> ad_Active a"
  shows "(\<forall>inp. ci_AccountID inp = aid \<longrightarrow>
           Create_Execute x inp c = (Inl (Sentinel ErrAccountNotFound), c)) \<and>
    (\<forall>inp. ri_AccountID inp = aid \<and> ri_StatementID inp = sid \<longrightarrow>
           Reverse_Execute x inp c = (Inl (Sentinel ErrAccountNotFound), c)) \<and>
    (\<forall>inp. ii_AccountID inp = aid \<longrightarrow>
           Import_Execute parse x inp c = (Inl (Sentinel ErrAccountNotFound), c))"
proof -
  have "find_active i (reader c) = None" using assms(5) by (auto simp: find_active_def find_None_set)
  then have f: "AccountRepository_FindByID x aid c = Inl (Sentinel ErrAccountNotFound)"
    using assms(1,4) by (intro FindByID_missing) auto
  show ?thesis using assms(2,3) f
    by (auto simp: Create_Execute_def Create_prepare_def Reverse_Execute_def Reverse_prepare_def
        Import_Execute_def Import_prepare_def owned_account_def ParseID_def)
qed

definition demo_closed :: cluster where
  "demo_closed = demo_start\<lparr>primary := (primary demo_start)\<lparr>accounts := [demo_account\<lparr>ad_Active := False\<rparr>]\<rparr>\<rparr>"

theorem inactive_account_rejected_witness:
  "Create_Execute (demo_ext ''s'') demo_credit_input demo_closed
     = (Inl (Sentinel ErrAccountNotFound), demo_closed)"
proof -
  have "(\<forall>inp. ci_AccountID inp = ''a00'' \<longrightarrow>
      Create_Execute (demo_ext ''s'') inp demo_closed = (Inl (Sentinel ErrAccountNotFound), demo_closed))"
    by (rule conjunct1[OF inactive_account_rejected[where sid = "''s00''" and i = "''a00''" and parse = "\<lambda>_. Inr []"]])
      (simp_all add: demo_ext_def demo_closed_def demo_start_def demo_account_def reader_def)
  then show ?thesis by (simp add: demo_credit_input_def)
qed

section \<open>Reversal\<close>

lemma stmt_conv_reference:
  assumes "stmt_conv x ((fromDomainStatement s)\<lparr>sd_BalanceAfter := b\<rparr>) = Inr r"
    "s_ReferenceID s = Some sid" "x_pg_uuid x sid = Some j"
  shows "sd_ReferenceID r = Some j"
  using stmt_conv_fields(8)[OF assms(1)] assms(2,3) by (simp add: fromDomainStatement_def)

lemma FindByID_stmt:
  assumes "StatementRepository_FindByID x sid c = Inr s"
  obtains j r where "x_pg_uuid x sid = Some j" "r \<in> set (statements (reader c))" "sd_ID r = j"
    "s_ID s = sd_ID r" "s_AccountID s = sd_AccountID r" "s_Type s = sd_Type r"
    "s_Amount s = sd_Amount r" "s_CategoryID s = sd_CategoryID r"
proof -
  obtain j r where j: "x_pg_uuid x sid = Some j"
    "List.find (\<lambda>r. sd_ID r = j) (statements (reader c)) = Some r"
    "toStatement x (hydrate x (reader c) r) = Inr s"
    using assms by (auto simp: StatementRepository_FindByID_def attempt_def pg_id_def
        split: option.splits if_splits)
  have h: "sd_ID (hydrate x (reader c) r) = sd_ID r" "sd_AccountID (hydrate x (reader c) r) = sd_AccountID r"
    "sd_Type (hydrate x (reader c) r) = sd_Type r" "sd_Amount (hydrate x (reader c) r) = sd_Amount r"
    "sd_CategoryID (hydrate x (reader c) r) = sd_CategoryID r"
    by (simp_all add: hydrate_def Let_def stmt_row.defs)
  have opt: "optE (\<lambda>i. mapErr f (ParseID ok i)) v = Inr w \<Longrightarrow> w = v" for f ok v w
    by (cases v) auto
  have "s_ID s = sd_ID r" "s_AccountID s = sd_AccountID r" "s_Type s = sd_Type r"
    "s_Amount s = sd_Amount r" "s_CategoryID s = sd_CategoryID r"
    using j(3) unfolding toStatement_def Let_def h bindE_Inr
    by (auto dest: opt)
  with j find_Some_set[OF j(2)] show thesis by (intro that[of j r]) auto
qed


lemma demo_reverse_execute: "\<exists>out. Reverse_Execute (demo_ext ''r'') demo_reverse_input demo_funded
    = (Inr out, demo_reversed) \<and> o_BalanceAfter out = 0"
proof -
  have "map_sum (\<lambda>_. ()) o_BalanceAfter (fst (Reverse_Execute (demo_ext ''r'') demo_reverse_input demo_funded)) = Inr 0"
    by code_simp
  then show ?thesis using demo_reverse_run
    by (cases "Reverse_Execute (demo_ext ''r'') demo_reverse_input demo_funded";
        cases "fst (Reverse_Execute (demo_ext ''r'') demo_reverse_input demo_funded)")
      (auto simp: demo_reverse_def)
qed


text \<open>C6. A statement that has a reversal on the primary is not reversed again: the request
  fails and changes nothing, and once its earlier checks pass the answer is
  ``already reversed''.\<close>

theorem reversed_stays_reversed:
  assumes "t \<in> set (statements (primary c))" "sd_ReferenceID t = Some j"
    "x_pg_uuid x (ri_StatementID inp) = Some j"
  shows "(\<exists>e. Reverse_Execute x inp c = (Inl e, c)) \<and>
    (\<forall>a orig. x_uuid_ok x (ri_StatementID inp) \<and> x_uuid_ok x (ri_AccountID inp) \<and>
       x_fault x ''statements.HasReversal'' 0 = None \<and>
       owned_account x (ri_AccountID inp) (ri_RequestingUserID inp) c = Inr a \<and>
       StatementRepository_FindByID x (ri_StatementID inp) c = Inr orig \<and>
       s_AccountID orig = ri_AccountID inp \<longrightarrow>
       Reverse_Execute x inp c = (Inl (Sentinel ErrAlreadyReversed), c))"
proof (intro conjI allI impI)
  have hr: "HasReversal x (ri_StatementID inp) c \<noteq> Inr False"
    using assms by (auto simp: HasReversal_def list_ex_iff)
  show "\<exists>e. Reverse_Execute x inp c = (Inl e, c)"
  proof (cases "Reverse_prepare x inp c")
    case (Inl e)
    then show ?thesis by (simp add: Reverse_Execute_def)
  next
    case (Inr s)
    have "HasReversal x (ri_StatementID inp) c = Inr False" by (rule Reverse_prepare_Inr[OF Inr])
    with hr show ?thesis by simp
  qed
  fix a orig
  assume h: "x_uuid_ok x (ri_StatementID inp) \<and> x_uuid_ok x (ri_AccountID inp) \<and>
       x_fault x ''statements.HasReversal'' 0 = None \<and>
       owned_account x (ri_AccountID inp) (ri_RequestingUserID inp) c = Inr a \<and>
       StatementRepository_FindByID x (ri_StatementID inp) c = Inr orig \<and>
       s_AccountID orig = ri_AccountID inp"
  then have "HasReversal x (ri_StatementID inp) c = Inr True"
    using assms by (auto simp: HasReversal_def list_ex_iff attempt_def pg_id_def)
  moreover have "a_Active a" using h FindByID_active(1) by (auto simp: owned_account_Inr)
  ultimately show "Reverse_Execute x inp c = (Inl (Sentinel ErrAlreadyReversed), c)"
    using h by (simp add: Reverse_Execute_def Reverse_prepare_def ParseID_def)
qed

theorem reversed_stays_reversed_witness:
  "\<exists>e. Reverse_Execute (demo_ext ''q'') demo_reverse_input demo_reversed = (Inl e, demo_reversed)"
  by (rule conjunct1[OF reversed_stays_reversed[of demo_reversal _ "''s00''"]])
    (simp_all add: demo_reversed_def demo_reversal_def demo_ext_def demo_reverse_input_def)


lemma demo_reverse_prepared: "isOk (Reverse_prepare (demo_ext ''q'') demo_reverse_input demo_funded)"
  by code_simp


end
