(* ===== verification/Import_Properties.thy ===== *)
theory Import_Properties
  imports Wallet_Demo
begin

text \<open>
  The OFX import: what a successful import writes, importing the same file twice, and
  a file that repeats an identifier.
\<close>

section \<open>Facts about one import\<close>

lemma FindExternalIDs_Inr:
  assumes "FindExternalIDs x aid ids c = Inr ex" "ids \<noteq> []"
  obtains i es where "x_pg_uuid x aid = Some i" "list_all2 (\<lambda>a e. pg_str x None a = Inr e) ids es"
    "\<forall>e. e \<in> set ex \<longleftrightarrow> e \<in> set es \<and>
       (\<exists>r\<in>set (statements (primary c)). sd_ExternalID r = Some e \<and> sd_AccountID r = i)"
proof -
  obtain i es where h: "x_pg_uuid x aid = Some i" "mapE (pg_str x None) ids = Inr es"
    "ex = concat (map (\<lambda>r. case sd_ExternalID r of None \<Rightarrow> []
        | Some e \<Rightarrow> if sd_AccountID r = i \<and> e \<in> set es then [e] else []) (statements (primary c)))"
    using assms by (auto simp: FindExternalIDs_def)
  show thesis
  proof (rule that[OF h(1)])
    show "list_all2 (\<lambda>a e. pg_str x None a = Inr e) ids es" using h(2) by (simp add: mapE_Inr)
    show "\<forall>e. e \<in> set ex \<longleftrightarrow> e \<in> set es \<and>
       (\<exists>r\<in>set (statements (primary c)). sd_ExternalID r = Some e \<and> sd_AccountID r = i)"
      unfolding h(3) by (force split: option.splits if_splits)
  qed
qed

lemma import_batch:
  assumes "Import_Execute parse x inp c = (Inr out, c')"
  obtains txns ss skipped where "Import_prepare parse x inp c = Inr (ii_AccountID inp, txns, ss, skipped)"
    "out = \<lparr> io_TotalTransactions = length txns, io_Created = length ss, io_Skipped = skipped \<rparr>"
    "(ss = [] \<and> c' = c) \<or>
     (ss \<noteq> [] \<and> (\<exists>b d. batch_body x ss (ii_AccountID inp) (primary c) = Inr (b, d) \<and> c' = c\<lparr>primary := d\<rparr>))"
proof -
  obtain aid txns ss skipped where p: "Import_prepare parse x inp c = Inr (aid, txns, ss, skipped)"
    using assms by (auto simp: Import_Execute_def split: sum.splits prod.splits)
  have aid: "aid = ii_AccountID inp" by (rule Import_prepare_Inr[OF p])
  have "(ss = [] \<and> c' = c) \<or>
     (ss \<noteq> [] \<and> (\<exists>b d. batch_body x ss aid (primary c) = Inr (b, d) \<and> c' = c\<lparr>primary := d\<rparr>))"
    "out = \<lparr> io_TotalTransactions = length txns, io_Created = length ss, io_Skipped = skipped \<rparr>"
    using assms p transact_outcome[of x "''statements.CreateBatch''" "batch_body x ss aid" c]
    by (auto simp: Import_Execute_def StatementRepository_CreateBatch_def
        split: sum.splits prod.splits if_splits)
  with p show thesis by (intro that) (simp_all add: aid)
qed

lemma imported_delta:
  assumes "ext_ok x" "mapOFXTransaction x n t aid = Inr s"
    "stmt_conv x ((fromDomainStatement s)\<lparr>sd_BalanceAfter := b\<rparr>) = Inr r"
  shows "delta r = tx_Amount t"
proof -
  note m = mapOFX_Inr[OF assms(2)]
  have "apply_amount (s_Type s) (s_Amount s) 0 = 0 + delta r"
    by (rule apply_amount_delta[OF assms(1) m(2) assms(3)])
  then show ?thesis
    using m(7,8) by (auto simp: apply_amount_def i64_sle_iff i64_sless_iff split: if_splits)
qed

lemma imported_rows:
  assumes "ext_ok x" "list_all2 (\<lambda>t s. \<exists>n. mapOFXTransaction x n t aid = Inr s) ts ss"
    "running_rows b ss = (rows, fin)" "list_all2 (\<lambda>s r. stmt_conv x s = Inr r) rows rs"
  shows "list_all2 (\<lambda>t r. delta r = tx_Amount t \<and> x_pg_uuid x aid = Some (sd_AccountID r) \<and>
      optE (pg_str x (Some 255)) (if tx_FITID t = [] then None else Some (tx_FITID t))
        = Inr (sd_ExternalID r)) ts rs"
  using assms(2-4)
proof (induction ts ss arbitrary: b rows rs rule: list_all2_induct)
  case (Cons t ts s ss)
  obtain n where m: "mapOFXTransaction x n t aid = Inr s" using Cons(1) by blast
  let ?b = "apply_amount (s_Type s) (s_Amount s) b"
  obtain rows' where r: "running_rows ?b ss = (rows', fin)"
    "rows = (fromDomainStatement s)\<lparr>sd_BalanceAfter := ?b\<rparr> # rows'"
    using Cons.prems(1) by (auto simp: Let_def split: prod.splits)
  obtain r' rs' where rs: "rs = r' # rs'"
    "stmt_conv x ((fromDomainStatement s)\<lparr>sd_BalanceAfter := ?b\<rparr>) = Inr r'"
    "list_all2 (\<lambda>s r. stmt_conv x s = Inr r) rows' rs'"
    using Cons.prems(2) r(2) by (auto simp: list_all2_Cons1)
  show ?case
    using rs Cons.IH[OF r(1) rs(3)] imported_delta[OF assms(1) m rs(2)] stmt_conv_fields[OF rs(2)]
      mapOFX_Inr(1,9)[OF m]
    by (simp add: fromDomainStatement_def)
qed simp

section \<open>What an import writes\<close>

lemma batch_posts:
  assumes "ext_ok x" "cluster_ok c" "batch_body x ss aid (primary c) = Inr (bal, d)" "x_pg_uuid x aid = Some i"
    "list_all2 (\<lambda>t s. \<exists>n. mapOFXTransaction x n t aid = Inr s) kept ss"
  obtains rs where "length rs = length ss" "statements d = statements (primary c) @ rs"
    "list_all2 (\<lambda>t r. delta r = tx_Amount t \<and> sd_AccountID r = i) kept rs"
    "map (\<lambda>a. (ad_ID a, ad_Balance a)) (accounts d) =
     map (\<lambda>a. (ad_ID a, if ad_ID a = i then ad_Balance a + sum_list (map tx_Amount kept) else ad_Balance a))
       (accounts (primary c))"
proof -
  obtain i' a rows rs ps where r: "x_pg_uuid x aid = Some i'"
    "List.find (\<lambda>a. ad_ID a = i') (accounts (primary c)) = Some a"
    "running_rows (ad_Balance a) ss = (rows, bal)" "list_all2 (\<lambda>s r. stmt_conv x s = Inr r) rows rs"
    "d = (primary c)\<lparr>statements := statements (primary c) @ rs, stmt_tags := stmt_tags (primary c) @ ps,
          accounts := update_where (\<lambda>a. ad_ID a = i')
              (\<lambda>a. a\<lparr>ad_Balance := bal, ad_UpdatedAt := x_pg_time x (x_sql_now x)\<rparr>) (accounts (primary c))\<rparr>"
    by (rule batch_body_Inr[OF assms(3)]) (rule that; assumption)
  have ii: "i' = i" using r(1) assms(4) by simp
  note rel = imported_rows[OF assms(1,5) r(3,4)]
  have "map delta rs = map tx_Amount kept" using rel by (induction rule: list_all2_induct) auto
  moreover have "\<forall>s\<in>set ss. valid_type s" using imported_valid[OF assms(5)] by blast
  ultimately have bal: "bal = ad_Balance a + sum_list (map tx_Amount kept)"
    using running_rows_chain(2)[OF assms(1) _ r(3,4)] by (simp add: ledger_sum_def)
  have uniq: "b = a" if "b \<in> set (accounts (primary c))" "ad_ID b = i" for b
  proof -
    have "db_ok (primary c)" using assms(2) by (simp add: cluster_ok_def)
    from find_unique_key[OF db_okD(1)[OF this] that] show ?thesis using r(2) ii by simp
  qed
  show thesis
    by (rule that[of rs])
      (use running_rows_length[OF r(3)] list_all2_lengthD[OF r(4)] rel assms(4) uniq bal ii
        in \<open>auto simp: r(5) update_where_def elim!: list_all2_mono\<close>)
qed

text \<open>C7. A successful import reports every transaction of the file as created or skipped,
  appends one statement for each created one to the account, and each appended
  statement moves the balance by the signed amount of its transaction: the account's
  balance grows by the sum of the amounts kept, and no other balance changes.\<close>

theorem import_posts_transactions:
  assumes "ext_ok x" "cluster_ok c" "Import_Execute parse x inp c = (Inr out, c')"
  shows "\<exists>i txns ex rs. x_pg_uuid x (ii_AccountID inp) = Some i \<and>
    parse (ii_FileContent inp) = Inr txns \<and>
    FindExternalIDs x (ii_AccountID inp) (filter (\<lambda>i. i \<noteq> []) (map tx_FITID txns)) c = Inr ex \<and>
    io_TotalTransactions out = length txns \<and> io_Created out = length rs \<and>
    io_Created out + io_Skipped out = io_TotalTransactions out \<and>
    statements (primary c') = statements (primary c) @ rs \<and>
    list_all2 (\<lambda>t r. delta r = tx_Amount t \<and> sd_AccountID r = i)
      (filter (\<lambda>t. \<not> skip_txn ex t) txns) rs \<and>
    map (\<lambda>a. (ad_ID a, ad_Balance a)) (accounts (primary c')) =
    map (\<lambda>a. (ad_ID a, if ad_ID a = i
        then ad_Balance a + sum_list (map tx_Amount (filter (\<lambda>t. \<not> skip_txn ex t) txns))
        else ad_Balance a)) (accounts (primary c))"
proof -
  obtain txns ss skipped where b:
    "Import_prepare parse x inp c = Inr (ii_AccountID inp, txns, ss, skipped)"
    "out = \<lparr> io_TotalTransactions = length txns, io_Created = length ss, io_Skipped = skipped \<rparr>"
    "(ss = [] \<and> c' = c) \<or>
     (ss \<noteq> [] \<and> (\<exists>b d. batch_body x ss (ii_AccountID inp) (primary c) = Inr (b, d) \<and> c' = c\<lparr>primary := d\<rparr>))"
    by (rule import_batch[OF assms(3)]) (rule that; assumption)
  obtain a ex where p: "owned_account x (ii_AccountID inp) (ii_RequestingUserID inp) c = Inr a"
    "parse (ii_FileContent inp) = Inr txns"
    "FindExternalIDs x (ii_AccountID inp) (filter (\<lambda>i. i \<noteq> []) (map tx_FITID txns)) c = Inr ex"
    "length ss + skipped = length txns"
    "list_all2 (\<lambda>t s. \<exists>n. mapOFXTransaction x n t (ii_AccountID inp) = Inr s)
      (filter (\<lambda>t. \<not> skip_txn ex t) txns) ss"
    by (rule Import_prepare_Inr[OF b(1)]) (rule that; assumption)
  obtain i where i: "x_pg_uuid x (ii_AccountID inp) = Some i"
    using p(1) by (auto simp: owned_account_Inr FindByID_Inr)
  define kept where "kept = filter (\<lambda>t. \<not> skip_txn ex t) txns"
  show ?thesis
  proof (cases "ss = []")
    case True
    then have "kept = []" "c' = c" using p(5) b(3) by (auto simp: kept_def)
    with p i b(2) True show ?thesis
      by (intro exI[of _ i] exI[of _ txns] exI[of _ ex] exI[of _ "[]"])
        (auto simp: kept_def)
  next
    case False
    then obtain bal d where body: "batch_body x ss (ii_AccountID inp) (primary c) = Inr (bal, d)"
      "c' = c\<lparr>primary := d\<rparr>" using b(3) by blast
    obtain rs where "length rs = length ss" "statements d = statements (primary c) @ rs"
      "list_all2 (\<lambda>t r. delta r = tx_Amount t \<and> sd_AccountID r = i) kept rs"
      "map (\<lambda>a. (ad_ID a, ad_Balance a)) (accounts d) =
       map (\<lambda>a. (ad_ID a, if ad_ID a = i then ad_Balance a + sum_list (map tx_Amount kept) else ad_Balance a))
         (accounts (primary c))"
      by (rule batch_posts[OF assms(1,2) body(1) i p(5)[folded kept_def]])
    with p i b(2) body(2) show ?thesis
      by (intro exI[of _ i] exI[of _ txns] exI[of _ ex] exI[of _ rs]) (simp add: kept_def)
  qed
qed

text \<open>An account with one statement of an earlier import, and a file whose second
  transaction is that statement and whose third has no amount.\<close>

definition demo_txn :: "string \<Rightarrow> i64 \<Rightarrow> ofx_txn" where
  "demo_txn f n = \<lparr> tx_FITID = f, tx_Type = [], tx_Amount = n, tx_Name = [], tx_Memo = [],
     tx_DatePosted = demo_time \<rparr>"

definition demo_parse :: "string \<Rightarrow> ofx_txn list go_result" where
  "demo_parse s = Inr [demo_txn ''f1'' 700, demo_txn ''f2'' (- 200), demo_txn ''f3'' 0]"

definition demo_import :: import_input where
  "demo_import = \<lparr> ii_AccountID = ''a00'', ii_RequestingUserID = ''u1'', ii_FileContent = [] \<rparr>"

lemma demo_import_run: "map_sum (\<lambda>_. ()) (\<lambda>out. out)
    (fst (Import_Execute demo_parse (demo_ext ''i'') demo_import demo_opened))
   = Inr \<lparr> io_TotalTransactions = 3, io_Created = 2, io_Skipped = 1 \<rparr>"
  by code_simp

lemma demo_import_ok: "\<exists>c'. Import_Execute demo_parse (demo_ext ''i'') demo_import demo_opened
   = (Inr \<lparr> io_TotalTransactions = 3, io_Created = 2, io_Skipped = 1 \<rparr>, c')"
  by (rule demo_outcome[OF demo_import_run])

theorem import_posts_transactions_witness:
  "\<exists>c' rs. snd (Import_Execute demo_parse (demo_ext ''i'') demo_import demo_opened) = c' \<and>
    statements (primary c') = statements (primary demo_opened) @ rs \<and> length rs = 2"
proof -
  obtain c' where e: "Import_Execute demo_parse (demo_ext ''i'') demo_import demo_opened
     = (Inr \<lparr> io_TotalTransactions = 3, io_Created = 2, io_Skipped = 1 \<rparr>, c')"
    using demo_import_ok by blast
  from import_posts_transactions[OF demo_ext_ok reachable_ok[OF demo_opened_reachable] e] e
  show ?thesis by auto
qed

section \<open>Importing again\<close>

lemma import_loop_all_skipped:
  "\<forall>t\<in>set txns. skip_txn ex t \<Longrightarrow>
    import_loop x ex aid txns acc k = Inr (rev acc, k + length txns)"
  by (induction txns arbitrary: k) auto

text \<open>Every transaction with an amount that a successful import saw is stored under its
  identifier afterwards, when its identifier is text the column keeps.\<close>

definition storable_id :: "ext \<Rightarrow> string \<Rightarrow> bool" where
  "storable_id x f \<longleftrightarrow> f \<noteq> [] \<and> pg_str x None f = Inr f \<and> pg_str x (Some 255) f = Inr f"

lemma mapE_storable:
  assumes "\<forall>f\<in>set fs. storable_id x f"
  shows "mapE (pg_str x None) fs = Inr fs"
  using assms by (induction fs) (auto simp: storable_id_def)

lemma imported_stored:
  assumes "ext_ok x" "Import_Execute parse x inp c = (Inr out, c')"
    "parse (ii_FileContent inp) = Inr txns" "\<forall>t\<in>set txns. storable_id x (tx_FITID t)"
    "x_pg_uuid x (ii_AccountID inp) = Some i" "t \<in> set txns" "tx_Amount t \<noteq> 0"
  shows "\<exists>r\<in>set (statements (primary c')). sd_ExternalID r = Some (tx_FITID t) \<and> sd_AccountID r = i"
proof -
  obtain txns' ss skipped where b:
    "Import_prepare parse x inp c = Inr (ii_AccountID inp, txns', ss, skipped)"
    "(ss = [] \<and> c' = c) \<or>
     (ss \<noteq> [] \<and> (\<exists>b d. batch_body x ss (ii_AccountID inp) (primary c) = Inr (b, d) \<and> c' = c\<lparr>primary := d\<rparr>))"
    by (rule import_batch[OF assms(2)]) (rule that; assumption)
  obtain a ex where p: "parse (ii_FileContent inp) = Inr txns'"
    "FindExternalIDs x (ii_AccountID inp) (filter (\<lambda>i. i \<noteq> []) (map tx_FITID txns')) c = Inr ex"
    "list_all2 (\<lambda>t s. \<exists>n. mapOFXTransaction x n t (ii_AccountID inp) = Inr s)
      (filter (\<lambda>t. \<not> skip_txn ex t) txns') ss"
    by (rule Import_prepare_Inr[OF b(1)]) (rule that; assumption)
  have tt: "txns' = txns" using p(1) assms(3) by simp
  note p = p[unfolded tt]
  show ?thesis
  proof (cases "skip_txn ex t")
    case True
    then have "tx_FITID t \<in> set ex" using assms(4,6,7) by (auto simp: skip_txn_def storable_id_def)
    moreover have "filter (\<lambda>i. i \<noteq> []) (map tx_FITID txns) \<noteq> []"
      using assms(4,6) by (auto simp: filter_empty_conv storable_id_def)
    ultimately have "\<exists>r\<in>set (statements (primary c)). sd_ExternalID r = Some (tx_FITID t) \<and> sd_AccountID r = i"
      using p(2) assms(5) by (elim FindExternalIDs_Inr) auto
    moreover have "set (statements (primary c)) \<subseteq> set (statements (primary c'))"
      using b(2) by (auto elim!: batch_body_Inr)
    ultimately show ?thesis by blast
  next
    case False
    then have t: "t \<in> set (filter (\<lambda>t. \<not> skip_txn ex t) txns)" using assms(6) by simp
    then have "ss \<noteq> []" using p(3) by (auto simp: filter_empty_conv)
    then obtain bal d where d: "batch_body x ss (ii_AccountID inp) (primary c) = Inr (bal, d)"
      "c' = c\<lparr>primary := d\<rparr>" using b(2) by blast
    obtain i' a rows rs ps where r: "x_pg_uuid x (ii_AccountID inp) = Some i'"
      "List.find (\<lambda>a. ad_ID a = i') (accounts (primary c)) = Some a" "running_rows (ad_Balance a) ss = (rows, bal)"
      "list_all2 (\<lambda>s r. stmt_conv x s = Inr r) rows rs"
      "d = (primary c)\<lparr>statements := statements (primary c) @ rs, stmt_tags := stmt_tags (primary c) @ ps,
            accounts := update_where (\<lambda>a. ad_ID a = i')
                (\<lambda>a. a\<lparr>ad_Balance := bal, ad_UpdatedAt := x_pg_time x (x_sql_now x)\<rparr>) (accounts (primary c))\<rparr>"
      by (rule batch_body_Inr[OF d(1)]) (rule that; assumption)
    obtain r where "r \<in> set rs" "x_pg_uuid x (ii_AccountID inp) = Some (sd_AccountID r)"
      "optE (pg_str x (Some 255)) (if tx_FITID t = [] then None else Some (tx_FITID t))
        = Inr (sd_ExternalID r)"
      using list_all2_member[OF imported_rows[OF assms(1) p(3) r(3,4)] t] by blast
    then show ?thesis using assms(4-6) r(5) d(2) by (auto simp: storable_id_def)
  qed
qed

lemma import_keeps_account:
  assumes "Import_Execute parse x inp c = (Inr out, c')" "replica c = None"
    "owned_account x aid u c = Inr a" "x_fault y ''accounts.FindByID'' 0 = None"
    "x_pg_uuid y = x_pg_uuid x" "x_uuid_ok y = x_uuid_ok x"
  shows "\<exists>a'. owned_account y aid u c' = Inr a' \<and> a_Active a'"
proof -
  obtain i r where o: "x_pg_uuid x aid = Some i" "find_active i (primary c) = Some r"
    "toAccount x r = Inr a" "u = [] \<or> a_UserID a = u"
    using assms(2,3) by (auto simp: owned_account_Inr FindByID_Inr reader_def)
  have upd: "find_active i (d\<lparr>accounts := update_where p (\<lambda>a. a\<lparr>ad_Balance := b, ad_UpdatedAt := t\<rparr>) (accounts d)\<rparr>)
      = map_option (\<lambda>a. if p a then a\<lparr>ad_Balance := b, ad_UpdatedAt := t\<rparr> else a) (find_active i d)"
    for d p b t
  proof -
    have "List.find (\<lambda>a. ad_ID a = i \<and> ad_Active a)
        (update_where p (\<lambda>a. a\<lparr>ad_Balance := b, ad_UpdatedAt := t\<rparr>) xs)
      = map_option (\<lambda>a. if p a then a\<lparr>ad_Balance := b, ad_UpdatedAt := t\<rparr> else a)
          (List.find (\<lambda>a. ad_ID a = i \<and> ad_Active a) xs)" for xs
      by (induction xs) (auto simp: update_where_def)
    then show ?thesis by (simp add: find_active_def)
  qed
  have "\<exists>r'. find_active i (primary c') = Some r' \<and> ad_ID r' = ad_ID r \<and> ad_UserID r' = ad_UserID r \<and> ad_Active r'"
  proof (rule import_batch[OF assms(1)])
    fix txns ss skipped
    assume "(ss = [] \<and> c' = c) \<or> (ss \<noteq> [] \<and>
      (\<exists>b d. batch_body x ss (ii_AccountID inp) (primary c) = Inr (b, d) \<and> c' = c\<lparr>primary := d\<rparr>))"
    then show ?thesis
    proof (elim disjE conjE exE)
      show ?thesis if "c' = c" using that o(2) find_active_Some[OF o(2)] by simp
      fix b d
      assume h: "batch_body x ss (ii_AccountID inp) (primary c) = Inr (b, d)" "c' = c\<lparr>primary := d\<rparr>"
      show ?thesis
        by (rule batch_body_Inr[OF h(1)])
          (use h(2) o(2) find_active_Some[OF o(2)] upd in \<open>auto simp: find_active_def\<close>)
    qed
  qed
  then obtain r' where r': "find_active i (primary c') = Some r'" "ad_ID r' = ad_ID r"
    "ad_UserID r' = ad_UserID r" "ad_Active r'" by blast
  have rep: "replica c' = None"
    by (rule import_batch[OF assms(1)]) (use assms(2) in auto)
  have "\<exists>a'. toAccount y r' = Inr a' \<and> a_UserID a' = a_UserID a \<and> a_Active a'"
    using o(3) r' assms(6) by (auto simp: toAccount_Inr)
  then show ?thesis
    using o(1,4) r'(1) rep assms(4,5)
    by (auto simp: owned_account_Inr FindByID_Inr reader_def)
qed



section \<open>A file that repeats an identifier\<close>

lemma insert_rows_no_conflict:
  assumes "foldE insert_stmt_row rs all = Inr all'" "rs = us @ r # vs @ t # ws"
  shows "\<not> stmt_conflict t r"
proof
  assume c: "stmt_conflict t r"
  obtain b where b: "foldE insert_stmt_row (us @ r # vs) all = Inr b"
    "insert_stmt_row t b = Inr (b @ [t])"
    using assms by (auto simp: foldE_append)
  from insert_stmt_rows_Inr[OF b(1)] have "r \<in> set b" by auto
  with b(2) c show False by (auto simp: list_ex_iff)
qed

lemma list_all2_split:
  assumes "list_all2 P (us @ x # vs @ y # ws) zs"
  shows "\<exists>us' x' vs' y' ws'. zs = us' @ x' # vs' @ y' # ws' \<and> P x x' \<and> P y y'"
  using assms by (auto simp: list_all2_append1 list_all2_Cons1) blast

text \<open>A file in which two transactions with an amount carry the same identifier is not
  imported at all, when the identifier is new to the account: the dedup check looks only
  at stored statements, so the batch violates the unique index and nothing of the file
  is kept.\<close>

theorem repeated_fitid_rejected:
  assumes "parse (ii_FileContent inp) = Inr (us @ t # vs @ u # ws)"
    "tx_FITID t = f" "tx_FITID u = f" "f \<noteq> []" "tx_Amount t \<noteq> 0" "tx_Amount u \<noteq> 0"
    "\<forall>r\<in>set (statements (primary c)). sd_ExternalID r \<noteq> Some f" "ext_ok x"
  shows "\<exists>e. Import_Execute parse x inp c = (Inl e, c)"
proof (cases "Import_prepare parse x inp c")
  case (Inr p)
  obtain aid txns ss skipped where p: "p = (aid, txns, ss, skipped)" by (cases p)
  note Inr = Inr[unfolded p]
  obtain ex where h: "aid = ii_AccountID inp" "parse (ii_FileContent inp) = Inr txns"
    "FindExternalIDs x aid (filter (\<lambda>i. i \<noteq> []) (map tx_FITID txns)) c = Inr ex"
    "list_all2 (\<lambda>t s. \<exists>n. mapOFXTransaction x n t aid = Inr s) (filter (\<lambda>t. \<not> skip_txn ex t) txns) ss"
    by (rule Import_prepare_Inr[OF Inr]) (rule that; assumption)
  have txns: "txns = us @ t # vs @ u # ws" using h(2) assms(1) by simp
  have "f \<notin> set ex"
  proof
    assume a: "f \<in> set ex"
    have "filter (\<lambda>i. i \<noteq> []) (map tx_FITID txns) \<noteq> []" using txns assms(2,4) by simp
    with a assms(7) h(3) show False by (elim FindExternalIDs_Inr) auto
  qed
  then have kept: "filter (\<lambda>t. \<not> skip_txn ex t) txns = filter (\<lambda>t. \<not> skip_txn ex t) us @ t #
      filter (\<lambda>t. \<not> skip_txn ex t) vs @ u # filter (\<lambda>t. \<not> skip_txn ex t) ws"
    using assms(2-6) txns by (simp add: skip_txn_def)
  then have ne: "ss \<noteq> []" using h(4) by auto
  have no: "batch_body x ss aid (primary c) \<noteq> Inr (b, d)" for b d
  proof
    assume body: "batch_body x ss aid (primary c) = Inr (b, d)"
    obtain i a rows rs ps where r: "x_pg_uuid x aid = Some i"
      "List.find (\<lambda>a. ad_ID a = i) (accounts (primary c)) = Some a"
      "running_rows (ad_Balance a) ss = (rows, b)"
      "list_all2 (\<lambda>s r. stmt_conv x s = Inr r) rows rs"
      "foldE insert_stmt_row rs (statements (primary c)) = Inr (statements (primary c) @ rs)"
      by (rule batch_body_Inr[OF body]) (rule that; assumption)
    obtain us' t' vs' u' ws' where sp: "rs = us' @ t' # vs' @ u' # ws'"
      "Some (sd_AccountID t') = Some (sd_AccountID u')"
      "optE (pg_str x (Some 255)) (Some f) = Inr (sd_ExternalID t')"
      "optE (pg_str x (Some 255)) (Some f) = Inr (sd_ExternalID u')"
      using list_all2_split[OF imported_rows[OF assms(8) h(4) r(3,4), unfolded kept]] assms(2-4) by auto
    have "stmt_conflict u' t'" using sp(2-4) by (auto simp: stmt_conflict_def dest!: sym[of "Some _"])
    with insert_rows_no_conflict[OF r(5) sp(1)] show False by simp
  qed
  obtain e where "batch_body x ss aid (primary c) = Inl e"
    using no by (cases "batch_body x ss aid (primary c)") auto
  then show ?thesis using Inr ne
    by (auto simp: Import_Execute_def StatementRepository_CreateBatch_def transact_def split: option.splits)
qed (simp add: Import_Execute_def)

theorem repeated_fitid_rejected_witness:
  "\<exists>e. Import_Execute (\<lambda>_. Inr [demo_txn ''f1'' 700, demo_txn ''f1'' 300]) (demo_ext ''i'') demo_import
    demo_opened = (Inl e, demo_opened)"
  by (rule repeated_fitid_rejected[where us = "[]" and vs = "[]" and ws = "[]" and f = "''f1''"
        and t = "demo_txn ''f1'' 700" and u = "demo_txn ''f1'' 300"])
    (simp_all add: demo_txn_def demo_opened_def demo_start_def empty_db_def demo_ext_ok)

end
