(* ===== verification/Metadata_Properties.thy ===== *)
theory Metadata_Properties
  imports Wallet_Demo
begin

text \<open>
  Categories and tags of statements: the deduplication of tag identifiers against a
  reference definition, what a tag replacement and a category update leave behind, and
  that neither touches the accounting.
\<close>

section \<open>Deduplication\<close>

lemma remdups_snoc: "remdups (xs @ [i]) = filter (\<lambda>j. j \<noteq> i) (remdups xs) @ [i]"
  by (induction xs) auto

lemma dedup_loop_filter:
  "dedup_loop seen ids = filter (\<lambda>i. i \<notin> set seen) (rev (remdups (rev ids)))"
proof (induction seen ids rule: dedup_loop.induct)
  case (2 seen i ids)
  then show ?case
    by (auto simp: remdups_snoc rev_filter[symmetric] intro: filter_cong)
qed simp

text \<open>The deduplication of tag identifiers keeps exactly the first occurrence of each
  identifier, in order: it is the reverse of removing duplicates from the reversed list,
  so it has no duplicates, the same members, and is idempotent.\<close>

theorem dedup_first_occurrences:
  "dedupTagIDs ids = rev (remdups (rev ids)) \<and> distinct (dedupTagIDs ids) \<and>
   set (dedupTagIDs ids) = set ids \<and> dedupTagIDs (dedupTagIDs ids) = dedupTagIDs ids"
proof -
  have d: "dedupTagIDs js = rev (remdups (rev js))" for js
    by (simp add: dedupTagIDs_def dedup_loop_filter)
  then show ?thesis by (simp add: distinct_remdups_id)
qed

lemma dedup_facts [simp]: "distinct (dedupTagIDs ids)" "set (dedupTagIDs ids) = set ids"
  by (simp_all add: dedupTagIDs_def dedup_loop_filter)

section \<open>Resolving metadata\<close>

lemma toTag_Inr: "toTag x r = Inr t \<Longrightarrow> t_ID t = td_ID r \<and> t_Name t = td_Name r \<and> t_UserID t = td_UserID r"
  by (cases "td_UserID r") (auto simp: toTag_def)

lemma toCategory_Inr: "toCategory x r = Inr k \<Longrightarrow>
    c_ID k = cd_ID r \<and> c_Name k = cd_Name r \<and> c_Type k = cd_Type r \<and> c_UserID k = cd_UserID r"
  by (cases "cd_UserID r") (auto simp: toCategory_def)

lemma resolveTags_Inr:
  assumes "resolveTags x raw u c = Inr ts" "db_ok (reader c)"
  obtains us where "list_all2 (\<lambda>t i. x_pg_uuid x t = Some i) (dedupTagIDs raw) us"
    "distinct (map t_ID ts)" "set (map t_ID ts) = set us" "length ts = length (dedupTagIDs raw)"
    "length ts \<le> MaxTagsPerStatement"
    "\<forall>t\<in>set ts. \<exists>uid. x_pg_uuid x u = Some uid \<and>
       (\<exists>r\<in>set (tags (reader c)). td_ID r = t_ID t \<and> tag_visible uid r)"
proof (cases "dedupTagIDs raw = []")
  case True
  with assms(1) show thesis by (intro that[of "[]"]) (auto simp: resolveTags_def)
next
  case False
  obtain parsed where p: "length (dedupTagIDs raw) \<le> MaxTagsPerStatement"
    "mapE (ParseID (x_uuid_ok x)) (dedupTagIDs raw) = Inr parsed"
    "TagRepository_FindManyVisible x parsed u c = Inr ts" "length ts = length (dedupTagIDs raw)"
    using assms(1) False by (auto simp: resolveTags_def Let_def split: if_splits)
  have pd: "parsed = dedupTagIDs raw"
    using p(2) by (auto simp: mapE_Inr list_all2_conv_all_nth intro!: nth_equalityI)
  obtain us uid rows where f: "mapE (pg_id x) parsed = Inr us" "x_pg_uuid x u = Some uid"
    "rows = filter (\<lambda>r. td_ID r \<in> set us \<and> tag_visible uid r) (tags (reader c))"
    "mapE (toTag x) rows = Inr ts"
    using p(3) pd False by (auto simp: TagRepository_FindManyVisible_def)
  have ids: "map t_ID ts = map td_ID rows"
    using f(4) unfolding mapE_Inr by (induction rule: list_all2_induct) (auto dest: toTag_Inr)
  have "distinct (map td_ID (tags (reader c)))" using assms(2) by (simp add: db_ok_def keys_ok_def)
  then have dist: "distinct (map t_ID ts)" unfolding ids f(3) by (simp add: distinct_map_filter)
  have us: "list_all2 (\<lambda>t i. x_pg_uuid x t = Some i) (dedupTagIDs raw) us"
    using f(1) pd by (simp add: mapE_Inr)
  have sub: "set (map t_ID ts) \<subseteq> set us" unfolding ids f(3) by auto
  have "card (set us) \<le> length us" by (rule card_length)
  also have "\<dots> = card (set (map t_ID ts))"
    using list_all2_lengthD[OF us] p(4) distinct_card[OF dist] by simp
  finally have "set (map t_ID ts) = set us" using card_seteq[OF _ sub] by simp
  moreover have "\<forall>t\<in>set ts. \<exists>uid. x_pg_uuid x u = Some uid \<and>
       (\<exists>r\<in>set (tags (reader c)). td_ID r = t_ID t \<and> tag_visible uid r)"
  proof
    fix t assume "t \<in> set ts"
    then have "t_ID t \<in> set (map td_ID rows)" unfolding ids[symmetric] by simp
    then show "\<exists>uid. x_pg_uuid x u = Some uid \<and>
          (\<exists>r\<in>set (tags (reader c)). td_ID r = t_ID t \<and> tag_visible uid r)"
      using f(2,3) by auto
  qed
  ultimately show thesis using us dist p(1,4) by (intro that[of us]) simp_all
qed

lemma resolveCategory_Inr:
  assumes "resolveCategory x raw u ty c = Inr (Some k)"
  obtains uid r where "x_pg_uuid x u = Some uid" "r \<in> set (categories (reader c))" "cd_ID r = c_ID k"
    "cd_Type r = ty" "c_Type k = ty" "cd_UserID r = Some uid \<or> cd_UserID r = None"
proof -
  obtain s where s: "raw = Some s" "CategoryRepository_FindVisible x s u c = Inr k" "c_Type k = ty"
    using assms by (auto simp: resolveCategory_def split: option.splits if_splits)
  show thesis
    by (rule visible_cats.visible_found[OF s(2)]) (rule that; use s(3) toCategory_Inr in fastforce)
qed

lemma verify_owner:
  assumes "verifyStatementOwnership x s ru c = Inr u"
  shows "\<exists>a\<in>set (accounts (reader c)). ad_UserID a = u" "ru = [] \<or> u = ru"
    "\<exists>r\<in>set (accounts (reader c)). x_pg_uuid x (s_AccountID s) = Some (ad_ID r) \<and> ad_UserID r = u"
  using assms FindByID_active
  by (auto simp: verifyStatementOwnership_def split: if_splits) (metis FindByID_active(2,3))+

section \<open>Replacing tags\<close>

lemma ReplaceTags_facts:
  assumes "ReplaceTags_Execute x inp c = (Inr out, c')"
  obtains s tgs u d where "StatementRepository_FindByID x (rt_StatementID inp) c = Inr s"
    "verifyStatementOwnership x s (rt_RequestingUserID inp) c = Inr u"
    "resolveTags x (rt_TagIDs inp) u c = Inr tgs"
    "replace_body x (rt_StatementID inp) (map t_ID tgs) (primary c) = Inr ((), d)"
    "c' = c\<lparr>primary := d\<rparr>"
proof -
  obtain s tgs where p: "ReplaceTags_prepare x inp c = Inr (s, tgs)"
    and r: "ReplaceTags x (rt_StatementID inp) (map t_ID tgs) c = (Inr (), c')"
    using assms by (auto simp: ReplaceTags_Execute_def split: sum.splits prod.splits)
  then show thesis
    using transact_outcome[of x "''statements.ReplaceTags''" "replace_body x (rt_StatementID inp) (map t_ID tgs)" c]
    by (auto simp: ReplaceTags_prepare_def ReplaceTags_def intro: that)
qed

lemma canonical_pairs:
  assumes "list_all2 (\<lambda>t (s', t'). s' = i \<and> f t = Some t') ts ps" "\<forall>t\<in>set ts. f t = Some t"
  shows "ps = map (Pair i) ts"
  using assms by (induction ts ps rule: list_all2_induct) auto


definition demo_retag :: replace_tags_input where
  "demo_retag = \<lparr> rt_StatementID = ''s00'', rt_RequestingUserID = ''u1'', rt_TagIDs = [''g1'', ''g1''] \<rparr>"

lemma demo_retag_run: "isOk (fst (ReplaceTags_Execute (demo_ext ''x'') demo_retag demo_reversed))"
  by code_simp


section \<open>Updating the category\<close>

lemma exec_Inr:
  assumes "exec x site q c = (Inr n, c')"
  shows "\<exists>d. q (primary c) = Inr (n, d) \<and> c' = c\<lparr>primary := d\<rparr>"
  using exec_outcome[OF assms] by auto

lemma update_category_found:
  assumes "StatementRepository_FindByID x sid c = Inr s"
  shows "\<exists>j r. x_pg_uuid x sid = Some j \<and> r \<in> set (statements (reader c)) \<and> sd_ID r = j \<and>
    s_Type s = sd_Type r"
proof -
  obtain j r where j: "x_pg_uuid x sid = Some j"
    "List.find (\<lambda>r. sd_ID r = j) (statements (reader c)) = Some r"
    "toStatement x (hydrate x (reader c) r) = Inr s"
    using assms by (auto simp: StatementRepository_FindByID_def attempt_def pg_id_def
        split: option.splits if_splits)
  have "s_Type s = sd_Type r"
    using j(3) unfolding toStatement_def Let_def bindE_Inr
    by (auto simp: hydrate_def Let_def stmt_row.defs)
  with j find_Some_set[OF j(2)] show ?thesis by blast
qed

text \<open>A successful category update changes the category column of that one statement and
  nothing else: amounts, types, balances and every other row stay. A category it sets is
  visible to the owner of the account and has the statement's type.\<close>

theorem update_category_exact:
  assumes "UpdateCategory_Execute x inp c = (Inr out, c')"
  shows "\<exists>i k. x_pg_uuid x (uc_StatementID inp) = Some i \<and> i \<in> sd_ID ` set (statements (primary c)) \<and>
    primary c' = (primary c)\<lparr>statements :=
      update_where (\<lambda>r. sd_ID r = i) (\<lambda>r. r\<lparr>sd_CategoryID := k\<rparr>) (statements (primary c))\<rparr> \<and>
    map delta (statements (primary c')) = map delta (statements (primary c)) \<and>
    map sd_BalanceAfter (statements (primary c')) = map sd_BalanceAfter (statements (primary c)) \<and>
    (k \<noteq> None \<longrightarrow> (\<exists>r s a u. r \<in> set (categories (reader c)) \<and> s \<in> set (statements (reader c)) \<and>
       sd_ID s = i \<and> cd_Type r = sd_Type s \<and> x_pg_uuid x (cd_ID r) = k \<and>
       a \<in> set (accounts (reader c)) \<and> x_pg_uuid x (ad_UserID a) = Some u \<and>
       (cd_UserID r = Some u \<or> cd_UserID r = None)))"
proof -
  obtain s where p: "UpdateCategory_prepare x inp c = Inr s"
    and w: "UpdateCategory x (uc_StatementID inp) (s_CategoryID s) c = (Inr (), c')"
    using assms by (auto simp: UpdateCategory_Execute_def split: sum.splits prod.splits)
  obtain s0 u cat where q: "StatementRepository_FindByID x (uc_StatementID inp) c = Inr s0"
    "verifyStatementOwnership x s0 (uc_RequestingUserID inp) c = Inr u"
    "resolveCategory x (uc_CategoryID inp) u (s_Type s0) c = Inr cat"
    "s = (case cat of None \<Rightarrow> s0\<lparr>s_CategoryID := None, s_Category := None\<rparr>
       | Some k \<Rightarrow> s0\<lparr>s_CategoryID := Some (c_ID k), s_Category :=
           Some \<lparr> cr_ID = c_ID k, cr_Name = c_Name k, cr_Type = s_Type s0 \<rparr>\<rparr>)"
    using p unfolding UpdateCategory_prepare_def bindE_Inr ParseID_Inr sum.inject by blast
  have cid: "s_CategoryID s = map_option c_ID cat" by (simp add: q(4) split: option.splits)
  obtain n d where e: "set_category x (uc_StatementID inp) (s_CategoryID s) (primary c) = Inr (n, d)"
    "n \<noteq> 0" "c' = c\<lparr>primary := d\<rparr>"
    using w exec_Inr[of x "''statements.UpdateCategory''" "set_category x (uc_StatementID inp) (s_CategoryID s)" c]
    by (auto simp: UpdateCategory_def split: sum.splits prod.splits if_splits)
  obtain k i where k: "optE (pg_id x) (s_CategoryID s) = Inr k" "x_pg_uuid x (uc_StatementID inp) = Some i"
    "n = count_where (\<lambda>r. sd_ID r = i) (statements (primary c))"
    "d = (primary c)\<lparr>statements := update_where (\<lambda>r. sd_ID r = i) (\<lambda>r. r\<lparr>sd_CategoryID := k\<rparr>)
      (statements (primary c))\<rparr>"
    using e(1) unfolding set_category_Inr by blast
  have hit: "i \<in> sd_ID ` set (statements (primary c))"
    using e(2) unfolding k(3) by (auto simp: count_where_def filter_empty_conv)
  have cat: "\<exists>r s a u. r \<in> set (categories (reader c)) \<and> s \<in> set (statements (reader c)) \<and>
       sd_ID s = i \<and> cd_Type r = sd_Type s \<and> x_pg_uuid x (cd_ID r) = k \<and>
       a \<in> set (accounts (reader c)) \<and> x_pg_uuid x (ad_UserID a) = Some u \<and>
       (cd_UserID r = Some u \<or> cd_UserID r = None)" if ne: "k \<noteq> None"
  proof -
    obtain kc where kc: "cat = Some kc" "x_pg_uuid x (c_ID kc) = k"
      using ne k(1) cid by (cases cat) auto
    obtain uid r where r: "x_pg_uuid x u = Some uid" "r \<in> set (categories (reader c))"
      "cd_ID r = c_ID kc" "cd_Type r = s_Type s0" "cd_UserID r = Some uid \<or> cd_UserID r = None"
      by (rule resolveCategory_Inr[OF q(3)[unfolded kc(1)]]) (rule that; assumption)
    from update_category_found[OF q(1)] k(2) obtain t where
      "t \<in> set (statements (reader c))" "sd_ID t = i" "s_Type s0 = sd_Type t" by auto
    moreover obtain a where "a \<in> set (accounts (reader c))" "ad_UserID a = u"
      using verify_owner(1)[OF q(2)] by blast
    ultimately show ?thesis using r kc(2) by fastforce
  qed
  show ?thesis
    by (rule exI[of _ i], rule exI[of _ k])
      (use k(2,4) hit cat e(3) in \<open>auto simp: update_where_def delta_def\<close>)
qed

definition demo_recategorize :: update_category_input where
  "demo_recategorize = \<lparr> uc_StatementID = ''s00'', uc_RequestingUserID = ''u1'',
     uc_CategoryID = Some SystemCategoryEstornoCreditID \<rparr>"

lemma demo_recategorize_run:
  "isOk (fst (UpdateCategory_Execute (demo_ext ''x'') demo_recategorize demo_reversed))"
  by code_simp

theorem update_category_exact_witness:
  "\<exists>c'. snd (UpdateCategory_Execute (demo_ext ''x'') demo_recategorize demo_reversed) = c' \<and>
    map delta (statements (primary c')) = [500, - 500]"
proof -
  obtain out c' where e: "UpdateCategory_Execute (demo_ext ''x'') demo_recategorize demo_reversed = (Inr out, c')"
    using demo_recategorize_run
    by (cases "UpdateCategory_Execute (demo_ext ''x'') demo_recategorize demo_reversed")
      (auto simp: isOk_def split: sum.splits)
  have "map delta (statements (primary demo_reversed)) = [500, - 500]"
    by (simp add: demo_reversed_def demo_row_def demo_reversal_def delta_def)
  with update_category_exact[OF e] e show ?thesis by auto
qed

end
