(* ===== verification/Catalog_Properties.thy ===== *)
theory Catalog_Properties
  imports Wallet_Demo
begin

text \<open>
  Properties of the category and tag catalogs: who may change a row, what deleting one
  does to statements, what a list shows, and the type filter of the category list.
\<close>

section \<open>Who may change a row\<close>

text \<open>C29. System categories and tags are read-only and another user's are reported as missing:
  rename and delete answer so and change nothing.\<close>

theorem catalogs_protected:
  assumes "x_uuid_ok x u" "x_uuid_ok x i" "TrimSpace n \<noteq> []"
  shows "(\<forall>k. CategoryRepository_FindByID x i c = Inr k \<and> c_UserID k \<noteq> Some u \<longrightarrow>
      (let e = Sentinel (if c_UserID k = None then ErrCategoryReadOnly else ErrCategoryNotFound)
       in CategoryUpdate_Execute x u i n c = (Inl e, c) \<and> CategoryDelete_Execute x u i c = (Inl e, c))) \<and>
    (\<forall>t. TagRepository_FindByID x i c = Inr t \<and> t_UserID t \<noteq> Some u \<longrightarrow>
      (let e = Sentinel (if t_UserID t = None then ErrTagReadOnly else ErrTagNotFound)
       in TagUpdate_Execute x u i n c = (Inl e, c) \<and> TagDelete_Execute x u i c = (Inl e, c)))"
  using cats.update_refused[OF assms] cats.delete_refused[OF assms(1,2)]
    labels.update_refused[OF assms] labels.delete_refused[OF assms(1,2)]
  by (simp add: Let_def)

lemma demo_find_system: "map_sum (\<lambda>_. ()) (\<lambda>a. a)
    (CategoryRepository_FindByID (demo_ext ''x'') SystemCategoryEstornoCreditID demo_start)
  = Inr \<lparr> c_ID = SystemCategoryEstornoCreditID, c_UserID = None, c_Name = ''Estorno'',
      c_Type = ''credit'', c_CreatedAt = demo_time, c_UpdatedAt = demo_time \<rparr>"
  by code_simp

lemma demo_find_system': "CategoryRepository_FindByID (demo_ext ''x'') SystemCategoryEstornoCreditID demo_start
  = Inr \<lparr> c_ID = SystemCategoryEstornoCreditID, c_UserID = None, c_Name = ''Estorno'',
      c_Type = ''credit'', c_CreatedAt = demo_time, c_UpdatedAt = demo_time \<rparr>"
  using demo_find_system
  by (cases "CategoryRepository_FindByID (demo_ext ''x'') SystemCategoryEstornoCreditID demo_start") simp_all

theorem catalogs_protected_witness:
  "CategoryDelete_Execute (demo_ext ''x'') ''u1'' SystemCategoryEstornoCreditID demo_start
     = (Inl (Sentinel ErrCategoryReadOnly), demo_start)"
proof -
  have ok: "x_uuid_ok (demo_ext ''x'') ''u1''" "x_uuid_ok (demo_ext ''x'') SystemCategoryEstornoCreditID"
    "TrimSpace ''a'' \<noteq> []"
    by (simp_all add: demo_ext_def SystemCategoryEstornoCreditID_def TrimSpace_plain plain_def)
  from conjunct1[OF catalogs_protected[OF ok, of demo_start]] demo_find_system'
  show ?thesis by (simp add: Let_def)
qed

section \<open>Deleting\<close>

lemma exec_success:
  assumes "exec x site q c = (Inr n, c')"
  shows "\<exists>d. q (primary c) = Inr (n, d) \<and> c' = c\<lparr>primary := d\<rparr>"
  using exec_outcome[OF assms] by auto

text \<open>C28. A category that a statement of the primary uses is never deleted, also when the
  request's own count was taken on a stale replica or before the statement was posted; a
  successful delete removes that one row, which no statement used, and nothing else.\<close>

theorem category_delete_safe:
  assumes "CategoryDelete_Execute x u i c = (r, c')" "x_pg_uuid x i = Some k"
  shows "(\<forall>out. r = Inr out \<longrightarrow>
      k \<in> cd_ID ` set (categories (primary c)) \<and>
      (\<forall>s\<in>set (statements (primary c)). sd_CategoryID s \<noteq> Some k) \<and>
      primary c' = (primary c)\<lparr>categories := filter (\<lambda>q. cd_ID q \<noteq> k) (categories (primary c))\<rparr>) \<and>
    (\<forall>s\<in>set (statements (primary c)). sd_CategoryID s = Some k \<longrightarrow>
      k \<in> cd_ID ` set (categories (primary c)) \<longrightarrow> c' = c \<and> (\<exists>e. r = Inl e))"
proof -
  have run: "(\<exists>e. r = Inl e \<and> c' = c) \<or> (\<exists>r'. CategoryRepository_Delete x i c = (r', c') \<and>
      (\<exists>e. r = Inl e \<and> r' = Inl e) \<or> (\<exists>out. r = Inr out \<and> r' = Inr () \<and> CategoryRepository_Delete x i c = (r', c')))"
    using assms(1)
    by (auto simp: CategoryDelete_Execute_def CategoryDelete_prepare_def split: sum.splits prod.splits)
  have repo: "(\<exists>e. r' = Inl e \<and> (c'' = c \<or> (\<exists>n d. delete_category x i (primary c) = Inr (n, d) \<and> c'' = c\<lparr>primary := d\<rparr>)))
     \<or> (\<exists>n d. r' = Inr () \<and> n \<noteq> 0 \<and> delete_category x i (primary c) = Inr (n, d) \<and> c'' = c\<lparr>primary := d\<rparr>)"
    if "CategoryRepository_Delete x i c = (r', c'')" for r' c''
    using that exec_outcome[of x "''categories.Delete''" "delete_category x i" c]
    by (cases "exec x ''categories.Delete'' (delete_category x i) c")
      (auto simp: CategoryRepository_Delete_def split: sum.splits if_splits)
  have del: "delete_category x i (primary c) = Inr (n, d) \<longleftrightarrow>
      \<not> (list_ex (\<lambda>q. cd_ID q = k) (categories (primary c)) \<and>
         list_ex (\<lambda>s. sd_CategoryID s = Some k) (statements (primary c))) \<and>
      n = count_where (\<lambda>q. cd_ID q = k) (categories (primary c)) \<and>
      d = (primary c)\<lparr>categories := filter (\<lambda>q. cd_ID q \<noteq> k) (categories (primary c))\<rparr>" for n d
    using assms(2) by (auto simp: delete_category_def pg_id_def)
  have hit: "k \<in> cd_ID ` set (categories (primary c))"
    if "count_where (\<lambda>q. cd_ID q = k) (categories (primary c)) \<noteq> 0"
    using that by (auto simp: count_where_def filter_empty_conv)
  show ?thesis
    using run repo hit unfolding del by (fastforce simp: list_ex_iff)
qed

text \<open>A user's own category and tag, the tag assigned to a statement.\<close>

definition demo_owned :: cluster where
  "demo_owned = demo_funded\<lparr>primary := (primary demo_funded)\<lparr>
     categories := demo_category ''k1'' (Some ''u1'') ''Casa'' ''debit'' # categories (primary demo_funded),
     tags := demo_tag ''g2'' (Some ''u1'') ''viagem'' # tags (primary demo_funded),
     stmt_tags := [(''s00'', ''g1''), (''s00'', ''g2'')]\<rparr>\<rparr>"

lemma demo_delete_run: "isOk (fst (CategoryDelete_Execute (demo_ext ''x'') ''u1'' ''k1'' demo_owned))"
  by code_simp

theorem category_delete_safe_witness:
  "''k1'' \<in> cd_ID ` set (categories (primary demo_owned)) \<and>
   cd_ID ` set (categories (primary (snd (CategoryDelete_Execute (demo_ext ''x'') ''u1'' ''k1'' demo_owned))))
     = {SystemCategoryEstornoCreditID, SystemCategoryEstornoDebitID}"
proof -
  obtain out c' where e: "CategoryDelete_Execute (demo_ext ''x'') ''u1'' ''k1'' demo_owned = (Inr out, c')"
    using demo_delete_run by (cases "CategoryDelete_Execute (demo_ext ''x'') ''u1'' ''k1'' demo_owned")
      (auto simp: isOk_def split: sum.splits)
  have "x_pg_uuid (demo_ext ''x'') ''k1'' = Some ''k1''" by (simp add: demo_ext_def)
  from conjunct1[OF category_delete_safe[OF e this]] e show ?thesis
    by (simp add: demo_owned_def demo_funded_def demo_start_def empty_db_def demo_category_def
        SystemCategoryEstornoCreditID_def SystemCategoryEstornoDebitID_def)
qed

text \<open>A successful tag delete removes the user's tag and every assignment of it; no
  statement, no other tag and no other assignment changes.\<close>

theorem tag_delete_cascades:
  assumes "TagDelete_Execute x u i c = (Inr out, c')" "x_pg_uuid x i = Some k"
  shows "k \<in> td_ID ` set (tags (primary c)) \<and>
    primary c' = (primary c)\<lparr>tags := filter (\<lambda>t. td_ID t \<noteq> k) (tags (primary c)),
      stmt_tags := filter (\<lambda>(s, t). t \<noteq> k) (stmt_tags (primary c))\<rparr> \<and>
    (\<exists>t. TagRepository_FindByID x i c = Inr t \<and> t_UserID t = Some u)"
proof -
  obtain t where own: "own_tag x u i c = Inr t" and r: "TagRepository_Delete x i c = (Inr (), c')"
    using assms(1) by (auto simp: TagDelete_Execute_def TagDelete_prepare_def split: sum.splits prod.splits)
  obtain n d where d: "delete_tag x i (primary c) = Inr (n, d)" "n \<noteq> 0" "c' = c\<lparr>primary := d\<rparr>"
    using r exec_success[of x "''tags.Delete''" "delete_tag x i" c]
    by (auto simp: TagRepository_Delete_def split: sum.splits prod.splits if_splits)
  then have "k \<in> td_ID ` set (tags (primary c))"
    using assms(2) by (auto simp: delete_tag_def pg_id_def count_where_def filter_empty_conv)
  with d assms(2) own show ?thesis by (auto simp: delete_tag_def pg_id_def labels.own_row)
qed

lemma demo_tag_delete_run: "isOk (fst (TagDelete_Execute (demo_ext ''x'') ''u1'' ''g2'' demo_owned))"
  by code_simp

theorem tag_delete_cascades_witness:
  "stmt_tags (primary (snd (TagDelete_Execute (demo_ext ''x'') ''u1'' ''g2'' demo_owned))) = [(''s00'', ''g1'')]"
proof -
  obtain out c' where e: "TagDelete_Execute (demo_ext ''x'') ''u1'' ''g2'' demo_owned = (Inr out, c')"
    using demo_tag_delete_run by (cases "TagDelete_Execute (demo_ext ''x'') ''u1'' ''g2'' demo_owned")
      (auto simp: isOk_def split: sum.splits)
  have "x_pg_uuid (demo_ext ''x'') ''g2'' = Some ''g2''" by (simp add: demo_ext_def)
  from tag_delete_cascades[OF e this] e show ?thesis by (simp add: demo_owned_def)
qed

section \<open>Listing\<close>

lemma toCategory_row: "toCategory x r = Inr k \<Longrightarrow>
    c_ID k = cd_ID r \<and> c_Name k = cd_Name r \<and> c_Type k = cd_Type r \<and> c_UserID k = cd_UserID r"
  by (cases "cd_UserID r") (auto simp: toCategory_def)

lemma toTag_row: "toTag x r = Inr t \<Longrightarrow>
    t_ID t = td_ID r \<and> t_Name t = td_Name r \<and> t_UserID t = td_UserID r"
  by (cases "td_UserID r") (auto simp: toTag_def)

lemma set_catalog_order [simp]: "set (catalog_order x owner name rows) = set rows"
  by (simp add: catalog_order_def)

lemma mapE_backward: "mapE f xs = Inr ys \<Longrightarrow> y \<in> set ys \<Longrightarrow> \<exists>x\<in>set xs. f x = Inr y"
  unfolding mapE_Inr by (induction rule: list_all2_induct) auto

lemma mapE_forward: "mapE f xs = Inr ys \<Longrightarrow> x \<in> set xs \<Longrightarrow> \<exists>y\<in>set ys. f x = Inr y"
  unfolding mapE_Inr by (rule list_all2_member)

lemma CategoryList_rows:
  assumes "CategoryList_Execute x u ty sc c = Inr outs"
  obtains p cats where "category_where x \<lparr> cf_UserID = u, cf_Type = (if ty = [] then None else Some ty),
      cf_Scope = list_scope sc \<rparr> = Inr p"
    "mapE (toCategory x) (catalog_order x cd_UserID cd_Name (filter p (categories (reader c)))) = Inr cats"
    "outs = map Category_FromDomain cats"
  using assms
  by (auto simp: CategoryList_Execute_def CategoryRepository_List_def NewCategoryType_def
      split: if_splits)

text \<open>A list never shows another user's category or tag: every entry is a row of the
  reader that is a system row or the user's own, and the scope narrows it to one of
  the two.\<close>

theorem lists_show_visible_rows:
  assumes "x_pg_uuid x u = Some w"
  shows "(CategoryList_Execute x u ty sc c = Inr ks \<longrightarrow>
      (\<forall>k\<in>set ks. \<exists>r\<in>set (categories (reader c)). co_ID k = cd_ID r \<and> co_Name k = cd_Name r \<and>
        (cd_UserID r = None \<and> sc \<noteq> ''user'' \<or> cd_UserID r = Some w \<and> sc \<noteq> ''system''))) \<and>
    (TagList_Execute x u sc c = Inr ts \<longrightarrow>
      (\<forall>t\<in>set ts. \<exists>r\<in>set (tags (reader c)). to_ID t = td_ID r \<and> to_Name t = td_Name r \<and>
        (td_UserID r = None \<and> sc \<noteq> ''user'' \<or> td_UserID r = Some w \<and> sc \<noteq> ''system'')))"
proof (intro conjI impI ballI)
  fix k assume l: "CategoryList_Execute x u ty sc c = Inr ks" and k: "k \<in> set ks"
  show "\<exists>r\<in>set (categories (reader c)). co_ID k = cd_ID r \<and> co_Name k = cd_Name r \<and>
        (cd_UserID r = None \<and> sc \<noteq> ''user'' \<or> cd_UserID r = Some w \<and> sc \<noteq> ''system'')"
  proof (rule CategoryList_rows[OF l])
    fix p cats
    assume h: "category_where x \<lparr> cf_UserID = u, cf_Type = (if ty = [] then None else Some ty),
        cf_Scope = list_scope sc \<rparr> = Inr p"
      "mapE (toCategory x) (catalog_order x cd_UserID cd_Name (filter p (categories (reader c)))) = Inr cats"
      "ks = map Category_FromDomain cats"
    obtain q where q: "q \<in> set cats" "k = Category_FromDomain q" using h(3) k by auto
    obtain r where r: "r \<in> set (categories (reader c))" "p r" "toCategory x r = Inr q"
      using mapE_backward[OF h(2) q(1)] by auto
    have "cd_UserID r = None \<and> sc \<noteq> ''user'' \<or> cd_UserID r = Some w \<and> sc \<noteq> ''system''"
      using h(1) r(2) assms by (auto simp: category_where_def list_scope_def split: if_splits option.splits)
    with r toCategory_row[OF r(3)] q(2) show ?thesis by (auto simp: Category_FromDomain_def)
  qed
next
  fix t assume l: "TagList_Execute x u sc c = Inr ts" and t: "t \<in> set ts"
  obtain p tgs where h: "tag_where x \<lparr> tf_UserID = u, tf_Scope = list_scope sc \<rparr> = Inr p"
    "mapE (toTag x) (catalog_order x td_UserID td_Name (filter p (tags (reader c)))) = Inr tgs"
    "ts = map Tag_FromDomain tgs"
    using l by (auto simp: TagList_Execute_def TagRepository_List_def)
  obtain q where q: "q \<in> set tgs" "t = Tag_FromDomain q" using h(3) t by auto
  obtain r where r: "r \<in> set (tags (reader c))" "p r" "toTag x r = Inr q"
    using mapE_backward[OF h(2) q(1)] by auto
  have "td_UserID r = None \<and> sc \<noteq> ''user'' \<or> td_UserID r = Some w \<and> sc \<noteq> ''system''"
    using h(1) r(2) assms by (auto simp: tag_where_def list_scope_def tag_visible_def split: if_splits)
  with r toTag_row[OF r(3)] q(2)
  show "\<exists>r\<in>set (tags (reader c)). to_ID t = td_ID r \<and> to_Name t = td_Name r \<and>
      (td_UserID r = None \<and> sc \<noteq> ''user'' \<or> td_UserID r = Some w \<and> sc \<noteq> ''system'')"
    by (auto simp: Tag_FromDomain_def)
qed

lemma demo_tag_list_run: "isOk (TagList_Execute (demo_ext ''x'') ''u1'' ''user'' demo_owned)"
  by code_simp

theorem lists_show_visible_rows_witness:
  "\<exists>ts. TagList_Execute (demo_ext ''x'') ''u1'' ''user'' demo_owned = Inr ts \<and> to_ID ` set ts \<subseteq> {''g2''}"
proof -
  obtain ts where l: "TagList_Execute (demo_ext ''x'') ''u1'' ''user'' demo_owned = Inr ts"
    using demo_tag_list_run by (auto simp: isOk_def split: sum.splits)
  have w: "x_pg_uuid (demo_ext ''x'') ''u1'' = Some ''u1''" by (simp add: demo_ext_def)
  have "to_ID ` set ts \<subseteq> {''g2''}"
    using conjunct2[OF lists_show_visible_rows[OF w], THEN mp, OF l]
    by (auto simp: demo_owned_def demo_funded_def demo_start_def reader_def demo_tag_def)
  with l show ?thesis by blast
qed

text \<open>The type filter of the category list does not bind the user's own categories: in the
  default scope a list filtered by one type still contains every category the user owns,
  whatever its type, because the generated condition reads
  ``user's, or (system and of the type)''.\<close>

theorem type_filter_misses_own_categories:
  assumes "CategoryList_Execute x u ty [] c = Inr ks" "x_pg_uuid x u = Some w"
    "r \<in> set (categories (reader c))" "cd_UserID r = Some w"
  shows "\<exists>k\<in>set ks. co_ID k = cd_ID r \<and> co_Type k = cd_Type r"
proof (rule CategoryList_rows[OF assms(1)])
  fix p cats
  assume h: "category_where x \<lparr> cf_UserID = u, cf_Type = (if ty = [] then None else Some ty),
      cf_Scope = list_scope [] \<rparr> = Inr p"
    "mapE (toCategory x) (catalog_order x cd_UserID cd_Name (filter p (categories (reader c)))) = Inr cats"
    "ks = map Category_FromDomain cats"
  have "p r" using h(1) assms(2,4) by (auto simp: category_where_def list_scope_def split: if_splits)
  then obtain q where "q \<in> set cats" "toCategory x r = Inr q"
    using mapE_forward[OF h(2), of r] assms(3) by auto
  with h(3) toCategory_row show ?thesis by (force simp: Category_FromDomain_def)
qed

lemma demo_category_list_run: "isOk (CategoryList_Execute (demo_ext ''x'') ''u1'' ''credit'' [] demo_owned)"
  by code_simp

theorem type_filter_misses_own_categories_witness:
  "\<exists>ks k. CategoryList_Execute (demo_ext ''x'') ''u1'' ''credit'' [] demo_owned = Inr ks \<and>
    k \<in> set ks \<and> co_ID k = ''k1'' \<and> co_Type k = ''debit''"
proof -
  obtain ks where l: "CategoryList_Execute (demo_ext ''x'') ''u1'' ''credit'' [] demo_owned = Inr ks"
    using demo_category_list_run by (auto simp: isOk_def split: sum.splits)
  have "\<exists>k\<in>set ks. co_ID k = cd_ID (demo_category ''k1'' (Some ''u1'') ''Casa'' ''debit'') \<and>
      co_Type k = cd_Type (demo_category ''k1'' (Some ''u1'') ''Casa'' ''debit'')"
    by (rule type_filter_misses_own_categories[OF l, where w = "''u1''"])
      (simp_all add: demo_ext_def demo_owned_def demo_funded_def demo_start_def reader_def demo_category_def)
  with l show ?thesis by (auto simp: demo_category_def)
qed

end
