(* ===== verification/Account_Properties.thy ===== *)
theory Account_Properties
  imports Wallet_Demo
begin

text \<open>
  Properties of the account use cases: the credit-limit rule against the table's check,
  what an update and a delete may change, and an update that races with a delete.
\<close>

section \<open>Credit limit\<close>

text \<open>The credit-limit rule of the domain and the check constraint of the table are the same
  condition: for a known account type a request is accepted exactly when the constraint
  would accept the row, so the constraint never fires for an account the use case built;
  and a refusal names the reason.\<close>

theorem credit_limit_rule_is_the_check:
  assumes "ty \<in> set validAccountTypes"
  shows "((\<exists>a. NewAccount i t1 t2 u n ty d lim = Inr a) \<longleftrightarrow> credit_limit_ok ty lim) \<and>
    (\<forall>a. NewAccount i t1 t2 u n ty d lim = Inr a \<longrightarrow> account_check (fromDomainAccount a)) \<and>
    (\<forall>e. NewAccount i t1 t2 u n ty d lim = Inl e \<longrightarrow> e = Sentinel
      (if ty \<noteq> TypeCreditCard then ErrCreditLimitNotAllowed
       else if lim = None then ErrCreditLimitRequired else ErrInvalidCreditLimit))"
proof (intro conjI allI impI)
  show "(\<exists>a. NewAccount i t1 t2 u n ty d lim = Inr a) \<longleftrightarrow> credit_limit_ok ty lim"
    by (auto simp: NewAccount_def resolveCreditLimit_def AcceptsCreditLimit_def credit_limit_ok_def
        NewCreditLimit_Inr split: option.splits)
next
  fix a assume "NewAccount i t1 t2 u n ty d lim = Inr a"
  from NewAccount_credit_limit[OF this] assms
  show "account_check (fromDomainAccount a)"
    by (auto simp: account_check_def fromDomainAccount_def validAccountTypes_def)
next
  fix e assume "NewAccount i t1 t2 u n ty d lim = Inl e"
  then show "e = Sentinel (if ty \<noteq> TypeCreditCard then ErrCreditLimitNotAllowed
       else if lim = None then ErrCreditLimitRequired else ErrInvalidCreditLimit)"
    by (auto simp: NewAccount_def bindE_Inl resolveCreditLimit_def AcceptsCreditLimit_def NewCreditLimit_def
        split: option.splits if_splits)
qed

theorem credit_limit_rule_is_the_check_witness:
  "NewAccount ''a'' demo_time demo_time ''u1'' [] TypeCreditCard [] None = Inl (Sentinel ErrCreditLimitRequired)
   \<and> \<not> credit_limit_ok TypeCreditCard None"
proof -
  have ty: "TypeCreditCard \<in> set validAccountTypes" by (simp add: validAccountTypes_def)
  have no: "\<not> credit_limit_ok TypeCreditCard None" by (simp add: credit_limit_ok_def)
  with credit_limit_rule_is_the_check[OF ty, of "''a''" demo_time demo_time "''u1''" "[]" "[]" None]
  show ?thesis by (cases "NewAccount ''a'' demo_time demo_time ''u1'' [] TypeCreditCard [] None") auto
qed

section \<open>Update\<close>

lemma account_of_Inr: "account_of x aid ru c = Inr a \<longleftrightarrow>
    AccountRepository_FindByID x aid c = Inr a \<and> (ru = [] \<or> a_UserID a = ru)"
  by (auto simp: account_of_def)

lemma AccountUpdate_prepare_Inr:
  assumes "AccountUpdate_prepare x inp c = Inr b"
  obtains a where "account_of x (aui_ID inp) (aui_RequestingUserID inp) c = Inr a"
    "a_ID b = a_ID a" "a_UserID b = a_UserID a" "a_Type b = a_Type a" "a_Balance b = a_Balance a"
    "a_Active b = a_Active a" "a_Name b = (case aui_Name inp of None \<Rightarrow> a_Name a | Some n \<Rightarrow> n)"
    "a_Description b = (case aui_Description inp of None \<Rightarrow> a_Description a | Some n \<Rightarrow> n)"
    "a_CreditLimit b = (case aui_CreditLimit inp of None \<Rightarrow> a_CreditLimit a | Some l \<Rightarrow> Some l)"
proof -
  obtain a where a: "account_of x (aui_ID inp) (aui_RequestingUserID inp) c = Inr a"
    using assms by (auto simp: AccountUpdate_prepare_def)
  show thesis
    by (rule that[OF a])
      (use assms a in \<open>auto simp: AccountUpdate_prepare_def Let_def UpdateName_def UpdateDescription_def
        SetCreditLimit_Inr split: option.splits\<close>)
qed

lemma AccountRepository_Update_Inr:
  assumes "AccountRepository_Update x a c = (Inr u, c')"
  obtains n d where "update_account x (fromDomainAccount a) (primary c) = Inr (n, d)" "n \<noteq> 0"
    "c' = c\<lparr>primary := d\<rparr>"
  using assms exec_outcome[of x "''accounts.Update''" "update_account x (fromDomainAccount a)" c]
  by (cases "exec x ''accounts.Update'' (update_account x (fromDomainAccount a)) c")
    (auto simp: AccountRepository_Update_def split: if_splits intro: that)

text \<open>C30. An account update never moves money: a successful update keeps every account's
  identifier, owner, type, balance and creation time, keeps every other account whole,
  and leaves statements, categories and tags untouched; the answered credit limit is the
  stored one and satisfies the table's rule.\<close>

theorem account_update_keeps_money:
  assumes "ext_ok x" "AccountUpdate_Execute x inp c = (Inr out, c')"
  shows "\<exists>i. x_pg_uuid x (aui_ID inp) = Some i \<and> i \<in> ad_ID ` set (accounts (primary c)) \<and>
    map (\<lambda>a. (ad_ID a, ad_UserID a, ad_Type a, ad_Balance a, ad_CreatedAt a)) (accounts (primary c')) =
    map (\<lambda>a. (ad_ID a, ad_UserID a, ad_Type a, ad_Balance a, ad_CreatedAt a)) (accounts (primary c)) \<and>
    filter (\<lambda>a. ad_ID a \<noteq> i) (accounts (primary c')) = filter (\<lambda>a. ad_ID a \<noteq> i) (accounts (primary c)) \<and>
    primary c' = (primary c)\<lparr>accounts := accounts (primary c')\<rparr> \<and>
    (\<forall>a\<in>set (accounts (primary c')). ad_ID a = i \<longrightarrow>
      ad_CreditLimit a = auo_CreditLimit out \<and> credit_limit_ok (ad_Type a) (auo_CreditLimit out))"
proof -
  obtain b where b: "AccountUpdate_prepare x inp c = Inr b" "AccountRepository_Update x b c = (Inr (), c')"
    "out = account_update_to_output b"
    using assms(2) by (auto simp: AccountUpdate_Execute_def split: sum.splits prod.splits)
  obtain a where a: "account_of x (aui_ID inp) (aui_RequestingUserID inp) c = Inr a" "a_ID b = a_ID a"
    by (rule AccountUpdate_prepare_Inr[OF b(1)]) (rule that; assumption)
  have i: "x_pg_uuid x (aui_ID inp) = Some (a_ID b)"
    using a FindByID_active(2) by (auto simp: account_of_Inr)
  obtain n d where u: "update_account x (fromDomainAccount b) (primary c) = Inr (n, d)" "n \<noteq> 0"
    "c' = c\<lparr>primary := d\<rparr>"
    by (rule AccountRepository_Update_Inr[OF b(2)]) (rule that; assumption)
  obtain i' nm ds where r: "x_pg_uuid x (ad_ID (fromDomainAccount b)) = Some i'"
    "d = (primary c)\<lparr>accounts := update_where (\<lambda>r. ad_ID r = i')
       (\<lambda>r. r\<lparr>ad_Name := nm, ad_Description := ds, ad_Active := ad_Active (fromDomainAccount b),
              ad_UpdatedAt := x_pg_time x (ad_UpdatedAt (fromDomainAccount b)),
              ad_CreditLimit := ad_CreditLimit (fromDomainAccount b)\<rparr>)
       (accounts (primary c))\<rparr>"
    "n = count_where (\<lambda>r. ad_ID r = i') (accounts (primary c))"
    "\<forall>r\<in>set (accounts (primary c)). ad_ID r = i' \<longrightarrow>
        credit_limit_ok (ad_Type r) (ad_CreditLimit (fromDomainAccount b)) \<and>
        account_check (r\<lparr>ad_CreditLimit := ad_CreditLimit (fromDomainAccount b)\<rparr>)"
    by (rule update_account_Inr[OF u(1)]) (rule that; assumption)
  have ii: "i' = a_ID b" using r(1) ext_okD(1)[OF assms(1) i] by (simp add: fromDomainAccount_def)
  have hit: "a_ID b \<in> ad_ID ` set (accounts (primary c))"
    using u(2) r(3) ii by (force simp: count_where_def filter_empty_conv)
  have out: "auo_CreditLimit out = ad_CreditLimit (fromDomainAccount b)"
    by (simp add: b(3) account_update_to_output_def creditLimitCents_def fromDomainAccount_def)
  have others: "filter (\<lambda>a. ad_ID a \<noteq> i') (update_where (\<lambda>r. ad_ID r = i') f xs) = filter (\<lambda>a. ad_ID a \<noteq> i') xs"
    if "\<And>r. ad_ID (f r) = ad_ID r" for f and xs :: "accountDB list"
    using that by (induction xs) (auto simp: update_where_def)
  show ?thesis
    by (rule exI[of _ "a_ID b"])
      (use i hit u(3) r(2,4) ii out others in \<open>auto simp: update_where_def\<close>)
qed

definition demo_rename_account :: account_update_input where
  "demo_rename_account = \<lparr> aui_ID = ''a00'', aui_RequestingUserID = ''u1'', aui_Name = Some ''Poupanca'',
     aui_Description = None, aui_CreditLimit = None \<rparr>"

lemma demo_rename_run: "isOk (fst (AccountUpdate_Execute (demo_ext ''x'') demo_rename_account demo_funded))"
  by code_simp

theorem account_update_keeps_money_witness:
  "map ad_Balance (accounts (primary (snd (AccountUpdate_Execute (demo_ext ''x'') demo_rename_account demo_funded))))
     = [500]"
proof -
  obtain out c' where e: "AccountUpdate_Execute (demo_ext ''x'') demo_rename_account demo_funded = (Inr out, c')"
    using demo_rename_run by (cases "AccountUpdate_Execute (demo_ext ''x'') demo_rename_account demo_funded")
      (auto simp: isOk_def split: sum.splits)
  have "map (\<lambda>a. (ad_ID a, ad_UserID a, ad_Type a, ad_Balance a, ad_CreatedAt a)) (accounts (primary c')) =
    map (\<lambda>a. (ad_ID a, ad_UserID a, ad_Type a, ad_Balance a, ad_CreatedAt a)) (accounts (primary demo_funded))"
    using account_update_keeps_money[OF demo_ext_ok e] by blast
  from arg_cong[OF this, of "map (\<lambda>(i, u, t, b, k). b)"] e show ?thesis
    by (simp add: demo_funded_def comp_def)
qed

section \<open>Delete\<close>

lemma AccountDelete_Inr:
  assumes "AccountDelete_Execute x i ru c = (Inr out, c')"
  obtains n d where "deactivate_account x (x_clock x 0) i (primary c) = Inr (n, d)" "n \<noteq> 0"
    "c' = c\<lparr>primary := d\<rparr>" "ru = [] \<or> (\<exists>a. account_of x i ru c = Inr a)"
proof -
  have p: "AccountDelete_prepare x i ru c = Inr i" "ru = [] \<or> (\<exists>a. account_of x i ru c = Inr a)"
    and r: "AccountRepository_Delete x (x_clock x 0) i c = (Inr (), c')"
    using assms by (auto simp: AccountDelete_Execute_def AccountDelete_prepare_def
        split: sum.splits prod.splits if_splits)
  from r show thesis
    using exec_outcome[of x "''accounts.Delete''" "deactivate_account x (x_clock x 0) i" c] p(2)
    by (cases "exec x ''accounts.Delete'' (deactivate_account x (x_clock x 0) i) c")
      (auto simp: AccountRepository_Delete_def split: if_splits intro: that)
qed

text \<open>Deleting an account is soft: it clears the active flag of that one account, keeps its
  balance and every statement, and from then on the account reads as not found and
  takes no statement.\<close>

theorem account_delete_soft:
  assumes "AccountDelete_Execute x i ru c = (Inr out, c')" "x_pg_uuid x i = Some k" "replica c = None"
    "x_pg_uuid y = x_pg_uuid x" "x_fault y ''accounts.FindByID'' 0 = None"
  shows "AccountRepository_FindByID y i c' = Inl (Sentinel ErrAccountNotFound) \<and>
    statements (primary c') = statements (primary c) \<and>
    map (\<lambda>a. (ad_ID a, ad_Balance a, ad_CreditLimit a)) (accounts (primary c')) =
    map (\<lambda>a. (ad_ID a, ad_Balance a, ad_CreditLimit a)) (accounts (primary c)) \<and>
    map ad_Active (accounts (primary c')) = map (\<lambda>a. ad_Active a \<and> ad_ID a \<noteq> k) (accounts (primary c))"
proof -
  obtain n d where h: "deactivate_account x (x_clock x 0) i (primary c) = Inr (n, d)" "c' = c\<lparr>primary := d\<rparr>"
    by (rule AccountDelete_Inr[OF assms(1)]) (rule that; assumption)
  then have d: "d = (primary c)\<lparr>accounts := update_where (\<lambda>r. ad_ID r = k \<and> ad_Active r)
      (\<lambda>r. r\<lparr>ad_Active := False, ad_UpdatedAt := x_pg_time x (x_clock x 0)\<rparr>) (accounts (primary c))\<rparr>"
    using assms(2) by (auto simp: deactivate_account_def pg_id_def Let_def)
  have rd: "reader c' = d" "primary c' = d" using h(2) assms(3) by (simp_all add: reader_def)
  have "\<forall>r\<in>set (accounts d). \<not> (ad_ID r = k \<and> ad_Active r)"
  proof
    fix r assume "r \<in> set (accounts d)"
    then obtain q where "r = (if ad_ID q = k \<and> ad_Active q
        then q\<lparr>ad_Active := False, ad_UpdatedAt := x_pg_time x (x_clock x 0)\<rparr> else q)"
      by (simp add: d in_update_where) blast
    then show "\<not> (ad_ID r = k \<and> ad_Active r)" by (cases "ad_ID q = k \<and> ad_Active q") simp_all
  qed
  then have "find_active k (reader c') = None"
    unfolding rd find_active_def find_None_set .
  then have "AccountRepository_FindByID y i c' = Inl (Sentinel ErrAccountNotFound)"
    using assms(2,4,5) by (intro FindByID_missing) auto
  then show ?thesis by (simp add: rd(2)) (simp add: d update_where_def, blast)
qed

lemma demo_close_run: "isOk (fst (AccountDelete_Execute (demo_ext ''x'') ''a00'' ''u1'' demo_funded))"
  by code_simp

theorem account_delete_soft_witness:
  "AccountRepository_FindByID (demo_ext ''y'') ''a00''
     (snd (AccountDelete_Execute (demo_ext ''x'') ''a00'' ''u1'' demo_funded)) = Inl (Sentinel ErrAccountNotFound)"
proof -
  obtain out c' where e: "AccountDelete_Execute (demo_ext ''x'') ''a00'' ''u1'' demo_funded = (Inr out, c')"
    using demo_close_run by (cases "AccountDelete_Execute (demo_ext ''x'') ''a00'' ''u1'' demo_funded")
      (auto simp: isOk_def split: sum.splits)
  have "AccountRepository_FindByID (demo_ext ''y'') ''a00'' c' = Inl (Sentinel ErrAccountNotFound)"
    by (rule conjunct1[OF account_delete_soft[OF e, where k = "''a00''"]])
      (simp_all add: demo_ext_def demo_funded_def demo_start_def)
  with e show ?thesis by simp
qed

text \<open>An update that read an account before a concurrent delete writes the old active flag
  back: when its write succeeds the account is active again and the delete is lost.\<close>

theorem update_undoes_concurrent_delete:
  assumes "ext_ok x" "AccountUpdate_prepare x inp c = Inr a" "x_pg_uuid y = x_pg_uuid x"
    "AccountRepository_Update y a c1 = (Inr u, c2)"
  shows "\<exists>k. x_pg_uuid x (aui_ID inp) = Some k \<and> k \<in> ad_ID ` set (accounts (primary c2)) \<and>
    (\<forall>r\<in>set (accounts (primary c2)). ad_ID r = k \<longrightarrow> ad_Active r)"
proof -
  obtain b where b: "account_of x (aui_ID inp) (aui_RequestingUserID inp) c = Inr b" "a_ID a = a_ID b"
    "a_UserID a = a_UserID b" "a_Type a = a_Type b" "a_Balance a = a_Balance b" "a_Active a = a_Active b"
    by (rule AccountUpdate_prepare_Inr[OF assms(2)]) (rule that; assumption)
  have k: "x_pg_uuid x (aui_ID inp) = Some (a_ID a)" "a_Active a"
    using b FindByID_active by (auto simp: account_of_Inr)
  obtain n d where u: "update_account y (fromDomainAccount a) (primary c1) = Inr (n, d)" "n \<noteq> 0"
    "c2 = c1\<lparr>primary := d\<rparr>"
    by (rule AccountRepository_Update_Inr[OF assms(4)]) (rule that; assumption)
  obtain i nm ds where r: "x_pg_uuid y (ad_ID (fromDomainAccount a)) = Some i"
    "d = (primary c1)\<lparr>accounts := update_where (\<lambda>r. ad_ID r = i)
       (\<lambda>r. r\<lparr>ad_Name := nm, ad_Description := ds, ad_Active := ad_Active (fromDomainAccount a),
              ad_UpdatedAt := x_pg_time y (ad_UpdatedAt (fromDomainAccount a)),
              ad_CreditLimit := ad_CreditLimit (fromDomainAccount a)\<rparr>) (accounts (primary c1))\<rparr>"
    "n = count_where (\<lambda>r. ad_ID r = i) (accounts (primary c1))"
    by (rule update_account_Inr[OF u(1)]) (rule that; assumption)
  have i: "i = a_ID a" using r(1) assms(3) ext_okD(1)[OF assms(1) k(1)] by (simp add: fromDomainAccount_def)
  have "a_ID a \<in> ad_ID ` set (accounts (primary c1))"
    using u(2) r(3) i by (force simp: count_where_def filter_empty_conv)
  then have ids: "a_ID a \<in> ad_ID ` set (accounts (primary c2))"
    unfolding u(3) r(2) by (simp add: image_update_where)
  have "\<forall>r\<in>set (accounts (primary c2)). ad_ID r = a_ID a \<longrightarrow> ad_Active r"
    unfolding u(3) r(2) i using k(2) by (auto simp: in_update_where fromDomainAccount_def)
  with k(1) ids show ?thesis by blast
qed

theorem update_undoes_concurrent_delete_witness:
  "\<exists>a c1 c2. AccountUpdate_prepare (demo_ext ''x'') demo_rename_account demo_funded = Inr a \<and>
    snd (AccountDelete_Execute (demo_ext ''x'') ''a00'' ''u1'' demo_funded) = c1 \<and>
    AccountRepository_Update (demo_ext ''x'') a c1 = (Inr (), c2) \<and>
    (\<exists>r\<in>set (accounts (primary c2)). ad_ID r = ''a00'' \<and> ad_Active r)"
proof -
  let ?c1 = "snd (AccountDelete_Execute (demo_ext ''x'') ''a00'' ''u1'' demo_funded)"
  have "isOk (bindE (AccountUpdate_prepare (demo_ext ''x'') demo_rename_account demo_funded) (\<lambda>a.
      fst (AccountRepository_Update (demo_ext ''x'') a ?c1)))"
    by code_simp
  from isOk_bindE[OF this] obtain a where
    a: "AccountUpdate_prepare (demo_ext ''x'') demo_rename_account demo_funded = Inr a"
    and ok: "isOk (fst (AccountRepository_Update (demo_ext ''x'') a ?c1))" by blast
  from isOk_fst[OF ok] obtain c2 where c2: "AccountRepository_Update (demo_ext ''x'') a ?c1 = (Inr (), c2)"
    by auto
  have k: "x_pg_uuid (demo_ext ''x'') (aui_ID demo_rename_account) = Some ''a00''"
    by (simp add: demo_ext_def demo_rename_account_def)
  from update_undoes_concurrent_delete[OF demo_ext_ok a refl c2] k
  have "\<exists>r\<in>set (accounts (primary c2)). ad_ID r = ''a00'' \<and> ad_Active r" by auto
  with a c2 show ?thesis by blast
qed

end
