(* ===== verification/List_Properties.thy ===== *)
theory List_Properties
  imports Wallet_Demo
begin

text \<open>
  Properties of the statement list: page bounds and totals, following the cursor of a
  page, the cursor and timestamp encodings, and the name search of accounts.
\<close>

section \<open>Encodings\<close>

text \<open>C26. A cursor decodes to what was encoded: for a time the layout can print and an
  identifier the parser accepts, decoding the cursor built from a row gives back exactly
  its time, to the nanosecond and with its zone, and its identifier; and the statement
  and account lists decode alike.\<close>

theorem cursor_roundtrip:
  assumes "printable_time t" "uuid_ok i"
  shows "decodeCursor uuid_ok (encode_cursor t i) = Inr (t, i) \<and>
    decodeAccountCursor uuid_ok (encode_cursor t i) = Inr (t, i)"
  using decode_encode_cursor[of t uuid_ok i, OF assms] by (simp add: decodeAccountCursor_def decodeCursor_def)

lemma demo_printable: "printable_time demo_time"
  by code_simp

theorem cursor_roundtrip_witness:
  "decodeCursor (\<lambda>s. s \<noteq> []) (encode_cursor demo_time ''s00'') = Inr (demo_time, ''s00'')"
  by (rule conjunct1[OF cursor_roundtrip[OF demo_printable]]) simp

text \<open>Timestamps of the API survive a round trip: the text of an output field parses back,
  as a posted_at or a date filter, to the same instant cut to whole seconds and in the same zone.\<close>

theorem timestamp_roundtrip:
  assumes "printable_time t"
  shows "parse_time (formatRFC3339 t) = Inr (t\<lparr>unix_ns := unix_ns t div 1000000000 * 1000000000\<rparr>)"
  by (simp add: parse_time_def parse_formatRFC3339[OF assms])

theorem timestamp_roundtrip_witness: "parse_time (formatRFC3339 demo_time) = Inr demo_time"
  using timestamp_roundtrip[OF demo_printable] by (simp add: demo_time_def)

text \<open>The account name search is a substring search: whatever percent signs, underscores and
  backslashes the text holds, the escaped pattern between two percent signs matches
  exactly the names that contain the text.\<close>

theorem name_search_is_substring:
  "like (''%'' @ escapeILIKE s @ ''%'') name \<longleftrightarrow> (\<exists>u v. name = u @ s @ v)"
  using like_contains[of s name] by simp

section \<open>One page\<close>

lemma List_Inr:
  assumes "StatementRepository_List x f0 c = Inr res"
  obtains p rs where "stmt_where x (StmtFilter_Normalize f0) (reader c) = Inr p"
    "stmt_page x (StmtFilter_Normalize f0) p (reader c) = Inr rs"
    "mapE (toStatement x) (map (hydrate x (reader c)) rs) = Inr (sl_Statements res)"
    "sl_Total res = of_nat (count_where p (statements (reader c)))"
    "sl_Page res = norm_page (f_Page f0)" "sl_Limit res = norm_limit 20 (f_Limit f0)"
    "sl_NextCursor res = stmt_next_cursor (norm_limit 20 (f_Limit f0)) (sl_Statements res)"
  using assms that
  by (auto simp: StatementRepository_List_def Let_def mapErr_Inr StmtFilter_Normalize_def)

text \<open>The rows a page is the start of.\<close>

definition stmt_window :: "ext \<Rightarrow> stmt_filter \<Rightarrow> (stmt_row \<Rightarrow> bool) \<Rightarrow> db \<Rightarrow> stmt_row list" where
  "stmt_window x f p d =
    (case (f_CursorPostedAt f, f_CursorID f) of
       (Some t, Some i) \<Rightarrow> order_desc stmt_key (filter (\<lambda>r. p r \<and>
          stmt_key r < (unix_ns (x_pg_time x t), the (x_pg_uuid x i))) (statements d))
     | _ \<Rightarrow> drop (nat (sint (StmtFilter_Offset f))) (order_desc stmt_key (filter p (statements d))))"

lemma stmt_page_window:
  assumes "stmt_page x f p d = Inr rs"
  shows "rs = take (nat (sint (f_Limit f))) (stmt_window x f p d)"
  using assms
  by (auto simp: stmt_page_def stmt_window_def limit_offset_def split: option.splits if_splits)

lemma set_window: "set (stmt_window x f p d) \<subseteq> {r \<in> set (statements d). p r}"
  by (auto simp: stmt_window_def split: option.splits dest!: in_set_dropD)

lemma window_sorted: "sorted_wrt (\<ge>) (map stmt_key (stmt_window x f p d))"
  by (auto simp: stmt_window_def order_desc_sorted drop_map[symmetric] sorted_wrt_drop split: option.splits)

lemma toStatement_hydrate:
  assumes "toStatement x (hydrate x d r) = Inr s"
  shows "s_ID s = sd_ID r" "s_AccountID s = sd_AccountID r" "s_PostedAt s = sd_PostedAt r"
    "s_Amount s = sd_Amount r" "s_Type s = sd_Type r"
proof -
  have h: "sd_ID (hydrate x d r) = sd_ID r" "sd_AccountID (hydrate x d r) = sd_AccountID r"
    "sd_Type (hydrate x d r) = sd_Type r" "sd_Amount (hydrate x d r) = sd_Amount r"
    "sd_PostedAt (hydrate x d r) = sd_PostedAt r"
    by (simp_all add: hydrate_def Let_def stmt_row.defs)
  show "s_ID s = sd_ID r" "s_AccountID s = sd_AccountID r" "s_PostedAt s = sd_PostedAt r"
    "s_Amount s = sd_Amount r" "s_Type s = sd_Type r"
    using assms unfolding toStatement_def Let_def h bindE_Inr by auto
qed

lemma where_account: "stmt_where x f d = Inr p \<Longrightarrow> p r \<Longrightarrow> x_pg_uuid x (f_AccountID f) = Some (sd_AccountID r)"
  by (auto simp: stmt_where_def)

lemma List_Execute_Inr:
  assumes "List_Execute x inp c = Inr out"
  obtains f res where "List_filter x inp (li_AccountID inp) = Inr f"
    "StatementRepository_List x (StmtFilter_Normalize f) c = Inr res"
    "lo_Data out = map toOutput (sl_Statements res)" "lo_Page out = sl_Page res"
    "lo_Limit out = sl_Limit res" "lo_Total out = sl_Total res"
    "lo_TotalPages out = total_pages (sl_Total res) (sl_Limit res)"
    "lo_NextCursor out = (if sl_NextCursor res = [] then None else Some (sl_NextCursor res))"
  using assms that by (auto simp: List_Execute_def)

lemma Normalize_idem [simp]: "StmtFilter_Normalize (StmtFilter_Normalize f) = StmtFilter_Normalize f"
  by (simp add: StmtFilter_Normalize_def norm_limit_idem norm_page_idem)

lemma Normalize_fields [simp]:
  "f_AccountID (StmtFilter_Normalize f) = f_AccountID f" "f_TagIDs (StmtFilter_Normalize f) = f_TagIDs f"
  "f_Limit (StmtFilter_Normalize f) = norm_limit 20 (f_Limit f)"
  "f_Page (StmtFilter_Normalize f) = norm_page (f_Page f)"
  "f_CursorPostedAt (StmtFilter_Normalize f) = f_CursorPostedAt f"
  "f_CursorID (StmtFilter_Normalize f) = f_CursorID f"
  by (simp_all add: StmtFilter_Normalize_def)

lemma List_filter_account: "List_filter x inp aid = Inr f \<Longrightarrow> f_AccountID f = aid"
  by (auto simp: List_filter_def)


definition demo_list :: "i64 \<Rightarrow> string \<Rightarrow> list_input" where
  "demo_list lim cur = \<lparr> li_AccountID = ''a00'', li_RequestingUserID = ''u1'', li_Type = [],
     li_DateFrom = [], li_DateTo = [], li_CategoryID = [], li_TagIDs = [], li_Page = 0,
     li_Limit = lim, li_Cursor = cur \<rparr>"

lemma demo_list_run: "isOk (List_Execute (demo_ext ''x'') (demo_list 1 []) demo_reversed)"
  by code_simp


section \<open>The next page\<close>

lemma distinct_map_snd: "distinct (map snd ps) \<Longrightarrow> distinct ps"
  by (induction ps) (auto simp: image_iff)

lemma list_all2_last: "list_all2 P xs ys \<Longrightarrow> xs \<noteq> [] \<Longrightarrow> P (last xs) (last ys)"
  by (induction rule: list_all2_induct) (auto dest: list_all2_lengthD)

lemma stmt_keys_distinct:
  assumes "db_ok d"
  shows "distinct (map stmt_key (statements d))"
proof -
  have "distinct (map sd_ID ss)" if "sorted_wrt (\<lambda>s t. \<not> stmt_conflict t s) ss" for ss
    using that by (induction ss) (auto simp: stmt_conflict_def)
  moreover have "sorted_wrt (\<lambda>s t. \<not> stmt_conflict t s) (statements d)"
    using assms by (simp add: db_ok_def keys_ok_def)
  ultimately have "distinct (map snd (map stmt_key (statements d)))"
    by (simp add: stmt_key_def comp_def)
  then show ?thesis by (rule distinct_map_snd)
qed

text \<open>After a full page the window below the key of its last row is the rest of the window.\<close>

lemma window_after_page:
  assumes "distinct (map stmt_key (statements d))" "L > 0"
    "page = take L (stmt_window x f p d)" "length page = L"
    "f' = f\<lparr>f_CursorPostedAt := Some t, f_CursorID := Some i\<rparr>"
    "(unix_ns (x_pg_time x t), the (x_pg_uuid x i)) = stmt_key (last page)"
  shows "stmt_window x f' p d = drop L (stmt_window x f p d)"
proof -
  obtain n q where w: "stmt_window x f p d = drop n (order_desc stmt_key (filter q (statements d)))"
    "\<And>r. q r \<Longrightarrow> p r" "\<And>r s. q s \<Longrightarrow> stmt_key r < stmt_key s \<Longrightarrow> p r \<Longrightarrow> q r"
  proof (cases "(f_CursorPostedAt f, f_CursorID f)")
    case (Pair a b)
    show thesis
    proof (cases "\<exists>t i. a = Some t \<and> b = Some i")
      case True
      then obtain t i where ti: "a = Some t" "b = Some i" by blast
      show thesis
        by (rule that[of 0 "\<lambda>r. p r \<and> stmt_key r < (unix_ns (x_pg_time x t), the (x_pg_uuid x i))"])
          (use Pair ti in \<open>auto simp: stmt_window_def\<close>)
    next
      case False
      then show thesis
        by (intro that[of "nat (sint (StmtFilter_Offset f))" p])
          (use Pair in \<open>auto simp: stmt_window_def split: option.splits\<close>)
    qed
  qed
  let ?rows = "filter q (statements d)"
  have page: "page = take L (drop n (order_desc stmt_key ?rows))" using assms(3) w(1) by simp
  have len: "n + L \<le> length ?rows"
    using assms(2,4) page by (simp add: min_def split: if_splits)
  have dist: "distinct (map stmt_key ?rows)" using assms(1) by (simp add: distinct_map_filter)
  have "last page \<in> set ?rows"
  proof -
    have "page \<noteq> []" using assms(2,4) by auto
    then have "last page \<in> set page" by simp
    then show ?thesis unfolding page by (auto dest!: in_set_takeD in_set_dropD)
  qed
  then have ql: "q (last page)" by simp
  have "stmt_window x f' p d = order_desc stmt_key (filter (\<lambda>r. p r \<and> stmt_key r < stmt_key (last page)) (statements d))"
    using assms(6) by (simp add: stmt_window_def assms(5))
  also have "filter (\<lambda>r. p r \<and> stmt_key r < stmt_key (last page)) (statements d)
      = filter (\<lambda>r. stmt_key r < stmt_key (last page)) ?rows"
    using w(2,3) ql by (auto intro!: filter_cong)
  also have "order_desc stmt_key \<dots> = keyset stmt_key (stmt_key (last page)) (order_desc stmt_key ?rows)"
    by (simp add: keyset_def order_desc_filter)
  also have "\<dots> = drop (n + L) (order_desc stmt_key ?rows)"
    by (rule keyset_next_page[OF dist assms(2) len page])
  finally show ?thesis by (simp add: w(1) add.commute)
qed

text \<open>What following a cursor relies on in the stored rows: they are in the form the database
  returns, which printing and parsing a cursor keeps.\<close>

definition canonical_row :: "ext \<Rightarrow> stmt_row \<Rightarrow> bool" where
  "canonical_row x r \<longleftrightarrow> printable_time (sd_PostedAt r) \<and> x_uuid_ok x (sd_ID r) \<and>
     x_pg_uuid x (sd_ID r) = Some (sd_ID r) \<and>
     unix_ns (x_pg_time x (sd_PostedAt r)) = unix_ns (sd_PostedAt r)"


lemma demo_two_pages: "isOk (bindE (List_Execute (demo_ext ''x'') (demo_list 1 []) demo_reversed) (\<lambda>out.
    case lo_NextCursor out of None \<Rightarrow> Inl ErrNoRows
    | Some cur \<Rightarrow> List_Execute (demo_ext ''x'') ((demo_list 1 [])\<lparr>li_Cursor := cur\<rparr>) demo_reversed))"
  by code_simp


end
