(* ===== verification/Go_Float.thy ===== *)
theory Go_Float
  imports Go_Strings
begin

text \<open>
  The part of Go's \<^verbatim>\<open>float64\<close> the program uses: \<^verbatim>\<open>strconv.ParseFloat(s, 64)\<close> on
  decimal text, the product with an integer, \<^verbatim>\<open>math.Round\<close> and the conversion to
  \<^verbatim>\<open>int64\<close>. A finite double is the fraction of integers it stands for; rounding to
  it is to the nearest multiple of its unit in the last place, ties to even, with 53 bits and
  the smallest exponent -1074. The lemmas bound the relative error of one rounding.
\<close>

section \<open>Rounding to a double\<close>

function bits :: "int \<Rightarrow> int" where
  "bits n = (if n \<le> 0 then 0 else 1 + bits (n div 2))"
  by pat_completeness auto
termination
  by (relation "measure nat") auto

declare bits.simps [simp del]

definition scaled :: "int \<Rightarrow> int \<Rightarrow> int \<Rightarrow> int \<times> int" where
  "scaled n d e = (if 0 \<le> e then (n, d * 2 ^ nat e) else (n * 2 ^ nat (- e), d))"

definition f64_exp :: "int \<Rightarrow> int \<Rightarrow> int" where
  "f64_exp n d =
    (let e = bits n - bits d - 53; (a, b) = scaled n d e
     in max (- 1074) (if a < 2 ^ 53 * b then e else e + 1))"

definition half_even :: "int \<Rightarrow> int \<Rightarrow> int" where
  "half_even a b =
    (let q = a div b; r = a mod b in if b < 2 * r \<or> (2 * r = b \<and> odd q) then q + 1 else q)"

text \<open>The double nearest to the fraction \<^verbatim>\<open>n / d\<close> (not negative), again as a fraction.\<close>

definition f64_round :: "int \<Rightarrow> int \<Rightarrow> int \<times> int" where
  "f64_round n d =
    (if n = 0 then (0, 1)
     else let e = f64_exp n d; (a, b) = scaled n d e; m = half_even a b
          in if 0 \<le> e then (m * 2 ^ nat e, 1) else (m, 2 ^ nat (- e)))"

definition f64_infinite :: "int \<times> int \<Rightarrow> bool" where
  "f64_infinite v = (2 ^ 1024 * snd v \<le> fst v)"

text \<open>\<^verbatim>\<open>math.Round\<close> on the magnitude: half away from zero.\<close>

definition round_half_away :: "int \<times> int \<Rightarrow> int" where
  "round_half_away v = (2 * fst v + snd v) div (2 * snd v)"

section \<open>ParseFloat\<close>

text \<open>\<^verbatim>\<open>underscoreOK\<close> of \<^verbatim>\<open>strconv\<close> without a base prefix: \<^verbatim>\<open>saw\<close> is
  the class of the last byte, \<^verbatim>\<open>^\<close> at the beginning, \<^verbatim>\<open>0\<close> for a digit,
  \<^verbatim>\<open>!\<close> for anything else.\<close>

fun underscore_loop :: "char \<Rightarrow> string \<Rightarrow> bool" where
  "underscore_loop saw [] = (saw \<noteq> CHR ''_'')"
| "underscore_loop saw (c # s) =
    (if is_digit c then underscore_loop (CHR ''0'') s
     else if c = CHR ''_'' then saw = CHR ''0'' \<and> underscore_loop (CHR ''_'') s
     else saw \<noteq> CHR ''_'' \<and> underscore_loop (CHR ''!'') s)"

definition underscore_ok :: "string \<Rightarrow> bool" where
  "underscore_ok s = (CHR ''_'' \<notin> set s \<or> underscore_loop (CHR ''^'') s)"

text \<open>The mantissa of \<^verbatim>\<open>readFloat\<close>: its digits with the number of them after the
  point, underscores skipped.\<close>

fun mantissa :: "string \<Rightarrow> bool \<Rightarrow> string \<Rightarrow> nat \<Rightarrow> string \<times> nat \<times> string" where
  "mantissa [] dot ds k = (rev ds, k, [])"
| "mantissa (c # s) dot ds k =
    (if c = CHR ''_'' then mantissa s dot ds k
     else if c = CHR ''.'' \<and> \<not> dot then mantissa s True ds k
     else if is_digit c then mantissa s dot (c # ds) (if dot then Suc k else k)
     else (rev ds, k, c # s))"

fun exponent_digits :: "string \<Rightarrow> int \<Rightarrow> int \<times> string" where
  "exponent_digits [] e = (e, [])"
| "exponent_digits (c # s) e =
    (if c = CHR ''_'' then exponent_digits s e
     else if is_digit c then exponent_digits s (if e < 10000 then e * 10 + int (undig c) else e)
     else (e, c # s))"

definition float_exponent :: "string \<Rightarrow> int option" where
  "float_exponent s = (case s of
      [] \<Rightarrow> Some 0
    | c # r \<Rightarrow>
        if c \<noteq> CHR ''e'' \<and> c \<noteq> CHR ''E'' then None
        else let neg = (r \<noteq> [] \<and> hd r = CHR ''-'');
                 r = (if r \<noteq> [] \<and> (hd r = CHR ''+'' \<or> hd r = CHR ''-'') then tl r else r)
             in if r = [] \<or> \<not> is_digit (hd r) then None
                else case exponent_digits r 0 of
                  (e, rest) \<Rightarrow> if rest \<noteq> [] then None else Some (if neg then - e else e))"

definition dec_int :: "string \<Rightarrow> int" where
  "dec_int ds = foldl (\<lambda>a c. 10 * a + int (undig c)) 0 ds"

text \<open>The sign and the nearest double of decimal text; \<^verbatim>\<open>None\<close> is a syntax error or,
  when the double is infinite, \<^verbatim>\<open>ErrRange\<close>. Text the callers pass starts with a digit
  or a sign and a digit, so the names of infinities and the base prefixes do not occur.\<close>

definition parse_float :: "string \<Rightarrow> (bool \<times> int \<times> int) option" where
  "parse_float s =
    (let neg = (s \<noteq> [] \<and> hd s = CHR ''-'');
         body = (if s \<noteq> [] \<and> (hd s = CHR ''-'' \<or> hd s = CHR ''+'') then tl s else s)
     in case mantissa body False [] 0 of (ds, k, rest) \<Rightarrow>
        if ds = [] then None
        else case float_exponent rest of
          None \<Rightarrow> None
        | Some e \<Rightarrow>
            if \<not> underscore_ok body then None
            else let p = e - int k;
                     v = (if 0 \<le> p then f64_round (dec_int ds * 10 ^ nat p) 1
                          else f64_round (dec_int ds) (10 ^ nat (- p)))
                 in if f64_infinite v then None else Some (neg, v))"

definition f64_times :: "int \<times> int \<Rightarrow> int \<Rightarrow> int \<times> int" where
  "f64_times v k = f64_round (fst v * k) (snd v)"

section \<open>The error of one rounding\<close>

lemma bits_range: "0 < n \<Longrightarrow> 0 < bits n \<and> 2 ^ nat (bits n - 1) \<le> n \<and> n < 2 ^ nat (bits n)"
proof (induction n rule: bits.induct)
  case (1 n)
  have b: "bits n = 1 + bits (n div 2)" using 1(2) by (subst bits.simps) simp
  show ?case
  proof (cases "n = 1")
    case True
    with b have "bits n = 1" by (simp add: bits.simps[of 0])
    with True show ?thesis by simp
  next
    case False
    with 1(2) have h: "0 < n div 2" by (simp add: pos_imp_zdiv_pos_iff)
    from 1(1)[OF _ h] 1(2) have ih: "0 < bits (n div 2)" "2 ^ nat (bits (n div 2) - 1) \<le> n div 2"
      "n div 2 < 2 ^ nat (bits (n div 2))" by auto
    have e: "nat (bits n - 1) = Suc (nat (bits (n div 2) - 1))" "nat (bits n) = Suc (nat (bits (n div 2)))"
      using b ih(1) by simp_all
    have "2 * 2 ^ nat (bits (n div 2) - 1) \<le> n" "n < 2 * 2 ^ nat (bits (n div 2))"
      using ih(2,3) by linarith+
    then show ?thesis unfolding e using b ih(1) by simp
  qed
qed

lemma half_even_error: "0 < b \<Longrightarrow> 2 * \<bar>half_even a b * b - a\<bar> \<le> b"
proof -
  assume b: "0 < b"
  have a: "a = a div b * b + a mod b" by simp
  have r: "0 \<le> a mod b" "a mod b < b" using b by simp_all
  have "half_even a b * b - a = (if b < 2 * (a mod b) \<or> (2 * (a mod b) = b \<and> odd (a div b))
      then b - a mod b else - (a mod b))"
    using a by (simp add: half_even_def Let_def algebra_simps)
  then show ?thesis using r by (simp split: if_splits)
qed

text \<open>Away from the smallest exponents the chosen scale leaves 53 significant bits.\<close>

lemma f64_exp_normal:
  assumes "0 < n" "0 < d" "bits d \<le> bits n + 1000" "scaled n d (f64_exp n d) = (a, b)"
  shows "2 ^ 52 * b \<le> a" "0 < b" "bits n - bits d - 53 \<le> f64_exp n d"
proof -
  define e where "e = bits n - bits d - 53"
  obtain a0 b0 where s: "scaled n d e = (a0, b0)" by (cases "scaled n d e") auto
  have f: "f64_exp n d = (if a0 < 2 ^ 53 * b0 then e else e + 1)"
    using assms(3) s by (simp add: f64_exp_def e_def Let_def)
  note n = bits_range[OF assms(1)] and d = bits_range[OF assms(2)]
  have a0: "2 ^ 52 * b0 \<le> a0"
  proof (cases "0 \<le> e")
    case True
    have "nat (bits n - 1) = 52 + (nat (bits d) + nat e)"
      using True conjunct1[OF n] conjunct1[OF d] e_def by arith
    then have "(2::int) ^ nat (bits n - 1) = 2 ^ 52 * (2 ^ nat (bits d) * 2 ^ nat e)"
      by (simp only: power_add)
    moreover have "d * 2 ^ nat e \<le> 2 ^ nat (bits d) * 2 ^ nat e" using d by (intro mult_right_mono) auto
    moreover have "a0 = n" "b0 = d * 2 ^ nat e" using s True by (simp_all add: scaled_def)
    ultimately have "2 ^ 52 * b0 \<le> 2 ^ nat (bits n - 1)" by simp
    also have "\<dots> \<le> a0" using n \<open>a0 = n\<close> by simp
    finally show ?thesis .
  next
    case False
    have "nat (bits n - 1) + nat (- e) = 52 + nat (bits d)"
      using False conjunct1[OF n] conjunct1[OF d] e_def by arith
    then have "(2::int) ^ nat (bits n - 1) * 2 ^ nat (- e) = 2 ^ 52 * 2 ^ nat (bits d)"
      by (metis power_add)
    moreover have "2 ^ nat (bits n - 1) * 2 ^ nat (- e) \<le> n * 2 ^ nat (- e)"
      using n by (intro mult_right_mono) auto
    moreover have "a0 = n * 2 ^ nat (- e)" "b0 = d" using s False by (simp_all add: scaled_def)
    ultimately have "2 ^ 52 * 2 ^ nat (bits d) \<le> a0" by simp
    moreover have "2 ^ 52 * b0 \<le> 2 ^ 52 * 2 ^ nat (bits d)" using d \<open>b0 = d\<close> by simp
    ultimately show ?thesis by linarith
  qed
  have b0: "0 < b0" using s assms(2) by (auto simp: scaled_def split: if_splits)
  have "2 ^ 52 * b \<le> a \<and> 0 < b"
  proof (cases "a0 < 2 ^ 53 * b0")
    case True
    then show ?thesis using f assms(4) s a0 b0 by simp
  next
    case False
    with f assms(4) have sc: "scaled n d (e + 1) = (a, b)" by simp
    show ?thesis
    proof (cases "0 \<le> e")
      case True
      then have "nat (e + 1) = Suc (nat e)" by simp
      then have "a = a0" "b = 2 * b0" using True sc s by (auto simp: scaled_def)
      then show ?thesis using False b0 by simp
    next
      case neg: False
      then have "nat (- e) = Suc (nat (- (e + 1)))" by simp
      then have "a0 = 2 * a" "b0 = b" using neg sc s by (auto simp: scaled_def split: if_splits)
      then show ?thesis using False b0 by simp
    qed
  qed
  then show "2 ^ 52 * b \<le> a" "0 < b" by simp_all
  show "bits n - bits d - 53 \<le> f64_exp n d" unfolding f e_def by simp
qed

lemma f64_round_error:
  assumes "0 < n" "0 < d" "bits d \<le> bits n + 1000" "f64_round n d = (N, D)"
  shows "2 ^ 53 * \<bar>N * d - n * D\<bar> \<le> n * D" "0 < D" "0 < N"
proof -
  define e where "e = f64_exp n d"
  obtain a b where ab: "scaled n d e = (a, b)" by (cases "scaled n d e") auto
  note x = f64_exp_normal[OF assms(1-3) ab[unfolded e_def]]
  have h: "2 * \<bar>half_even a b * b - a\<bar> \<le> b" by (rule half_even_error[OF x(2)])
  have nd: "N * d - n * D = half_even a b * b - a" "n * D = a" "0 < D"
    using assms(1,4) ab unfolding f64_round_def Let_def e_def[symmetric]
    by (auto simp: scaled_def split: if_splits)
  have "2 ^ 53 * \<bar>half_even a b * b - a\<bar> = 2 ^ 52 * (2 * \<bar>half_even a b * b - a\<bar>)" by simp
  also have "\<dots> \<le> 2 ^ 52 * b" using h by (rule mult_left_mono) simp
  also note x(1)
  finally show "2 ^ 53 * \<bar>N * d - n * D\<bar> \<le> n * D" unfolding nd(1) unfolding nd(2) .
  show "0 < D" by (fact nd)
  have a: "4503599627370496 * b \<le> a" using x(1) by simp
  have "0 < half_even a b * b"
  proof -
    have "2 * (half_even a b * b) \<ge> 2 * a - b" using h by (auto simp: abs_if split: if_splits)
    then show ?thesis using a x(2) by linarith
  qed
  then have "0 < half_even a b" using x(2) by (simp add: zero_less_mult_iff)
  then show "0 < N" using assms(1,4) ab unfolding f64_round_def Let_def e_def[symmetric]
    by (auto split: if_splits)
qed

lemma round_half_away_error: "0 < D \<Longrightarrow> 2 * \<bar>round_half_away (N, D) * D - N\<bar> \<le> D"
proof -
  assume D: "0 < D"
  have "2 * D * round_half_away (N, D) + (2 * N + D) mod (2 * D) = 2 * N + D"
    by (simp add: round_half_away_def)
  moreover have "2 * D * round_half_away (N, D) = 2 * (round_half_away (N, D) * D)" by simp
  moreover have "0 \<le> (2 * N + D) mod (2 * D)" "(2 * N + D) mod (2 * D) < 2 * D" using D by simp_all
  ultimately show ?thesis by (simp add: abs_if)
qed

lemma bits_le: "0 < n \<Longrightarrow> n < 2 ^ k \<Longrightarrow> bits n \<le> int k"
proof -
  assume n: "0 < n" "n < 2 ^ k"
  have "(2::int) ^ nat (bits n - 1) < 2 ^ k" using bits_range[OF n(1)] n(2) by linarith
  then have "nat (bits n - 1) < k" by (rule power_less_imp_less_exp[rotated]) simp
  then show ?thesis by linarith
qed

lemma f64_round_denom:
  assumes "0 < n" "0 < d" "bits d \<le> bits n + 1000" "f64_round n d = (N, D)"
  shows "D \<le> 2 ^ nat (53 + bits d)"
proof -
  obtain a b where ab: "scaled n d (f64_exp n d) = (a, b)" by (cases "scaled n d (f64_exp n d)") auto
  have "- f64_exp n d \<le> 53 + bits d"
    using f64_exp_normal(3)[OF assms(1-3) ab] bits_range[OF assms(1)] by linarith
  then have "(2::int) ^ nat (- f64_exp n d) \<le> 2 ^ nat (53 + bits d)"
    by (intro power_increasing nat_mono) simp_all
  moreover have "(1::int) \<le> 2 ^ nat (53 + bits d)" by simp
  ultimately show ?thesis using assms(1,4) ab by (auto simp: f64_round_def Let_def split: if_splits)
qed

end
