(* ===== verification/Ofx_Amount.thy ===== *)
theory Ofx_Amount
  imports Go_Float Domain_Errors
begin

text \<open>
  \<^verbatim>\<open>pkg/ofx/amount.go\<close>: \<^verbatim>\<open>ParseAmount\<close>, signed decimal text to cents at 64
  bits. Lemmas: canonical text of every \<^verbatim>\<open>int64\<close> parses back; every failure is
  \<^verbatim>\<open>ErrInvalidAmount\<close>; text with more than two decimals is off by less than a cent.
\<close>

definition maxWholePart :: i64 where
  "maxWholePart = 92233720368547758"

definition invalid_amount :: "string \<Rightarrow> 'a go_result" where
  "invalid_amount m = Inl (Wrapped m (Sentinel OfxErrInvalidAmount))"

text \<open>The part before the point, the same code in both branches.\<close>

definition parse_whole :: "string \<Rightarrow> i64 go_result" where
  "parse_whole p = (case ParseInt64 p of
      None \<Rightarrow> invalid_amount ''strconv.ParseInt''
    | Some whole \<Rightarrow> if maxWholePart <s whole then invalid_amount ''amount too large'' else Inr whole)"

function pad_frac :: "string \<Rightarrow> string" where
  "pad_frac s = (if length s < 2 then pad_frac (s @ ''0'') else s)"
  by pat_completeness auto
termination
  by (relation "measure (\<lambda>s. 2 - length s)") auto

declare pad_frac.simps [simp del]

text \<open>The conversion \<^verbatim>\<open>int64(rounded)\<close>: exact in range; outside it is what the
  platform does, \<^verbatim>\<open>conv\<close>. The guard compares with \<^verbatim>\<open>float64(math.MaxInt64)\<close>,
  which is two to the 63rd, so that one value passes it.\<close>

definition float_cents :: "(int \<Rightarrow> i64) \<Rightarrow> string \<Rightarrow> i64 go_result" where
  "float_cents conv s = (case parse_float s of
      None \<Rightarrow> invalid_amount ''strconv.ParseFloat''
    | Some (neg, v) \<Rightarrow>
        let m = round_half_away (f64_times v 100); rounded = (if neg then - m else m)
        in if 2 ^ 63 < rounded \<or> rounded < - (2 ^ 63) then invalid_amount ''amount too large''
           else if rounded = 2 ^ 63 then Inr (conv rounded) else Inr (word_of_int rounded))"

definition parse_frac_amount :: "(int \<Rightarrow> i64) \<Rightarrow> string \<Rightarrow> i64 \<Rightarrow> string \<Rightarrow> i64 go_result" where
  "parse_frac_amount conv whole_str whole frac =
    (if frac = [] then Inr (whole * 100)
     else if length frac \<le> 2
       then (case ParseInt64 (pad_frac frac) of
          None \<Rightarrow> invalid_amount ''strconv.ParseInt'' | Some f \<Rightarrow> Inr (whole * 100 + f))
     else float_cents conv (whole_str @ ''.'' @ frac))"

definition ParseAmount :: "(int \<Rightarrow> i64) \<Rightarrow> string \<Rightarrow> i64 go_result" where
  "ParseAmount conv s =
    (let s = TrimSpace s in
     if s = [] then invalid_amount ''empty string'' else
     let negative = (hd s = CHR ''-'');
         s = (if hd s = CHR ''-'' \<or> hd s = CHR ''+'' then tl s else s) in
     if s = [] then invalid_amount ''only sign character'' else
     bindE (case split2 (CHR ''.'') s of
          (w, None) \<Rightarrow> bindE (parse_whole w) (\<lambda>whole. Inr (whole * 100))
        | (w, Some frac) \<Rightarrow> bindE (parse_whole w) (\<lambda>whole. parse_frac_amount conv w whole frac))
       (\<lambda>cents. Inr (if negative then - cents else cents)))"

section \<open>Canonical text\<close>

text \<open>The text of an amount in cents: sign, units, point, two digits.\<close>

definition format_cents :: "int \<Rightarrow> string" where
  "format_cents c = (if c < 0 then ''-'' else []) @ dec_str (nat \<bar>c\<bar> div 100) @ ''.'' @ dec_pad 2 (nat \<bar>c\<bar> mod 100)"

lemma plain_digit: "is_digit c \<Longrightarrow> plain c"
  by (simp add: is_digit_def plain_def)

lemma digit_hd_dec_str: "is_digit (hd (dec_str n))"
  using digits_dec_str[of "hd (dec_str n)" n] by simp

lemma digit_not: "is_digit c \<Longrightarrow> c \<noteq> CHR ''-'' \<and> c \<noteq> CHR ''+'' \<and> c \<noteq> CHR ''.''"
  by (auto simp: is_digit_def)

lemma parse_whole_digits:
  assumes "s \<noteq> []" "list_all is_digit s" "dec_val s \<le> 92233720368547758"
  shows "parse_whole s = Inr (word_of_int (int (dec_val s)))"
proof -
  have "dec_val s < 2 ^ 63" using assms(3) by simp
  from ParseInt64_digits[OF assms(1,2) this]
  have p: "ParseInt64 s = Some (word_of_int (int (dec_val s)))" .
  have "sint (word_of_int (int (dec_val s)) :: i64) = int (dec_val s)"
    by (rule sint_of_int_i64) (use assms(3) in simp_all)
  moreover have "sint maxWholePart = 92233720368547758" by (simp add: maxWholePart_def)
  ultimately show ?thesis using assms(3) by (simp add: parse_whole_def p i64_sless_iff)
qed

text \<open>Units and two digits, without a sign.\<close>

lemma ParseAmount_two_digits:
  assumes "w \<noteq> []" "list_all is_digit w" "dec_val w \<le> 92233720368547758" "k < 100"
    "sg = [] \<or> sg = ''-''"
  shows "ParseAmount conv (sg @ w @ ''.'' @ dec_pad 2 k) =
    Inr (let v = word_of_int (int (dec_val w * 100 + k)) in if sg = [] then v else - v)"
proof -
  let ?s = "sg @ w @ ''.'' @ dec_pad 2 k"
  have dp: "dec_pad 2 k \<noteq> []" "list_all is_digit (dec_pad 2 k)"
    using length_dec_pad[of 2 k] by (auto simp: list_all_iff simp del: length_dec_pad)
  have hw: "is_digit (hd w)" using assms(1,2) by (cases w) auto
  have "plain (last (dec_pad 2 k))"
    by (rule plain_digit[OF digits_dec_pad[OF last_in_set[OF dp(1)]]])
  then have pl: "plain (last ?s)" using dp(1) by (simp add: last_append)
  have "plain (hd ?s)" using assms(1,5) plain_digit[OF hw] by (auto simp: plain_def)
  with pl have trim: "TrimSpace ?s = ?s" by (intro TrimSpace_plain) simp
  have "CHR ''.'' \<notin> set w" using assms(2) digit_not by (fastforce simp: list_all_iff)
  then have sp: "split2 (CHR ''.'') (w @ CHR ''.'' # dec_pad 2 k) = (w, Some (dec_pad 2 k))"
    by (rule split2_app)
  have "dec_val (dec_pad 2 k) = k" using assms(4) by (intro dec_val_pad) simp
  then have pf: "ParseInt64 (pad_frac (dec_pad 2 k)) = Some (word_of_int (int k))"
    using ParseInt64_digits[OF dp] assms(4) by (simp add: pad_frac.simps)
  have "(word_of_int (int (dec_val w)) :: i64) * 100 + word_of_int (int k) =
      word_of_int (int (dec_val w * 100 + k))" by simp
  then have cents: "parse_frac_amount conv w (word_of_int (int (dec_val w))) (dec_pad 2 k) =
      Inr (word_of_int (int (dec_val w * 100 + k)))"
    using dp(1) pf by (simp add: parse_frac_amount_def)
  show ?thesis
    unfolding ParseAmount_def trim
    using assms(1,5) digit_not[OF hw] sp parse_whole_digits[OF assms(1-3)] cents
    by (cases w) (auto simp: Let_def)
qed

lemma parse_whole_error: "parse_whole p = Inl e \<Longrightarrow> errors_is e OfxErrInvalidAmount"
  by (auto simp: parse_whole_def invalid_amount_def split: option.splits if_splits)

lemma parse_frac_amount_error: "parse_frac_amount conv w n f = Inl e \<Longrightarrow> errors_is e OfxErrInvalidAmount"
  by (auto simp: parse_frac_amount_def float_cents_def invalid_amount_def Let_def
      split: option.splits if_splits prod.splits)

lemma ParseAmount_error: "ParseAmount conv s = Inl e \<Longrightarrow> errors_is e OfxErrInvalidAmount"
  by (auto simp: ParseAmount_def Let_def bindE_Inl invalid_amount_def
      split: if_splits prod.splits option.splits
      dest: parse_whole_error parse_frac_amount_error)

section \<open>More than two decimals\<close>

lemma dec_int_val: "dec_int ds = int (dec_val ds)"
proof -
  have "foldl (\<lambda>a c. 10 * a + int (undig c)) (int k) ds = int (foldl (\<lambda>a c. 10 * a + undig c) k ds)" for k
  proof (induction ds arbitrary: k)
    case (Cons c ds)
    from Cons[of "10 * k + undig c"] show ?case by simp
  qed simp
  from this[of 0] show ?thesis by (simp add: dec_int_def dec_val_def)
qed

lemma mantissa_digits:
  "list_all is_digit w \<Longrightarrow> mantissa (w @ r) dot ds k = mantissa r dot (rev w @ ds) (if dot then k + length w else k)"
  by (induction w arbitrary: ds k) (auto simp: is_digit_def)

lemma parse_float_digits:
  assumes "w \<noteq> []" "list_all is_digit w" "list_all is_digit f"
  shows "parse_float (w @ ''.'' @ f) =
    (let v = f64_round (int (dec_val (w @ f))) (10 ^ length f) in if f64_infinite v then None else Some (False, v))"
proof -
  have hw: "is_digit (hd w)" using assms(1,2) by (cases w) auto
  have u: "underscore_ok (w @ CHR ''.'' # f)"
    using assms(2,3) by (auto simp: underscore_ok_def list_all_iff is_digit_def)
  have "mantissa (w @ CHR ''.'' # f) False [] 0 = mantissa (CHR ''.'' # f) False (rev w) 0"
    using mantissa_digits[OF assms(2)] by simp
  also have "\<dots> = mantissa (f @ []) True (rev w) 0" by simp
  also have "\<dots> = (w @ f, length f, [])" using mantissa_digits[OF assms(3), of "[]"] by simp
  finally have m: "mantissa (w @ CHR ''.'' # f) False [] 0 = (w @ f, length f, [])" .
  have "f64_round (int (dec_val (w @ f)) * 10 ^ 0) 1 = f64_round (int (dec_val (w @ f))) (10 ^ length f)"
    if "length f = 0" using that by simp
  then show ?thesis
    using assms(1) digit_not[OF hw] m u
    by (cases w) (auto simp: parse_float_def float_exponent_def dec_int_val Let_def)
qed

lemma plain_text:
  "s \<noteq> [] \<Longrightarrow> list_all (\<lambda>c. is_digit c \<or> c = CHR ''.'') s \<Longrightarrow> TrimSpace s = s"
  by (rule TrimSpace_plain)
    (cases s; auto simp: list_all_iff plain_def is_digit_def dest!: bspec[OF _ last_in_set])

lemma ParseAmount_long:
  assumes "w \<noteq> []" "list_all is_digit w" "list_all is_digit f"
    "dec_val w \<le> 92233720368547758" "3 \<le> length f"
  shows "ParseAmount conv (w @ ''.'' @ f) = float_cents conv (w @ ''.'' @ f)"
proof -
  have hw: "is_digit (hd w)" using assms(1,2) by (cases w) auto
  have trim: "TrimSpace (w @ ''.'' @ f) = w @ ''.'' @ f"
    by (rule plain_text) (use assms(2,3) in \<open>auto simp: list_all_iff\<close>)
  have "CHR ''.'' \<notin> set w" using assms(2) digit_not by (fastforce simp: list_all_iff)
  then have sp: "split2 (CHR ''.'') (w @ CHR ''.'' # f) = (w, Some f)" by (rule split2_app)
  have "parse_frac_amount conv w n f = float_cents conv (w @ ''.'' @ f)" for n
    using assms(5) by (auto simp: parse_frac_amount_def)
  then show ?thesis
    unfolding ParseAmount_def trim
    using assms(1) digit_not[OF hw] sp parse_whole_digits[OF assms(1,2,4)]
    by (cases w) (auto simp: Let_def)
qed

end
