(* ===== verification/Ofx_Date.thy ===== *)
theory Ofx_Date
  imports Go_Time_Format Domain_Errors
begin

text \<open>
  \<^verbatim>\<open>pkg/ofx/date.go\<close>: \<^verbatim>\<open>ParseDate\<close> with the bracketed time zone, on top of
  \<^verbatim>\<open>fmt.Sscanf\<close> with one \<^verbatim>\<open>%d\<close> and \<^verbatim>\<open>time.ParseInLocation\<close> for the
  layouts \<^verbatim>\<open>20060102\<close> and \<^verbatim>\<open>20060102150405\<close>. A location is its offset in
  seconds; its name is lost in the conversion to UTC. The lemmas at the end read back the
  OFX text of an instant.
\<close>

section \<open>Sscanf\<close>

text \<open>\<^verbatim>\<open>SkipSpace\<close>: a newline is an error, not a space.\<close>

function skip_space :: "string \<Rightarrow> string option" where
  "skip_space s =
    (if s \<noteq> [] \<and> hd s = CHR 0x0A then None
     else case drop_space space_encodings s of None \<Rightarrow> Some s | Some t \<Rightarrow> skip_space t)"
  by pat_completeness auto
termination
  by (relation "measure length") (auto dest: drop_space_shorter)

declare skip_space.simps [simp del]

definition Sscanf_d :: "string \<Rightarrow> i64 option" where
  "Sscanf_d s = (case skip_space s of
      None \<Rightarrow> None
    | Some s \<Rightarrow>
        let signed = (s \<noteq> [] \<and> (hd s = CHR ''+'' \<or> hd s = CHR ''-''));
            ds = takeWhile is_digit (if signed then tl s else s)
        in if ds = [] then None else ParseInt64 ((if signed then [hd s] else []) @ ds))"

section \<open>ParseInLocation\<close>

text \<open>The fields of the two layouts: days since the civil epoch and the seconds of the day.\<close>

definition date_fields :: "string \<Rightarrow> ((int \<times> int \<times> int) \<times> string) option" where
  "date_fields s =
    Option.bind (num_fixed 4 s) (\<lambda>(y, s).
    Option.bind (num_fixed 2 s) (\<lambda>(mo, s).
    if mo = 0 \<or> 12 < mo then None else
    Option.bind (num_fixed 2 s) (\<lambda>(d, s). Some ((int y, int mo, int d), s))))"

definition clock_fields :: "string \<Rightarrow> ((int \<times> int \<times> int) \<times> string) option" where
  "clock_fields s =
    Option.bind (num_loose s) (\<lambda>(h, s). if 24 \<le> h then None else
    Option.bind (num_fixed 2 s) (\<lambda>(mi, s). if 60 \<le> mi then None else
    Option.bind (num_fixed 2 s) (\<lambda>(sec, s). if 60 \<le> sec then None else
    Some ((int h, int mi, int sec), s))))"

text \<open>\<^verbatim>\<open>time.Date\<close> in a fixed zone and \<^verbatim>\<open>t.UTC()\<close>; the seconds are 64 bits wide.\<close>

definition utc_date :: "int \<times> int \<times> int \<Rightarrow> int \<times> int \<times> int \<Rightarrow> i64 \<Rightarrow> gtime" where
  "utc_date = (\<lambda>(y, mo, d) (h, mi, s) loc.
    \<lparr> unix_ns = sint (word_of_int ((day_number y mo d - unix_day_offset) * 86400 + h * 3600 + mi * 60 + s)
        - loc) * 1000000000, tz_off = 0 \<rparr>)"

definition parse_in_location :: "bool \<Rightarrow> string \<Rightarrow> i64 \<Rightarrow> gtime option" where
  "parse_in_location with_clock s loc =
    Option.bind (date_fields s) (\<lambda>((y, mo, d), s).
    Option.bind (if with_clock then clock_fields s else Some ((0, 0, 0), s)) (\<lambda>(clock, s).
    if s \<noteq> [] then None
    else if d < 1 \<or> days_in y mo < d then None
    else Some (utc_date (y, mo, d) clock loc)))"

section \<open>ParseDate\<close>

definition trim_prefix :: "string \<Rightarrow> string \<Rightarrow> string" where
  "trim_prefix p s = (if starts_with p s then drop (length p) s else s)"

definition trim_suffix :: "string \<Rightarrow> string \<Rightarrow> string" where
  "trim_suffix p s = rev (trim_prefix (rev p) (rev s))"

definition parseOFXTimezone :: "string \<Rightarrow> i64 go_result" where
  "parseOFXTimezone s =
    (let s = trim_suffix '']'' (trim_prefix ''['' s); offset = fst (split2 (CHR '':'') s)
     in if offset = [] then Inr 0
        else case Sscanf_d offset of
          None \<Rightarrow> Inl (LibError ''parsing timezone offset'')
        | Some offsetHours \<Rightarrow> Inr (offsetHours * 3600))"

definition invalid_date :: "string \<Rightarrow> 'a go_result" where
  "invalid_date m = Inl (Wrapped m (Sentinel OfxErrInvalidDate))"

definition ParseDate :: "string \<Rightarrow> gtime go_result" where
  "ParseDate s =
    (let s = TrimSpace s in
     if s = [] then invalid_date ''empty string'' else
     let (s, loc) = (case index_byte (CHR ''['') s of
           None \<Rightarrow> (s, 0)
         | Some idx \<Rightarrow> (take idx s,
             case parseOFXTimezone (drop idx s) of Inl e \<Rightarrow> 0 | Inr parsed \<Rightarrow> parsed));
         s = (case index_byte (CHR ''.'') s of None \<Rightarrow> s | Some idx \<Rightarrow> take idx s)
     in if length s = 8 \<or> length s = 14
        then case parse_in_location (length s = 14) s loc of
            None \<Rightarrow> invalid_date ''parsing time'' | Some t \<Rightarrow> Inr t
        else invalid_date ''unexpected length'')"

lemma ParseDate_error: "ParseDate s = Inl e \<Longrightarrow> errors_is e OfxErrInvalidDate"
  by (auto simp: ParseDate_def Let_def invalid_date_def split: if_splits option.splits prod.splits)

section \<open>OFX text of an instant\<close>

text \<open>Local date and time, a fraction that is ignored, the offset in whole hours and a name.\<close>

definition ofx_clock :: "gtime \<Rightarrow> string" where
  "ofx_clock t =
    (let (y, mo, d) = go_civil t; (h, mi, s) = go_clock t
     in dec_pad 4 (nat y) @ dec_pad 2 (nat mo) @ dec_pad 2 (nat d) @
        dec_pad 2 (nat h) @ dec_pad 2 (nat mi) @ dec_pad 2 (nat s))"

definition ofx_zone :: "int \<Rightarrow> string \<Rightarrow> string" where
  "ofx_zone hours name =
    ''['' @ (if hours < 0 then ''-'' else []) @ dec_str (nat \<bar>hours\<bar>) @ '':'' @ name @ '']''"

lemma not_plain_newline: "plain c \<Longrightarrow> c \<noteq> CHR 0x0A"
  by (auto simp: plain_def)

lemma skip_space_plain: "s \<noteq> [] \<Longrightarrow> plain (hd s) \<Longrightarrow> skip_space s = Some s"
  using drop_space_plain[of space_encodings s] space_heads not_plain_newline[of "hd s"]
  by (subst skip_space.simps) simp

lemma ParseInt64_neg_digits:
  assumes "s \<noteq> []" "list_all is_digit s" "dec_val s \<le> 2 ^ 63"
  shows "ParseInt64 (CHR ''-'' # s) = Some (word_of_int (- int (dec_val s)))"
  using assms by (simp add: ParseInt64_def parse_digits_def Let_def)

lemma Sscanf_dec:
  assumes "\<bar>k\<bar> < 2 ^ 63"
  shows "Sscanf_d ((if k < 0 then ''-'' else []) @ dec_str (nat \<bar>k\<bar>)) = Some (word_of_int k)"
proof -
  define w where "w = dec_str (nat \<bar>k\<bar>)"
  have w: "w \<noteq> []" "list_all is_digit w" "dec_val w = nat \<bar>k\<bar>"
    by (auto simp: w_def list_all_iff digits_dec_str)
  have hw: "is_digit (hd w)" using w(1,2) by (cases w) auto
  then have p: "plain (hd w)" "hd w \<noteq> CHR ''+''" "hd w \<noteq> CHR ''-''"
    by (auto simp: plain_def is_digit_def)
  have tw: "takeWhile is_digit w = w" using w(2) by (simp add: list_all_iff)
  show ?thesis
  proof (cases "k < 0")
    case True
    have "skip_space (CHR ''-'' # w) = Some (CHR ''-'' # w)"
      by (rule skip_space_plain) (simp_all add: plain_def)
    moreover have "dec_val w \<le> 2 ^ 63" "- int (dec_val w) = k" using assms w(3) True by simp_all
    then have "ParseInt64 (CHR ''-'' # w) = Some (word_of_int k)"
      using ParseInt64_neg_digits[OF w(1,2)] by metis
    moreover have "dec_str (nat (- k)) = w" using True by (simp add: w_def)
    ultimately show ?thesis using True w(1) by (simp add: Sscanf_d_def Let_def tw)
  next
    case False
    have nk: "dec_str (nat k) = w" using False by (simp add: w_def)
    have "dec_val w < 2 ^ 63" using assms w(3) by simp
    from ParseInt64_digits[OF w(1,2) this] show ?thesis
      using False w(1,3) p skip_space_plain[OF w(1) p(1)] nk
      by (simp add: Sscanf_d_def Let_def tw)
  qed
qed

lemma length_ofx_clock [simp]: "length (ofx_clock t) = 14"
  by (simp add: ofx_clock_def split: prod.splits)

lemma digits_ofx_clock: "c \<in> set (ofx_clock t) \<Longrightarrow> is_digit c"
  by (auto simp: ofx_clock_def split: prod.splits)

lemma day_number_bound:
  assumes "0 \<le> y" "y < 10000" "1 \<le> d" "d \<le> 31"
  shows "\<bar>day_number y mo d\<bar> < 4000000"
proof -
  have "0 \<le> days_before_month y mo" "days_before_month y mo \<le> 335"
    by (auto simp: days_before_month_def)
  moreover have q: "(0::int) < 4" "(0::int) < 100" "(0::int) < 400" by simp_all
  define A B C where "A = (y - 1) div 4" and "B = (y - 1) div 100" and "C = (y - 1) div 400"
  have "4 * A \<le> y - 1" "y - 1 < 4 * A + 4" "100 * B \<le> y - 1" "y - 1 < 100 * B + 100"
    "400 * C \<le> y - 1" "y - 1 < 400 * C + 400"
    unfolding A_def B_def C_def using int_div_bounds q by blast+
  then have "- 400 \<le> 365 * (y - 1) + A - B + C" "365 * (y - 1) + A - B + C < 3900000"
    using assms(1,2) by simp_all
  then have "- 400 \<le> days_before_year y" "days_before_year y < 3900000"
    unfolding days_before_year_def A_def B_def C_def .
  ultimately show ?thesis using assms(3,4) unfolding day_number_def by linarith
qed

lemma parse_ofx_clock:
  assumes "0 \<le> fst (go_civil t)" "fst (go_civil t) < 10000" "\<bar>off\<bar> < 86400"
  shows "parse_in_location True (ofx_clock t) (word_of_int off) =
    Some \<lparr> unix_ns = (local_secs t - off) * 1000000000, tz_off = 0 \<rparr>"
proof -
  obtain y mo d where c: "go_civil t = (y, mo, d)" by (cases "go_civil t") auto
  obtain h mi s where k: "go_clock t = (h, mi, s)" by (cases "go_clock t") auto
  have y: "0 \<le> y" "y < 10000" using assms(1,2) c by auto
  have cc: "civil (local_secs t div 86400 + unix_day_offset) = (y, mo, d)" using c by (simp add: go_civil_def)
  note md = civil_correct[OF cc]
  have d31: "d \<le> 31" using md(5) by (auto simp: days_in_def split: if_splits)
  note r = go_clock_range[OF k]
  have b: "nat y < 10 ^ 4" "nat mo < 10 ^ 2" "nat d < 10 ^ 2" "nat h < 100" "nat mi < 10 ^ 2" "nat s < 10 ^ 2"
    using y md d31 r by auto
  have p: "num_fixed 4 (dec_pad 4 (nat y) @ u) = Some (nat y, u)"
    "num_fixed 2 (dec_pad 2 (nat mo) @ u) = Some (nat mo, u)"
    "num_fixed 2 (dec_pad 2 (nat d) @ u) = Some (nat d, u)"
    "num_loose (dec_pad 2 (nat h) @ u) = Some (nat h, u)"
    "num_fixed 2 (dec_pad 2 (nat mi) @ u) = Some (nat mi, u)"
    "num_fixed 2 (dec_pad 2 (nat s)) = Some (nat s, [])" for u
    using num_fixed_pad[OF b(1)] num_fixed_pad[OF b(2)] num_fixed_pad[OF b(3)] num_loose_pad[OF b(4)]
      num_fixed_pad[OF b(5)] num_fixed_pad[OF b(6), of "[]"] by simp_all
  have df: "date_fields (dec_pad 4 (nat y) @ dec_pad 2 (nat mo) @ dec_pad 2 (nat d) @ u) = Some ((y, mo, d), u)" for u
    using y md by (simp add: date_fields_def p)
  have hms: "nat h < 24" "nat mi < 60" "nat s < 60" using r by (simp_all add: nat_less_iff)
  have cf: "clock_fields (dec_pad 2 (nat h) @ dec_pad 2 (nat mi) @ dec_pad 2 (nat s)) = Some ((h, mi, s), [])"
    using r(1,3,5) hms by (simp add: clock_fields_def p)
  have "h * 3600 + mi * 60 + s = local_secs t mod 86400"
    using k clock_split[of "local_secs t mod 86400"] by (auto simp: go_clock_def Let_def)
  then have L: "(day_number y mo d - unix_day_offset) * 86400 + h * 3600 + mi * 60 + s = local_secs t"
    unfolding md(1) by (simp add: add.assoc)
  have "\<bar>local_secs t\<bar> < 2 ^ 62"
    using day_number_bound[OF y md(4) d31, of mo] r unfolding L[symmetric] unix_day_offset_def by (simp add: abs_less_iff)
  then have "sint (word_of_int (local_secs t - off) :: i64) = local_secs t - off"
    using assms(3) by (intro sint_of_int_i64) auto
  then have "sint (word_of_int (local_secs t) - word_of_int off :: i64) = local_secs t - off" by simp
  then have "utc_date (y, mo, d) (h, mi, s) (word_of_int off) =
      \<lparr> unix_ns = (local_secs t - off) * 1000000000, tz_off = 0 \<rparr>"
    unfolding utc_date_def prod.case L by (simp only:)
  then show ?thesis
    using md(4,5) by (simp add: parse_in_location_def ofx_clock_def c k df cf)
qed

lemma parse_ofx_zone:
  assumes "\<bar>hours\<bar> < 24"
  shows "parseOFXTimezone (ofx_zone hours name) = Inr (word_of_int (3600 * hours))"
proof -
  define n where "n = (if hours < 0 then ''-'' else []) @ dec_str (nat \<bar>hours\<bar>)"
  have z: "ofx_zone hours name = CHR ''['' # (n @ CHR '':'' # name) @ [CHR '']'']"
    by (simp add: ofx_zone_def n_def)
  have tr: "trim_suffix '']'' (trim_prefix ''['' (ofx_zone hours name)) = n @ CHR '':'' # name"
    by (simp add: z trim_prefix_def trim_suffix_def starts_with_def)
  have "CHR '':'' \<notin> set n"
    using digits_dec_str[of "CHR '':''"] by (auto simp: n_def is_digit_def)
  then have sp: "split2 (CHR '':'') (n @ CHR '':'' # name) = (n, Some name)" by (rule split2_app)
  have "Sscanf_d n = Some (word_of_int hours)"
    unfolding n_def by (rule Sscanf_dec) (use assms in simp)
  moreover have "n \<noteq> []" by (simp add: n_def)
  ultimately show ?thesis by (simp add: parseOFXTimezone_def tr sp Let_def mult.commute)
qed

end
