(* ===== verification/Ofx_Parser.thy ===== *)
theory Ofx_Parser
  imports Ofx_Amount Ofx_Date Statement_UC
begin

text \<open>
  \<^verbatim>\<open>pkg/ofx/parser.go\<close>: header and body, the version, the conversion of SGML to XML
  line by line, and the mapping of the decoded transactions. \<^verbatim>\<open>encoding/xml\<close> with the
  struct tags, and the upper-case table of \<^verbatim>\<open>unicode\<close> outside ASCII, are fields of the
  record \<^verbatim>\<open>ofx_lib\<close>; so is what the processor does when a double outside the range
  is converted to an integer. A run-time panic is the error \<^verbatim>\<open>Panic\<close>.
\<close>

record raw_txn =
  rx_TrnType :: string
  rx_DtPosted :: string
  rx_TrnAmt :: string
  rx_FITID :: string
  rx_Name :: string
  rx_Memo :: string

record ofx_lib =
  l_decode :: "bool \<Rightarrow> string \<Rightarrow> string + raw_txn list"
  l_upper :: "string \<Rightarrow> string"
  l_conv :: "int \<Rightarrow> i64"

record ofx_header =
  h_Version :: string
  h_Encoding :: string

section \<open>Searching\<close>

fun index_where :: "(string \<Rightarrow> bool) \<Rightarrow> string \<Rightarrow> nat option" where
  "index_where p [] = None"
| "index_where p (c # s) = (if p (c # s) then Some 0 else map_option Suc (index_where p s))"

text \<open>\<^verbatim>\<open>strings.Index\<close> for a separator that is not empty, and \<^verbatim>\<open>strings.IndexAny\<close>.\<close>

definition index_sub :: "string \<Rightarrow> string \<Rightarrow> nat option" where
  "index_sub s sep = index_where (starts_with sep) s"

definition index_any :: "string \<Rightarrow> string \<Rightarrow> nat option" where
  "index_any s chars = index_where (\<lambda>t. hd t \<in> set chars) s"

definition asciiFold :: "char \<Rightarrow> char" where
  "asciiFold b = (if byte CHR ''a'' \<le> byte b \<and> byte b \<le> byte CHR ''z'' then char_of (byte b - 32) else b)"

definition fold_match :: "string \<Rightarrow> string \<Rightarrow> bool" where
  "fold_match sep s = (length sep \<le> length s \<and> list_all2 (\<lambda>a b. asciiFold a = asciiFold b) (take (length sep) s) sep)"

definition indexFoldASCII :: "string \<Rightarrow> string \<Rightarrow> nat option" where
  "indexFoldASCII data sep =
    (if sep = [] \<or> length data < length sep then None else index_where (fold_match sep) data)"

definition ascii :: "string \<Rightarrow> bool" where
  "ascii s = list_all (\<lambda>c. byte c < 128) s"

definition ToUpper :: "ofx_lib \<Rightarrow> string \<Rightarrow> string" where
  "ToUpper l s = (if ascii s then map asciiFold s else l_upper l s)"

section \<open>Lines\<close>

text \<open>\<^verbatim>\<open>bufio.Scanner\<close> with \<^verbatim>\<open>ScanLines\<close>: the buffer holds 65536 bytes, and a
  line that does not fit with its newline ends the scan; the callers do not ask for the error.\<close>

definition drop_cr :: "string \<Rightarrow> string" where
  "drop_cr s = (if s \<noteq> [] \<and> last s = CHR 0x0D then butlast s else s)"

definition token_fits :: "nat \<Rightarrow> bool" where
  "token_fits n = (int n < 65536)"

function scan_lines :: "string \<Rightarrow> string list" where
  "scan_lines data =
    (if data = [] then []
     else case index_byte CHR 0x0A data of
        None \<Rightarrow> if token_fits (length data) then [drop_cr data] else []
      | Some i \<Rightarrow> if token_fits i then drop_cr (take i data) # scan_lines (drop (Suc i) data) else [])"
  by pat_completeness auto
termination
  by (relation "measure length") auto

declare scan_lines.simps [simp del]

section \<open>The header\<close>

definition extractAttr :: "ofx_lib \<Rightarrow> string \<Rightarrow> string \<Rightarrow> string go_result" where
  "extractAttr l pi name =
    (let upper = ToUpper l pi; nameUpper = ToUpper l name in
     case index_sub upper (nameUpper @ ''='') of
       None \<Rightarrow> Inr []
     | Some idx \<Rightarrow>
         if length pi < idx + length name + 1 then Inl (Panic ''slice bounds out of range'')
         else let rest = dropWhile (\<lambda>c. c \<in> {CHR 0x22, CHR 0x27, CHR '' ''}) (drop (idx + length name + 1) pi)
              in Inr (case index_any rest [CHR 0x22, CHR 0x27, CHR '' '', CHR ''?'', CHR ''>''] of
                   None \<Rightarrow> rest | Some endIdx \<Rightarrow> take endIdx rest))"

definition header_line :: "ofx_lib \<Rightarrow> string \<Rightarrow> ofx_header \<Rightarrow> ofx_header" where
  "header_line l text h =
    (let line = TrimSpace text in
     if line = [] \<or> starts_with ''<?'' line then h
     else case split2 (CHR '':'') line of
        (k, None) \<Rightarrow> h
      | (k, Some v) \<Rightarrow>
          let key = ToUpper l (TrimSpace k); val = TrimSpace v
          in if key = ''VERSION'' then h\<lparr>h_Version := val\<rparr>
             else if key = ''ENCODING'' then h\<lparr>h_Encoding := val\<rparr> else h)"

definition parseHeader :: "ofx_lib \<Rightarrow> string \<Rightarrow> ofx_header go_result" where
  "parseHeader l s =
    (let h = fold (header_line l) (scan_lines s) \<lparr> h_Version = [], h_Encoding = [] \<rparr> in
     if h_Version h \<noteq> [] then Inr h
     else case index_sub s ''<?OFX'' of
        None \<Rightarrow> Inr h
      | Some idx \<Rightarrow>
          (case index_sub (drop idx s) ''?>'' of
             None \<Rightarrow> Inr h
           | Some piEnd \<Rightarrow>
               bindE (extractAttr l (take (piEnd + 2) (drop idx s)) ''VERSION'') (\<lambda>v.
               Inr (h\<lparr>h_Version := v\<rparr>))))"

definition isSGML :: "ofx_header \<Rightarrow> bool" where
  "isSGML h = (\<not> starts_with ''2'' (h_Version h))"

definition invalid_format :: "string \<Rightarrow> 'a go_result" where
  "invalid_format m = Inl (Wrapped m (Sentinel OfxErrInvalidFormat))"

definition splitHeaderAndBody :: "ofx_lib \<Rightarrow> string \<Rightarrow> (ofx_header \<times> string) go_result" where
  "splitHeaderAndBody l data =
    (case indexFoldASCII data ''<OFX>'' of
       None \<Rightarrow> invalid_format ''missing <OFX> tag''
     | Some ofxIdx \<Rightarrow>
         bindE (parseHeader l (take ofxIdx data)) (\<lambda>header. Inr (header, drop ofxIdx data)))"

section \<open>SGML to XML\<close>

definition processLine :: "string \<Rightarrow> string" where
  "processLine line =
    (if starts_with ''</'' line then line
     else if \<not> starts_with ''<'' line then line
     else case index_byte (CHR ''>'') line of
        None \<Rightarrow> line
      | Some tagEnd \<Rightarrow>
          let tagName = take (tagEnd - 1) (drop 1 line);
              valueAfter = TrimSpace (drop (tagEnd + 1) line)
          in if valueAfter \<noteq> [] \<and> \<not> starts_with ''<'' valueAfter
             then ''<'' @ tagName @ ''>'' @ valueAfter @ ''</'' @ tagName @ ''>''
             else line)"

definition sgmlToXML :: "string \<Rightarrow> string" where
  "sgmlToXML data =
    concat (map (\<lambda>line. processLine line @ [CHR 0x0A])
      (filter (\<lambda>line. line \<noteq> []) (map TrimSpace (scan_lines data))))"

section \<open>Transactions\<close>

definition mapTransaction :: "ofx_lib \<Rightarrow> raw_txn \<Rightarrow> ofx_txn go_result" where
  "mapTransaction l raw =
    bindE (mapErr (Wrapped (''parsing amount for FITID '' @ rx_FITID raw))
      (ParseAmount (l_conv l) (TrimSpace (rx_TrnAmt raw)))) (\<lambda>amount.
    bindE (mapErr (Wrapped (''parsing date for FITID '' @ rx_FITID raw))
      (ParseDate (TrimSpace (rx_DtPosted raw)))) (\<lambda>datePosted.
    Inr \<lparr> tx_FITID = TrimSpace (rx_FITID raw), tx_Type = TrimSpace (rx_TrnType raw), tx_Amount = amount,
          tx_Name = TrimSpace (rx_Name raw), tx_Memo = TrimSpace (rx_Memo raw), tx_DatePosted = datePosted \<rparr>))"

definition parseXMLBody :: "ofx_lib \<Rightarrow> string \<Rightarrow> bool \<Rightarrow> ofx_txn list go_result" where
  "parseXMLBody l data strict =
    (case l_decode l strict data of
       Inl m \<Rightarrow> invalid_format m
     | Inr rawTxns \<Rightarrow> mapE (mapTransaction l) rawTxns)"

definition maxOFXSize :: int where
  "maxOFXSize = 5 * 2 ^ 20"

text \<open>\<^verbatim>\<open>Parse\<close> of a reader that yields the bytes \<^verbatim>\<open>Inr\<close> or fails.\<close>

definition ofx_Parse :: "ofx_lib \<Rightarrow> string + string \<Rightarrow> (ofx_header \<times> ofx_txn list) go_result" where
  "ofx_Parse l r =
    (case r of
       Inl m \<Rightarrow> invalid_format (''reading input: '' @ m)
     | Inr input \<Rightarrow>
         let data = take (nat (maxOFXSize + 1)) input in
         if maxOFXSize < int (length data) then invalid_format ''file exceeds maximum size of 5MB''
         else if TrimSpace data = [] then invalid_format ''empty input''
         else bindE (splitHeaderAndBody l data) (\<lambda>(header, body).
              let sgml = isSGML header; xmlBody = (if sgml then sgmlToXML body else body)
              in bindE (parseXMLBody l xmlBody (\<not> sgml)) (\<lambda>transactions.
                 if transactions = [] then Inl (Sentinel OfxErrNoTransactions)
                 else Inr (header, transactions))))"

end
