(* ===== verification/Http_Errors.thy ===== *)
theory Http_Errors
  imports Domain_Errors
begin

text \<open>
  \<^verbatim>\<open>internal/infrastructure/web/handler/error.go\<close> and \<^verbatim>\<open>pkg/apperror\<close>: the
  table that turns a domain sentinel into a status and a fixed message, and
  \<^verbatim>\<open>HandleError\<close>. An \<^verbatim>\<open>AppError\<close> is an error of its own that may wrap another.
\<close>

definition CodeInternalError :: string where "CodeInternalError = ''INTERNAL_ERROR''"
definition CodeInvalidRequest :: string where "CodeInvalidRequest = ''INVALID_REQUEST''"
definition CodeValidationError :: string where "CodeValidationError = ''VALIDATION_ERROR''"
definition CodeNotFound :: string where "CodeNotFound = ''NOT_FOUND''"
definition CodeConflict :: string where "CodeConflict = ''CONFLICT''"
definition CodeUnauthorized :: string where "CodeUnauthorized = ''UNAUTHORIZED''"
definition CodeForbidden :: string where "CodeForbidden = ''FORBIDDEN''"

definition codeToStatus :: "(string \<times> nat) list" where
  "codeToStatus =
   [(CodeInvalidRequest, 400), (CodeValidationError, 400), (CodeNotFound, 404), (CodeConflict, 409),
    (CodeUnauthorized, 401), (CodeForbidden, 403), (CodeInternalError, 500)]"

record error_mapping =
  m_Status :: nat
  m_Code :: string
  m_Message :: string

definition domainErrors :: "(sentinel \<times> error_mapping) list" where
  "domainErrors =
   [(ErrInvalidEmail, \<lparr> m_Status = 400, m_Code = CodeInvalidRequest, m_Message = ''invalid email'' \<rparr>),
    (ErrInvalidID, \<lparr> m_Status = 400, m_Code = CodeInvalidRequest, m_Message = ''invalid ID'' \<rparr>),
    (ErrPasswordTooShort, \<lparr> m_Status = 400, m_Code = CodeValidationError, m_Message = ''password must be at least 8 characters'' \<rparr>),
    (ErrPasswordNoLetter, \<lparr> m_Status = 400, m_Code = CodeValidationError, m_Message = ''password must contain at least one letter'' \<rparr>),
    (ErrPasswordNoNumber, \<lparr> m_Status = 400, m_Code = CodeValidationError, m_Message = ''password must contain at least one number'' \<rparr>),
    (ErrPasswordNoSpecial, \<lparr> m_Status = 400, m_Code = CodeValidationError, m_Message = ''password must contain at least one special character'' \<rparr>),
    (ErrPasswordMismatch, \<lparr> m_Status = 400, m_Code = CodeValidationError, m_Message = ''passwords do not match'' \<rparr>),
    (ErrPasswordAlreadySet, \<lparr> m_Status = 409, m_Code = CodeConflict, m_Message = ''password already set'' \<rparr>),
    (ErrInvalidCredentials, \<lparr> m_Status = 401, m_Code = CodeUnauthorized, m_Message = ''invalid credentials'' \<rparr>),
    (ErrInvalidPassword, \<lparr> m_Status = 401, m_Code = CodeUnauthorized, m_Message = ''invalid password'' \<rparr>),
    (ErrUserInactive, \<lparr> m_Status = 401, m_Code = CodeUnauthorized, m_Message = ''invalid credentials'' \<rparr>),
    (ErrUserNotFound, \<lparr> m_Status = 404, m_Code = CodeNotFound, m_Message = ''user not found'' \<rparr>),
    (ErrRoleNotFound, \<lparr> m_Status = 404, m_Code = CodeNotFound, m_Message = ''role not found'' \<rparr>),
    (ErrDuplicateRoleName, \<lparr> m_Status = 409, m_Code = CodeConflict, m_Message = ''role name already exists'' \<rparr>),
    (ErrRoleAlreadyAssigned, \<lparr> m_Status = 409, m_Code = CodeConflict, m_Message = ''role already assigned to user'' \<rparr>),
    (ErrRoleNotAssigned, \<lparr> m_Status = 404, m_Code = CodeNotFound, m_Message = ''role not assigned to user'' \<rparr>),
    (ErrForbidden, \<lparr> m_Status = 403, m_Code = CodeForbidden, m_Message = ''forbidden'' \<rparr>),
    (ErrInvalidAccountType, \<lparr> m_Status = 400, m_Code = CodeInvalidRequest, m_Message = ''invalid account type'' \<rparr>),
    (ErrAccountNotFound, \<lparr> m_Status = 404, m_Code = CodeNotFound, m_Message = ''account not found'' \<rparr>),
    (ErrInvalidCreditLimit, \<lparr> m_Status = 400, m_Code = CodeInvalidRequest, m_Message = ''credit limit must be greater than zero and at most 1000000000000 cents'' \<rparr>),
    (ErrCreditLimitRequired, \<lparr> m_Status = 422, m_Code = CodeValidationError, m_Message = ''credit limit is required for credit card accounts'' \<rparr>),
    (ErrCreditLimitNotAllowed, \<lparr> m_Status = 422, m_Code = CodeValidationError, m_Message = ''credit limit is only allowed for credit card accounts'' \<rparr>),
    (ErrInvalidStatementType, \<lparr> m_Status = 400, m_Code = CodeInvalidRequest, m_Message = ''invalid statement type'' \<rparr>),
    (ErrInvalidAmount, \<lparr> m_Status = 400, m_Code = CodeInvalidRequest, m_Message = ''amount must be greater than zero'' \<rparr>),
    (ErrStatementNotFound, \<lparr> m_Status = 404, m_Code = CodeNotFound, m_Message = ''statement not found'' \<rparr>),
    (ErrAlreadyReversed, \<lparr> m_Status = 409, m_Code = CodeConflict, m_Message = ''statement already reversed'' \<rparr>),
    (ErrAccountNotActive, \<lparr> m_Status = 422, m_Code = CodeValidationError, m_Message = ''account is not active'' \<rparr>),
    (OfxErrInvalidFormat, \<lparr> m_Status = 400, m_Code = CodeInvalidRequest, m_Message = ''invalid OFX file format'' \<rparr>),
    (OfxErrNoTransactions, \<lparr> m_Status = 400, m_Code = CodeInvalidRequest, m_Message = ''no transactions found in OFX file'' \<rparr>),
    (OfxErrInvalidAmount, \<lparr> m_Status = 400, m_Code = CodeInvalidRequest, m_Message = ''invalid amount in OFX file'' \<rparr>),
    (OfxErrInvalidDate, \<lparr> m_Status = 400, m_Code = CodeInvalidRequest, m_Message = ''invalid date in OFX file'' \<rparr>),
    (ErrInvalidCategoryType, \<lparr> m_Status = 400, m_Code = CodeInvalidRequest, m_Message = ''invalid category type'' \<rparr>),
    (ErrCategoryInvalidName, \<lparr> m_Status = 400, m_Code = CodeValidationError, m_Message = ''category name must not be empty'' \<rparr>),
    (ErrCategoryNotFound, \<lparr> m_Status = 404, m_Code = CodeNotFound, m_Message = ''category not found'' \<rparr>),
    (ErrCategoryDuplicate, \<lparr> m_Status = 409, m_Code = CodeConflict, m_Message = ''category already exists'' \<rparr>),
    (ErrCategoryReadOnly, \<lparr> m_Status = 403, m_Code = CodeForbidden, m_Message = ''system category is read-only'' \<rparr>),
    (ErrCategoryInUse, \<lparr> m_Status = 409, m_Code = CodeConflict, m_Message = ''category is in use by one or more statements'' \<rparr>),
    (ErrCategoryTypeMismatch, \<lparr> m_Status = 422, m_Code = CodeValidationError, m_Message = ''category type does not match statement type'' \<rparr>),
    (ErrCategoryNotVisible, \<lparr> m_Status = 422, m_Code = CodeValidationError, m_Message = ''category is not visible to the user'' \<rparr>),
    (ErrTagInvalidName, \<lparr> m_Status = 400, m_Code = CodeValidationError, m_Message = ''tag name must not be empty'' \<rparr>),
    (ErrTagNotFound, \<lparr> m_Status = 404, m_Code = CodeNotFound, m_Message = ''tag not found'' \<rparr>),
    (ErrTagDuplicate, \<lparr> m_Status = 409, m_Code = CodeConflict, m_Message = ''tag already exists'' \<rparr>),
    (ErrTagReadOnly, \<lparr> m_Status = 403, m_Code = CodeForbidden, m_Message = ''system tag is read-only'' \<rparr>),
    (ErrTagNotVisible, \<lparr> m_Status = 422, m_Code = CodeValidationError, m_Message = ''tag is not visible to the user'' \<rparr>),
    (ErrTagLimitExceeded, \<lparr> m_Status = 422, m_Code = CodeValidationError, m_Message = ''tag limit per statement exceeded'' \<rparr>)]"

text \<open>\<^verbatim>\<open>translateDomainError\<close>: the first row whose sentinel the chain holds.\<close>

definition translateDomainError :: "go_error \<Rightarrow> error_mapping option" where
  "translateDomainError err = map_option snd (List.find (\<lambda>entry. errors_is err (fst entry)) domainErrors)"

text \<open>\<^verbatim>\<open>pkg/apperror\<close>: the constructors; the named ones are all \<^verbatim>\<open>New\<close>.\<close>

definition AppError_New :: "string \<Rightarrow> string \<Rightarrow> go_error" where
  "AppError_New code message = AppErr code message None"

definition BadRequest :: "string \<Rightarrow> string \<Rightarrow> go_error" where "BadRequest code message = AppError_New code message"
definition NotFound :: "string \<Rightarrow> string \<Rightarrow> go_error" where "NotFound code message = AppError_New code message"
definition Conflict :: "string \<Rightarrow> string \<Rightarrow> go_error" where "Conflict code message = AppError_New code message"
definition Internal :: "string \<Rightarrow> string \<Rightarrow> go_error" where "Internal code message = AppError_New code message"
definition Unauthorized :: "string \<Rightarrow> string \<Rightarrow> go_error" where "Unauthorized code message = AppError_New code message"
definition Forbidden :: "string \<Rightarrow> string \<Rightarrow> go_error" where "Forbidden code message = AppError_New code message"

definition AppError_Wrap :: "go_error \<Rightarrow> string \<Rightarrow> string \<Rightarrow> go_error" where
  "AppError_Wrap err code message = AppErr code message (Some err)"

fun AppError_WithError :: "go_error \<Rightarrow> go_error \<Rightarrow> go_error" where
  "AppError_WithError err (AppErr code message _) = AppErr code message (Some err)"
| "AppError_WithError err e = e"

fun AppError_Unwrap :: "go_error \<Rightarrow> go_error option" where
  "AppError_Unwrap (AppErr code message err) = err"
| "AppError_Unwrap e = None"

text \<open>The text of an application error around a text for the error it wraps.\<close>

definition AppError_Error :: "(go_error \<Rightarrow> string) \<Rightarrow> string \<Rightarrow> go_error option \<Rightarrow> string" where
  "AppError_Error errText message err = (case err of None \<Rightarrow> message | Some e \<Rightarrow> message @ '': '' @ errText e)"

text \<open>\<^verbatim>\<open>errors.AsType[*apperror.AppError]\<close>: the outermost \<^verbatim>\<open>AppError\<close> of the chain,
  its code and message.\<close>

fun as_app_error :: "go_error \<Rightarrow> (string \<times> string) option" where
  "as_app_error (AppErr c m e) = Some (c, m)"
| "as_app_error (Wrapped m e) = as_app_error e"
| "as_app_error _ = None"

definition HandleError :: "go_error \<Rightarrow> nat \<times> string" where
  "HandleError err = (case translateDomainError err of
      Some m \<Rightarrow> (m_Status m, m_Message m)
    | None \<Rightarrow>
        (case as_app_error err of
          Some (code, message) \<Rightarrow>
            (case map_of codeToStatus code of None \<Rightarrow> 500 | Some status \<Rightarrow> status, message)
        | None \<Rightarrow> (500, ''internal server error'')))"

text \<open>\<^verbatim>\<open>apperror.Register\<close> appends; \<^verbatim>\<open>init\<close> of the handler package is its only
  caller, so \<^verbatim>\<open>Sentinels\<close> is the table's first column when a request is served.\<close>

definition Register :: "sentinel list \<Rightarrow> sentinel list \<Rightarrow> sentinel list" where
  "Register errs DomainSentinels = DomainSentinels @ errs"

definition handler_init :: "sentinel list" where
  "handler_init = Register (map fst domainErrors) []"

definition IsExpected :: "sentinel list \<Rightarrow> go_error option \<Rightarrow> bool" where
  "IsExpected sentinels err = (case err of
      None \<Rightarrow> False
    | Some e \<Rightarrow> list_ex (errors_is e) sentinels)"

definition httpStatus :: "sentinel \<Rightarrow> nat" where
  "httpStatus s = (case map_of domainErrors s of Some m \<Rightarrow> m_Status m | None \<Rightarrow> 500)"

lemma domainErrors_fst: "map fst domainErrors =
   [ErrInvalidEmail, ErrInvalidID, ErrPasswordTooShort, ErrPasswordNoLetter, ErrPasswordNoNumber,
    ErrPasswordNoSpecial, ErrPasswordMismatch, ErrPasswordAlreadySet, ErrInvalidCredentials,
    ErrInvalidPassword, ErrUserInactive, ErrUserNotFound, ErrRoleNotFound, ErrDuplicateRoleName,
    ErrRoleAlreadyAssigned, ErrRoleNotAssigned, ErrForbidden, ErrInvalidAccountType,
    ErrAccountNotFound, ErrInvalidCreditLimit, ErrCreditLimitRequired, ErrCreditLimitNotAllowed,
    ErrInvalidStatementType, ErrInvalidAmount, ErrStatementNotFound, ErrAlreadyReversed,
    ErrAccountNotActive, OfxErrInvalidFormat, OfxErrNoTransactions, OfxErrInvalidAmount,
    OfxErrInvalidDate, ErrInvalidCategoryType, ErrCategoryInvalidName, ErrCategoryNotFound,
    ErrCategoryDuplicate, ErrCategoryReadOnly, ErrCategoryInUse, ErrCategoryTypeMismatch,
    ErrCategoryNotVisible, ErrTagInvalidName, ErrTagNotFound, ErrTagDuplicate, ErrTagReadOnly,
    ErrTagNotVisible, ErrTagLimitExceeded]"
  by (simp add: domainErrors_def)

lemma domainErrors_status: "list_all (\<lambda>m. m_Status m \<in> {400, 401, 403, 404, 409, 422}) (map snd domainErrors)"
  by (simp add: domainErrors_def)

lemma domainErrors_total: "\<exists>m. map_of domainErrors s = Some m \<and> m_Status m \<in> {400, 401, 403, 404, 409, 422}"
proof -
  have "s \<in> set (map fst domainErrors)" unfolding domainErrors_fst by (cases s) simp_all
  then obtain m where m: "map_of domainErrors s = Some m"
    by (metis list.set_map map_of_eq_None_iff not_None_eq)
  then have "m \<in> set (map snd domainErrors)" by (force dest: map_of_SomeD)
  with domainErrors_status m show ?thesis by (auto simp: list_all_iff)
qed

lemma find_sentinel:
  "errors_is e s \<Longrightarrow>
    map_option snd (List.find (\<lambda>entry. errors_is e (fst entry)) rows) = map_of rows s"
  by (induction rows) (auto dest: errors_is_unique)

lemma translate_sentinel: "errors_is e s \<Longrightarrow> translateDomainError e = map_of domainErrors s"
  unfolding translateDomainError_def by (rule find_sentinel)

lemma translate_unknown: "(\<And>s. \<not> errors_is e s) \<Longrightarrow> translateDomainError e = None"
  by (simp add: translateDomainError_def find_None_iff)

lemma HandleError_sentinel: "errors_is e s \<Longrightarrow> fst (HandleError e) = httpStatus s"
  using domainErrors_total [of s]
  by (auto simp: HandleError_def translate_sentinel httpStatus_def)

lemma HandleError_same:
  "errors_is e s \<Longrightarrow> HandleError e = HandleError (Sentinel s)"
  using domainErrors_total[of s] by (auto simp: HandleError_def translate_sentinel)

text \<open>A sentinel wins over the application error wrapped around it, whatever its code.\<close>

lemma HandleError_wrapped:
  "errors_is e s \<Longrightarrow> HandleError (AppError_Wrap e code message) = HandleError (Sentinel s)"
  by (rule HandleError_same) (simp add: AppError_Wrap_def)

lemma HandleError_unknown:
  "(\<And>s. \<not> errors_is e s) \<Longrightarrow> as_app_error e = None \<Longrightarrow>
    HandleError e = (500, ''internal server error'')"
  by (simp add: HandleError_def translate_unknown)

lemma HandleError_pq: "HandleError (PqError c) = (500, ''internal server error'')"
  by (rule HandleError_unknown) simp_all

lemma every_sentinel_registered: "s \<in> set handler_init"
proof -
  obtain m where "(s, m) \<in> set domainErrors"
    using domainErrors_total [of s] by (blast dest: map_of_SomeD)
  then have "fst (s, m) \<in> fst ` set domainErrors" by (rule imageI)
  then show ?thesis by (simp add: handler_init_def Register_def)
qed

lemma IsExpected_iff: "IsExpected handler_init (Some e) \<longleftrightarrow> (\<exists>s. errors_is e s)"
  by (auto simp: IsExpected_def list_ex_iff every_sentinel_registered)

text \<open>C31. A domain error keeps its own status and fixed message whatever wraps it: when a
  sentinel is in the chain, the answer is that sentinel's row of the table, a 4xx, even under an
  \<^verbatim>\<open>AppError\<close> with another code or a verbose message, and telemetry counts it as
  expected. Without a sentinel and without an \<^verbatim>\<open>AppError\<close> (a driver error, a bad
  cursor, a constraint violation the repository does not translate) the answer is 500 with a generic
  message that holds nothing of the error, and telemetry counts it as a failure.\<close>

theorem http_error_answers:
  "(errors_is e s \<longrightarrow>
     (\<exists>m. (s, m) \<in> set domainErrors \<and> HandleError e = (m_Status m, m_Message m) \<and>
       m_Status m \<in> {400, 401, 403, 404, 409, 422} \<and> IsExpected handler_init (Some e))) \<and>
   ((\<forall>t. \<not> errors_is e t) \<and> as_app_error e = None \<longrightarrow>
     HandleError e = (500, ''internal server error'') \<and> \<not> IsExpected handler_init (Some e))"
  using domainErrors_total [of s] HandleError_unknown [of e]
  by (auto simp: HandleError_def translate_sentinel IsExpected_iff dest: map_of_SomeD)

theorem http_error_answers_witness:
  "HandleError (AppErr ''INTERNAL_ERROR'' ''xml: line 7'' (Some (Wrapped ''parsing'' (Sentinel OfxErrInvalidFormat))))
     = (400, ''invalid OFX file format'') \<and>
   HandleError (Wrapped ''insert'' (PqError ''23505'')) = (500, ''internal server error'')"
proof
  let ?e = "AppErr ''INTERNAL_ERROR'' ''xml: line 7'' (Some (Wrapped ''parsing'' (Sentinel OfxErrInvalidFormat)))"
  show "HandleError ?e = (400, ''invalid OFX file format'')"
    using http_error_answers [of ?e OfxErrInvalidFormat] by (auto simp: domainErrors_def)
  show "HandleError (Wrapped ''insert'' (PqError ''23505'')) = (500, ''internal server error'')"
    using http_error_answers [of "Wrapped ''insert'' (PqError ''23505'')" OfxErrInvalidFormat] by auto
qed

end
