(* ===== verification/Ofx_Properties.thy ===== *)
theory Ofx_Properties
  imports Complex_Main Ofx_Parser Http_Errors
begin

text \<open>
  Properties of the OFX reader: amounts, dates and the SGML conversion.
\<close>

section \<open>Amounts\<close>

text \<open>C32. Every 64-bit amount survives its canonical text: the decimal text of any
  \<^verbatim>\<open>int64\<close> number of cents, with sign and two decimals, parses to exactly that
  number, both extremes included.\<close>

theorem amount_roundtrip: "ParseAmount conv (format_cents (sint (c :: i64))) = Inr c"
proof -
  define m where "m = nat \<bar>sint c\<bar>"
  have m: "m \<le> 9223372036854775808" "int m = \<bar>sint c\<bar>" using sint_i64_range[of c] by (auto simp: m_def)
  have w: "dec_str (m div 100) \<noteq> []" "list_all is_digit (dec_str (m div 100))"
    "dec_val (dec_str (m div 100)) \<le> 92233720368547758"
    using m(1) by (auto simp: list_all_iff digits_dec_str)
  have e: "int (m div 100 * 100 + m mod 100) = int m" by (simp only: div_mult_mod_eq)
  have "ParseAmount conv (format_cents (sint c)) =
      Inr (let v = word_of_int (int m) in if 0 \<le> sint c then v else - v)"
    using ParseAmount_two_digits[OF w, of "m mod 100" "if sint c < 0 then ''-'' else []" conv]
    by (simp add: format_cents_def m_def[symmetric] e del: of_nat_add of_nat_mult)
  also have "\<dots> = Inr c"
    unfolding m(2) by (auto simp: Let_def wi_hom_neg)
  finally show ?thesis .
qed

text \<open>The guard against large amounts looks at the whole part only: the ninety-two texts
  from 92233720368547758.08 up pass it, wrap at 64 bits and come back negative, so
  a credit that large would be imported as a debit.\<close>

theorem large_amount_wraps:
  assumes "8 \<le> k" "k < 100"
  shows "ParseAmount conv (''92233720368547758.'' @ dec_pad 2 k) = Inr (word_of_int (int k - 8 - 2 ^ 63)) \<and>
    sint (word_of_int (int k - 8 - 2 ^ 63) :: i64) < 0"
proof
  let ?w = "''92233720368547758''"
  have v: "dec_val ?w = 92233720368547758" by (simp add: dec_val_def undig_def)
  have w: "?w \<noteq> []" "list_all is_digit ?w" "dec_val ?w \<le> 92233720368547758"
    unfolding v by (simp_all add: is_digit_def)
  have "ParseAmount conv ([] @ ?w @ ''.'' @ dec_pad 2 k) = Inr (word_of_int (int (dec_val ?w * 100 + k)))"
    using ParseAmount_two_digits[OF w assms(2), of "[]"] by simp
  moreover have "(word_of_int (int (dec_val ?w * 100 + k)) :: i64) = word_of_int (int k - 8 - 2 ^ 63)"
    unfolding v by (simp add: word_of_int_eq_iff take_bit_eq_mod mod_eq_dvd_iff)
  ultimately show "ParseAmount conv (''92233720368547758.'' @ dec_pad 2 k) =
      Inr (word_of_int (int k - 8 - 2 ^ 63))" by simp
  have "sint (word_of_int (int k - 8 - 2 ^ 63) :: i64) = int k - 8 - 2 ^ 63"
    by (rule sint_of_int_i64) (use assms in simp_all)
  then show "sint (word_of_int (int k - 8 - 2 ^ 63) :: i64) < 0" using assms(2) by simp
qed

theorem large_amount_wraps_witness:
  "ParseAmount (\<lambda>_. minInt64) ''92233720368547758.99'' = Inr (word_of_int (91 - 2 ^ 63))"
proof -
  have "dec_pad 2 99 = ''99''" unfolding dec_pad_digits by code_simp
  then show ?thesis using large_amount_wraps[of 99 "\<lambda>_. minInt64"] by simp
qed

text \<open>One rounding, as a relative error over the reals.\<close>

lemma f64_round_relative:
  assumes "0 < n" "0 < d" "bits d \<le> bits n + 1000" "f64_round n d = (N, D)"
  shows "\<bar>real_of_int N / D - n / d\<bar> \<le> (n / d) / 2 ^ 53"
proof -
  note r = f64_round_error[OF assms]
  define A where "A = N * d - n * D"
  have "real_of_int (2 ^ 53 * \<bar>A\<bar>) \<le> real_of_int (n * D)" using r(1) unfolding A_def of_int_le_iff .
  then have A: "\<bar>real_of_int A\<bar> \<le> n * D / 2 ^ 53" by simp
  have "real_of_int N / D - n / d = A / (d * D)"
    using r(2) assms(2) by (simp add: A_def divide_simps)
  then have "\<bar>real_of_int N / D - n / d\<bar> = \<bar>real_of_int A\<bar> / (d * D)"
    using r(2) assms(2) by (simp add: abs_mult)
  also have "\<dots> \<le> (n * D / 2 ^ 53) / (d * D)"
    using A r(2) assms(2) by (intro divide_right_mono) simp_all
  also have "\<dots> = (n / d) / 2 ^ 53" using r(2) by simp
  finally show ?thesis .
qed

lemma two_roundings:
  fixes f g v m :: real
  assumes "\<bar>f - v\<bar> \<le> v / 2 ^ 53" "\<bar>g - 100 * f\<bar> \<le> 100 * f / 2 ^ 53" "\<bar>m - g\<bar> \<le> 1 / 2"
    "0 < v" "v < 2 ^ 43"
  shows "\<bar>m - 100 * v\<bar> < 1" "f < 2 ^ 44"
proof -
  have "v / 2 ^ 53 \<le> v" using assms(4) by simp
  with assms(1) have f: "f \<le> 2 * v" by linarith
  with assms(5) show "f < 2 ^ 44" by simp
  have b: "v / 2 ^ 53 < 1 / 1024" "100 * f / 2 ^ 53 < 200 / 1024" using assms(5) f by simp_all
  have "- (v / 2 ^ 53) \<le> f - v" "f - v \<le> v / 2 ^ 53" "- (100 * f / 2 ^ 53) \<le> g - 100 * f"
    "g - 100 * f \<le> 100 * f / 2 ^ 53" "- (1 / 2) \<le> m - g" "m - g \<le> 1 / 2"
    using assms(1-3) unfolding abs_le_iff by linarith+
  with b have "- 1 < m - 100 * v" "m - 100 * v < 1" by linarith+
  then show "\<bar>m - 100 * v\<bar> < 1" by (simp add: abs_less_iff)
qed

lemma bits_pow10: "k \<le> 250 \<Longrightarrow> bits (10 ^ k) \<le> 840"
proof -
  assume "k \<le> 250"
  then have "(10::int) ^ k \<le> 10 ^ 250" by (intro power_increasing) simp_all
  also have "\<dots> < 2 ^ 840" by simp
  finally show ?thesis using bits_le[of "10 ^ k" 840] by simp
qed

lemma double_cents_close:
  assumes n: "0 < n" "n < 2 ^ 43 * 10 ^ k" and k: "k \<le> 250" and r: "f64_round n (10 ^ k) = (N, D)"
  shows "\<not> f64_infinite (N, D) \<and> 0 \<le> round_half_away (f64_times (N, D) 100) \<and>
    \<bar>round_half_away (f64_times (N, D) 100) * 10 ^ k - 100 * n\<bar> < 10 ^ k"
proof -
  define d :: int where "d = 10 ^ k"
  have d: "0 < d" "bits d \<le> bits n + 1000" "bits d \<le> 840"
    using bits_pow10[OF k] bits_range[OF n(1)] by (simp_all add: d_def)
  note r = r[folded d_def]
  note q = f64_round_error(2,3)[OF n(1) d(1,2) r]
  define v where "v = real_of_int n / d"
  have "real_of_int n < real_of_int (2 ^ 43 * d)" using n(2) unfolding d_def of_int_less_iff .
  then have v: "0 < v" "v < 2 ^ 43" using n(1) d(1) by (simp_all add: v_def pos_divide_less_eq)
  have f: "\<bar>real_of_int N / D - v\<bar> \<le> v / 2 ^ 53"
    using f64_round_relative[OF n(1) d(1,2) r] by (simp add: v_def)
  have "D \<le> 2 ^ nat (53 + bits d)" by (rule f64_round_denom[OF n(1) d(1,2) r])
  also have "\<dots> < 2 ^ 894" by (rule power_strict_increasing) (use d(3) in linarith, simp)
  finally have "bits D \<le> 894" using bits_le[OF q(1), of 894] by simp
  then have D: "bits D \<le> bits (N * 100) + 1000" using bits_range[of "N * 100"] q(2) by simp
  obtain N2 D2 where r2: "f64_round (N * 100) D = (N2, D2)" by (cases "f64_round (N * 100) D") auto
  note q2 = f64_round_error(2,3)[OF _ q(1) D r2]
  define m where "m = round_half_away (N2, D2)"
  have D2: "0 < D2" using q2(1) q(2) by simp
  have g: "\<bar>real_of_int N2 / D2 - 100 * (N / D)\<bar> \<le> 100 * (N / D) / 2 ^ 53"
    using f64_round_relative[OF _ q(1) D r2] q(2) by (simp add: field_simps)
  define B where "B = m * D2 - N2"
  have "real_of_int (2 * \<bar>B\<bar>) \<le> real_of_int D2"
    using round_half_away_error[OF D2, of N2] unfolding m_def B_def of_int_le_iff .
  then have B: "\<bar>real_of_int B\<bar> \<le> D2 / 2" by simp
  have "m - real_of_int N2 / D2 = B / D2" using D2 by (simp add: B_def divide_simps)
  then have h: "\<bar>m - real_of_int N2 / D2\<bar> \<le> 1 / 2" using B D2 by (simp add: field_simps)
  note c = two_roundings[OF f g h v]
  have "real_of_int (m * d - 100 * n) = (m - 100 * v) * d" using d(1) by (simp add: v_def algebra_simps)
  then have "\<bar>real_of_int (m * d - 100 * n)\<bar> = \<bar>m - 100 * v\<bar> * d" using d(1) by (simp add: abs_mult)
  also have "\<dots> < 1 * real_of_int d" using c(1) d(1) by (intro mult_strict_right_mono) simp_all
  finally have close: "\<bar>m * d - 100 * n\<bar> < d" by linarith
  have "- 1 < real_of_int m" using c(1) v(1) by linarith
  then have "0 \<le> m" by simp
  have "real_of_int N < 2 ^ 44 * D" using c(2) q(1) by (simp add: pos_divide_less_eq)
  then have "real_of_int N < real_of_int (2 ^ 44 * D)" by simp
  then have "N < 2 ^ 44 * D" unfolding of_int_less_iff .
  also have "\<dots> \<le> 2 ^ 1024 * D" using q(1) by simp
  finally have "\<not> f64_infinite (N, D)" by (simp add: f64_infinite_def)
  with close \<open>0 \<le> m\<close> show ?thesis by (simp add: m_def d_def f64_times_def r2)
qed

lemma dec_val_append: "dec_val (w @ f) = dec_val w * 10 ^ length f + dec_val f"
proof (induction f rule: rev_induct)
  case (snoc c f)
  from snoc show ?case unfolding append_assoc[symmetric] dec_val_snoc by (simp add: algebra_simps)
qed simp

lemma dec_val_bound: "list_all is_digit f \<Longrightarrow> dec_val f < 10 ^ length f"
proof (induction f rule: rev_induct)
  case (snoc c f)
  then have "undig c \<le> 9" "dec_val f + 1 \<le> 10 ^ length f"
    by (auto simp: is_digit_def undig_def)
  then show ?case by simp
qed simp

text \<open>Text with more than two decimals goes through a double and is off by less than one
  cent: for up to 250 decimals and a whole part below two to the 43rd, the cents differ
  from the exact value by less than one, and nothing overflows.\<close>

theorem long_fraction_within_a_cent:
  assumes "w \<noteq> []" "list_all is_digit w" "list_all is_digit f" "dec_val w < 2 ^ 43"
    "3 \<le> length f" "length f \<le> 250"
  shows "\<exists>c. ParseAmount conv (w @ ''.'' @ f) = Inr c \<and>
    \<bar>sint c * 10 ^ length f - 100 * int (dec_val (w @ f))\<bar> < 10 ^ length f"
proof -
  define n k where "n = int (dec_val (w @ f))" and "k = length f"
  have "dec_val (w @ f) < (dec_val w + 1) * 10 ^ k"
    using dec_val_bound[OF assms(3)] by (simp add: dec_val_append k_def)
  also have "\<dots> \<le> 2 ^ 43 * 10 ^ k" using assms(4) by (intro mult_right_mono) simp_all
  finally have nb: "n < 2 ^ 43 * 10 ^ k" unfolding n_def
    by (simp flip: of_nat_less_iff[where 'a = int])
  obtain N D where r: "f64_round n (10 ^ k) = (N, D)" by (cases "f64_round n (10 ^ k)") auto
  define m where "m = round_half_away (f64_times (N, D) 100)"
  have c: "\<not> f64_infinite (N, D)" "0 \<le> m" "\<bar>m * 10 ^ k - 100 * n\<bar> < 10 ^ k"
  proof (atomize(full), cases "n = 0")
    case True
    then have "(N, D) = (0, 1)" using r by (simp add: f64_round_def)
    moreover have "m = 0" using calculation by (simp add: m_def f64_times_def f64_round_def round_half_away_def)
    ultimately show "\<not> f64_infinite (N, D) \<and> 0 \<le> m \<and> \<bar>m * 10 ^ k - 100 * n\<bar> < 10 ^ k"
      using True by (simp add: f64_infinite_def)
  next
    case False
    then have "0 < n" by (simp add: n_def)
    then show "\<not> f64_infinite (N, D) \<and> 0 \<le> m \<and> \<bar>m * 10 ^ k - 100 * n\<bar> < 10 ^ k"
      using double_cents_close[OF _ nb _ r] assms(6) unfolding m_def k_def by blast
  qed
  define P :: int where "P = 10 ^ k"
  have "m * P - 100 * n < P" using c(3) unfolding P_def abs_less_iff by linarith
  moreover have "n < 8796093022208 * P" using nb by (simp add: P_def)
  ultimately have "m * P < 879609302220801 * P" by linarith
  then have mb: "m < 2 ^ 51" by (auto simp: mult_less_cancel_right P_def)
  have sm: "sint (word_of_int m :: i64) = m" using c(2) mb by (intro sint_of_int_i64) simp_all
  have fc: "float_cents conv (w @ ''.'' @ f) = Inr (word_of_int m)"
    using parse_float_digits[OF assms(1-3)] r c(1,2) mb
    by (simp add: float_cents_def n_def k_def m_def Let_def)
  have "ParseAmount conv (w @ ''.'' @ f) = Inr (word_of_int m)"
    using ParseAmount_long[OF assms(1-3) _ assms(5), of conv] assms(4) fc by simp
  then show ?thesis using sm c(3) by (simp add: n_def k_def)
qed

theorem long_fraction_within_a_cent_witness:
  "\<exists>c. ParseAmount (\<lambda>_. minInt64) (''1'' @ ''.'' @ ''005'') = Inr c \<and> \<bar>sint c * 1000 - 100500\<bar> < 1000"
  using long_fraction_within_a_cent[of "''1''" "''005''" "\<lambda>_. minInt64"]
  by (simp add: is_digit_def dec_val_def undig_def)

section \<open>Dates\<close>

text \<open>C33. An OFX date is read to the instant it names: local date and time of a four-digit year,
  an ignored fraction and a bracketed zone of whole hours with any name give that
  instant in UTC, cut to whole seconds.\<close>

theorem ofx_date_roundtrip:
  assumes "0 \<le> fst (go_civil t)" "fst (go_civil t) < 10000" "tz_off t = 3600 * hours" "\<bar>hours\<bar> < 24"
    "list_all is_digit fs"
  shows "ParseDate (ofx_clock t @ ''.'' @ fs @ ofx_zone hours name) =
    Inr \<lparr> unix_ns = unix_ns t div 1000000000 * 1000000000, tz_off = 0 \<rparr>"
proof -
  let ?b = "ofx_clock t @ ''.'' @ fs"
  have l: "ofx_clock t \<noteq> []" using length_ofx_clock[of t] by (metis list.size(3) zero_neq_numeral)
  have "plain (hd (ofx_clock t))" by (rule plain_digit[OF digits_ofx_clock[OF hd_in_set[OF l]]])
  then have trim: "TrimSpace (?b @ ofx_zone hours name) = ?b @ ofx_zone hours name"
    by (intro TrimSpace_plain) (use l in \<open>auto simp: ofx_zone_def plain_def\<close>)
  have "\<forall>c\<in>set ?b. is_digit c \<or> c = CHR ''.''" using digits_ofx_clock assms(5) by (auto simp: list_all_iff)
  then have nb: "CHR ''['' \<notin> set ?b" using notI[of "is_digit (CHR ''['')"] by (fastforce simp: is_digit_def)
  obtain z where z: "ofx_zone hours name = CHR ''['' # z" by (simp add: ofx_zone_def)
  have ix: "index_byte (CHR ''['') (?b @ ofx_zone hours name) = Some (length ?b)"
    unfolding z by (rule index_byte_app[OF nb])
  have "CHR ''.'' \<notin> set (ofx_clock t)" using digits_ofx_clock by (fastforce simp: is_digit_def)
  from index_byte_app[OF this, of fs] have ix2: "index_byte (CHR ''.'') ?b = Some 14" by simp
  have tk: "take (length ?b) (?b @ ofx_zone hours name) = ?b"
    "drop (length ?b) (?b @ ofx_zone hours name) = ofx_zone hours name" "take 14 ?b = ofx_clock t" by simp_all
  have "\<bar>3600 * hours\<bar> < 86400" using assms(4) by simp
  from parse_ofx_clock[OF assms(1,2) this] have p: "parse_in_location True (ofx_clock t) (word_of_int (3600 * hours)) =
      Some \<lparr> unix_ns = unix_ns t div 1000000000 * 1000000000, tz_off = 0 \<rparr>"
    by (simp add: local_secs_def assms(3))
  have "ParseDate (?b @ ofx_zone hours name) = Inr \<lparr> unix_ns = unix_ns t div 1000000000 * 1000000000, tz_off = 0 \<rparr>"
    unfolding ParseDate_def trim Let_def ix option.case tk(1,2) prod.case ix2 tk(3)
      parse_ofx_zone[OF assms(4)] sum.case using l p by simp
  then show ?thesis by simp
qed

theorem ofx_date_roundtrip_witness:
  "ParseDate (ofx_clock \<lparr> unix_ns = 1768478400000000000, tz_off = - 10800 \<rparr> @ ''.'' @ ''000'' @ ofx_zone (- 3) ''BRT'') =
    Inr \<lparr> unix_ns = 1768478400000000000, tz_off = 0 \<rparr>"
proof -
  let ?t = "\<lparr> unix_ns = 1768478400000000000, tz_off = - 10800 \<rparr>"
  have "go_civil ?t = (2026, 1, 15)" by code_simp
  then show ?thesis using ofx_date_roundtrip[of ?t "- 3" "''000''" "''BRT''"] by (simp add: is_digit_def)
qed

section \<open>SGML\<close>

text \<open>An OFX document: aggregates and leaf elements, one line a tag. In SGML a leaf has no
  closing tag, in XML it has.\<close>

datatype ofx_node = Leaf string string | Aggregate string "ofx_node list"

fun node_lines :: "bool \<Rightarrow> ofx_node \<Rightarrow> string list" where
  "node_lines closing (Leaf n v) =
    [''<'' @ n @ ''>'' @ v @ (if closing then ''</'' @ n @ ''>'' else [])]"
| "node_lines closing (Aggregate n cs) =
    (''<'' @ n @ ''>'') # concat (map (node_lines closing) cs) @ [''</'' @ n @ ''>'']"

definition lines_text :: "string list \<Rightarrow> string" where
  "lines_text ls = concat (map (\<lambda>l. l @ [CHR 0x0A]) ls)"

definition name_ok :: "string \<Rightarrow> bool" where
  "name_ok n = (n \<noteq> [] \<and> list_all plain n \<and> CHR ''>'' \<notin> set n \<and> hd n \<noteq> CHR ''/'')"

definition value_ok :: "string \<Rightarrow> bool" where
  "value_ok v = (v \<noteq> [] \<and> plain (hd v) \<and> plain (last v) \<and> CHR 0x0A \<notin> set v \<and> hd v \<noteq> CHR ''<'')"

fun node_ok :: "ofx_node \<Rightarrow> bool" where
  "node_ok (Leaf n v) = (name_ok n \<and> value_ok v \<and> int (length n) + int (length v) < 65000)"
| "node_ok (Aggregate n cs) = (name_ok n \<and> int (length n) < 65000 \<and> list_all node_ok cs)"

definition line_ok :: "string \<Rightarrow> bool" where
  "line_ok l = (l \<noteq> [] \<and> plain (hd l) \<and> plain (last l) \<and> CHR 0x0A \<notin> set l \<and> token_fits (length l))"

lemma scan_lines_text: "list_all line_ok ls \<Longrightarrow> scan_lines (lines_text ls) = ls"
proof (induction ls)
  case Nil
  then show ?case by (simp add: lines_text_def scan_lines.simps[of "[]"])
next
  case (Cons l ls)
  then have l: "line_ok l" and ih: "scan_lines (lines_text ls) = ls" by simp_all
  have t: "lines_text (l # ls) = l @ CHR 0x0A # lines_text ls" by (simp add: lines_text_def)
  have ix: "index_byte CHR 0x0A (l @ CHR 0x0A # lines_text ls) = Some (length l)"
    by (rule index_byte_app) (use l in \<open>simp add: line_ok_def\<close>)
  have "last l \<noteq> CHR 0x0D" using l by (auto simp: line_ok_def plain_def)
  then have "drop_cr l = l" by (simp add: drop_cr_def)
  with l ih ix show ?case unfolding t by (subst scan_lines.simps) (simp add: line_ok_def)
qed

lemma sgmlToXML_lines:
  assumes "list_all line_ok ls"
  shows "sgmlToXML (lines_text ls) = lines_text (map processLine ls)"
proof -
  have "map TrimSpace ls = ls"
    by (rule map_idI, rule TrimSpace_plain) (use assms in \<open>auto simp: list_all_iff line_ok_def\<close>)
  moreover have "filter (\<lambda>l. l \<noteq> []) ls = ls"
    using assms by (auto simp: filter_id_conv list_all_iff line_ok_def)
  ultimately show ?thesis
    by (simp add: sgmlToXML_def scan_lines_text[OF assms]) (simp add: lines_text_def comp_def)
qed

lemma name_ok_plain: "name_ok n \<Longrightarrow> CHR 0x0A \<notin> set n"
  using not_plain_newline by (auto simp: name_ok_def list_all_iff)

lemma processLine_leaf:
  assumes "name_ok n" "value_ok v"
  shows "processLine (''<'' @ n @ ''>'' @ v) = ''<'' @ n @ ''>'' @ v @ ''</'' @ n @ ''>''"
proof -
  have "CHR ''>'' \<notin> set (CHR ''<'' # n)" using assms(1) by (simp add: name_ok_def)
  from index_byte_app[OF this, of v]
  have ix: "index_byte (CHR ''>'') (CHR ''<'' # n @ CHR ''>'' # v) = Some (Suc (length n))" by simp
  have "TrimSpace v = v" by (rule TrimSpace_plain) (use assms(2) in \<open>simp add: value_ok_def\<close>)
  moreover have "\<not> starts_with ''<'' v" using assms(2) by (cases v) (auto simp: value_ok_def starts_with_def)
  moreover have "\<not> starts_with ''</'' (CHR ''<'' # n @ CHR ''>'' # v)"
    using assms(1) by (cases n) (auto simp: name_ok_def starts_with_def)
  ultimately show ?thesis using assms(2) ix
    by (simp add: processLine_def Let_def value_ok_def starts_with_def[of "''<''" "CHR ''<'' # _"])
qed

lemma processLine_open: "name_ok n \<Longrightarrow> processLine (''<'' @ n @ ''>'') = ''<'' @ n @ ''>''"
proof -
  assume "name_ok n"
  then have "CHR ''>'' \<notin> set (CHR ''<'' # n)" by (simp add: name_ok_def)
  from index_byte_app[OF this, of "[]"]
  have "index_byte (CHR ''>'') (CHR ''<'' # n @ ''>'') = Some (Suc (length n))" by simp
  then show ?thesis by (simp add: processLine_def Let_def)
qed

lemma processLine_close: "processLine (''</'' @ u) = ''</'' @ u"
  by (simp add: processLine_def starts_with_def)

lemma node_lines_ok: "node_ok d \<Longrightarrow> list_all line_ok (node_lines False d)"
proof (induction d rule: node_ok.induct)
  case (1 n v)
  then show ?case
    using name_ok_plain[of n] by (simp add: line_ok_def value_ok_def token_fits_def plain_def)
next
  case (2 n cs)
  have "line_ok l" if "c \<in> set cs" "l \<in> set (node_lines False c)" for c l
    using 2 that by (auto simp: list_all_iff)
  then show ?case using 2(2) name_ok_plain[of n]
    by (auto simp: list_all_iff line_ok_def token_fits_def plain_def)
qed

lemma processLine_nodes: "node_ok d \<Longrightarrow> map processLine (node_lines False d) = node_lines True d"
proof (induction d rule: node_ok.induct)
  case (1 n v)
  then show ?case using processLine_leaf[of n v] by simp
next
  case (2 n cs)
  have "map processLine (node_lines False c) = node_lines True c" if "c \<in> set cs" for c
    using 2 that by (simp add: list_all_iff)
  then have "map processLine (concat (map (node_lines False) cs)) = concat (map (node_lines True) cs)"
    by (simp add: map_concat comp_def cong: map_cong)
  then show ?case using 2(2) processLine_open[of n] processLine_close[of "n @ ''>''"] by simp
qed



section \<open>Errors of the parser\<close>

lemma extractAttr_error: "extractAttr l instr name = Inl e \<Longrightarrow> e = Panic ''slice bounds out of range''"
  by (auto simp: extractAttr_def Let_def split: option.splits if_splits)

lemma splitHeader_error: "splitHeaderAndBody l data = Inl e \<Longrightarrow>
    errors_is e OfxErrInvalidFormat \<or> e = Panic ''slice bounds out of range''"
  by (auto simp: splitHeaderAndBody_def invalid_format_def parseHeader_def Let_def bindE_Inl
      split: option.splits if_splits dest: extractAttr_error)

lemma parseXMLBody_error: "parseXMLBody l data strict = Inl e \<Longrightarrow>
    errors_is e OfxErrInvalidFormat \<or> errors_is e OfxErrInvalidAmount \<or> errors_is e OfxErrInvalidDate"
proof -
  have m: "mapE (mapTransaction l) rs = Inl e \<Longrightarrow> errors_is e OfxErrInvalidAmount \<or> errors_is e OfxErrInvalidDate" for rs
    by (induction rs)
      (auto simp: bindE_Inl mapTransaction_def mapErr_Inl dest: ParseAmount_error ParseDate_error)
  assume "parseXMLBody l data strict = Inl e"
  then show ?thesis using m by (auto simp: parseXMLBody_def invalid_format_def split: sum.splits)
qed

lemma httpStatus_ofx: "httpStatus OfxErrInvalidFormat = 400" "httpStatus OfxErrNoTransactions = 400"
    "httpStatus OfxErrInvalidAmount = 400" "httpStatus OfxErrInvalidDate = 400"
  by (simp_all add: httpStatus_def domainErrors_def)

text \<open>A file the parser refuses is the client's error: whatever bytes are uploaded, the error
  carries one of the four OFX sentinels and answers 400, telemetry counts it as expected,
  and no transaction is returned. The one exception is the run-time panic of the attribute reader.\<close>

theorem ofx_errors_are_client_errors:
  assumes "ofx_Parse l r = Inl e" "e \<noteq> Panic ''slice bounds out of range''"
  shows "fst (HandleError e) = 400 \<and> IsExpected handler_init (Some e) \<and>
    (\<exists>s\<in>{OfxErrInvalidFormat, OfxErrNoTransactions, OfxErrInvalidAmount, OfxErrInvalidDate}. errors_is e s)"
proof -
  have "\<exists>s\<in>{OfxErrInvalidFormat, OfxErrNoTransactions, OfxErrInvalidAmount, OfxErrInvalidDate}. errors_is e s"
    using assms
    by (auto simp: ofx_Parse_def Let_def invalid_format_def bindE_Inl split: sum.splits if_splits prod.splits
        dest: splitHeader_error parseXMLBody_error)
  then show ?thesis using httpStatus_ofx by (auto simp: HandleError_sentinel IsExpected_iff)
qed

theorem ofx_errors_are_client_errors_witness:
  "fst (HandleError (Wrapped ''empty input'' (Sentinel OfxErrInvalidFormat))) = 400"
proof -
  let ?l = "\<lparr> l_decode = \<lambda>strict data. Inr [], l_upper = id, l_conv = \<lambda>_. minInt64 \<rparr>"
  have "TrimSpace ''  '' = []" by code_simp
  then have "ofx_Parse ?l (Inr ''  '') = Inl (Wrapped ''empty input'' (Sentinel OfxErrInvalidFormat))"
    by (simp add: ofx_Parse_def maxOFXSize_def invalid_format_def)
  from ofx_errors_are_client_errors[OF this] show ?thesis by simp
qed

text \<open>The upper-case conversion of text that is not ASCII: a byte 0xE9 followed by an ASCII byte
  or by another 0xE9 is no UTF-8 and becomes the three bytes of the replacement character.\<close>

definition upper_replaces :: "ofx_lib \<Rightarrow> bool" where
  "upper_replaces l = (\<forall>s. list_all (\<lambda>c. byte c < 128 \<or> c = CHR 0xE9) s \<longrightarrow>
     l_upper l s = concat (map (\<lambda>c. if c = CHR 0xE9 then [CHR 0xEF, CHR 0xBF, CHR 0xBD] else [asciiFold c]) s))"

definition latin1_header :: string where
  "latin1_header = ''<?OFX '' @ [CHR 0xE9, CHR 0xE9, CHR 0xE9] @ ''VERSION='' @ [CHR 0x22, CHR ''2'', CHR 0x22] @ ''?>''"

lemma latin1_attribute:
  assumes "upper_replaces l"
  shows "extractAttr l latin1_header ''VERSION'' = Inl (Panic ''slice bounds out of range'')"
proof -
  have "list_all (\<lambda>c. byte c < 128 \<or> c = CHR 0xE9) latin1_header" "\<not> ascii latin1_header"
    by (simp_all add: latin1_header_def ascii_def)
  then have u: "ToUpper l latin1_header = concat (map (\<lambda>c. if c = CHR 0xE9 then [CHR 0xEF, CHR 0xBF, CHR 0xBD]
      else [asciiFold c]) latin1_header)"
    using assms by (simp add: ToUpper_def upper_replaces_def)
  have "ToUpper l ''VERSION'' = ''VERSION''" by (simp add: ToUpper_def ascii_def asciiFold_def)
  moreover have "index_sub (concat (map (\<lambda>c. if c = CHR 0xE9 then [CHR 0xEF, CHR 0xBF, CHR 0xBD]
      else [asciiFold c]) latin1_header)) ''VERSION='' = Some 15"
    unfolding latin1_header_def by code_simp
  moreover have "length latin1_header = 22" by (simp add: latin1_header_def)
  ultimately show ?thesis by (simp add: extractAttr_def u Let_def)
qed

text \<open>A header that is not ASCII can crash the parser: the attribute reader looks up the
  name in the upper-cased text and cuts the original text at that place, and the two differ in
  length. Three Latin-1 bytes before the version of an XML header are enough: the slice
  is out of range, whatever follows.\<close>

theorem latin1_header_panics:
  assumes "upper_replaces l" "int (length body) < 5000000"
  shows "ofx_Parse l (Inr (latin1_header @ ''<OFX>'' @ body @ ''</OFX>'')) =
    Inl (Panic ''slice bounds out of range'')"
proof -
  let ?d = "latin1_header @ ''<OFX>'' @ body @ ''</OFX>''"
  have hl: "length latin1_header = 22" by (simp add: latin1_header_def)
  have t: "TrimSpace ?d = ?d"
    by (rule TrimSpace_plain) (simp add: latin1_header_def plain_def)
  have k: "take (nat (maxOFXSize + 1)) ?d = ?d"
    using assms(2) hl by (intro take_all) (simp add: maxOFXSize_def)
  have ix: "indexFoldASCII ?d ''<OFX>'' = Some 22"
    by (simp add: indexFoldASCII_def latin1_header_def fold_match_def asciiFold_def)
  have "parseHeader l latin1_header = Inl (Panic ''slice bounds out of range'')"
  proof -
    have "scan_lines latin1_header = [latin1_header]" unfolding latin1_header_def by code_simp
    moreover have "TrimSpace latin1_header = latin1_header"
      by (rule TrimSpace_plain) (simp add: latin1_header_def plain_def)
    moreover have "starts_with ''<?'' latin1_header" by (simp add: latin1_header_def starts_with_def)
    moreover have "index_sub latin1_header ''<?OFX'' = Some 0" "index_sub latin1_header ''?>'' = Some 20"
      by (simp_all add: index_sub_def latin1_header_def starts_with_def)
    moreover have "latin1_header \<noteq> []" by (simp add: latin1_header_def)
    ultimately show ?thesis
      using latin1_attribute[OF assms(1)] hl by (simp add: parseHeader_def header_line_def)
  qed
  moreover have "take 22 ?d = latin1_header" using hl by simp
  ultimately have "splitHeaderAndBody l ?d = Inl (Panic ''slice bounds out of range'')"
    unfolding splitHeaderAndBody_def ix option.case by simp
  moreover have "\<not> maxOFXSize < int (length ?d)" using assms(2) hl by (simp add: maxOFXSize_def)
  moreover have "?d \<noteq> []" by simp
  ultimately show ?thesis unfolding ofx_Parse_def sum.case Let_def k t by simp
qed

theorem latin1_header_panics_witness:
  "ofx_Parse \<lparr> l_decode = \<lambda>strict data. Inr [], l_upper = \<lambda>s. concat (map (\<lambda>c. if c = CHR 0xE9
       then [CHR 0xEF, CHR 0xBF, CHR 0xBD] else [asciiFold c]) s), l_conv = \<lambda>_. minInt64 \<rparr>
     (Inr (latin1_header @ ''<OFX>'' @ [] @ ''</OFX>'')) = Inl (Panic ''slice bounds out of range'')"
  by (rule latin1_header_panics) (simp_all add: upper_replaces_def)

end
