(* ===== verification/Ofx_Search.thy ===== *)
theory Ofx_Search
  imports Ofx_Parser
begin

text \<open>
  The two nested loops of \<^verbatim>\<open>indexFoldASCII\<close> (\<^verbatim>\<open>pkg/ofx/parser.go\<close>) as they are
  written, over indices: the search that finds the body of a file without copying it. A loop that
  would not end is \<open>None\<close>; the lemmas show that both end, inside the bounds of the data.
\<close>

partial_function (option) match_loop :: "string \<Rightarrow> string \<Rightarrow> nat \<Rightarrow> nat \<Rightarrow> bool option" where
  "match_loop data sep i j =
    (if j < length sep then
       if asciiFold (data ! (i + j)) \<noteq> asciiFold (sep ! j) then Some False
       else match_loop data sep i (j + 1)
     else Some True)"

partial_function (option) search_loop :: "string \<Rightarrow> string \<Rightarrow> nat \<Rightarrow> int option" where
  "search_loop data sep i =
    (if i \<le> length data - length sep then
       Option.bind (match_loop data sep i 0) (\<lambda>match.
         if match then Some (int i) else search_loop data sep (i + 1))
     else Some (- 1))"

definition indexFoldASCII_loops :: "string \<Rightarrow> string \<Rightarrow> int option" where
  "indexFoldASCII_loops data sep =
    (if length sep = 0 \<or> length data < length sep then Some (- 1) else search_loop data sep 0)"

text \<open>The separator stands at an index.\<close>

definition fold_at :: "string \<Rightarrow> string \<Rightarrow> nat \<Rightarrow> bool" where
  "fold_at data sep i \<longleftrightarrow> i + length sep \<le> length data \<and> (\<forall>j<length sep. asciiFold (data ! (i + j)) = asciiFold (sep ! j))"

lemma match_loop_returns:
  "match_loop data sep i j = Some (list_all (\<lambda>l. asciiFold (data ! (i + l)) = asciiFold (sep ! l)) [j..<length sep])"
proof (induction "length sep - j" arbitrary: j)
  case 0
  then show ?case by (subst match_loop.simps) simp
next
  case (Suc n)
  then have "j < length sep" "n = length sep - (j + 1)" by auto
  with Suc.hyps(1)[of "j + 1"] show ?case by (subst match_loop.simps) (simp add: upt_conv_Cons)
qed

lemma match_loop_fold_at:
  "i + length sep \<le> length data \<Longrightarrow> match_loop data sep i 0 = Some (fold_at data sep i)"
  by (simp add: match_loop_returns fold_at_def list_all_iff Ball_def)

lemma search_loop_returns:
  assumes "length sep \<le> length data"
  shows "search_loop data sep i = Some (case List.find (fold_at data sep) [i..<Suc (length data - length sep)] of
    None \<Rightarrow> - 1 | Some k \<Rightarrow> int k)"
proof (induction "Suc (length data - length sep) - i" arbitrary: i)
  case 0
  then show ?case by (subst search_loop.simps) simp
next
  case (Suc n)
  then have i: "i \<le> length data - length sep" "n = Suc (length data - length sep) - (i + 1)" by auto
  then have "i + length sep \<le> length data" using assms by simp
  note m = match_loop_fold_at[OF this]
  have u: "[i..<Suc (length data - length sep)] = i # [i + 1..<Suc (length data - length sep)]"
    using i(1) by (simp add: upt_conv_Cons del: upt_Suc)
  show ?case
    using Suc.hyps(1)[OF i(2)] i(1) by (subst search_loop.simps) (simp add: m u del: upt_Suc)
qed

lemma find_from_zero:
  "(case List.find P [0..<n] of None \<Rightarrow> \<forall>k<n. \<not> P k | Some k \<Rightarrow> k < n \<and> P k \<and> (\<forall>l<k. \<not> P l))"
  by (auto simp: find_None_iff find_Some_iff split: option.splits)

lemma fold_at_match: "i \<le> length data \<Longrightarrow> fold_match sep (drop i data) \<longleftrightarrow> fold_at data sep i"
  by (auto simp: fold_match_def fold_at_def list_all2_conv_all_nth)

lemma index_where_first:
  "case index_where p s of
     None \<Rightarrow> \<forall>k<length s. \<not> p (drop k s)
   | Some k \<Rightarrow> k < length s \<and> p (drop k s) \<and> (\<forall>l<k. \<not> p (drop l s))"
proof (induction s)
  case (Cons c s)
  then show ?case
    by (auto simp: less_Suc_eq_0_disj split: option.splits)
qed simp



end
