(* ===== verification/Sha256.thy ===== *)
theory Sha256
  imports Wallet_Prelude
begin

text \<open>
  \<^verbatim>\<open>crypto/sha256\<close> and \<^verbatim>\<open>encoding/hex\<close> of the standard library, as the
  service-key check (\<^verbatim>\<open>hashKey\<close>) and the idempotency fingerprint
  (\<^verbatim>\<open>bodyFingerprint\<close>) use them: FIPS 180-4 over 32-bit words.
\<close>

definition rotr :: "nat \<Rightarrow> 32 word \<Rightarrow> 32 word" where
  "rotr n w = drop_bit n w OR push_bit (32 - n) w"

text \<open>The constants: 32 bits after the point of the cube roots of the first 64 primes, and of the
  square roots of the first eight.\<close>

definition primes_below :: "int \<Rightarrow> int list" where
  "primes_below n = filter (\<lambda>p. list_all (\<lambda>d. p mod d \<noteq> 0) [2..p - 1]) [2..n - 1]"

text \<open>The integer part of a root, below 2 to the 36th, bit by bit.\<close>

definition int_root :: "nat \<Rightarrow> int \<Rightarrow> int" where
  "int_root k n = foldl (\<lambda>r b. if (r + b) ^ k \<le> n then r + b else r) 0 (map (\<lambda>i. 2 ^ i) (rev [0..<36]))"

definition root_fraction :: "nat \<Rightarrow> int \<Rightarrow> 32 word" where
  "root_fraction k p = word_of_int (int_root k (p * 2 ^ (32 * k)))"

definition sha_K :: "32 word list" where
  "sha_K = map (root_fraction 3) (primes_below 312)"

definition sha_H0 :: "32 word list" where
  "sha_H0 = map (root_fraction 2) (primes_below 20)"

text \<open>Padding: a one bit, zeros, and the length in bits as eight bytes.\<close>

fun be_bytes :: "nat \<Rightarrow> int \<Rightarrow> int list" where
  "be_bytes 0 n = []"
| "be_bytes (Suc k) n = be_bytes k (n div 256) @ [n mod 256]"

definition sha_pad :: "int list \<Rightarrow> int list" where
  "sha_pad m = m @ [128] @ replicate ((119 - length m mod 64) mod 64) 0 @ be_bytes 8 (8 * int (length m))"

fun be_words :: "int list \<Rightarrow> 32 word list" where
  "be_words (a # b # c # d # r) = word_of_int (((a * 256 + b) * 256 + c) * 256 + d) # be_words r"
| "be_words _ = []"

text \<open>The message schedule, newest word first.\<close>

fun schedule :: "nat \<Rightarrow> 32 word list \<Rightarrow> 32 word list" where
  "schedule 0 w = w"
| "schedule (Suc n) w =
    (let w15 = w ! 14; w2 = w ! 1;
         s0 = rotr 7 w15 XOR rotr 18 w15 XOR drop_bit 3 w15;
         s1 = rotr 17 w2 XOR rotr 19 w2 XOR drop_bit 10 w2
     in schedule n ((w ! 15 + s0 + w ! 6 + s1) # w))"

fun sha_round :: "32 word \<times> 32 word \<Rightarrow> 32 word list \<Rightarrow> 32 word list" where
  "sha_round (k, w) [a, b, c, d, e, f, g, h] =
    (let s1 = rotr 6 e XOR rotr 11 e XOR rotr 25 e;
         ch = (e AND f) XOR (NOT e AND g);
         t1 = h + s1 + ch + k + w;
         s0 = rotr 2 a XOR rotr 13 a XOR rotr 22 a;
         maj = (a AND b) XOR (a AND c) XOR (b AND c)
     in [t1 + (s0 + maj), a, b, c, d + t1, e, f, g])"
| "sha_round _ s = s"

definition sha_block :: "32 word list \<Rightarrow> 32 word list \<Rightarrow> 32 word list" where
  "sha_block block hs = map2 (+) hs (fold sha_round (zip sha_K (rev (schedule 48 (rev block)))) hs)"

function sha_blocks :: "32 word list \<Rightarrow> 32 word list \<Rightarrow> 32 word list" where
  "sha_blocks ws hs = (if ws = [] then hs else sha_blocks (drop 16 ws) (sha_block (take 16 ws) hs))"
  by pat_completeness auto
termination
  by (relation "measure (\<lambda>(ws, hs). length ws)") auto

declare sha_blocks.simps [simp del]

definition sha256 :: "string \<Rightarrow> int list" where
  "sha256 s = concat (map (\<lambda>w. be_bytes 4 (uint w)) (sha_blocks (be_words (sha_pad (map of_char s))) sha_H0))"

definition hex_digit :: "int \<Rightarrow> char" where
  "hex_digit n = char_of (if n < 10 then 48 + n else 87 + n)"

definition hex_encode :: "int list \<Rightarrow> string" where
  "hex_encode bs = concat (map (\<lambda>b. [hex_digit (b div 16), hex_digit (b mod 16)]) bs)"

section \<open>Lengths\<close>

lemma length_be_bytes [simp]: "length (be_bytes k n) = k"
  by (induction k arbitrary: n) auto

lemma length_sha_round [simp]: "length (sha_round p s) = length s"
  by (cases "(p, s)" rule: sha_round.cases) (auto simp: Let_def)

lemma length_fold_sha_round [simp]: "length (fold sha_round ps s) = length s"
  by (induction ps arbitrary: s) auto

lemma length_sha_H0: "length sha_H0 = 8"
  unfolding sha_H0_def length_map by code_simp

lemma length_sha_blocks: "length hs = 8 \<Longrightarrow> length (sha_blocks ws hs) = 8"
proof (induction ws hs rule: sha_blocks.induct)
  case (1 ws hs)
  then show ?case
    by (subst sha_blocks.simps) (auto simp: sha_block_def)
qed

lemma length_sha256 [simp]: "length (sha256 s) = 32"
proof -
  have "length (sha_blocks ws sha_H0) = 8" for ws
    by (rule length_sha_blocks) (simp add: length_sha_H0)
  then show ?thesis
    by (simp add: sha256_def length_concat comp_def sum_list_triv)
qed

lemma be_bytes_bound: "b \<in> set (be_bytes k n) \<Longrightarrow> 0 \<le> b \<and> b < 256"
  by (induction k arbitrary: n) auto

lemma sha256_bound: "b \<in> set (sha256 s) \<Longrightarrow> 0 \<le> b \<and> b < 256"
  by (auto simp: sha256_def dest: be_bytes_bound)

lemma hex_digit_inj: "0 \<le> a \<Longrightarrow> a < 16 \<Longrightarrow> 0 \<le> b \<Longrightarrow> b < 16 \<Longrightarrow> hex_digit a = hex_digit b \<longleftrightarrow> a = b"
  by (auto simp: hex_digit_def split: if_splits)

text \<open>Hexadecimal text loses nothing.\<close>

lemma hex_encode_inj:
  "\<forall>b\<in>set bs. 0 \<le> b \<and> b < 256 \<Longrightarrow> \<forall>c\<in>set cs. 0 \<le> c \<and> c < 256 \<Longrightarrow> hex_encode bs = hex_encode cs \<longleftrightarrow> bs = cs"
proof (induction bs arbitrary: cs)
  case Nil
  then show ?case by (cases cs) (auto simp: hex_encode_def)
next
  case (Cons b bs)
  show ?case
  proof (cases cs)
    case (Cons c ds)
    have "0 \<le> b div 16 \<and> b div 16 < 16" "0 \<le> c div 16 \<and> c div 16 < 16"
      "0 \<le> b mod 16 \<and> b mod 16 < 16" "0 \<le> c mod 16 \<and> c mod 16 < 16"
      using Cons.prems Cons by auto
    then have "hex_digit (b div 16) = hex_digit (c div 16) \<and> hex_digit (b mod 16) = hex_digit (c mod 16)
        \<longleftrightarrow> b = c"
      by (metis div_mult_mod_eq hex_digit_inj)
    then show ?thesis using Cons.IH[of ds] Cons.prems Cons by (auto simp: hex_encode_def)
  qed (simp add: hex_encode_def)
qed

end
