(* ===== verification/Redis.thy ===== *)
theory Redis
  imports Postgres
begin

text \<open>
  What the service uses of Redis: keys with a value and an expiry instant in nanoseconds of the
  server's clock, and the cache client \<^verbatim>\<open>pkg/cache/redisclient\<close>. A call may be refused or
  lose its reply, as a call to the database may. Values are kept as the value their JSON text
  encodes; the texts that are cached come from the database, so they are valid UTF-8.
\<close>

type_synonym 'v kv = "string \<Rightarrow> ('v \<times> int option) option"

definition kv_get :: "int \<Rightarrow> string \<Rightarrow> 'v kv \<Rightarrow> 'v option" where
  "kv_get now k m = (case m k of
      None \<Rightarrow> None
    | Some (v, None) \<Rightarrow> Some v
    | Some (v, Some e) \<Rightarrow> if now < e then Some v else None)"

text \<open>An expiration of zero means that the key does not expire.\<close>

definition expiry :: "int \<Rightarrow> int \<Rightarrow> int option" where
  "expiry now ttl = (if 0 < ttl then Some (now + ttl) else None)"

definition kv_set :: "int \<Rightarrow> int \<Rightarrow> string \<Rightarrow> 'v \<Rightarrow> 'v kv \<Rightarrow> 'v kv" where
  "kv_set now ttl k v m = m(k := Some (v, expiry now ttl))"

definition kv_del :: "string \<Rightarrow> 'v kv \<Rightarrow> 'v kv" where
  "kv_del k m = m(k := None)"

text \<open>A read and a write over the network.\<close>

definition redis_read :: "ext \<Rightarrow> string \<Rightarrow> 'a \<Rightarrow> 'a go_result" where
  "redis_read x site a = attempt x site 0 (Inr a)"

definition redis_write :: "ext \<Rightarrow> string \<Rightarrow> ('m \<Rightarrow> 'a \<times> 'm) \<Rightarrow> 'm \<Rightarrow> 'a go_result \<times> 'm" where
  "redis_write x site f m = (case x_fault x site 0 of
      Some (Refused e) \<Rightarrow> (Inl (LibError e), m)
    | Some (ReplyLost e) \<Rightarrow> (Inl (LibError e), snd (f m))
    | None \<Rightarrow> (Inr (fst (f m)), snd (f m)))"

section \<open>The cache client\<close>

text \<open>\<^verbatim>\<open>*RedisClient\<close>: a nil client is a no-op; otherwise the client holds its time to
  live.\<close>

type_synonym redis_client = "int option"

definition ErrCacheMiss :: go_error where
  "ErrCacheMiss = LibError ''cache miss''"

definition RedisClient_Get :: "ext \<Rightarrow> redis_client \<Rightarrow> int \<Rightarrow> string \<Rightarrow> 'v kv \<Rightarrow> 'v go_result" where
  "RedisClient_Get x r now key m =
    (case r of
       None \<Rightarrow> Inl ErrCacheMiss
     | Some ttl \<Rightarrow> bindE (redis_read x (''cache.Get/'' @ key) (kv_get now key m)) (\<lambda>val.
         case val of None \<Rightarrow> Inl ErrCacheMiss | Some v \<Rightarrow> Inr v))"

definition RedisClient_Set :: "ext \<Rightarrow> redis_client \<Rightarrow> int \<Rightarrow> string \<Rightarrow> 'v \<Rightarrow> 'v kv \<Rightarrow> unit go_result \<times> 'v kv" where
  "RedisClient_Set x r now key value m =
    (case r of
       None \<Rightarrow> (Inr (), m)
     | Some ttl \<Rightarrow> redis_write x (''cache.Set/'' @ key) (\<lambda>m. ((), kv_set now ttl key value m)) m)"

definition RedisClient_Delete :: "ext \<Rightarrow> redis_client \<Rightarrow> string \<Rightarrow> 'v kv \<Rightarrow> unit go_result \<times> 'v kv" where
  "RedisClient_Delete x r key m =
    (case r of
       None \<Rightarrow> (Inr (), m)
     | Some ttl \<Rightarrow> redis_write x (''cache.Del/'' @ key) (\<lambda>m. ((), kv_del key m)) m)"

definition RedisClient_WithTTL :: "redis_client \<Rightarrow> int \<Rightarrow> redis_client" where
  "RedisClient_WithTTL r ttl = map_option (\<lambda>_. ttl) r"

section \<open>Cache-aside\<close>

text \<open>
  The interface the cached reads rely on: a store whose entries are found only under the key they
  were written to. A cache is coherent with a source when every entry it serves for an identifier
  agrees with the source; writing what the source says keeps this, and so does changing the source
  for one identifier and deleting that identifier's key.
\<close>

locale cache_aside =
  fixes look :: "int \<Rightarrow> string \<Rightarrow> 'm \<Rightarrow> 'v option"
    and put :: "int \<Rightarrow> int \<Rightarrow> string \<Rightarrow> 'v \<Rightarrow> 'm \<Rightarrow> 'm"
    and del :: "string \<Rightarrow> 'm \<Rightarrow> 'm"
  assumes look_put: "look now k (put t ttl k v m) = Some w \<Longrightarrow> w = v"
    and look_put_other: "k \<noteq> l \<Longrightarrow> look now k (put t ttl l v m) = look now k m"
    and look_del: "look now k (del k m) = None"
    and look_del_other: "k \<noteq> l \<Longrightarrow> look now k (del l m) = look now k m"
begin

definition coherent :: "(string \<Rightarrow> string) \<Rightarrow> (string \<Rightarrow> 'v \<Rightarrow> bool) \<Rightarrow> 'm \<Rightarrow> bool" where
  "coherent key agree m \<longleftrightarrow> (\<forall>now i v. look now (key i) m = Some v \<longrightarrow> agree i v)"

lemma coherent_look: "coherent key agree m \<Longrightarrow> look now (key i) m = Some v \<Longrightarrow> agree i v"
  by (auto simp: coherent_def)

lemma coherent_put:
  "coherent key agree m \<Longrightarrow> inj key \<Longrightarrow> agree i v \<Longrightarrow> coherent key agree (put now ttl (key i) v m)"
  unfolding coherent_def by (metis injD look_put look_put_other)

lemma coherent_del: "coherent key agree m \<Longrightarrow> coherent key agree (del k m)"
  unfolding coherent_def by (metis look_del look_del_other option.distinct(1))

lemma coherent_change:
  assumes "coherent key agree m" "inj key"
    "\<And>j v. j \<noteq> i \<Longrightarrow> agree j v \<Longrightarrow> agree' j v"
  shows "coherent key agree' (del (key i) m)"
  using assms unfolding coherent_def by (metis injD look_del look_del_other option.distinct(1))

lemma coherent_mono:
  "coherent key agree m \<Longrightarrow> (\<And>i v. agree i v \<Longrightarrow> agree' i v) \<Longrightarrow> coherent key agree' m"
  by (auto simp: coherent_def)

end

interpretation redis_kv: cache_aside kv_get kv_set kv_del
  by unfold_locales (auto simp: kv_get_def kv_set_def kv_del_def split: option.splits if_splits)

lemma inj_prefix: "inj (\<lambda>i. p @ i :: string)"
  by (simp add: inj_def)

lemma Get_cases:
  "RedisClient_Get x r now key m = Inr v \<longleftrightarrow> r \<noteq> None \<and> x_fault x (''cache.Get/'' @ key) 0 = None \<and> kv_get now key m = Some v"
  by (auto simp: RedisClient_Get_def redis_read_def split: option.splits)

lemma Set_outcome:
  "snd (RedisClient_Set x r now key v m) = m \<or> (\<exists>ttl. snd (RedisClient_Set x r now key v m) = kv_set now ttl key v m)"
  by (auto simp: RedisClient_Set_def redis_write_def split: option.splits fault.splits)

lemma Delete_outcome:
  "snd (RedisClient_Delete x r key m) = m \<or> snd (RedisClient_Delete x r key m) = kv_del key m"
  by (auto simp: RedisClient_Delete_def redis_write_def split: option.splits fault.splits)

lemma Delete_done: "x_fault x (''cache.Del/'' @ key) 0 = None \<Longrightarrow> r \<noteq> None \<Longrightarrow> RedisClient_Delete x r key m = (Inr (), kv_del key m)"
  by (auto simp: RedisClient_Delete_def redis_write_def)

end
