(* ===== verification/Web_Types.thy ===== *)
theory Web_Types
  imports Http_Errors Sha256 Redis
begin

text \<open>
  Requests, responses and the context of one request, as the handlers and middlewares see them
  through \<^verbatim>\<open>gin\<close>: the matched route, its parameters, headers and body, and the values
  earlier middlewares stored in the context. What \<^verbatim>\<open>gin\<close> and the network decide (the
  client's address, whether the body can be read) is part of the request. A response carries the
  value whose JSON text is written (\<^verbatim>\<open>pkg/httputil\<close>); \<^verbatim>\<open>'d\<close> are the data of
  successful answers.
\<close>

datatype 'd payload = NoBody | ErrorBody string | DataBody 'd

record 'd response =
  p_Status :: nat
  p_Headers :: "(string \<times> string) list"
  p_Body :: "'d payload"

record http_request =
  q_Method :: string
  q_FullPath :: string
  q_Header :: "string \<Rightarrow> string"
  q_Param :: "string \<Rightarrow> string"
  q_Query :: string
  q_Body :: "string option"
  q_ClientIP :: string

record gin_ctx =
  k_UserID :: "string option"
  k_ServiceKey :: "string option"
  k_Permissions :: "string list option"
  k_Roles :: "string list option"

definition empty_ctx :: gin_ctx where
  "empty_ctx = \<lparr> k_UserID = None, k_ServiceKey = None, k_Permissions = None, k_Roles = None \<rparr>"

definition SendError :: "nat \<Rightarrow> string \<Rightarrow> 'd response" where
  "SendError status message = \<lparr> p_Status = status, p_Headers = [], p_Body = ErrorBody message \<rparr>"

definition SendSuccess :: "nat \<Rightarrow> 'd \<Rightarrow> 'd response" where
  "SendSuccess status d = \<lparr> p_Status = status, p_Headers = [], p_Body = DataBody d \<rparr>"

definition SendStatus :: "nat \<Rightarrow> 'd response" where
  "SendStatus status = \<lparr> p_Status = status, p_Headers = [], p_Body = NoBody \<rparr>"

definition sendHandledError :: "go_error \<Rightarrow> 'd response" where
  "sendHandledError e = (case HandleError e of (status, message) \<Rightarrow> SendError status message)"

text \<open>A panic unwinds the chain without an answer, up to \<^verbatim>\<open>gin.Recovery\<close>; until
  then its response has status 0.\<close>

definition panicked :: "'d response" where
  "panicked = \<lparr> p_Status = 0, p_Headers = [], p_Body = NoBody \<rparr>"

definition recovered :: "'d response \<Rightarrow> 'd response" where
  "recovered r = (if p_Status r = 0 then r\<lparr>p_Status := 500\<rparr> else r)"

text \<open>\<^verbatim>\<open>c.Header\<close> before the rest of the chain: a later value for the same name
  replaces the earlier one.\<close>

definition add_headers :: "(string \<times> string) list \<Rightarrow> 'd response \<Rightarrow> 'd response" where
  "add_headers hs r = r\<lparr>p_Headers := filter (\<lambda>h. fst h \<notin> fst ` set (p_Headers r)) hs @ p_Headers r\<rparr>"

text \<open>A middleware runs the rest of the chain (\<^verbatim>\<open>c.Next\<close>) or answers and aborts.\<close>

type_synonym ('w, 'd) handler = "gin_ctx \<Rightarrow> 'w \<Rightarrow> 'd response \<times> 'w"
type_synonym ('w, 'd) middleware = "('w, 'd) handler \<Rightarrow> ('w, 'd) handler"

lemma status_simps [simp]:
  "p_Status (SendError s m) = s" "p_Status (SendSuccess s d) = s" "p_Status (SendStatus s) = s"
  by (simp_all add: SendError_def SendSuccess_def SendStatus_def)

lemma body_simps [simp]:
  "p_Body (SendError s m) = ErrorBody m" "p_Body (SendSuccess s d) = DataBody d" "p_Body (SendStatus s) = NoBody"
  "p_Body panicked = NoBody"
  by (simp_all add: SendError_def SendSuccess_def SendStatus_def panicked_def)

lemma add_headers_simps [simp]:
  "p_Status (add_headers hs r) = p_Status r" "p_Body (add_headers hs r) = p_Body r"
  by (simp_all add: add_headers_def)

end
