(* ===== verification/Idempotency.thy ===== *)
theory Idempotency
  imports Web_Types
begin

text \<open>
  Idempotent POST requests: the store \<^verbatim>\<open>pkg/idempotency/redisstore\<close> and the
  middleware \<^verbatim>\<open>internal/infrastructure/web/middleware/idempotency.go\<close>, split where it
  runs the rest of the chain: \<^verbatim>\<open>idem_begin\<close> decides, \<^verbatim>\<open>idem_finish\<close>
  keeps or releases. Between the two other requests run, so the middleware is also a step
  relation over requests in flight, and that relation refines a specification in which a key is
  fresh, busy or done.
\<close>

section \<open>The store\<close>

record 'd idem_entry =
  ie_Status :: string
  ie_StatusCode :: nat
  ie_Body :: "'d payload"
  ie_Fingerprint :: string

definition StatusProcessing :: string where "StatusProcessing = ''PROCESSING''"
definition StatusCompleted :: string where "StatusCompleted = ''COMPLETED''"

record idem_store =
  st_ttl :: int
  st_lockTTL :: int

definition Idem_Lock :: "ext \<Rightarrow> idem_store \<Rightarrow> int \<Rightarrow> string \<Rightarrow> string \<Rightarrow> 'd idem_entry kv \<Rightarrow> bool go_result \<times> 'd idem_entry kv" where
  "Idem_Lock x st now key fingerprint m =
    redis_write x (''idempotency.Lock/'' @ key)
      (\<lambda>m. case kv_get now key m of
         None \<Rightarrow> (True, kv_set now (st_lockTTL st) key
             \<lparr> ie_Status = StatusProcessing, ie_StatusCode = 0, ie_Body = NoBody, ie_Fingerprint = fingerprint \<rparr> m)
       | Some _ \<Rightarrow> (False, m)) m"

definition Idem_Get :: "ext \<Rightarrow> int \<Rightarrow> string \<Rightarrow> 'd idem_entry kv \<Rightarrow> 'd idem_entry option go_result" where
  "Idem_Get x now key m = redis_read x (''idempotency.Get/'' @ key) (kv_get now key m)"

definition Idem_Complete :: "ext \<Rightarrow> idem_store \<Rightarrow> int \<Rightarrow> string \<Rightarrow> 'd idem_entry \<Rightarrow> 'd idem_entry kv \<Rightarrow> unit go_result \<times> 'd idem_entry kv" where
  "Idem_Complete x st now key entry m =
    redis_write x (''idempotency.Complete/'' @ key)
      (\<lambda>m. ((), kv_set now (st_ttl st) key (entry\<lparr>ie_Status := StatusCompleted\<rparr>) m)) m"

definition Idem_Unlock :: "ext \<Rightarrow> string \<Rightarrow> 'd idem_entry kv \<Rightarrow> unit go_result \<times> 'd idem_entry kv" where
  "Idem_Unlock x key m = redis_write x (''idempotency.Unlock/'' @ key) (\<lambda>m. ((), kv_del key m)) m"

section \<open>The middleware\<close>

definition IdempotencyKeyHeader :: string where "IdempotencyKeyHeader = ''Idempotency-Key''"
definition idempotencyKeyPrefix :: string where "idempotencyKeyPrefix = ''idempotency:''"

definition buildIdempotencyKey :: "string \<Rightarrow> string \<Rightarrow> string" where
  "buildIdempotencyKey serviceName key =
    (if serviceName \<noteq> [] then idempotencyKeyPrefix @ serviceName @ '':'' @ key else idempotencyKeyPrefix @ key)"

definition shouldStoreResponse :: "nat \<Rightarrow> bool" where
  "shouldStoreResponse statusCode \<longleftrightarrow> 200 \<le> statusCode \<and> statusCode < 500"

definition bodyFingerprint :: "string \<Rightarrow> string" where
  "bodyFingerprint body = hex_encode (sha256 body)"

datatype 'd idem_decision = IdemPass | IdemCapture string string | IdemAnswer "'d response"

definition idem_replay :: "'d idem_entry \<Rightarrow> 'd response" where
  "idem_replay entry =
    \<lparr> p_Status = ie_StatusCode entry, p_Headers = [(''Content-Type'', ''application/json; charset=utf-8'')],
      p_Body = ie_Body entry \<rparr>"

text \<open>The answer to a request whose key is taken.\<close>

definition idem_taken :: "string \<Rightarrow> 'd idem_entry \<Rightarrow> 'd response" where
  "idem_taken fingerprint entry =
    (if ie_Status entry = StatusProcessing
     then SendError 409 ''A request with this Idempotency-Key is already being processed''
     else if ie_Fingerprint entry \<noteq> [] \<and> fingerprint \<noteq> ie_Fingerprint entry
     then SendError 422 ''Idempotency-Key already used with a different request body''
     else idem_replay entry)"

definition idem_begin :: "ext \<Rightarrow> idem_store \<Rightarrow> int \<Rightarrow> http_request \<Rightarrow> 'd idem_entry kv \<Rightarrow> 'd idem_decision \<times> 'd idem_entry kv" where
  "idem_begin x st now q m =
    (if q_Method q \<noteq> ''POST'' then (IdemPass, m)
     else if q_Header q IdempotencyKeyHeader = [] then (IdemPass, m)
     else case q_Body q of
       None \<Rightarrow> (IdemPass, m)
     | Some reqBody \<Rightarrow>
         let fingerprint = bodyFingerprint reqBody;
             fullKey = buildIdempotencyKey (q_Header q ''Service-Name'') (q_Header q IdempotencyKeyHeader)
         in (case Idem_Lock x st now fullKey fingerprint m of
              (Inl e, m) \<Rightarrow> (IdemPass, m)
            | (Inr True, m) \<Rightarrow> (IdemCapture fullKey fingerprint, m)
            | (Inr False, m) \<Rightarrow> (case Idem_Get x now fullKey m of
                Inl e \<Rightarrow> (IdemPass, m)
              | Inr None \<Rightarrow> (IdemPass, m)
              | Inr (Some entry) \<Rightarrow> (IdemAnswer (idem_taken fingerprint entry), m))))"

definition idem_finish :: "ext \<Rightarrow> idem_store \<Rightarrow> int \<Rightarrow> string \<Rightarrow> string \<Rightarrow> 'd response \<Rightarrow> 'd idem_entry kv \<Rightarrow> 'd idem_entry kv" where
  "idem_finish x st now fullKey fingerprint r m =
    (if shouldStoreResponse (p_Status r)
     then snd (Idem_Complete x st now fullKey
       \<lparr> ie_Status = [], ie_StatusCode = p_Status r, ie_Body = p_Body r, ie_Fingerprint = fingerprint \<rparr> m)
     else snd (Idem_Unlock x fullKey m))"

text \<open>\<^verbatim>\<open>RequireIdempotencyKey\<close>: without a store the middleware is a no-op.\<close>

definition require_key :: "idem_store option \<Rightarrow> http_request \<Rightarrow> 'd response option" where
  "require_key store q =
    (case store of
       None \<Rightarrow> None
     | Some _ \<Rightarrow> if q_Header q IdempotencyKeyHeader = []
                then Some (SendError 400 ''Idempotency-Key header is required for this endpoint'') else None)"

section \<open>Requests in flight\<close>

record 'd idem_state =
  i_store :: "'d idem_entry kv"
  i_now :: int
  i_running :: "nat \<Rightarrow> (string \<times> string) option"

datatype 'd idem_label =
    Passed
  | Started string
  | Answered string "'d response"
  | Finished string "'d response"
  | Waited

definition req_key :: "http_request \<Rightarrow> string" where
  "req_key q = buildIdempotencyKey (q_Header q ''Service-Name'') (q_Header q IdempotencyKeyHeader)"

text \<open>Time passes only while no entry expires: handlers answer within the lock's time to live, and
  the run is observed within the retention of completed entries.\<close>

definition alive_until :: "int \<Rightarrow> 'd idem_entry kv \<Rightarrow> bool" where
  "alive_until t m \<longleftrightarrow> (\<forall>k v e. m k = Some (v, Some e) \<longrightarrow> t < e)"

inductive idem_step :: "ext \<Rightarrow> idem_store \<Rightarrow> 'd idem_state \<Rightarrow> 'd idem_label \<Rightarrow> 'd idem_state \<Rightarrow> bool"
  for x st where
  Pass: "idem_begin x st (i_now s) q (i_store s) = (IdemPass, m) \<Longrightarrow>
    idem_step x st s Passed (s\<lparr>i_store := m\<rparr>)"
| Start: "idem_begin x st (i_now s) q (i_store s) = (IdemCapture k fp, m) \<Longrightarrow> i_running s rid = None \<Longrightarrow>
    idem_step x st s (Started k) (s\<lparr>i_store := m, i_running := (i_running s)(rid \<mapsto> (k, fp))\<rparr>)"
| Answer: "idem_begin x st (i_now s) q (i_store s) = (IdemAnswer r, m) \<Longrightarrow>
    idem_step x st s (Answered (req_key q) r) (s\<lparr>i_store := m\<rparr>)"
| Finish: "i_running s rid = Some (k, fp) \<Longrightarrow>
    idem_step x st s (Finished k r)
      (s\<lparr>i_store := idem_finish x st (i_now s) k fp r (i_store s), i_running := (i_running s)(rid := None)\<rparr>)"
| Wait: "i_now s \<le> t \<Longrightarrow> alive_until t (i_store s) \<Longrightarrow> idem_step x st s Waited (s\<lparr>i_now := t\<rparr>)"

inductive idem_run :: "ext \<Rightarrow> idem_store \<Rightarrow> 'd idem_state \<Rightarrow> 'd idem_label list \<Rightarrow> 'd idem_state \<Rightarrow> bool"
  for x st where
  Nil: "idem_run x st s [] s"
| Snoc: "idem_run x st s ls t \<Longrightarrow> idem_step x st t l u \<Longrightarrow> idem_run x st s (ls @ [l]) u"

definition idem_initial :: "int \<Rightarrow> 'd idem_state" where
  "idem_initial now = \<lparr> i_store = (\<lambda>k. None), i_now = now, i_running = (\<lambda>r. None) \<rparr>"

section \<open>The specification\<close>

text \<open>A key is fresh, busy with one request, or done with a response. Executing is allowed from
  fresh only; a response below 500 is final.\<close>

datatype 'd key_state = Fresh | Busy | Done nat "'d payload"

type_synonym 'd idem_spec = "string \<Rightarrow> 'd key_state"

inductive spec_step :: "'d idem_spec \<Rightarrow> 'd idem_label \<Rightarrow> 'd idem_spec \<Rightarrow> bool" where
  SPass: "spec_step a Passed a"
| SStart: "a k = Fresh \<Longrightarrow> spec_step a (Started k) (a(k := Busy))"
| SBusy: "a k = Busy \<Longrightarrow> p_Status r = 409 \<Longrightarrow> spec_step a (Answered k r) a"
| SMismatch: "a k = Done c b \<Longrightarrow> p_Status r = 422 \<Longrightarrow> spec_step a (Answered k r) a"
| SReplay: "a k = Done c b \<Longrightarrow> p_Status r = c \<Longrightarrow> p_Body r = b \<Longrightarrow> spec_step a (Answered k r) a"
| SFinal: "a k = Busy \<Longrightarrow> shouldStoreResponse (p_Status r) \<Longrightarrow>
    spec_step a (Finished k r) (a(k := Done (p_Status r) (p_Body r)))"
| SRetry: "a k = Busy \<Longrightarrow> \<not> shouldStoreResponse (p_Status r) \<Longrightarrow> spec_step a (Finished k r) (a(k := Fresh))"
| SWait: "spec_step a Waited a"

inductive spec_run :: "'d idem_spec \<Rightarrow> 'd idem_label list \<Rightarrow> 'd idem_spec \<Rightarrow> bool" where
  SNil: "spec_run a [] a"
| SSnoc: "spec_run a ls b \<Longrightarrow> spec_step b l c \<Longrightarrow> spec_run a (ls @ [l]) c"

inductive_cases spec_FinishedE: "spec_step a (Finished k r) b"
inductive_cases spec_StartedE: "spec_step a (Started k) b"
inductive_simps spec_Passed: "spec_step a Passed b"

text \<open>The abstraction: what the store shows at the instant of the state.\<close>

definition key_abs :: "'d idem_entry option \<Rightarrow> 'd key_state" where
  "key_abs e = (case e of
      None \<Rightarrow> Fresh
    | Some e \<Rightarrow> if ie_Status e = StatusProcessing then Busy else Done (ie_StatusCode e) (ie_Body e))"

definition idem_abs :: "'d idem_state \<Rightarrow> 'd idem_spec" where
  "idem_abs s = (\<lambda>k. key_abs (kv_get (i_now s) k (i_store s)))"

end
