(* ===== verification/Idempotency_Properties.thy ===== *)
theory Idempotency_Properties
  imports Idempotency Wallet_Demo
begin

text \<open>
  The idempotency middleware: its runs refine the specification, so a key yields one final
  response; what the key covers; the answers that are kept.
\<close>

definition faultless :: "ext \<Rightarrow> bool" where
  "faultless x \<longleftrightarrow> (\<forall>site n. x_fault x site n = None)"

lemma faultless_demo [simp]: "faultless (demo_ext p)"
  by (simp add: faultless_def demo_ext_def)

lemma redis_write_ok [simp]: "faultless x \<Longrightarrow> redis_write x site f m = (Inr (fst (f m)), snd (f m))"
  by (simp add: redis_write_def faultless_def)

lemma redis_read_ok [simp]: "faultless x \<Longrightarrow> redis_read x site a = Inr a"
  by (simp add: redis_read_def attempt_def faultless_def)

lemma alive_get: "alive_until now m \<Longrightarrow> kv_get now k m = map_option fst (m k)"
  by (auto simp: alive_until_def kv_get_def split: option.splits)

lemma alive_set: "alive_until now m \<Longrightarrow> alive_until now (kv_set now ttl k v m)"
  by (auto simp: alive_until_def kv_set_def expiry_def split: if_splits)

lemma alive_del: "alive_until now m \<Longrightarrow> alive_until now (kv_del k m)"
  by (auto simp: alive_until_def kv_del_def)

text \<open>Invariant: nothing in the store has expired, and the requests in flight hold the locks of
  different keys.\<close>

definition idem_inv :: "'d idem_state \<Rightarrow> bool" where
  "idem_inv s \<longleftrightarrow> alive_until (i_now s) (i_store s) \<and>
    (\<forall>r k fp. i_running s r = Some (k, fp) \<longrightarrow> idem_abs s k = Busy) \<and>
    (\<forall>r r' k fp fp'. i_running s r = Some (k, fp) \<longrightarrow> i_running s r' = Some (k, fp') \<longrightarrow> r = r')"

lemma idem_inv_initial: "idem_inv (idem_initial now)"
  by (simp add: idem_inv_def idem_initial_def alive_until_def)

lemma abs_initial: "idem_abs (idem_initial now) = (\<lambda>k. Fresh)"
  by (simp add: idem_abs_def idem_initial_def kv_get_def key_abs_def)

lemma abs_update:
  assumes "alive_until (i_now s) m"
  shows "idem_abs (s\<lparr>i_store := m, i_running := f\<rparr>) = (\<lambda>k. key_abs (map_option fst (m k)))"
  using assms by (simp add: idem_abs_def alive_get)

lemma abs_alive:
  assumes "alive_until (i_now s) (i_store s)"
  shows "idem_abs s = (\<lambda>k. key_abs (map_option fst (i_store s k)))"
  using assms by (simp add: idem_abs_def alive_get)

lemma abs_wait:
  assumes "alive_until (i_now s) (i_store s)" "alive_until t (i_store s)"
  shows "idem_abs (s\<lparr>i_now := t\<rparr>) = idem_abs s"
  using assms by (simp add: idem_abs_def alive_get)

lemma begin_cases:
  assumes "faultless x" "idem_begin x st now q m = (d, m')"
  shows "d = IdemPass \<and> m' = m \<or>
    kv_get now (req_key q) m = None \<and> (\<exists>fp. d = IdemCapture (req_key q) fp \<and>
      m' = kv_set now (st_lockTTL st) (req_key q)
        \<lparr> ie_Status = StatusProcessing, ie_StatusCode = 0, ie_Body = NoBody, ie_Fingerprint = fp \<rparr> m) \<or>
    (\<exists>e fp. kv_get now (req_key q) m = Some e \<and> d = IdemAnswer (idem_taken fp e) \<and> m' = m)"
  using assms
  by (auto simp: idem_begin_def Idem_Lock_def Idem_Get_def Let_def req_key_def split: if_splits option.splits)

lemma finish_ok:
  assumes "faultless x"
  shows "idem_finish x st now k fp r m =
    (if shouldStoreResponse (p_Status r)
     then kv_set now (st_ttl st) k
       \<lparr> ie_Status = StatusCompleted, ie_StatusCode = p_Status r, ie_Body = p_Body r, ie_Fingerprint = fp \<rparr> m
     else kv_del k m)"
  using assms by (simp add: idem_finish_def Idem_Complete_def Idem_Unlock_def)

lemma taken_spec: "key_abs (Some e) = a k \<Longrightarrow> spec_step a (Answered k (idem_taken fp e)) a"
  using spec_step.SBusy[of a k] spec_step.SMismatch[of a k] spec_step.SReplay[of a k]
  by (auto simp: key_abs_def idem_taken_def idem_replay_def split: if_splits dest: sym)

lemma start_simulated:
  assumes "faultless x" "idem_inv s" "i_running s rid = None"
    "idem_begin x st (i_now s) q (i_store s) = (IdemCapture k fp, m)"
  shows "idem_inv (s\<lparr>i_store := m, i_running := (i_running s)(rid \<mapsto> (k, fp))\<rparr>) \<and>
    spec_step (idem_abs s) (Started k) (idem_abs (s\<lparr>i_store := m, i_running := (i_running s)(rid \<mapsto> (k, fp))\<rparr>))"
proof -
  have al: "alive_until (i_now s) (i_store s)" using assms(2) by (simp add: idem_inv_def)
  obtain e where m: "k = req_key q" "kv_get (i_now s) k (i_store s) = None"
    "m = kv_set (i_now s) (st_lockTTL st) k e (i_store s)" "ie_Status e = StatusProcessing"
    using begin_cases[OF assms(1,4)] by auto
  let ?t = "s\<lparr>i_store := m, i_running := (i_running s)(rid \<mapsto> (k, fp))\<rparr>"
  have am: "alive_until (i_now s) m" unfolding m(3) by (rule alive_set[OF al])
  have fresh: "idem_abs s k = Fresh" using m(2) by (simp add: idem_abs_def key_abs_def)
  have abs: "idem_abs ?t = (idem_abs s)(k := Busy)"
    unfolding abs_update[OF am] abs_alive[OF al]
    unfolding m(3) using m(4) by (auto simp: kv_set_def key_abs_def)
  have "spec_step (idem_abs s) (Started k) (idem_abs ?t)"
    unfolding abs by (rule spec_step.SStart[of "idem_abs s" k, OF fresh])
  moreover have "idem_inv ?t"
    using assms(2) fresh am unfolding idem_inv_def abs by (fastforce split: if_splits)
  ultimately show ?thesis by blast
qed

lemma finish_simulated:
  assumes "faultless x" "idem_inv s" "i_running s rid = Some (k, fp)"
  shows "idem_inv (s\<lparr>i_store := idem_finish x st (i_now s) k fp r (i_store s), i_running := (i_running s)(rid := None)\<rparr>) \<and>
    spec_step (idem_abs s) (Finished k r)
      (idem_abs (s\<lparr>i_store := idem_finish x st (i_now s) k fp r (i_store s), i_running := (i_running s)(rid := None)\<rparr>))"
proof -
  let ?m = "idem_finish x st (i_now s) k fp r (i_store s)"
  let ?t = "s\<lparr>i_store := ?m, i_running := (i_running s)(rid := None)\<rparr>"
  have al: "alive_until (i_now s) (i_store s)" and busy: "idem_abs s k = Busy"
    using assms(2,3) by (auto simp: idem_inv_def)
  have am: "alive_until (i_now s) ?m" unfolding finish_ok[OF assms(1)] by (simp add: alive_set alive_del al)
  have abs: "idem_abs ?t = (idem_abs s)(k := if shouldStoreResponse (p_Status r) then Done (p_Status r) (p_Body r) else Fresh)"
    unfolding abs_update[OF am] abs_alive[OF al]
    unfolding finish_ok[OF assms(1)]
    by (auto simp: kv_set_def kv_del_def key_abs_def StatusCompleted_def StatusProcessing_def)
  have "spec_step (idem_abs s) (Finished k r) (idem_abs ?t)"
    unfolding abs using spec_step.SFinal[of "idem_abs s" k, OF busy] spec_step.SRetry[of "idem_abs s" k, OF busy] by simp
  moreover have "idem_inv ?t"
    using assms(2,3) am unfolding idem_inv_def abs by (auto split: if_splits)
  ultimately show ?thesis by blast
qed

lemma step_simulated:
  assumes "idem_step x st s l t" "faultless x" "idem_inv s"
  shows "idem_inv t \<and> spec_step (idem_abs s) l (idem_abs t)"
  using assms
proof (induction rule: idem_step.induct)
  case (Pass s q m)
  then have "m = i_store s" using begin_cases[OF Pass.prems(1) Pass.hyps] by auto
  then show ?case using Pass.prems by (simp add: spec_step.SPass)
next
  case (Start s q k fp m rid)
  then show ?case using start_simulated[OF Start.prems(1,2) Start.hyps(2,1)] by simp
next
  case (Answer s q r m)
  obtain e fp where e: "kv_get (i_now s) (req_key q) (i_store s) = Some e" "r = idem_taken fp e" "m = i_store s"
    using begin_cases[OF Answer.prems(1) Answer.hyps] by auto
  have "spec_step (idem_abs s) (Answered (req_key q) r) (idem_abs s)"
    unfolding e(2) by (rule taken_spec) (simp add: idem_abs_def e(1))
  then show ?case using Answer.prems e(3) by simp
next
  case (Finish s rid k fp r)
  then show ?case using finish_simulated[OF Finish.prems Finish.hyps] by simp
next
  case (Wait s t)
  then have al: "alive_until (i_now s) (i_store s)" by (simp add: idem_inv_def)
  show ?case
    using Wait abs_wait[OF al Wait.hyps(2)] by (simp add: spec_step.SWait idem_inv_def)
qed

lemma run_simulated:
  "idem_run x st s0 ls s \<Longrightarrow> faultless x \<Longrightarrow> idem_inv s0 \<Longrightarrow>
    idem_inv s \<and> spec_run (idem_abs s0) ls (idem_abs s)"
proof (induction rule: idem_run.induct)
  case (Snoc s ls t l u)
  then show ?case using step_simulated[OF Snoc.hyps(2)] by (blast intro: spec_run.SSnoc)
qed (simp add: spec_run.SNil)


text \<open>A run of three requests with one key: the first executes and answers 201, the second is
  turned away meanwhile, the third gets the kept answer.\<close>

definition demo_post :: http_request where
  "demo_post = \<lparr> q_Method = ''POST'', q_FullPath = ''/tags'',
     q_Header = (\<lambda>h. if h = ''Idempotency-Key'' then ''k1'' else []), q_Param = (\<lambda>p. []),
     q_Query = [], q_Body = Some ''{}'', q_ClientIP = ''10.0.0.1'' \<rparr>"

definition demo_store :: idem_store where
  "demo_store = \<lparr> st_ttl = 0, st_lockTTL = 30000000000 \<rparr>"

definition demo_entry :: "string \<Rightarrow> nat \<Rightarrow> string payload \<Rightarrow> string idem_entry" where
  "demo_entry status code body = \<lparr> ie_Status = status, ie_StatusCode = code, ie_Body = body,
     ie_Fingerprint = bodyFingerprint ''{}'' \<rparr>"

definition demo_created :: "string response" where
  "demo_created = SendSuccess 201 ''t1''"

lemma demo_key: "req_key demo_post = ''idempotency:k1''"
  by (simp add: req_key_def demo_post_def buildIdempotencyKey_def IdempotencyKeyHeader_def idempotencyKeyPrefix_def)

lemma demo_begin:
  "idem_begin (demo_ext p) demo_store now demo_post m =
    (case kv_get now ''idempotency:k1'' m of
       None \<Rightarrow> (IdemCapture ''idempotency:k1'' (bodyFingerprint ''{}''),
         kv_set now 30000000000 ''idempotency:k1'' (demo_entry StatusProcessing 0 NoBody) m)
     | Some e \<Rightarrow> (IdemAnswer (idem_taken (bodyFingerprint ''{}'') e), m))"
  using demo_key
  by (auto simp: idem_begin_def req_key_def demo_post_def demo_store_def demo_entry_def IdempotencyKeyHeader_def
      Idem_Lock_def Idem_Get_def Let_def split: option.splits)

lemma demo_finish:
  "idem_finish (demo_ext p) demo_store now ''idempotency:k1'' (bodyFingerprint ''{}'') demo_created m =
    kv_set now 0 ''idempotency:k1'' (demo_entry StatusCompleted 201 (DataBody ''t1'')) m"
  by (simp add: finish_ok demo_created_def SendSuccess_def shouldStoreResponse_def demo_store_def demo_entry_def)

lemma answer_step:
  "idem_begin x st (i_now s) q (i_store s) = (IdemAnswer r, i_store s) \<Longrightarrow> req_key q = k \<Longrightarrow>
    idem_step x st s (Answered k r) s"
  using idem_step.Answer[of x st s q r "i_store s"] by simp

definition demo_labels :: "string idem_label list" where
  "demo_labels = [Started ''idempotency:k1'',
     Answered ''idempotency:k1'' (idem_taken [] (demo_entry StatusProcessing 0 NoBody)),
     Finished ''idempotency:k1'' demo_created,
     Answered ''idempotency:k1'' (idem_replay (demo_entry StatusCompleted 201 (DataBody ''t1'')))]"

lemma demo_idem_run: "\<exists>s. idem_run (demo_ext p) demo_store (idem_initial 0) demo_labels s"
proof -
  let ?x = "demo_ext p" and ?k = "''idempotency:k1''" and ?fp = "bodyFingerprint ''{}''"
  let ?s0 = "idem_initial 0 :: string idem_state"
  let ?m1 = "kv_set 0 30000000000 ?k (demo_entry StatusProcessing 0 NoBody) (i_store ?s0)"
  let ?s1 = "?s0\<lparr>i_store := ?m1, i_running := (i_running ?s0)(0 \<mapsto> (?k, ?fp))\<rparr>"
  let ?m2 = "kv_set 0 0 ?k (demo_entry StatusCompleted 201 (DataBody ''t1'')) ?m1"
  let ?s2 = "?s1\<lparr>i_store := ?m2, i_running := (i_running ?s1)(0 := None)\<rparr>"
  have st1: "idem_step ?x demo_store ?s0 (Started ?k) ?s1"
    by (rule idem_step.Start[where q = demo_post])
      (simp_all add: demo_begin idem_initial_def kv_get_def)
  have taken: "idem_taken ?fp (demo_entry StatusProcessing 0 NoBody) = idem_taken [] (demo_entry StatusProcessing 0 NoBody)"
    by (simp add: idem_taken_def demo_entry_def)
  have st2: "idem_step ?x demo_store ?s1 (Answered ?k (idem_taken [] (demo_entry StatusProcessing 0 NoBody))) ?s1"
    by (rule answer_step[OF _ demo_key]) (simp add: demo_begin idem_initial_def taken kv_get_def kv_set_def expiry_def)
  have "idem_step ?x demo_store ?s1 (Finished ?k demo_created)
      (?s1\<lparr>i_store := idem_finish ?x demo_store (i_now ?s1) ?k ?fp demo_created (i_store ?s1),
           i_running := (i_running ?s1)(0 := None)\<rparr>)"
    by (rule idem_step.Finish) simp
  then have st3: "idem_step ?x demo_store ?s1 (Finished ?k demo_created) ?s2"
    by (simp add: demo_finish idem_initial_def)
  have kept: "idem_taken ?fp (demo_entry StatusCompleted 201 (DataBody ''t1'')) =
      idem_replay (demo_entry StatusCompleted 201 (DataBody ''t1''))"
    by (simp add: idem_taken_def demo_entry_def StatusProcessing_def StatusCompleted_def)
  have st4: "idem_step ?x demo_store ?s2 (Answered ?k (idem_replay (demo_entry StatusCompleted 201 (DataBody ''t1'')))) ?s2"
    by (rule answer_step[OF _ demo_key]) (simp add: demo_begin idem_initial_def kept kv_get_def kv_set_def expiry_def)
  have "idem_run ?x demo_store ?s0 ([] @ [Started ?k]) ?s1"
    by (rule idem_run.Snoc[OF idem_run.Nil st1])
  from idem_run.Snoc[OF idem_run.Snoc[OF idem_run.Snoc[OF this st2] st3] st4]
  show ?thesis by (auto simp: demo_labels_def)
qed


section \<open>One response per key\<close>

definition finals :: "string \<Rightarrow> 'd idem_label list \<Rightarrow> 'd response list" where
  "finals k ls = concat (map (\<lambda>l. case l of Finished j r \<Rightarrow> if j = k \<and> shouldStoreResponse (p_Status r) then [r] else [] | _ \<Rightarrow> []) ls)"

lemma finals_simps [simp]:
  "finals k (ls @ [l]) = finals k ls @ (case l of Finished j r \<Rightarrow> if j = k \<and> shouldStoreResponse (p_Status r) then [r] else [] | _ \<Rightarrow> [])"
  "finals k [] = []"
  by (auto simp: finals_def)

lemma spec_finals:
  "spec_run a0 ls a \<Longrightarrow> a0 = (\<lambda>k. Fresh) \<Longrightarrow>
    (case a k of Done c b \<Rightarrow> \<exists>r. finals k ls = [r] \<and> p_Status r = c \<and> p_Body r = b | _ \<Rightarrow> finals k ls = [])"
proof (induction rule: spec_run.induct)
  case (SSnoc a ls b l c)
  from SSnoc.hyps(2) SSnoc.IH[OF SSnoc.prems] show ?case
    by (cases rule: spec_step.cases) (auto split: key_state.splits if_splits)
qed simp

lemma spec_answers:
  "spec_run a0 ls a \<Longrightarrow> a0 = (\<lambda>k. Fresh) \<Longrightarrow> Answered k r \<in> set ls \<Longrightarrow>
    p_Status r \<in> {409, 422} \<or> (\<exists>r0\<in>set (finals k ls). p_Status r = p_Status r0 \<and> p_Body r = p_Body r0)"
proof (induction rule: spec_run.induct)
  case (SSnoc a ls b l c)
  have "p_Status r \<in> {409, 422} \<or> (\<exists>c d. b k = Done c d \<and> p_Status r = c \<and> p_Body r = d)" if "l = Answered k r"
    using SSnoc.hyps(2) that by (auto elim: spec_step.cases)
  moreover have "\<exists>r0\<in>set (finals k ls). c = p_Status r0 \<and> d = p_Body r0" if "b k = Done c d" for c d
    using spec_finals[OF SSnoc.hyps(1) SSnoc.prems(1), of k] that by auto
  ultimately show ?case using SSnoc.IH[OF SSnoc.prems(1)] SSnoc.prems(2) by auto
qed simp



section \<open>What is replayed\<close>

text \<open>C35. A retry is answered from the kept response: once an execution has ended with a status
  from 200 to 499, any POST with the same service name and key gets that status and body when its
  body has the same fingerprint and 422 when it has not, until the retention ends, and nothing is
  executed. Only these three parts of a request count: the route, its parameters and the user's token
  do not, and 401, 403 and 429 answers are kept as well.\<close>

theorem retry_replays:
  assumes "faultless x" "shouldStoreResponse (p_Status r)"
    "q_Method q = ''POST''" "q_Header q ''Idempotency-Key'' \<noteq> []" "q_Body q = Some b"
    "st_ttl st \<le> 0 \<or> t' < t + st_ttl st" "fp \<noteq> []"
  shows "idem_begin x st t' q (idem_finish x st t (req_key q) fp r m) =
    (IdemAnswer (if bodyFingerprint b = fp
        then \<lparr> p_Status = p_Status r, p_Headers = [(''Content-Type'', ''application/json; charset=utf-8'')], p_Body = p_Body r \<rparr>
        else SendError 422 ''Idempotency-Key already used with a different request body''),
     idem_finish x st t (req_key q) fp r m)"
proof -
  let ?e = "\<lparr> ie_Status = StatusCompleted, ie_StatusCode = p_Status r, ie_Body = p_Body r, ie_Fingerprint = fp \<rparr>"
  let ?m = "idem_finish x st t (req_key q) fp r m"
  have "?m = kv_set t (st_ttl st) (req_key q) ?e m" by (simp add: finish_ok[OF assms(1)] assms(2))
  then have get: "kv_get t' (req_key q) ?m = Some ?e"
    using assms(6) by (auto simp: kv_get_def kv_set_def expiry_def)
  have "idem_begin x st t' q ?m = (IdemAnswer (idem_taken (bodyFingerprint b) ?e), ?m)"
    using get assms(1,3,4,5)
    by (auto simp: idem_begin_def req_key_def IdempotencyKeyHeader_def Idem_Lock_def Idem_Get_def Let_def)
  then show ?thesis
    using assms(7) by (auto simp: idem_taken_def idem_replay_def StatusProcessing_def StatusCompleted_def)
qed

lemma fingerprint_nonempty: "bodyFingerprint b \<noteq> []"
proof -
  have "length (bodyFingerprint b) = 64"
    by (simp add: bodyFingerprint_def hex_encode_def length_concat comp_def sum_list_triv)
  then show ?thesis by auto
qed

text \<open>The same key on another route, for another user: the second request is never run.\<close>

definition demo_other_route :: http_request where
  "demo_other_route = demo_post\<lparr>q_FullPath := ''/accounts'',
     q_Header := (\<lambda>h. if h = ''Idempotency-Key'' then ''k1'' else if h = ''Authorization'' then ''Bearer b'' else [])\<rparr>"

theorem retry_replays_witness:
  "fst (idem_begin (demo_ext []) demo_store 7 demo_other_route
      (idem_finish (demo_ext []) demo_store 5 ''idempotency:k1'' (bodyFingerprint ''{}'') (SendError 429 ''rate limit exceeded'') (\<lambda>k. None :: (unit idem_entry \<times> int option) option))) =
    IdemAnswer \<lparr> p_Status = 429, p_Headers = [(''Content-Type'', ''application/json; charset=utf-8'')],
      p_Body = ErrorBody ''rate limit exceeded'' \<rparr>"
proof -
  have k: "req_key demo_other_route = ''idempotency:k1''"
    by (simp add: req_key_def demo_other_route_def demo_post_def buildIdempotencyKey_def
        IdempotencyKeyHeader_def idempotencyKeyPrefix_def)
  show ?thesis
    using retry_replays[of "demo_ext []" "SendError 429 ''rate limit exceeded''" demo_other_route "''{}''" demo_store 7 5
        "bodyFingerprint ''{}''" "\<lambda>k. None :: (unit idem_entry \<times> int option) option"] fingerprint_nonempty
    by (simp add: k shouldStoreResponse_def demo_store_def SendError_def) (simp add: demo_other_route_def demo_post_def)
qed

end
