(* ===== verification/Go_Duration.thy ===== *)
theory Go_Duration
  imports Go_Float
begin

text \<open>
  The parsers of the standard library that the configuration uses: \<^verbatim>\<open>time.ParseDuration\<close>,
  whose loop over the terms is a partial function shown to return for every text,
  \<^verbatim>\<open>strconv.ParseBool\<close> and \<^verbatim>\<open>strconv.Atoi\<close>. A duration is an integer of
  nanoseconds; the running sum wraps at 64 bits as the code's \<^verbatim>\<open>uint64\<close> does.
\<close>

section \<open>Numbers of a term\<close>

fun leadingInt :: "string \<Rightarrow> int \<Rightarrow> (int \<times> string) option" where
  "leadingInt [] x = Some (x, [])"
| "leadingInt (c # s) x =
    (if \<not> is_digit c then Some (x, c # s)
     else if 2 ^ 63 div 10 < x then None
     else let x = 10 * x + int (undig c) in if 2 ^ 63 < x then None else leadingInt s x)"

text \<open>The digits after the point, and the power of ten as a double.\<close>

fun leadingFraction :: "string \<Rightarrow> int \<Rightarrow> int \<times> int \<Rightarrow> bool \<Rightarrow> int \<times> (int \<times> int) \<times> string" where
  "leadingFraction [] x scale overflow = (x, scale, [])"
| "leadingFraction (c # s) x scale overflow =
    (if \<not> is_digit c then (x, scale, c # s)
     else if overflow then leadingFraction s x scale True
     else if (2 ^ 63 - 1) div 10 < x then leadingFraction s x scale True
     else let y = 10 * x + int (undig c)
          in if 2 ^ 63 < y then leadingFraction s x scale True
             else leadingFraction s y (f64_times scale 10) False)"

text \<open>The units; the micro sign and the Greek mu are two bytes each.\<close>

definition unitMap :: "string \<Rightarrow> int option" where
  "unitMap u =
    (if u = ''ns'' then Some 1
     else if u = ''us'' \<or> u = [CHR 0xC2, CHR 0xB5, CHR ''s''] \<or> u = [CHR 0xCE, CHR 0xBC, CHR ''s''] then Some 1000
     else if u = ''ms'' then Some 1000000
     else if u = ''s'' then Some 1000000000
     else if u = ''m'' then Some 60000000000
     else if u = ''h'' then Some 3600000000000
     else None)"

text \<open>The fraction of a unit: \<^verbatim>\<open>uint64(float64(f) * (float64(unit) / scale))\<close>.\<close>

definition fraction_ns :: "int \<Rightarrow> int \<times> int \<Rightarrow> int \<Rightarrow> int" where
  "fraction_ns f scale unit =
    (let a = f64_round f 1; b = f64_round (unit * snd scale) (fst scale);
         p = f64_round (fst a * fst b) (snd a * snd b)
     in fst p div snd p)"

definition is_unit_char :: "char \<Rightarrow> bool" where
  "is_unit_char c \<longleftrightarrow> c \<noteq> CHR ''.'' \<and> \<not> is_digit c"

lemma leadingInt_length: "leadingInt s x = Some (v, t) \<Longrightarrow> length t \<le> length s"
  by (induction s x rule: leadingInt.induct) (auto simp: Let_def split: if_splits)

lemma leadingFraction_length: "leadingFraction s x sc ov = (f, sc', t) \<Longrightarrow> length t \<le> length s"
  by (induction s x sc ov rule: leadingFraction.induct) (auto simp: Let_def le_SucI split: if_splits)

lemma dropWhile_shorter: "takeWhile P s \<noteq> [] \<Longrightarrow> length (dropWhile P s) < length s"
  by (cases s) (auto simp: less_Suc_eq_le length_dropWhile_le split: if_splits)

section \<open>The loop\<close>

text \<open>One turn of the loop reads a number, then its unit: the value of a term and the rest.\<close>

definition term_number :: "string \<Rightarrow> (int \<times> int \<times> (int \<times> int) \<times> string) option" where
  "term_number s =
    (if \<not> (hd s = CHR ''.'' \<or> is_digit (hd s)) then None
     else case leadingInt s 0 of
       None \<Rightarrow> None
     | Some (v, s1) \<Rightarrow>
         let pre = length s1 \<noteq> length s;
             dot = (s1 \<noteq> [] \<and> hd s1 = CHR ''.'');
             (f, scale, s2) = (if dot then leadingFraction (tl s1) 0 (1, 1) False else (0, (1, 1), s1));
             post = (dot \<and> length s2 \<noteq> length (tl s1))
         in if \<not> pre \<and> \<not> post then None else Some (v, f, scale, s2))"

definition term_value :: "int \<Rightarrow> int \<Rightarrow> int \<times> int \<Rightarrow> int \<Rightarrow> int option" where
  "term_value v f scale unit =
    (if 2 ^ 63 div unit < v then None
     else let v = v * unit; v = (if 0 < f then v + fraction_ns f scale unit else v)
          in if 0 < f \<and> 2 ^ 63 < v then None else Some v)"

definition duration_term :: "string \<Rightarrow> (int \<times> string) option" where
  "duration_term s =
    (case term_number s of
       None \<Rightarrow> None
     | Some (v, f, scale, s2) \<Rightarrow>
         let u = takeWhile is_unit_char s2; s3 = dropWhile is_unit_char s2
         in if u = [] then None
            else case unitMap u of
              None \<Rightarrow> None
            | Some unit \<Rightarrow> map_option (\<lambda>v. (v, s3)) (term_value v f scale unit))"

lemma term_number_length: "term_number s = Some (v, f, sc, t) \<Longrightarrow> length t \<le> length s"
  unfolding term_number_def Let_def
  by (auto split: if_splits option.splits prod.splits dest!: leadingInt_length leadingFraction_length)

lemma duration_term_shorter:
  assumes "duration_term s = Some (v, t)" shows "length t < length s"
proof -
  obtain n f sc s2 where 1: "term_number s = Some (n, f, sc, s2)"
    using assms unfolding duration_term_def by (cases "term_number s") auto
  have "takeWhile is_unit_char s2 \<noteq> []" "t = dropWhile is_unit_char s2"
    using assms 1 by (auto simp: duration_term_def Let_def split: if_splits option.splits)
  then show ?thesis using dropWhile_shorter[of is_unit_char s2] term_number_length[OF 1] by simp
qed

partial_function (option) duration_loop :: "string \<Rightarrow> int \<Rightarrow> int option option" where
  "duration_loop s d =
    (if s = [] then Some (Some d)
     else case duration_term s of
       None \<Rightarrow> Some None
     | Some (v, s) \<Rightarrow>
         let d = (d + v) mod 2 ^ 64 in if 2 ^ 63 < d then Some None else duration_loop s d)"

lemma duration_loop_returns: "\<exists>r. duration_loop s d = Some r"
proof (induction s arbitrary: d rule: length_induct)
  case (1 s)
  show ?case
  proof (cases "s = [] \<or> duration_term s = None")
    case True
    then show ?thesis by (subst duration_loop.simps) auto
  next
    case False
    then obtain v t where t: "duration_term s = Some (v, t)" by auto
    then show ?thesis
      using 1 duration_term_shorter[OF t] False by (subst duration_loop.simps) (auto simp: Let_def)
  qed
qed

definition ParseDuration :: "string \<Rightarrow> int option" where
  "ParseDuration s =
    (let neg = (s \<noteq> [] \<and> hd s = CHR ''-'');
         s = (if s \<noteq> [] \<and> (hd s = CHR ''-'' \<or> hd s = CHR ''+'') then tl s else s)
     in if s = ''0'' then Some 0
        else if s = [] then None
        else case the (duration_loop s 0) of
          None \<Rightarrow> None
        | Some d \<Rightarrow> if neg then Some (if d = 2 ^ 63 then - (2 ^ 63) else - d)
                    else if 2 ^ 63 - 1 < d then None else Some d)"

section \<open>Booleans and integers\<close>

definition ParseBool :: "string \<Rightarrow> bool option" where
  "ParseBool s =
    (if s \<in> {''1'', ''t'', ''T'', ''true'', ''TRUE'', ''True''} then Some True
     else if s \<in> {''0'', ''f'', ''F'', ''false'', ''FALSE'', ''False''} then Some False
     else None)"

definition Atoi :: "string \<Rightarrow> i64 option" where
  "Atoi s = ParseInt64 s"

lemma duration_loop_Nil: "duration_loop [] d = Some (Some d)"
  by (subst duration_loop.simps) simp

lemma duration_loop_Cons:
  "duration_loop (c # s) d = (case duration_term (c # s) of
     None \<Rightarrow> Some None
   | Some (v, t) \<Rightarrow> if 2 ^ 63 < (d + v) mod 2 ^ 64 then Some None else duration_loop t ((d + v) mod 2 ^ 64))"
  by (subst duration_loop.simps) (simp add: Let_def split: option.split)

lemmas duration_eval = duration_loop_Nil duration_loop_Cons ParseDuration_def duration_term_def
  term_number_def term_value_def unitMap_def is_unit_char_def is_digit_def undig_def

lemma duration_samples:
  "ParseDuration ''5m'' = Some 300000000000"
  "ParseDuration ''1h30m'' = Some 5400000000000"
  "ParseDuration ''5'' = None"
  by (simp_all add: duration_eval)

end
