(* ===== verification/Config.thy ===== *)
theory Config
  imports Go_Duration Domain_Errors
begin

text \<open>
  \<^verbatim>\<open>config/config.go\<close>: the configuration read from the environment, its validation,
  and the connection strings. The environment is a function that is empty on unset variables, as
  \<^verbatim>\<open>os.Getenv\<close>, after \<^verbatim>\<open>godotenv\<close> has filled it. An error of
  \<^verbatim>\<open>Validate\<close> is named by the variable its text names.
\<close>

type_synonym getenv = "string \<Rightarrow> string"

section \<open>The configuration\<close>

record rate_config =
  crl_Enabled :: bool
  crl_Requests :: i64
  crl_Window :: string
  crl_AuthRequests :: i64
  crl_AuthWindow :: string

record jwt_config =
  cjw_Enabled :: bool
  cjw_Secret :: string
  cjw_AccessTTL :: string
  cjw_RefreshTTL :: string
  cjw_BcryptCost :: i64

record auth_config =
  cau_Enabled :: bool
  cau_ServiceKeys :: string

record server_config =
  csv_Port :: string
  csv_Env :: string
  csv_GinMode :: string
  csv_MaxBodySize :: i64
  csv_TrustedProxies :: string

record idem_config =
  cid_Enabled :: bool
  cid_TTL :: string
  cid_LockTTL :: string

record db_config =
  cdb_Host :: string
  cdb_Port :: string
  cdb_User :: string
  cdb_Password :: string
  cdb_Name :: string
  cdb_SSLMode :: string
  cdb_MaxOpenConns :: i64
  cdb_MaxIdleConns :: i64
  cdb_ConnMaxLifetime :: int
  cdb_ConnMaxIdleTime :: int
  cdb_ReplicaEnabled :: bool
  cdb_ReplicaHost :: string
  cdb_ReplicaPort :: string
  cdb_ReplicaUser :: string
  cdb_ReplicaPassword :: string
  cdb_ReplicaName :: string
  cdb_ReplicaSSLMode :: string
  cdb_ReplicaMaxOpenConns :: i64
  cdb_ReplicaMaxIdleConns :: i64
  cdb_ReplicaConnMaxLifetime :: int
  cdb_ReplicaConnMaxIdleTime :: int

record otel_config =
  cot_ServiceName :: string
  cot_CollectorURL :: string
  cot_Insecure :: bool

record redis_config =
  crd_URL :: string
  crd_TTL :: string
  crd_PermissionsTTL :: string
  crd_Enabled :: bool
  crd_PoolSize :: i64
  crd_MinIdleConns :: i64
  crd_DialTimeout :: int
  crd_ReadTimeout :: int
  crd_WriteTimeout :: int

record swagger_config =
  csw_Enabled :: bool
  csw_Host :: string

record config =
  c_Server :: server_config
  c_DB :: db_config
  c_Otel :: otel_config
  c_Redis :: redis_config
  c_Auth :: auth_config
  c_JWT :: jwt_config
  c_Swagger :: swagger_config
  c_Idempotency :: idem_config
  c_RateLimit :: rate_config

section \<open>Reading the environment\<close>

definition getEnv :: "getenv \<Rightarrow> string \<Rightarrow> string \<Rightarrow> string" where
  "getEnv env key fallback = (let v = env key in if v \<noteq> [] then v else fallback)"

definition getEnvBool :: "getenv \<Rightarrow> string \<Rightarrow> bool \<Rightarrow> bool" where
  "getEnvBool env key fallback =
    (let v = env key in if v \<noteq> [] then (case ParseBool v of None \<Rightarrow> fallback | Some b \<Rightarrow> b) else fallback)"

definition getEnvInt :: "getenv \<Rightarrow> string \<Rightarrow> i64 \<Rightarrow> i64" where
  "getEnvInt env key fallback =
    (let v = env key in if v \<noteq> [] then (case Atoi v of None \<Rightarrow> fallback | Some n \<Rightarrow> n) else fallback)"

definition getEnvDuration :: "getenv \<Rightarrow> string \<Rightarrow> int \<Rightarrow> int" where
  "getEnvDuration env key fallback =
    (let v = env key in if v \<noteq> [] then (case ParseDuration v of None \<Rightarrow> fallback | Some d \<Rightarrow> d) else fallback)"

definition load_Server :: "getenv \<Rightarrow> server_config" where
  "load_Server env =
    \<lparr> csv_Port = getEnv env ''SERVER_PORT'' ''8080'',
      csv_Env = getEnv env ''APP_ENV'' ''development'',
      csv_GinMode = getEnv env ''GIN_MODE'' [],
      csv_MaxBodySize = getEnvInt env ''HTTP_MAX_BODY_SIZE'' 1048576,
      csv_TrustedProxies = getEnv env ''HTTP_TRUSTED_PROXIES'' [] \<rparr>"

definition load_DB :: "getenv \<Rightarrow> db_config" where
  "load_DB env =
    \<lparr> cdb_Host = getEnv env ''DB_HOST'' ''localhost'',
      cdb_Port = getEnv env ''DB_PORT'' ''5432'',
      cdb_User = getEnv env ''DB_USER'' ''user'',
      cdb_Password = getEnv env ''DB_PASSWORD'' ''password'',
      cdb_Name = getEnv env ''DB_NAME'' ''users'',
      cdb_SSLMode = getEnv env ''DB_SSLMODE'' ''disable'',
      cdb_MaxOpenConns = getEnvInt env ''DB_MAX_OPEN_CONNS'' 25,
      cdb_MaxIdleConns = getEnvInt env ''DB_MAX_IDLE_CONNS'' 10,
      cdb_ConnMaxLifetime = getEnvDuration env ''DB_CONN_MAX_LIFETIME'' 300000000000,
      cdb_ConnMaxIdleTime = getEnvDuration env ''DB_CONN_MAX_IDLE_TIME'' 90000000000,
      cdb_ReplicaEnabled = getEnvBool env ''DB_REPLICA_ENABLED'' False,
      cdb_ReplicaHost = env ''DB_REPLICA_HOST'',
      cdb_ReplicaPort = env ''DB_REPLICA_PORT'',
      cdb_ReplicaUser = env ''DB_REPLICA_USER'',
      cdb_ReplicaPassword = env ''DB_REPLICA_PASSWORD'',
      cdb_ReplicaName = env ''DB_REPLICA_NAME'',
      cdb_ReplicaSSLMode = env ''DB_REPLICA_SSLMODE'',
      cdb_ReplicaMaxOpenConns = getEnvInt env ''DB_REPLICA_MAX_OPEN_CONNS'' 40,
      cdb_ReplicaMaxIdleConns = getEnvInt env ''DB_REPLICA_MAX_IDLE_CONNS'' 20,
      cdb_ReplicaConnMaxLifetime = getEnvDuration env ''DB_REPLICA_CONN_MAX_LIFETIME'' 300000000000,
      cdb_ReplicaConnMaxIdleTime = getEnvDuration env ''DB_REPLICA_CONN_MAX_IDLE_TIME'' 90000000000 \<rparr>"

definition load_Otel :: "getenv \<Rightarrow> otel_config" where
  "load_Otel env =
    \<lparr> cot_ServiceName = getEnv env ''OTEL_SERVICE_NAME'' ''financial-wallet'',
      cot_CollectorURL = getEnv env ''OTEL_COLLECTOR_URL'' [],
      cot_Insecure = getEnvBool env ''OTEL_INSECURE'' True \<rparr>"

definition load_Redis :: "getenv \<Rightarrow> redis_config" where
  "load_Redis env =
    \<lparr> crd_URL = getEnv env ''REDIS_URL'' ''redis://localhost:6379'',
      crd_TTL = getEnv env ''REDIS_TTL'' ''5m'',
      crd_PermissionsTTL = getEnv env ''REDIS_PERMISSIONS_TTL'' ''5m'',
      crd_Enabled = getEnvBool env ''REDIS_ENABLED'' False,
      crd_PoolSize = getEnvInt env ''REDIS_POOL_SIZE'' 30,
      crd_MinIdleConns = getEnvInt env ''REDIS_MIN_IDLE_CONNS'' 5,
      crd_DialTimeout = getEnvDuration env ''REDIS_DIAL_TIMEOUT'' 500000000,
      crd_ReadTimeout = getEnvDuration env ''REDIS_READ_TIMEOUT'' 200000000,
      crd_WriteTimeout = getEnvDuration env ''REDIS_WRITE_TIMEOUT'' 200000000 \<rparr>"

definition load_Auth :: "getenv \<Rightarrow> auth_config" where
  "load_Auth env =
    \<lparr> cau_Enabled = getEnvBool env ''SERVICE_KEYS_ENABLED'' False,
      cau_ServiceKeys = getEnv env ''SERVICE_KEYS'' [] \<rparr>"

definition load_JWT :: "getenv \<Rightarrow> jwt_config" where
  "load_JWT env =
    \<lparr> cjw_Enabled = getEnvBool env ''JWT_ENABLED'' False,
      cjw_Secret = env ''JWT_SECRET'',
      cjw_AccessTTL = getEnv env ''JWT_ACCESS_TTL'' ''15m'',
      cjw_RefreshTTL = getEnv env ''JWT_REFRESH_TTL'' ''168h'',
      cjw_BcryptCost = getEnvInt env ''JWT_BCRYPT_COST'' 12 \<rparr>"

definition load_Swagger :: "getenv \<Rightarrow> swagger_config" where
  "load_Swagger env =
    \<lparr> csw_Enabled = getEnvBool env ''SWAGGER_ENABLED'' False,
      csw_Host = getEnv env ''SWAGGER_HOST'' [] \<rparr>"

definition load_Idempotency :: "getenv \<Rightarrow> idem_config" where
  "load_Idempotency env =
    \<lparr> cid_Enabled = getEnvBool env ''IDEMPOTENCY_ENABLED'' False,
      cid_TTL = getEnv env ''IDEMPOTENCY_TTL'' ''24h'',
      cid_LockTTL = getEnv env ''IDEMPOTENCY_LOCK_TTL'' ''30s'' \<rparr>"

definition load_RateLimit :: "getenv \<Rightarrow> rate_config" where
  "load_RateLimit env =
    \<lparr> crl_Enabled = getEnvBool env ''RATE_LIMIT_ENABLED'' False,
      crl_Requests = getEnvInt env ''RATE_LIMIT_REQUESTS'' 100,
      crl_Window = getEnv env ''RATE_LIMIT_WINDOW'' ''1m'',
      crl_AuthRequests = getEnvInt env ''RATE_LIMIT_AUTH_REQUESTS'' 10,
      crl_AuthWindow = getEnv env ''RATE_LIMIT_AUTH_WINDOW'' ''1m'' \<rparr>"

definition Load :: "getenv \<Rightarrow> config" where
  "Load env =
    \<lparr> c_Server = load_Server env,
      c_DB = load_DB env,
      c_Otel = load_Otel env,
      c_Redis = load_Redis env,
      c_Auth = load_Auth env,
      c_JWT = load_JWT env,
      c_Swagger = load_Swagger env,
      c_Idempotency = load_Idempotency env,
      c_RateLimit = load_RateLimit env \<rparr>"

section \<open>Connection strings\<close>

definition dsn :: "string \<Rightarrow> string \<Rightarrow> string \<Rightarrow> string \<Rightarrow> string \<Rightarrow> string \<Rightarrow> string" where
  "dsn host port user password name sslMode =
    ''host='' @ host @ '' port='' @ port @ '' user='' @ user @ '' password='' @ password @
    '' dbname='' @ name @ '' sslmode='' @ sslMode"

definition GetWriterDSN :: "db_config \<Rightarrow> string" where
  "GetWriterDSN c =
    dsn (cdb_Host c) (cdb_Port c) (cdb_User c) (cdb_Password c) (cdb_Name c) (cdb_SSLMode c)"

definition or_writer :: "string \<Rightarrow> string \<Rightarrow> string" where
  "or_writer r w = (if r = [] then w else r)"

definition GetReaderDSN :: "db_config \<Rightarrow> string" where
  "GetReaderDSN c =
    dsn (or_writer (cdb_ReplicaHost c) (cdb_Host c)) (or_writer (cdb_ReplicaPort c) (cdb_Port c))
      (or_writer (cdb_ReplicaUser c) (cdb_User c)) (or_writer (cdb_ReplicaPassword c) (cdb_Password c))
      (or_writer (cdb_ReplicaName c) (cdb_Name c)) (or_writer (cdb_ReplicaSSLMode c) (cdb_SSLMode c))"

section \<open>Validation\<close>

definition reject_if :: "bool \<Rightarrow> string \<Rightarrow> unit go_result" where
  "reject_if bad m = (if bad then Inl (LibError m) else Inr ())"

definition check_duration :: "string \<Rightarrow> string \<Rightarrow> unit go_result" where
  "check_duration m s = reject_if (ParseDuration s = None) m"

definition validate_db :: "config \<Rightarrow> unit go_result" where
  "validate_db c =
    (if csv_Env (c_Server c) \<noteq> ''development'' then
       bindE (reject_if (cdb_SSLMode (c_DB c) = ''disable'') ''DB_SSLMODE'') (\<lambda>_.
       bindE (reject_if (cdb_User (c_DB c) = ''user'') ''DB_USER'') (\<lambda>_.
       bindE (reject_if (cdb_Password (c_DB c) = ''password'') ''DB_PASSWORD'') (\<lambda>_.
       reject_if (cdb_ReplicaEnabled (c_DB c) \<and> cdb_ReplicaPassword (c_DB c) = []) ''DB_REPLICA_PASSWORD'')))
     else Inr ())"

definition validate_idempotency :: "config \<Rightarrow> unit go_result" where
  "validate_idempotency c =
    bindE (reject_if (cid_Enabled (c_Idempotency c) \<and> \<not> crd_Enabled (c_Redis c)) ''IDEMPOTENCY_ENABLED'') (\<lambda>_.
    if cid_Enabled (c_Idempotency c) then
      bindE (check_duration ''IDEMPOTENCY_TTL'' (cid_TTL (c_Idempotency c))) (\<lambda>_.
      check_duration ''IDEMPOTENCY_LOCK_TTL'' (cid_LockTTL (c_Idempotency c)))
    else Inr ())"

definition config_bcrypt_MaxCost :: int where "config_bcrypt_MaxCost = 31"

definition validate_jwt :: "config \<Rightarrow> unit go_result" where
  "validate_jwt c =
    bindE (reject_if (cjw_Secret (c_JWT c) = []) ''JWT_SECRET'') (\<lambda>_.
    bindE (reject_if (length (cjw_Secret (c_JWT c)) < 32) ''JWT_SECRET'') (\<lambda>_.
    bindE (check_duration ''JWT_ACCESS_TTL'' (cjw_AccessTTL (c_JWT c))) (\<lambda>_.
    bindE (check_duration ''JWT_REFRESH_TTL'' (cjw_RefreshTTL (c_JWT c))) (\<lambda>_.
    reject_if (sint (cjw_BcryptCost (c_JWT c)) < 8 \<or> config_bcrypt_MaxCost < sint (cjw_BcryptCost (c_JWT c)))
      ''JWT_BCRYPT_COST''))))"

definition validate_rate :: "config \<Rightarrow> unit go_result" where
  "validate_rate c =
    bindE (reject_if (crl_Enabled (c_RateLimit c) \<and> \<not> crd_Enabled (c_Redis c)) ''RATE_LIMIT_ENABLED'') (\<lambda>_.
    if crl_Enabled (c_RateLimit c) then
      bindE (check_duration ''RATE_LIMIT_WINDOW'' (crl_Window (c_RateLimit c))) (\<lambda>_.
      check_duration ''RATE_LIMIT_AUTH_WINDOW'' (crl_AuthWindow (c_RateLimit c)))
    else Inr ())"

definition maxPermissionsTTL :: int where "maxPermissionsTTL = 900000000000"

definition validate_permissions_ttl :: "config \<Rightarrow> unit go_result" where
  "validate_permissions_ttl c =
    (if crd_PermissionsTTL (c_Redis c) \<noteq> [] then
       (case ParseDuration (crd_PermissionsTTL (c_Redis c)) of
          None \<Rightarrow> Inl (LibError ''REDIS_PERMISSIONS_TTL'')
        | Some permTTL \<Rightarrow> reject_if (maxPermissionsTTL < permTTL) ''REDIS_PERMISSIONS_TTL'')
     else Inr ())"

definition Validate :: "config \<Rightarrow> unit go_result" where
  "Validate c =
    bindE (validate_db c) (\<lambda>_.
    bindE (validate_idempotency c) (\<lambda>_.
    bindE (validate_jwt c) (\<lambda>_.
    bindE (validate_rate c) (\<lambda>_.
    bindE (reject_if (csv_MaxBodySize (c_Server c) <s 0) ''HTTP_MAX_BODY_SIZE'') (\<lambda>_.
    validate_permissions_ttl c)))))"

lemma reject_if_Inr [simp]: "reject_if b m = Inr u \<longleftrightarrow> \<not> b"
  by (simp add: reject_if_def)

lemma check_duration_Inr [simp]: "check_duration m s = Inr u \<longleftrightarrow> ParseDuration s \<noteq> None"
  by (simp add: check_duration_def)

lemma bindE_unit: "bindE r (\<lambda>_. k) = Inr (u :: unit) \<longleftrightarrow> (\<exists>v. r = Inr v) \<and> k = Inr u"
  by (cases r) auto

lemma Validate_Inr:
  "Validate c = Inr () \<longleftrightarrow>
    validate_db c = Inr () \<and> validate_idempotency c = Inr () \<and> validate_jwt c = Inr () \<and>
    validate_rate c = Inr () \<and> \<not> csv_MaxBodySize (c_Server c) <s 0 \<and> validate_permissions_ttl c = Inr ()"
  by (auto simp: Validate_def bindE_unit)

lemma validated_jwt:
  "validate_jwt c = Inr () \<longleftrightarrow>
    32 \<le> length (cjw_Secret (c_JWT c)) \<and> ParseDuration (cjw_AccessTTL (c_JWT c)) \<noteq> None \<and>
    ParseDuration (cjw_RefreshTTL (c_JWT c)) \<noteq> None \<and>
    8 \<le> sint (cjw_BcryptCost (c_JWT c)) \<and> sint (cjw_BcryptCost (c_JWT c)) \<le> config_bcrypt_MaxCost"
  by (auto simp: validate_jwt_def bindE_unit)

lemma validated_idempotency:
  "validate_idempotency c = Inr () \<longleftrightarrow> (cid_Enabled (c_Idempotency c) \<longrightarrow>
    crd_Enabled (c_Redis c) \<and> ParseDuration (cid_TTL (c_Idempotency c)) \<noteq> None \<and>
    ParseDuration (cid_LockTTL (c_Idempotency c)) \<noteq> None)"
  by (auto simp: validate_idempotency_def bindE_unit)

lemma validated_rate:
  "validate_rate c = Inr () \<longleftrightarrow> (crl_Enabled (c_RateLimit c) \<longrightarrow>
    crd_Enabled (c_Redis c) \<and> ParseDuration (crl_Window (c_RateLimit c)) \<noteq> None \<and>
    ParseDuration (crl_AuthWindow (c_RateLimit c)) \<noteq> None)"
  by (auto simp: validate_rate_def bindE_unit)

lemma validated_permissions_ttl:
  "validate_permissions_ttl c = Inr () \<longleftrightarrow> crd_PermissionsTTL (c_Redis c) = [] \<or>
    (\<exists>t. ParseDuration (crd_PermissionsTTL (c_Redis c)) = Some t \<and> t \<le> maxPermissionsTTL)"
  by (auto simp: validate_permissions_ttl_def split: option.splits)

end
