(* ===== verification/Health.thy ===== *)
theory Health
  imports Wallet_Prelude
begin

text \<open>
  \<^verbatim>\<open>pkg/health/checker.go\<close>: the registered checks, in order. What a check finds is
  outside the program: a function from its name to an error text or nothing.
\<close>

record health_status =
  hs_Name :: string
  hs_Status :: string
  hs_Critical :: bool
  hs_Error :: string

record health_check =
  hc_name :: string
  hc_critical :: bool

definition Health_Register :: "string \<Rightarrow> bool \<Rightarrow> health_check list \<Rightarrow> health_check list" where
  "Health_Register n critical checks = checks @ [\<lparr> hc_name = n, hc_critical = critical \<rparr>]"

definition run_check :: "(string \<Rightarrow> string option) \<Rightarrow> health_check \<Rightarrow> health_status" where
  "run_check check ch = (case check (hc_name ch) of
      Some checkErr \<Rightarrow> \<lparr> hs_Name = hc_name ch, hs_Status = ''unavailable'', hs_Critical = hc_critical ch, hs_Error = checkErr \<rparr>
    | None \<Rightarrow> \<lparr> hs_Name = hc_name ch, hs_Status = ''ok'', hs_Critical = hc_critical ch, hs_Error = [] \<rparr>)"

fun run_checks :: "(string \<Rightarrow> string option) \<Rightarrow> health_check list \<Rightarrow> bool \<Rightarrow> health_status list \<Rightarrow> bool \<times> health_status list" where
  "run_checks check [] healthy statuses = (healthy, statuses)"
| "run_checks check (ch # chs) healthy statuses =
    run_checks check chs (if check (hc_name ch) \<noteq> None \<and> hc_critical ch then False else healthy)
      (statuses @ [run_check check ch])"

definition RunAll :: "(string \<Rightarrow> string option) \<Rightarrow> health_check list \<Rightarrow> bool \<times> health_status list" where
  "RunAll check checks = run_checks check checks True []"

lemma run_checks_eq:
  "run_checks check chs h ss =
    (h \<and> (\<forall>ch\<in>set chs. hc_critical ch \<longrightarrow> check (hc_name ch) = None), ss @ map (run_check check) chs)"
  by (induction check chs h ss rule: run_checks.induct) auto

lemma RunAll_eq:
  "RunAll check chs =
    ((\<forall>ch\<in>set chs. hc_critical ch \<longrightarrow> check (hc_name ch) = None), map (run_check check) chs)"
  by (simp add: RunAll_def run_checks_eq)

end
