(* ===== verification/Rate_Limit.thy ===== *)
theory Rate_Limit
  imports Web_Types
begin

text \<open>
  Rate limiting: the Redis script of \<^verbatim>\<open>pkg/ratelimit/redisstore\<close>, its store, and the
  middleware \<^verbatim>\<open>internal/infrastructure/web/middleware/ratelimit.go\<close>. A counter is a key
  with an expiry; Redis keeps milliseconds, the clock of the model counts nanoseconds.
\<close>

section \<open>The store\<close>

text \<open>\<^verbatim>\<open>INCR\<close> keeps the expiry of a live key and creates a missing or expired one
  without an expiry; \<^verbatim>\<open>PTTL\<close> is negative when there is none.\<close>

definition redis_incr :: "int \<Rightarrow> string \<Rightarrow> int kv \<Rightarrow> int \<times> int kv" where
  "redis_incr now k m = (case kv_get now k m of
      None \<Rightarrow> (1, m(k := Some (1, None)))
    | Some n \<Rightarrow> (n + 1, m(k := Some (n + 1, snd (the (m k))))))"

definition redis_pttl :: "int \<Rightarrow> string \<Rightarrow> 'v kv \<Rightarrow> int" where
  "redis_pttl now k m = (case m k of
      None \<Rightarrow> - 2
    | Some (v, None) \<Rightarrow> - 1
    | Some (v, Some e) \<Rightarrow> (e - now) div 1000000)"

definition redis_pexpire :: "int \<Rightarrow> string \<Rightarrow> int \<Rightarrow> 'v kv \<Rightarrow> 'v kv" where
  "redis_pexpire now k ms m = (case m k of None \<Rightarrow> m | Some (v, _) \<Rightarrow> m(k := Some (v, Some (now + ms * 1000000))))"

definition luaRateLimit :: "int \<Rightarrow> string \<Rightarrow> int \<Rightarrow> int kv \<Rightarrow> (int \<times> int) \<times> int kv" where
  "luaRateLimit now k windowMs m =
    (case redis_incr now k m of (count, m) \<Rightarrow>
      let ttl = redis_pttl now k m
      in if count = 1 \<or> ttl < 0 then ((count, windowMs), redis_pexpire now k windowMs m)
         else ((count, ttl), m))"

record rl_result =
  rr_Allowed :: bool
  rr_Limit :: int
  rr_Remaining :: int
  rr_ResetAt :: int

text \<open>\<^verbatim>\<open>window.Milliseconds()\<close> truncates towards zero; a window is not negative.\<close>

definition RateLimit_Allow :: "ext \<Rightarrow> int \<Rightarrow> string \<Rightarrow> int \<Rightarrow> int \<Rightarrow> int kv \<Rightarrow> rl_result go_result \<times> int kv" where
  "RateLimit_Allow x now key limit window m =
    (let windowMs = (if 0 \<le> window then window div 1000000 else - ((- window) div 1000000)) in
     case redis_write x (''ratelimit.Allow/'' @ key) (luaRateLimit now key windowMs) m of
       (Inl e, m) \<Rightarrow> (Inl e, m)
     | (Inr (count, ttlMs), m) \<Rightarrow>
         (Inr \<lparr> rr_Allowed = count \<le> limit, rr_Limit = limit,
                rr_Remaining = (if limit - count < 0 then 0 else limit - count),
                rr_ResetAt = now + ttlMs * 1000000 \<rparr>, m))"

section \<open>The middleware\<close>

record rl_config =
  rc_Limit :: int
  rc_Window :: int
  rc_FailClosed :: bool
  rc_UnmatchedKey :: string

definition int_str :: "int \<Rightarrow> string" where
  "int_str n = (if n < 0 then ''-'' @ dec_str (nat (- n)) else dec_str (nat n))"

definition rl_key :: "rl_config \<Rightarrow> http_request \<Rightarrow> string" where
  "rl_key cfg q =
    (let route = (if q_FullPath q = [] then if rc_UnmatchedKey cfg = [] then ''unmatched'' else rc_UnmatchedKey cfg
                  else q_FullPath q)
     in ''ratelimit:'' @ q_ClientIP q @ '':'' @ q_Method q @ '':'' @ route)"

definition rl_headers :: "rl_result \<Rightarrow> (string \<times> string) list" where
  "rl_headers res =
    [(''RateLimit-Limit'', int_str (rr_Limit res)), (''RateLimit-Remaining'', int_str (rr_Remaining res)),
     (''RateLimit-Reset'', int_str (rr_ResetAt res div 1000000000))]"

text \<open>The part before the rest of the chain: an answer, or the headers to add to it.\<close>

definition rate_gate :: "ext \<Rightarrow> int \<Rightarrow> rl_config \<Rightarrow> http_request \<Rightarrow> int kv \<Rightarrow>
    ('d response + (string \<times> string) list) \<times> int kv" where
  "rate_gate x now cfg q m =
    (case RateLimit_Allow x now (rl_key cfg q) (rc_Limit cfg) (rc_Window cfg) m of
       (Inl e, m) \<Rightarrow>
         (if rc_FailClosed cfg then Inl (SendError 503 ''service temporarily unavailable'') else Inr [], m)
     | (Inr res, m) \<Rightarrow>
         (if \<not> rr_Allowed res
          then Inl (add_headers (rl_headers res @ [(''Retry-After'', int_str ((rr_ResetAt res - now) div 1000000000))])
                 (SendError 429 ''rate limit exceeded''))
          else Inr (rl_headers res), m))"

section \<open>Counting\<close>

text \<open>A live counter holds a count and expires at an instant.\<close>

definition counter :: "string \<Rightarrow> int \<Rightarrow> int \<Rightarrow> int kv \<Rightarrow> bool" where
  "counter k n e m \<longleftrightarrow> m k = Some (n, Some e)"

lemma pexpire_simps:
  "m k = Some (v, t) \<Longrightarrow> redis_pexpire now k ms m = m(k := Some (v, Some (now + ms * 1000000)))"
  by (auto simp: redis_pexpire_def)

lemma lua_first:
  assumes "kv_get now k m = None"
  shows "luaRateLimit now k w m = ((1, w), m(k := Some (1, Some (now + w * 1000000))))"
  using assms by (auto simp: luaRateLimit_def redis_incr_def redis_pexpire_def)

lemma lua_next:
  assumes "counter k n e m" "now < e" "0 < n"
  shows "luaRateLimit now k w m = ((n + 1, (e - now) div 1000000), m(k := Some (n + 1, Some e)))"
proof -
  have "0 \<le> (e - now) div 1000000" using assms(2) by (simp add: pos_imp_zdiv_nonneg_iff)
  then show ?thesis
    using assms by (auto simp: luaRateLimit_def redis_incr_def redis_pttl_def counter_def kv_get_def Let_def)
qed

text \<open>Calls for one key at a list of instants: the answers in order.\<close>

fun allow_run :: "ext \<Rightarrow> string \<Rightarrow> int \<Rightarrow> int \<Rightarrow> int list \<Rightarrow> int kv \<Rightarrow> bool list \<times> int kv" where
  "allow_run x k limit window [] m = ([], m)"
| "allow_run x k limit window (t # ts) m =
    (case RateLimit_Allow x t k limit window m of
       (Inl e, m) \<Rightarrow> allow_run x k limit window ts m
     | (Inr res, m) \<Rightarrow> (case allow_run x k limit window ts m of (as, m) \<Rightarrow> (rr_Allowed res # as, m)))"

lemma Allow_next:
  assumes "counter k n e m" "now < e" "0 < n" "x_fault x (''ratelimit.Allow/'' @ k) 0 = None"
  shows "\<exists>res. RateLimit_Allow x now k limit window m = (Inr res, m(k := Some (n + 1, Some e))) \<and>
    rr_Allowed res = (n + 1 \<le> limit)"
  using lua_next[OF assms(1-3)] assms(4)
  by (simp add: RateLimit_Allow_def redis_write_def Let_def)

lemma allow_run_live:
  assumes "counter k n e m" "0 < n" "\<forall>t\<in>set ts. t < e" "x_fault x (''ratelimit.Allow/'' @ k) 0 = None"
  shows "fst (allow_run x k limit window ts m) = map (\<lambda>i. n + 1 + int i \<le> limit) [0..<length ts] \<and>
    counter k (n + int (length ts)) e (snd (allow_run x k limit window ts m))"
  using assms
proof (induction ts arbitrary: n m)
  case (Cons t ts)
  define m' where "m' = m(k := Some (n + 1, Some e))"
  obtain res where r: "RateLimit_Allow x t k limit window m = (Inr res, m')" "rr_Allowed res = (n + 1 \<le> limit)"
    using Allow_next[OF Cons.prems(1) _ Cons.prems(2,4)] Cons.prems(3) unfolding m'_def by fastforce
  have c: "counter k (n + 1) e m'" by (simp add: counter_def m'_def)
  have ih: "fst (allow_run x k limit window ts m') = map (\<lambda>i. n + 1 + 1 + int i \<le> limit) [0..<length ts]"
    "counter k (n + 1 + int (length ts)) e (snd (allow_run x k limit window ts m'))"
    using Cons.IH[OF c] Cons.prems(2-4) by simp_all
  have "map (\<lambda>i. n + 1 + int i \<le> limit) [0..<length (t # ts)] =
      (n + 1 \<le> limit) # map (\<lambda>i. n + 1 + 1 + int i \<le> limit) [0..<length ts]"
    by (simp add: upt_conv_Cons map_Suc_upt[symmetric] comp_def algebra_simps del: upt_Suc)
  moreover have "n + int (length (t # ts)) = n + 1 + int (length ts)" by simp
  ultimately show ?case
    using ih r by (simp only: allow_run.simps split_beta prod.case sum.case fst_conv snd_conv)
qed (simp add: counter_def)

lemma Allow_first:
  assumes "kv_get now k m = None" "0 \<le> window" "x_fault x (''ratelimit.Allow/'' @ k) 0 = None"
  shows "\<exists>res. RateLimit_Allow x now k limit window m =
      (Inr res, m(k := Some (1, Some (now + window div 1000000 * 1000000)))) \<and> rr_Allowed res = (1 \<le> limit)"
  using lua_first[OF assms(1)] assms(2,3)
  by (simp add: RateLimit_Allow_def redis_write_def Let_def)

end
