(* ===== verification/User_Domain.thy ===== *)
theory User_Domain
  imports Pagination
begin

text \<open>
  \<^verbatim>\<open>internal/domain/user\<close> and \<^verbatim>\<open>internal/domain/role\<close>: the entities, the e-mail and
  password value objects and the list filters. The address parser of \<^verbatim>\<open>net/mail\<close>, the
  tables of \<^verbatim>\<open>unicode\<close> beyond ASCII, \<^verbatim>\<open>bcrypt\<close> and the order in which a scan
  of a table meets its rows are fields of the record \<^verbatim>\<open>idlib\<close>.
\<close>

record idlib =
  v_mail_ok :: "string \<Rightarrow> bool"
  v_letter :: "nat \<Rightarrow> bool"
  v_digit :: "nat \<Rightarrow> bool"
  v_special :: "nat \<Rightarrow> bool"
  v_bcrypt :: "nat \<Rightarrow> string \<Rightarrow> int \<Rightarrow> string go_result"
  v_compare :: "string \<Rightarrow> string \<Rightarrow> bool"
  v_scan_users :: "user_row list \<Rightarrow> user_row list"
  v_scan_roles :: "roleDB list \<Rightarrow> roleDB list"

section \<open>Runes\<close>

text \<open>Ranging over a string decodes UTF-8; a byte that starts no well-formed sequence is the
  replacement rune, one byte wide.\<close>

definition cont_between :: "nat \<Rightarrow> nat \<Rightarrow> char \<Rightarrow> bool" where
  "cont_between lo hi c = (lo \<le> byte c \<and> byte c \<le> hi)"

definition decode_rune :: "string \<Rightarrow> nat \<times> nat" where
  "decode_rune s = (case s of
      [] \<Rightarrow> (65533, 1)
    | a # r \<Rightarrow>
        let b0 = byte a; c = (\<lambda>i. byte (r ! i) - 128) in
        if b0 < 128 then (b0, 1)
        else if 194 \<le> b0 \<and> b0 \<le> 223 \<and> r \<noteq> [] \<and> cont_between 128 191 (r ! 0)
          then ((b0 - 192) * 64 + c 0, 2)
        else if 224 \<le> b0 \<and> b0 \<le> 239 \<and> 2 \<le> length r \<and>
            cont_between (if b0 = 224 then 160 else 128) (if b0 = 237 then 159 else 191) (r ! 0) \<and>
            cont_between 128 191 (r ! 1)
          then ((b0 - 224) * 4096 + c 0 * 64 + c 1, 3)
        else if 240 \<le> b0 \<and> b0 \<le> 244 \<and> 3 \<le> length r \<and>
            cont_between (if b0 = 240 then 144 else 128) (if b0 = 244 then 143 else 191) (r ! 0) \<and>
            cont_between 128 191 (r ! 1) \<and> cont_between 128 191 (r ! 2)
          then ((b0 - 240) * 262144 + c 0 * 4096 + c 1 * 64 + c 2, 4)
        else (65533, 1))"

lemma decode_rune_width: "0 < snd (decode_rune s)"
  by (auto simp: decode_rune_def Let_def split: list.splits)

function runes :: "string \<Rightarrow> nat list" where
  "runes s = (if s = [] then [] else fst (decode_rune s) # runes (drop (snd (decode_rune s)) s))"
  by pat_completeness auto
termination
  by (relation "measure length") (auto simp: decode_rune_width)

declare runes.simps [simp del]

section \<open>Passwords\<close>

definition is_letter :: "idlib \<Rightarrow> nat \<Rightarrow> bool" where
  "is_letter v r = (if r < 128 then (65 \<le> r \<and> r \<le> 90) \<or> (97 \<le> r \<and> r \<le> 122) else v_letter v r)"

definition is_number :: "idlib \<Rightarrow> nat \<Rightarrow> bool" where
  "is_number v r = (if r < 128 then 48 \<le> r \<and> r \<le> 57 else v_digit v r)"

text \<open>Punctuation or symbol: in ASCII every printable byte that is no letter, digit or space.\<close>

definition is_special :: "idlib \<Rightarrow> nat \<Rightarrow> bool" where
  "is_special v r =
    (if r < 128 then (33 \<le> r \<and> r \<le> 47) \<or> (58 \<le> r \<and> r \<le> 64) \<or> (91 \<le> r \<and> r \<le> 96) \<or> (123 \<le> r \<and> r \<le> 126)
     else v_special v r)"

definition MinPasswordLength :: nat where "MinPasswordLength = 12"
definition DefaultBcryptCost :: int where "DefaultBcryptCost = 12"
definition bcrypt_MinCost :: int where "bcrypt_MinCost = 4"
definition bcrypt_MaxCost :: int where "bcrypt_MaxCost = 31"

record strength =
  hasLetter :: bool
  hasNumber :: bool
  hasSpecial :: bool

definition strength_step :: "idlib \<Rightarrow> nat \<Rightarrow> strength \<Rightarrow> strength" where
  "strength_step v ch f =
    (if is_letter v ch then f\<lparr>hasLetter := True\<rparr>
     else if is_number v ch then f\<lparr>hasNumber := True\<rparr>
     else if is_special v ch then f\<lparr>hasSpecial := True\<rparr>
     else f)"

definition ValidatePasswordStrength :: "idlib \<Rightarrow> string \<Rightarrow> unit go_result" where
  "ValidatePasswordStrength v pw =
    (if length pw < MinPasswordLength then Inl (Sentinel ErrPasswordTooShort)
     else let f = fold (strength_step v) (runes pw)
                 \<lparr> hasLetter = False, hasNumber = False, hasSpecial = False \<rparr>
          in if \<not> hasLetter f then Inl (Sentinel ErrPasswordNoLetter)
             else if \<not> hasNumber f then Inl (Sentinel ErrPasswordNoNumber)
             else if \<not> hasSpecial f then Inl (Sentinel ErrPasswordNoSpecial)
             else Inr ())"

definition NewPassword :: "idlib \<Rightarrow> nat \<Rightarrow> string \<Rightarrow> int \<Rightarrow> string go_result" where
  "NewPassword v n pw cost =
    bindE (ValidatePasswordStrength v pw) (\<lambda>_.
    v_bcrypt v n pw (if cost \<le> 0 then DefaultBcryptCost else cost))"

text \<open>The two digits of the cost are read by byte subtraction, which wraps below zero.\<close>

definition byte_digit :: "char \<Rightarrow> int" where
  "byte_digit c = (int (byte c) - 48) mod 256"

definition isValidBcryptHash :: "string \<Rightarrow> bool" where
  "isValidBcryptHash h =
    (if length h \<noteq> 60 then False
     else if h ! 0 \<noteq> CHR ''$'' \<or> h ! 1 \<noteq> CHR ''2'' \<or>
         (h ! 2 \<noteq> CHR ''a'' \<and> h ! 2 \<noteq> CHR ''b'' \<and> h ! 2 \<noteq> CHR ''y'') \<or>
         h ! 3 \<noteq> CHR ''$'' \<or> h ! 6 \<noteq> CHR ''$'' then False
     else let cost = byte_digit (h ! 4) * 10 + byte_digit (h ! 5)
          in bcrypt_MinCost \<le> cost \<and> cost \<le> 16)"

definition CheckPassword :: "idlib \<Rightarrow> string \<Rightarrow> string \<Rightarrow> unit go_result" where
  "CheckPassword v h pw =
    (if \<not> isValidBcryptHash h then Inl (Sentinel ErrInvalidPassword)
     else if \<not> v_compare v h pw then Inl (Sentinel ErrInvalidPassword)
     else Inr ())"

section \<open>Users\<close>

record user =
  us_ID :: string
  us_Name :: string
  us_Email :: string
  us_PasswordHash :: string
  us_Active :: bool
  us_CreatedAt :: gtime
  us_UpdatedAt :: gtime

definition NewEmail :: "idlib \<Rightarrow> string \<Rightarrow> string go_result" where
  "NewEmail v s = (if \<not> v_mail_ok v s then Inl (Sentinel ErrInvalidEmail) else Inr s)"

definition Email_Scan :: "string option \<Rightarrow> string go_result" where
  "Email_Scan s = (case s of None \<Rightarrow> Inl (LibError ''email can't be nil'') | Some s \<Rightarrow> Inr s)"

definition NewUser :: "string \<Rightarrow> gtime \<Rightarrow> gtime \<Rightarrow> string \<Rightarrow> string \<Rightarrow> user" where
  "NewUser i t1 t2 name email =
    \<lparr> us_ID = i, us_Name = name, us_Email = email, us_PasswordHash = [], us_Active = True,
      us_CreatedAt = t1, us_UpdatedAt = t2 \<rparr>"

definition User_Deactivate :: "gtime \<Rightarrow> user \<Rightarrow> user" where
  "User_Deactivate now e = e\<lparr>us_Active := False, us_UpdatedAt := now\<rparr>"

definition User_Activate :: "gtime \<Rightarrow> user \<Rightarrow> user" where
  "User_Activate now e = e\<lparr>us_Active := True, us_UpdatedAt := now\<rparr>"

definition User_UpdateEmail :: "gtime \<Rightarrow> string \<Rightarrow> user \<Rightarrow> user" where
  "User_UpdateEmail now email e = e\<lparr>us_Email := email, us_UpdatedAt := now\<rparr>"

definition User_UpdateName :: "gtime \<Rightarrow> string \<Rightarrow> user \<Rightarrow> user" where
  "User_UpdateName now name e = e\<lparr>us_Name := name, us_UpdatedAt := now\<rparr>"

text \<open>The filters of the two lists normalize alike: unlike accounts and statements, a limit
  above 100 falls back to 20.\<close>

definition norm_limit_or_20 :: "i64 \<Rightarrow> i64" where
  "norm_limit_or_20 limit = (if limit <s 1 \<or> 100 <s limit then 20 else limit)"

record user_filter =
  uf_Page :: i64
  uf_Limit :: i64
  uf_Name :: string
  uf_Email :: string
  uf_ActiveOnly :: bool

definition UserFilter_Normalize :: "user_filter \<Rightarrow> user_filter" where
  "UserFilter_Normalize f =
    f\<lparr>uf_Page := norm_page (uf_Page f), uf_Limit := norm_limit_or_20 (uf_Limit f)\<rparr>"

definition UserFilter_Offset :: "user_filter \<Rightarrow> i64" where
  "UserFilter_Offset f = page_offset (uf_Page f) (uf_Limit f)"

section \<open>Roles\<close>

record role =
  ro_ID :: string
  ro_Name :: string
  ro_Description :: string
  ro_CreatedAt :: gtime
  ro_UpdatedAt :: gtime

definition NewRole :: "string \<Rightarrow> gtime \<Rightarrow> gtime \<Rightarrow> string \<Rightarrow> string \<Rightarrow> role" where
  "NewRole i t1 t2 name description =
    \<lparr> ro_ID = i, ro_Name = name, ro_Description = description, ro_CreatedAt = t1, ro_UpdatedAt = t2 \<rparr>"

definition Role_UpdateDescription :: "gtime \<Rightarrow> string \<Rightarrow> role \<Rightarrow> role" where
  "Role_UpdateDescription now description r = r\<lparr>ro_Description := description, ro_UpdatedAt := now\<rparr>"

definition Role_UpdateName :: "gtime \<Rightarrow> string \<Rightarrow> role \<Rightarrow> role" where
  "Role_UpdateName now name r = r\<lparr>ro_Name := name, ro_UpdatedAt := now\<rparr>"

record role_filter =
  rf_Page :: i64
  rf_Limit :: i64
  rf_Name :: string

definition RoleFilter_Normalize :: "role_filter \<Rightarrow> role_filter" where
  "RoleFilter_Normalize f =
    f\<lparr>rf_Page := norm_page (rf_Page f), rf_Limit := norm_limit_or_20 (rf_Limit f)\<rparr>"

definition RoleFilter_Offset :: "role_filter \<Rightarrow> i64" where
  "RoleFilter_Offset f = page_offset (rf_Page f) (rf_Limit f)"

end
