(* ===== verification/User_Repo.thy ===== *)
theory User_Repo
  imports User_Domain
begin

text \<open>
  \<^verbatim>\<open>internal/infrastructure/db/postgres/repository/user.go\<close> and \<^verbatim>\<open>role.go\<close>: the
  operations on users, roles and their assignments. Unlike the wallet's repositories they
  return driver errors as they are, constraint violations included.
\<close>

section \<open>Users\<close>

definition toUser :: "ext \<Rightarrow> idlib \<Rightarrow> user_row \<Rightarrow> user go_result" where
  "toUser x v e =
    bindE (mapErr (Wrapped ''parsing ID'') (ParseID (x_uuid_ok x) (u_ID e))) (\<lambda>i.
    bindE (mapErr (Wrapped ''parsing email'') (NewEmail v (u_Email e))) (\<lambda>email.
    Inr \<lparr> us_ID = i, us_Name = u_Name e, us_Email = email,
          us_PasswordHash = (case u_PasswordHash e of None \<Rightarrow> [] | Some h \<Rightarrow> h),
          us_Active = u_Active e, us_CreatedAt = u_CreatedAt e, us_UpdatedAt = u_UpdatedAt e \<rparr>))"

definition fromDomainUser :: "user \<Rightarrow> user_row" where
  "fromDomainUser e =
    \<lparr> u_ID = us_ID e, u_Name = us_Name e, u_Email = us_Email e,
      u_PasswordHash = (if us_PasswordHash e \<noteq> [] then Some (us_PasswordHash e) else None),
      u_Active = us_Active e, u_CreatedAt = us_CreatedAt e, u_UpdatedAt = us_UpdatedAt e \<rparr>"

text \<open>The INSERT names no password column, so it stays NULL.\<close>

definition insert_user :: "ext \<Rightarrow> user_row \<Rightarrow> db \<Rightarrow> (nat \<times> db) go_result" where
  "insert_user x e d =
    bindE (pg_id x (u_ID e)) (\<lambda>i.
    bindE (pg_str x (Some 255) (u_Name e)) (\<lambda>n.
    bindE (pg_str x (Some 255) (u_Email e)) (\<lambda>m.
    if list_ex (\<lambda>r. u_ID r = i \<or> u_Email r = m) (users d) then Inl (PqError ''23505'')
    else Inr (1, d\<lparr>users := users d @
      [\<lparr> u_ID = i, u_Name = n, u_Email = m, u_PasswordHash = None, u_Active = u_Active e,
         u_CreatedAt = x_pg_time x (u_CreatedAt e), u_UpdatedAt = x_pg_time x (u_UpdatedAt e) \<rparr>]\<rparr>))))"

definition UserRepository_Create :: "ext \<Rightarrow> user \<Rightarrow> cluster \<Rightarrow> unit go_result \<times> cluster" where
  "UserRepository_Create x e c =
    (case exec x ''users.Create'' (insert_user x (fromDomainUser e)) c of
       (r, c) \<Rightarrow> (bindE r (\<lambda>_. Inr ()), c))"

definition find_user :: "ext \<Rightarrow> idlib \<Rightarrow> string \<Rightarrow> (db \<Rightarrow> user_row option go_result) \<Rightarrow> cluster \<Rightarrow> user go_result" where
  "find_user x v site q c =
    (case attempt x site 0 (bindE (q (reader c)) (\<lambda>r. case r of None \<Rightarrow> Inl ErrNoRows | Some r \<Rightarrow> Inr r)) of
       Inl e \<Rightarrow> if is_no_rows e then Inl (Sentinel ErrUserNotFound) else Inl e
     | Inr r \<Rightarrow> toUser x v r)"

definition UserRepository_FindByID :: "ext \<Rightarrow> idlib \<Rightarrow> string \<Rightarrow> cluster \<Rightarrow> user go_result" where
  "UserRepository_FindByID x v uid c = find_user x v ''users.FindByID'' (\<lambda>d.
    bindE (pg_id x uid) (\<lambda>i. Inr (List.find (\<lambda>r. u_ID r = i) (users d)))) c"

definition UserRepository_FindActiveByID :: "ext \<Rightarrow> idlib \<Rightarrow> string \<Rightarrow> cluster \<Rightarrow> user go_result" where
  "UserRepository_FindActiveByID x v uid c = find_user x v ''users.FindActiveByID'' (\<lambda>d.
    bindE (pg_id x uid) (\<lambda>i. Inr (List.find (\<lambda>r. u_ID r = i \<and> u_Active r) (users d)))) c"

definition UserRepository_FindByEmail :: "ext \<Rightarrow> idlib \<Rightarrow> string \<Rightarrow> cluster \<Rightarrow> user go_result" where
  "UserRepository_FindByEmail x v email c = find_user x v ''users.FindByEmail'' (\<lambda>d.
    bindE (pg_str x None email) (\<lambda>m. Inr (List.find (\<lambda>r. u_Email r = m) (users d)))) c"

definition ilike_filter :: "ext \<Rightarrow> string \<Rightarrow> (string \<Rightarrow> bool) go_result" where
  "ilike_filter x text =
    (if text = [] then Inr (\<lambda>_. True)
     else bindE (pg_str x None (''%'' @ escapeILIKE text @ ''%'')) (\<lambda>pat.
       Inr (\<lambda>n. like (x_pg_lower x pat) (x_pg_lower x n))))"

definition user_where :: "ext \<Rightarrow> user_filter \<Rightarrow> (user_row \<Rightarrow> bool) go_result" where
  "user_where x f =
    bindE (ilike_filter x (uf_Name f)) (\<lambda>name_ok.
    bindE (ilike_filter x (uf_Email f)) (\<lambda>email_ok.
    Inr (\<lambda>r. (uf_ActiveOnly f \<longrightarrow> u_Active r) \<and> name_ok (u_Name r) \<and> email_ok (u_Email r))))"

text \<open>\<^verbatim>\<open>ORDER BY created_at DESC\<close> alone: rows of one instant keep the order of the scan.\<close>

definition newest_first :: "('a \<Rightarrow> gtime) \<Rightarrow> 'a list \<Rightarrow> 'a list" where
  "newest_first created rows = sort_key (\<lambda>r. - unix_ns (created r)) rows"

record user_list =
  ul_Users :: "user list"
  ul_Total :: i64
  ul_Page :: i64
  ul_Limit :: i64

definition UserRepository_List :: "ext \<Rightarrow> idlib \<Rightarrow> user_filter \<Rightarrow> cluster \<Rightarrow> user_list go_result" where
  "UserRepository_List x v filter0 c =
    (let f = UserFilter_Normalize filter0 in
     bindE (mapErr (Wrapped ''beginning read transaction'') (attempt x ''users.List/begin'' 0 (Inr ()))) (\<lambda>_.
     bindE (attempt x ''users.List/count'' 0
              (bindE (user_where x f) (\<lambda>p. Inr (p, count_where p (users (reader c)))))) (\<lambda>(p, tot).
     bindE (attempt x ''users.List/select'' 0
              (limit_offset (uf_Limit f) (UserFilter_Offset f)
                (newest_first u_CreatedAt (v_scan_users v (filter p (users (reader c))))))) (\<lambda>rows.
     bindE (mapErr (Wrapped ''committing read transaction'') (attempt x ''users.List/commit'' 0 (Inr ()))) (\<lambda>_.
     bindE (mapE (toUser x v) rows) (\<lambda>us.
     Inr \<lparr> ul_Users = us, ul_Total = of_nat tot, ul_Page = uf_Page f, ul_Limit = uf_Limit f \<rparr>))))))"

definition update_user :: "ext \<Rightarrow> user_row \<Rightarrow> db \<Rightarrow> (nat \<times> db) go_result" where
  "update_user x e d =
    bindE (pg_str x (Some 255) (u_Name e)) (\<lambda>n.
    bindE (pg_str x (Some 255) (u_Email e)) (\<lambda>m.
    bindE (pg_id x (u_ID e)) (\<lambda>i.
      let hit = (\<lambda>r. u_ID r = i);
          upd = (\<lambda>r. r\<lparr>u_Name := n, u_Email := m, u_Active := u_Active e,
                       u_UpdatedAt := x_pg_time x (u_UpdatedAt e)\<rparr>)
      in if list_ex hit (users d) \<and> list_ex (\<lambda>r. \<not> hit r \<and> u_Email r = m) (users d)
         then Inl (PqError ''23505'')
         else Inr (count_where hit (users d), d\<lparr>users := update_where hit upd (users d)\<rparr>))))"

definition affected :: "sentinel \<Rightarrow> nat go_result \<times> cluster \<Rightarrow> unit go_result \<times> cluster" where
  "affected none = (\<lambda>(r, c). (bindE r (\<lambda>n. if n = 0 then Inl (Sentinel none) else Inr ()), c))"

definition UserRepository_Update :: "ext \<Rightarrow> user \<Rightarrow> cluster \<Rightarrow> unit go_result \<times> cluster" where
  "UserRepository_Update x e c =
    affected ErrUserNotFound (exec x ''users.Update'' (update_user x (fromDomainUser e)) c)"

definition deactivate_user :: "ext \<Rightarrow> gtime \<Rightarrow> string \<Rightarrow> db \<Rightarrow> (nat \<times> db) go_result" where
  "deactivate_user x now uid d =
    bindE (pg_id x uid) (\<lambda>i.
      let hit = (\<lambda>r. u_ID r = i \<and> u_Active r)
      in Inr (count_where hit (users d),
              d\<lparr>users := update_where hit (\<lambda>r. r\<lparr>u_Active := False, u_UpdatedAt := x_pg_time x now\<rparr>) (users d)\<rparr>))"

definition UserRepository_Delete :: "ext \<Rightarrow> gtime \<Rightarrow> string \<Rightarrow> cluster \<Rightarrow> unit go_result \<times> cluster" where
  "UserRepository_Delete x now uid c =
    affected ErrUserNotFound (exec x ''users.Delete'' (deactivate_user x now uid) c)"

definition set_password_hash :: "ext \<Rightarrow> gtime \<Rightarrow> string \<Rightarrow> string \<Rightarrow> db \<Rightarrow> (nat \<times> db) go_result" where
  "set_password_hash x now uid passwordHash d =
    bindE (pg_str x (Some 255) passwordHash) (\<lambda>h.
    bindE (pg_id x uid) (\<lambda>i.
      let hit = (\<lambda>r. u_ID r = i \<and> u_Active r)
      in Inr (count_where hit (users d),
              d\<lparr>users := update_where hit (\<lambda>r. r\<lparr>u_PasswordHash := Some h, u_UpdatedAt := x_pg_time x now\<rparr>) (users d)\<rparr>)))"

definition UserRepository_UpdatePassword :: "ext \<Rightarrow> gtime \<Rightarrow> string \<Rightarrow> string \<Rightarrow> cluster \<Rightarrow>
    unit go_result \<times> cluster" where
  "UserRepository_UpdatePassword x now uid passwordHash c =
    affected ErrUserNotFound (exec x ''users.UpdatePassword'' (set_password_hash x now uid passwordHash) c)"

section \<open>Roles\<close>

definition toRole :: "ext \<Rightarrow> roleDB \<Rightarrow> role go_result" where
  "toRole x r =
    bindE (mapErr (Wrapped ''parsing ID'') (ParseID (x_uuid_ok x) (rd_ID r))) (\<lambda>i.
    Inr \<lparr> ro_ID = i, ro_Name = rd_Name r, ro_Description = rd_Description r,
          ro_CreatedAt = rd_CreatedAt r, ro_UpdatedAt = rd_UpdatedAt r \<rparr>)"

definition fromDomainRole :: "role \<Rightarrow> roleDB" where
  "fromDomainRole r =
    \<lparr> rd_ID = ro_ID r, rd_Name = ro_Name r, rd_Description = ro_Description r,
      rd_CreatedAt = ro_CreatedAt r, rd_UpdatedAt = ro_UpdatedAt r \<rparr>"

definition insert_role :: "ext \<Rightarrow> roleDB \<Rightarrow> db \<Rightarrow> (nat \<times> db) go_result" where
  "insert_role x r d =
    bindE (pg_id x (rd_ID r)) (\<lambda>i.
    bindE (pg_str x (Some 100) (rd_Name r)) (\<lambda>n.
    bindE (pg_str x (Some 500) (rd_Description r)) (\<lambda>ds.
    if list_ex (\<lambda>q. rd_ID q = i \<or> rd_Name q = n) (roles d) then Inl (PqError ''23505'')
    else Inr (1, d\<lparr>roles := roles d @
      [\<lparr> rd_ID = i, rd_Name = n, rd_Description = ds,
         rd_CreatedAt = x_pg_time x (rd_CreatedAt r), rd_UpdatedAt = x_pg_time x (rd_UpdatedAt r) \<rparr>]\<rparr>))))"

definition RoleRepository_Create :: "ext \<Rightarrow> role \<Rightarrow> cluster \<Rightarrow> unit go_result \<times> cluster" where
  "RoleRepository_Create x r c =
    (case exec x ''roles.Create'' (insert_role x (fromDomainRole r)) c of
       (r, c) \<Rightarrow> (bindE r (\<lambda>_. Inr ()), c))"

definition find_role :: "ext \<Rightarrow> string \<Rightarrow> (db \<Rightarrow> roleDB option go_result) \<Rightarrow> cluster \<Rightarrow> role go_result" where
  "find_role x site q c =
    (case attempt x site 0 (bindE (q (reader c)) (\<lambda>r. case r of None \<Rightarrow> Inl ErrNoRows | Some r \<Rightarrow> Inr r)) of
       Inl e \<Rightarrow> if is_no_rows e then Inl (Sentinel ErrRoleNotFound) else Inl e
     | Inr r \<Rightarrow> toRole x r)"

definition RoleRepository_FindByName :: "ext \<Rightarrow> string \<Rightarrow> cluster \<Rightarrow> role go_result" where
  "RoleRepository_FindByName x name c = find_role x ''roles.FindByName'' (\<lambda>d.
    bindE (pg_str x None name) (\<lambda>n. Inr (List.find (\<lambda>r. rd_Name r = n) (roles d)))) c"

definition RoleRepository_FindByID :: "ext \<Rightarrow> string \<Rightarrow> cluster \<Rightarrow> role go_result" where
  "RoleRepository_FindByID x rid c = find_role x ''roles.FindByID'' (\<lambda>d.
    bindE (pg_id x rid) (\<lambda>i. Inr (List.find (\<lambda>r. rd_ID r = i) (roles d)))) c"

record role_list =
  rl_Roles :: "role list"
  rl_Total :: i64
  rl_Page :: i64
  rl_Limit :: i64

definition RoleRepository_List :: "ext \<Rightarrow> idlib \<Rightarrow> role_filter \<Rightarrow> cluster \<Rightarrow> role_list go_result" where
  "RoleRepository_List x v filter0 c =
    (let f = RoleFilter_Normalize filter0 in
     bindE (mapErr (Wrapped ''beginning read transaction'') (attempt x ''roles.List/begin'' 0 (Inr ()))) (\<lambda>_.
     bindE (attempt x ''roles.List/count'' 0
              (bindE (ilike_filter x (rf_Name f)) (\<lambda>p.
               Inr (p, count_where (\<lambda>r. p (rd_Name r)) (roles (reader c)))))) (\<lambda>(p, tot).
     bindE (attempt x ''roles.List/select'' 0
              (limit_offset (rf_Limit f) (RoleFilter_Offset f)
                (newest_first rd_CreatedAt
                  (v_scan_roles v (filter (\<lambda>r. p (rd_Name r)) (roles (reader c))))))) (\<lambda>rows.
     bindE (mapErr (Wrapped ''committing read transaction'') (attempt x ''roles.List/commit'' 0 (Inr ()))) (\<lambda>_.
     bindE (mapE (toRole x) rows) (\<lambda>rs.
     Inr \<lparr> rl_Roles = rs, rl_Total = of_nat tot, rl_Page = rf_Page f, rl_Limit = rf_Limit f \<rparr>))))))"

definition assigned :: "string \<Rightarrow> string \<Rightarrow> user_role_row \<Rightarrow> bool" where
  "assigned u r a = (ur_UserID a = u \<and> ur_RoleID a = r)"

text \<open>\<^verbatim>\<open>ON CONFLICT (user_id, role_id) DO NOTHING\<close> affects no row; the foreign keys are
  checked for a row that is inserted.\<close>

definition insert_user_role :: "ext \<Rightarrow> gtime \<Rightarrow> string \<Rightarrow> string \<Rightarrow> db \<Rightarrow> (nat \<times> db) go_result" where
  "insert_user_role x now userID roleID d =
    bindE (pg_id x userID) (\<lambda>u.
    bindE (pg_id x roleID) (\<lambda>r.
      if list_ex (assigned u r) (user_roles d) then Inr (0, d)
      else if u \<notin> u_ID ` set (users d) \<or> r \<notin> rd_ID ` set (roles d) then Inl (PqError ''23503'')
      else Inr (1, d\<lparr>user_roles := user_roles d @
        [\<lparr> ur_UserID = u, ur_RoleID = r, ur_CreatedAt = x_pg_time x now \<rparr>]\<rparr>)))"

definition RoleRepository_AssignRole :: "ext \<Rightarrow> gtime \<Rightarrow> string \<Rightarrow> string \<Rightarrow> cluster \<Rightarrow> unit go_result \<times> cluster" where
  "RoleRepository_AssignRole x now userID roleID c =
    affected ErrRoleAlreadyAssigned (exec x ''roles.AssignRole'' (insert_user_role x now userID roleID) c)"

definition delete_user_role :: "ext \<Rightarrow> string \<Rightarrow> string \<Rightarrow> db \<Rightarrow> (nat \<times> db) go_result" where
  "delete_user_role x userID roleID d =
    bindE (pg_id x userID) (\<lambda>u.
    bindE (pg_id x roleID) (\<lambda>r.
      Inr (count_where (assigned u r) (user_roles d),
           d\<lparr>user_roles := filter (\<lambda>a. \<not> assigned u r a) (user_roles d)\<rparr>)))"

definition RoleRepository_RevokeRole :: "ext \<Rightarrow> string \<Rightarrow> string \<Rightarrow> cluster \<Rightarrow> unit go_result \<times> cluster" where
  "RoleRepository_RevokeRole x userID roleID c =
    affected ErrRoleNotAssigned (exec x ''roles.RevokeRole'' (delete_user_role x userID roleID) c)"

text \<open>The joins: one row for every assignment and every grant of its role.\<close>

definition permission_rows :: "string \<Rightarrow> db \<Rightarrow> string list" where
  "permission_rows u d =
    concat (map (\<lambda>a. concat (map (\<lambda>(r, p).
        if r = ur_RoleID a then map pm_Name (filter (\<lambda>q. pm_ID q = p) (permissions d)) else [])
      (role_permissions d))) (filter (\<lambda>a. ur_UserID a = u) (user_roles d)))"

definition role_rows :: "string \<Rightarrow> db \<Rightarrow> string list" where
  "role_rows u d =
    concat (map (\<lambda>a. map rd_Name (filter (\<lambda>r. rd_ID r = ur_RoleID a) (roles d)))
      (filter (\<lambda>a. ur_UserID a = u) (user_roles d)))"

definition distinct_names :: "ext \<Rightarrow> string list \<Rightarrow> string list" where
  "distinct_names x ns = sort_key (x_pg_sort x) (remdups ns)"

definition GetUserPermissions :: "ext \<Rightarrow> string \<Rightarrow> cluster \<Rightarrow> string list go_result" where
  "GetUserPermissions x userID c = attempt x ''roles.GetUserPermissions'' 0
    (bindE (pg_id x userID) (\<lambda>u. Inr (distinct_names x (permission_rows u (reader c)))))"

definition GetUserRoles :: "ext \<Rightarrow> string \<Rightarrow> cluster \<Rightarrow> string list go_result" where
  "GetUserRoles x userID c = attempt x ''roles.GetUserRoles'' 0
    (bindE (pg_id x userID) (\<lambda>u. Inr (distinct_names x (role_rows u (reader c)))))"

text \<open>The combined query; its two sets are collected in maps and sorted by bytes.\<close>

definition GetUserPermissionsAndRoles :: "ext \<Rightarrow> string \<Rightarrow> cluster \<Rightarrow> (string list \<times> string list) go_result" where
  "GetUserPermissionsAndRoles x userID c = attempt x ''roles.GetUserPermissionsAndRoles'' 0
    (bindE (pg_id x userID) (\<lambda>u.
      let rows = map (Pair ''p'') (permission_rows u (reader c)) @ map (Pair ''r'') (role_rows u (reader c));
          collect = (\<lambda>kind. sort (remdups (map snd (filter (\<lambda>r. fst r = kind) rows))))
      in Inr (collect ''p'', collect ''r'')))"

text \<open>Deleting a role cascades to its grants and its assignments.\<close>

definition delete_role :: "ext \<Rightarrow> string \<Rightarrow> db \<Rightarrow> (nat \<times> db) go_result" where
  "delete_role x rid d =
    bindE (pg_id x rid) (\<lambda>i.
      Inr (count_where (\<lambda>r. rd_ID r = i) (roles d),
        if list_ex (\<lambda>r. rd_ID r = i) (roles d)
        then d\<lparr>roles := filter (\<lambda>r. rd_ID r \<noteq> i) (roles d),
               role_permissions := filter (\<lambda>(r, p). r \<noteq> i) (role_permissions d),
               user_roles := filter (\<lambda>a. ur_RoleID a \<noteq> i) (user_roles d)\<rparr>
        else d))"

definition RoleRepository_Delete :: "ext \<Rightarrow> string \<Rightarrow> cluster \<Rightarrow> unit go_result \<times> cluster" where
  "RoleRepository_Delete x rid c =
    affected ErrRoleNotFound (exec x ''roles.Delete'' (delete_role x rid) c)"

end
