(* ===== verification/Role_UC.thy ===== *)
theory Role_UC
  imports User_Repo Redis
begin

text \<open>
  \<^verbatim>\<open>internal/usecases/role\<close>: create, list, delete, assign and revoke. Assigning and
  revoking delete the cached permissions and roles of the user, best effort; deleting a role has no
  cache to clear.
\<close>

record role_create_input =
  rci_Name :: string
  rci_Description :: string

record role_create_output =
  rco_ID :: string
  rco_CreatedAt :: string

text \<open>\<^verbatim>\<open>FindByName\<close> returns either a role or an error, so a role that was found is the
  only way past the first test.\<close>

definition RoleCreate_prepare :: "ext \<Rightarrow> role_create_input \<Rightarrow> cluster \<Rightarrow> role go_result" where
  "RoleCreate_prepare x inp c =
    (case RoleRepository_FindByName x (rci_Name inp) c of
       Inl e \<Rightarrow> if \<not> errors_is e ErrRoleNotFound then Inl e
                else Inr (NewRole (x_new_id x 0) (x_clock x 0) (x_clock x 1) (rci_Name inp) (rci_Description inp))
     | Inr existingRole \<Rightarrow> Inl (Sentinel ErrDuplicateRoleName))"

definition RoleCreate_Execute :: "ext \<Rightarrow> role_create_input \<Rightarrow> cluster \<Rightarrow> role_create_output go_result \<times> cluster" where
  "RoleCreate_Execute x inp c =
    (case RoleCreate_prepare x inp c of
       Inl e \<Rightarrow> (Inl e, c)
     | Inr r \<Rightarrow> (case RoleRepository_Create x r c of
         (Inl err, c) \<Rightarrow> (Inl err, c)
       | (Inr _, c) \<Rightarrow> (Inr \<lparr> rco_ID = ro_ID r, rco_CreatedAt = formatRFC3339 (ro_CreatedAt r) \<rparr>, c)))"

record role_output =
  roo_ID :: string
  roo_Name :: string
  roo_Description :: string
  roo_CreatedAt :: string
  roo_UpdatedAt :: string

record role_list_output =
  rlo_Data :: "role_output list"
  rlo_Page :: i64
  rlo_Limit :: i64
  rlo_Total :: i64
  rlo_TotalPages :: i64

definition role_to_output :: "role \<Rightarrow> role_output" where
  "role_to_output r =
    \<lparr> roo_ID = ro_ID r, roo_Name = ro_Name r, roo_Description = ro_Description r,
      roo_CreatedAt = formatRFC3339 (ro_CreatedAt r), roo_UpdatedAt = formatRFC3339 (ro_UpdatedAt r) \<rparr>"

definition RoleList_Execute :: "ext \<Rightarrow> idlib \<Rightarrow> role_filter \<Rightarrow> cluster \<Rightarrow> role_list_output go_result" where
  "RoleList_Execute x v inp c =
    bindE (RoleRepository_List x v inp c) (\<lambda>res.
    Inr \<lparr> rlo_Data = map role_to_output (rl_Roles res), rlo_Page = rl_Page res, rlo_Limit = rl_Limit res,
          rlo_Total = rl_Total res, rlo_TotalPages = total_pages (rl_Total res) (rl_Limit res) \<rparr>)"

definition RoleDelete_Execute :: "ext \<Rightarrow> string \<Rightarrow> cluster \<Rightarrow> (string \<times> string) go_result \<times> cluster" where
  "RoleDelete_Execute x rawID c =
    (case ParseID (x_uuid_ok x) rawID of
       Inl e \<Rightarrow> (Inl e, c)
     | Inr rid \<Rightarrow> (case RoleRepository_Delete x rid c of
         (Inl err, c) \<Rightarrow> (Inl err, c)
       | (Inr _, c) \<Rightarrow> (Inr (rawID, formatRFC3339 (x_clock x 0)), c)))"

section \<open>Assignments and the permission cache\<close>

definition PermissionCacheKeyPrefix :: string where "PermissionCacheKeyPrefix = ''permissions:user:''"
definition RoleCacheKeyPrefix :: string where "RoleCacheKeyPrefix = ''roles:user:''"

definition perms_key :: "string \<Rightarrow> string" where "perms_key u = PermissionCacheKeyPrefix @ u"
definition roles_key :: "string \<Rightarrow> string" where "roles_key u = RoleCacheKeyPrefix @ u"

text \<open>Both deletions are tried; a failure is only logged.\<close>

definition invalidateUserAuthCache :: "ext \<Rightarrow> redis_client \<Rightarrow> string \<Rightarrow> string list kv \<Rightarrow> string list kv" where
  "invalidateUserAuthCache x r userID m =
    snd (RedisClient_Delete x r (roles_key userID) (snd (RedisClient_Delete x r (perms_key userID) m)))"

definition Assignment_prepare :: "ext \<Rightarrow> string \<Rightarrow> string \<Rightarrow> cluster \<Rightarrow> (string \<times> string) go_result" where
  "Assignment_prepare x rawUserID rawRoleID c =
    bindE (ParseID (x_uuid_ok x) rawUserID) (\<lambda>userID.
    bindE (ParseID (x_uuid_ok x) rawRoleID) (\<lambda>roleID.
    bindE (RoleRepository_FindByID x roleID c) (\<lambda>_. Inr (userID, roleID))))"

definition AssignRole_Execute :: "ext \<Rightarrow> redis_client \<Rightarrow> string \<Rightarrow> string \<Rightarrow> cluster \<Rightarrow> string list kv \<Rightarrow>
    unit go_result \<times> cluster \<times> string list kv" where
  "AssignRole_Execute x r rawUserID rawRoleID c m =
    (case Assignment_prepare x rawUserID rawRoleID c of
       Inl e \<Rightarrow> (Inl e, c, m)
     | Inr (userID, roleID) \<Rightarrow> (case RoleRepository_AssignRole x (x_clock x 0) userID roleID c of
         (Inl err, c) \<Rightarrow> (Inl err, c, m)
       | (Inr _, c) \<Rightarrow> (Inr (), c, invalidateUserAuthCache x r rawUserID m)))"

definition RevokeRole_Execute :: "ext \<Rightarrow> redis_client \<Rightarrow> string \<Rightarrow> string \<Rightarrow> cluster \<Rightarrow> string list kv \<Rightarrow>
    unit go_result \<times> cluster \<times> string list kv" where
  "RevokeRole_Execute x r rawUserID rawRoleID c m =
    (case Assignment_prepare x rawUserID rawRoleID c of
       Inl e \<Rightarrow> (Inl e, c, m)
     | Inr (userID, roleID) \<Rightarrow> (case RoleRepository_RevokeRole x userID roleID c of
         (Inl err, c) \<Rightarrow> (Inl err, c, m)
       | (Inr _, c) \<Rightarrow> (Inr (), c, invalidateUserAuthCache x r rawUserID m)))"

end
