(* ===== verification/User_UC.thy ===== *)
theory User_UC
  imports User_Repo Redis
begin

text \<open>
  \<^verbatim>\<open>internal/usecases/user\<close>: create, get (cache-aside over Redis), list, update, delete
  and the two password operations. \<^verbatim>\<open>singleflight\<close> shares one read among concurrent
  callers; a single call runs the read. Deleting is a soft delete.
\<close>

record user_create_input =
  uci_Name :: string
  uci_Email :: string

record user_create_output =
  uco_ID :: string
  uco_CreatedAt :: string

definition UserCreate_prepare :: "ext \<Rightarrow> idlib \<Rightarrow> user_create_input \<Rightarrow> user go_result" where
  "UserCreate_prepare x v inp =
    bindE (NewEmail v (uci_Email inp)) (\<lambda>emailVO.
    Inr (NewUser (x_new_id x 0) (x_clock x 0) (x_clock x 1) (uci_Name inp) emailVO))"

definition UserCreate_Execute :: "ext \<Rightarrow> idlib \<Rightarrow> user_create_input \<Rightarrow> cluster \<Rightarrow>
    user_create_output go_result \<times> cluster" where
  "UserCreate_Execute x v inp c =
    (case UserCreate_prepare x v inp of
       Inl e \<Rightarrow> (Inl e, c)
     | Inr e \<Rightarrow> (case UserRepository_Create x e c of
         (Inl err, c) \<Rightarrow> (Inl err, c)
       | (Inr _, c) \<Rightarrow> (Inr \<lparr> uco_ID = us_ID e, uco_CreatedAt = formatRFC3339 (us_CreatedAt e) \<rparr>, c)))"

record user_output =
  uo_ID :: string
  uo_Name :: string
  uo_Email :: string
  uo_Active :: bool
  uo_CreatedAt :: string
  uo_UpdatedAt :: string

definition user_to_output :: "user \<Rightarrow> user_output" where
  "user_to_output e =
    \<lparr> uo_ID = us_ID e, uo_Name = us_Name e, uo_Email = us_Email e, uo_Active = us_Active e,
      uo_CreatedAt = formatRFC3339 (us_CreatedAt e), uo_UpdatedAt = formatRFC3339 (us_UpdatedAt e) \<rparr>"

definition user_key :: "string \<Rightarrow> string" where
  "user_key i = ''user:'' @ i"

text \<open>The identifier of the request, not the stored one, makes the key.\<close>

definition UserGet_Execute :: "ext \<Rightarrow> idlib \<Rightarrow> redis_client \<Rightarrow> int \<Rightarrow> string \<Rightarrow> cluster \<Rightarrow> user_output kv \<Rightarrow>
    user_output go_result \<times> user_output kv" where
  "UserGet_Execute x v r now rawID c m =
    (case ParseID (x_uuid_ok x) rawID of
       Inl e \<Rightarrow> (Inl e, m)
     | Inr uid \<Rightarrow> (case RedisClient_Get x r now (user_key rawID) m of
         Inr cached \<Rightarrow> (Inr cached, m)
       | Inl _ \<Rightarrow> (case UserRepository_FindByID x v uid c of
           Inl e \<Rightarrow> (Inl e, m)
         | Inr e \<Rightarrow> (Inr (user_to_output e),
             snd (RedisClient_Set x r now (user_key rawID) (user_to_output e) m)))))"

record user_list_output =
  ulo_Data :: "user_output list"
  ulo_Page :: i64
  ulo_Limit :: i64
  ulo_Total :: i64
  ulo_TotalPages :: i64

text \<open>The input of the list has the fields of its filter.\<close>

definition UserList_Execute :: "ext \<Rightarrow> idlib \<Rightarrow> user_filter \<Rightarrow> cluster \<Rightarrow> user_list_output go_result" where
  "UserList_Execute x v inp c =
    bindE (UserRepository_List x v inp c) (\<lambda>res.
    Inr \<lparr> ulo_Data = map user_to_output (ul_Users res), ulo_Page = ul_Page res, ulo_Limit = ul_Limit res,
          ulo_Total = ul_Total res, ulo_TotalPages = total_pages (ul_Total res) (ul_Limit res) \<rparr>)"

record user_update_input =
  uui_ID :: string
  uui_Name :: "string option"
  uui_Email :: "string option"

record user_update_output =
  uuo_ID :: string
  uuo_Name :: string
  uuo_Email :: string
  uuo_Active :: bool
  uuo_UpdatedAt :: string

definition UserUpdate_prepare :: "ext \<Rightarrow> idlib \<Rightarrow> user_update_input \<Rightarrow> cluster \<Rightarrow> user go_result" where
  "UserUpdate_prepare x v inp c =
    bindE (ParseID (x_uuid_ok x) (uui_ID inp)) (\<lambda>uid.
    bindE (UserRepository_FindByID x v uid c) (\<lambda>e.
    let e = (case uui_Name inp of None \<Rightarrow> e | Some n \<Rightarrow> User_UpdateName (x_clock x 0) n e)
    in (case uui_Email inp of
          None \<Rightarrow> Inr e
        | Some m \<Rightarrow> bindE (NewEmail v m) (\<lambda>emailVO. Inr (User_UpdateEmail (x_clock x 1) emailVO e)))))"

definition UserUpdate_Execute :: "ext \<Rightarrow> idlib \<Rightarrow> redis_client \<Rightarrow> user_update_input \<Rightarrow> cluster \<Rightarrow> user_output kv \<Rightarrow>
    user_update_output go_result \<times> cluster \<times> user_output kv" where
  "UserUpdate_Execute x v r inp c m =
    (case UserUpdate_prepare x v inp c of
       Inl e \<Rightarrow> (Inl e, c, m)
     | Inr e \<Rightarrow> (case UserRepository_Update x e c of
         (Inl err, c) \<Rightarrow> (Inl err, c, m)
       | (Inr _, c) \<Rightarrow> (Inr \<lparr> uuo_ID = us_ID e, uuo_Name = us_Name e, uuo_Email = us_Email e,
             uuo_Active = us_Active e, uuo_UpdatedAt = formatRFC3339 (us_UpdatedAt e) \<rparr>, c,
             snd (RedisClient_Delete x r (user_key (uui_ID inp)) m))))"

definition UserDelete_Execute :: "ext \<Rightarrow> redis_client \<Rightarrow> string \<Rightarrow> cluster \<Rightarrow> user_output kv \<Rightarrow>
    (string \<times> string) go_result \<times> cluster \<times> user_output kv" where
  "UserDelete_Execute x r rawID c m =
    (case ParseID (x_uuid_ok x) rawID of
       Inl e \<Rightarrow> (Inl e, c, m)
     | Inr uid \<Rightarrow> (case UserRepository_Delete x (x_clock x 0) uid c of
         (Inl err, c) \<Rightarrow> (Inl err, c, m)
       | (Inr _, c) \<Rightarrow> (Inr (rawID, formatRFC3339 (x_clock x 1)), c,
             snd (RedisClient_Delete x r (user_key rawID) m))))"

section \<open>Passwords\<close>

record set_password_input =
  spi_UserID :: string
  spi_Password :: string
  spi_PasswordConfirmation :: string

text \<open>The identifier and the hash to store.\<close>

definition SetPassword_prepare :: "ext \<Rightarrow> idlib \<Rightarrow> int \<Rightarrow> set_password_input \<Rightarrow> cluster \<Rightarrow> (string \<times> string) go_result" where
  "SetPassword_prepare x v bcryptCost inp c =
    bindE (ParseID (x_uuid_ok x) (spi_UserID inp)) (\<lambda>uid.
    bindE (UserRepository_FindByID x v uid c) (\<lambda>e.
    if us_PasswordHash e \<noteq> [] then Inl (Sentinel ErrPasswordAlreadySet)
    else if spi_Password inp \<noteq> spi_PasswordConfirmation inp then Inl (Sentinel ErrPasswordMismatch)
    else bindE (NewPassword v 0 (spi_Password inp) bcryptCost) (\<lambda>h. Inr (uid, h))))"

definition SetPassword_Execute :: "ext \<Rightarrow> idlib \<Rightarrow> int \<Rightarrow> set_password_input \<Rightarrow> cluster \<Rightarrow> unit go_result \<times> cluster" where
  "SetPassword_Execute x v bcryptCost inp c =
    (case SetPassword_prepare x v bcryptCost inp c of
       Inl e \<Rightarrow> (Inl e, c)
     | Inr (uid, h) \<Rightarrow> UserRepository_UpdatePassword x (x_clock x 0) uid h c)"

record change_password_input =
  cpi_UserID :: string
  cpi_CurrentPassword :: string
  cpi_NewPassword :: string
  cpi_NewPasswordConfirmation :: string

definition ChangePassword_prepare :: "ext \<Rightarrow> idlib \<Rightarrow> int \<Rightarrow> change_password_input \<Rightarrow> cluster \<Rightarrow> (string \<times> string) go_result" where
  "ChangePassword_prepare x v bcryptCost inp c =
    bindE (ParseID (x_uuid_ok x) (cpi_UserID inp)) (\<lambda>uid.
    bindE (UserRepository_FindByID x v uid c) (\<lambda>e.
    if \<not> isOk (CheckPassword v (us_PasswordHash e) (cpi_CurrentPassword inp)) then Inl (Sentinel ErrInvalidCredentials)
    else if cpi_NewPassword inp \<noteq> cpi_NewPasswordConfirmation inp then Inl (Sentinel ErrPasswordMismatch)
    else bindE (NewPassword v 0 (cpi_NewPassword inp) bcryptCost) (\<lambda>h. Inr (uid, h))))"

definition ChangePassword_Execute :: "ext \<Rightarrow> idlib \<Rightarrow> int \<Rightarrow> change_password_input \<Rightarrow> cluster \<Rightarrow> unit go_result \<times> cluster" where
  "ChangePassword_Execute x v bcryptCost inp c =
    (case ChangePassword_prepare x v bcryptCost inp c of
       Inl e \<Rightarrow> (Inl e, c)
     | Inr (uid, h) \<Rightarrow> UserRepository_UpdatePassword x (x_clock x 0) uid h c)"

section \<open>What the repository operations do\<close>

lemma find_user_Inr:
  "find_user x v site q c = Inr e \<longleftrightarrow>
    x_fault x site 0 = None \<and> (\<exists>r. q (reader c) = Inr (Some r) \<and> toUser x v r = Inr e)"
proof (cases "x_fault x site 0")
  case None
  then show ?thesis
  proof (cases "q (reader c)")
    case (Inl err)
    then show ?thesis using None by (simp add: find_user_def attempt_def)
  next
    case (Inr r)
    then show ?thesis using None by (cases r) (simp_all add: find_user_def attempt_def)
  qed
qed (simp add: find_user_def attempt_def)

lemma toUser_Inr:
  "toUser x v r = Inr e \<longleftrightarrow> x_uuid_ok x (u_ID r) \<and> v_mail_ok v (u_Email r) \<and>
    e = \<lparr> us_ID = u_ID r, us_Name = u_Name r, us_Email = u_Email r,
          us_PasswordHash = (case u_PasswordHash r of None \<Rightarrow> [] | Some h \<Rightarrow> h),
          us_Active = u_Active r, us_CreatedAt = u_CreatedAt r, us_UpdatedAt = u_UpdatedAt r \<rparr>"
  by (auto simp: toUser_def NewEmail_def)

lemma UserFind_Inr:
  assumes "UserRepository_FindByID x v uid c = Inr e"
  obtains i r where "x_pg_uuid x uid = Some i" "List.find (\<lambda>r. u_ID r = i) (users (reader c)) = Some r"
    "r \<in> set (users (reader c))" "u_ID r = i" "toUser x v r = Inr e" "us_ID e = i"
proof -
  obtain r where r: "bindE (pg_id x uid) (\<lambda>i. Inr (List.find (\<lambda>r. u_ID r = i) (users (reader c)))) = Inr (Some r)"
    "toUser x v r = Inr e"
    using assms unfolding UserRepository_FindByID_def find_user_Inr by blast
  then obtain i where i: "x_pg_uuid x uid = Some i" "List.find (\<lambda>r. u_ID r = i) (users (reader c)) = Some r"
    by auto
  have "us_ID e = u_ID r" using r(2) by (simp add: toUser_Inr)
  with find_Some_set[OF i(2)] i r(2) show thesis by (intro that[of i r]) simp_all
qed

lemma affected_Inr: "affected s p = (Inr (), c') \<longleftrightarrow> (\<exists>n. p = (Inr n, c') \<and> n \<noteq> 0)"
  by (cases p; cases "fst p") (auto simp: affected_def)

lemma exec_ok: "exec x site q c = (Inr n, c') \<Longrightarrow> \<exists>d. q (primary c) = Inr (n, d) \<and> c' = c\<lparr>primary := d\<rparr>"
  using exec_outcome[of x site q c "Inr n" c'] by auto

end
