(* ===== verification/Auth_UC.thy ===== *)
theory Auth_UC
  imports User_UC
begin

text \<open>
  Tokens and authentication: \<^verbatim>\<open>pkg/jwt\<close> behind
  \<^verbatim>\<open>internal/infrastructure/auth\<close>, and \<^verbatim>\<open>internal/usecases/auth\<close> (login and
  refresh). The library \<^verbatim>\<open>golang-jwt\<close> is the record \<^verbatim>\<open>jwtlib\<close>: signing, decoding
  of a token into its algorithm and claims, the check of the signature, and the validation of the
  registered claims at an instant.
\<close>

record claims =
  cl_UserID :: string
  cl_TokenType :: string
  cl_ExpiresAt :: "int option"
  cl_IssuedAt :: "int option"

record jwtlib =
  j_sign :: "string \<Rightarrow> string \<Rightarrow> claims \<Rightarrow> string go_result"
  j_decode :: "string \<Rightarrow> (string \<times> claims) option"
  j_verify :: "string \<Rightarrow> string \<Rightarrow> string \<Rightarrow> bool"
  j_claims_ok :: "int \<Rightarrow> claims \<Rightarrow> bool"

text \<open>Documented behaviour: a signed token decodes to its claims and verifies under its key; claims
  with an expiry are refused from that second on.\<close>

definition jwtlib_ok :: "jwtlib \<Rightarrow> bool" where
  "jwtlib_ok j \<longleftrightarrow>
    (\<forall>alg key c t. j_sign j alg key c = Inr t \<longrightarrow> j_decode j t = Some (alg, c) \<and> j_verify j alg key t) \<and>
    (\<forall>now c e. cl_ExpiresAt c = Some e \<longrightarrow> (j_claims_ok j now c \<longleftrightarrow> now < e * 1000000000))"

record jwt_service =
  js_secretKey :: string
  js_accessTTL :: int
  js_refreshTTL :: int

definition ErrInvalidToken :: go_error where
  "ErrInvalidToken = LibError ''invalid token''"

definition TokenTypeAccess :: string where "TokenTypeAccess = ''access''"
definition TokenTypeRefresh :: string where "TokenTypeRefresh = ''refresh''"

text \<open>Instants are nanoseconds since the epoch; a numeric date keeps whole seconds.\<close>

definition generateToken :: "jwtlib \<Rightarrow> jwt_service \<Rightarrow> int \<Rightarrow> string \<Rightarrow> string \<Rightarrow> int \<Rightarrow> string go_result" where
  "generateToken j s now userID tokenType ttl =
    j_sign j ''HS256'' (js_secretKey s)
      \<lparr> cl_UserID = userID, cl_TokenType = tokenType,
        cl_ExpiresAt = Some ((now + ttl) div 1000000000), cl_IssuedAt = Some (now div 1000000000) \<rparr>"

definition GenerateAccessToken :: "jwtlib \<Rightarrow> jwt_service \<Rightarrow> int \<Rightarrow> string \<Rightarrow> string go_result" where
  "GenerateAccessToken j s now userID = generateToken j s now userID TokenTypeAccess (js_accessTTL s)"

definition GenerateRefreshToken :: "jwtlib \<Rightarrow> jwt_service \<Rightarrow> int \<Rightarrow> string \<Rightarrow> string go_result" where
  "GenerateRefreshToken j s now userID = generateToken j s now userID TokenTypeRefresh (js_refreshTTL s)"

definition ValidateToken :: "jwtlib \<Rightarrow> jwt_service \<Rightarrow> int \<Rightarrow> string \<Rightarrow> claims go_result" where
  "ValidateToken j s now tokenString =
    (case j_decode j tokenString of
       None \<Rightarrow> Inl ErrInvalidToken
     | Some (alg, c) \<Rightarrow>
         if alg \<notin> {''HS256'', ''HS384'', ''HS512''} then Inl ErrInvalidToken
         else if \<not> j_verify j alg (js_secretKey s) tokenString then Inl ErrInvalidToken
         else if \<not> j_claims_ok j now c then Inl ErrInvalidToken
         else Inr c)"

text \<open>\<^verbatim>\<open>JWTTokenAdapter\<close>: the claims the use cases see.\<close>

record token_claims =
  tc_UserID :: string
  tc_TokenType :: string

definition Adapter_ValidateToken :: "jwtlib \<Rightarrow> jwt_service \<Rightarrow> int \<Rightarrow> string \<Rightarrow> token_claims go_result" where
  "Adapter_ValidateToken j s now tokenString =
    bindE (ValidateToken j s now tokenString) (\<lambda>c.
    Inr \<lparr> tc_UserID = cl_UserID c, tc_TokenType = cl_TokenType c \<rparr>)"

section \<open>Login and refresh\<close>

record login_input =
  lgi_Email :: string
  lgi_Password :: string

record token_pair =
  tp_AccessToken :: string
  tp_RefreshToken :: string

definition login_user :: "ext \<Rightarrow> idlib \<Rightarrow> login_input \<Rightarrow> cluster \<Rightarrow> user go_result" where
  "login_user x v inp c =
    (case NewEmail v (lgi_Email inp) of
       Inl _ \<Rightarrow> Inl (Sentinel ErrInvalidCredentials)
     | Inr emailVO \<Rightarrow> (case UserRepository_FindByEmail x v emailVO c of
         Inl _ \<Rightarrow> Inl (Sentinel ErrInvalidCredentials)
       | Inr e \<Rightarrow>
           if \<not> us_Active e then Inl (Sentinel ErrInvalidCredentials)
           else if us_PasswordHash e = [] then Inl (Sentinel ErrInvalidCredentials)
           else (case CheckPassword v (us_PasswordHash e) (lgi_Password inp) of
               Inl _ \<Rightarrow> Inl (Sentinel ErrInvalidCredentials)
             | Inr _ \<Rightarrow> Inr e)))"

text \<open>Both tokens, at the instants of the two calls.\<close>

definition token_pair_for :: "ext \<Rightarrow> jwtlib \<Rightarrow> jwt_service \<Rightarrow> string \<Rightarrow> token_pair go_result" where
  "token_pair_for x j s userID =
    bindE (GenerateAccessToken j s (unix_ns (x_clock x 0)) userID) (\<lambda>accessToken.
    bindE (GenerateRefreshToken j s (unix_ns (x_clock x 1)) userID) (\<lambda>refreshToken.
    Inr \<lparr> tp_AccessToken = accessToken, tp_RefreshToken = refreshToken \<rparr>))"

definition Login_Execute :: "ext \<Rightarrow> idlib \<Rightarrow> jwtlib \<Rightarrow> jwt_service \<Rightarrow> login_input \<Rightarrow> cluster \<Rightarrow> token_pair go_result" where
  "Login_Execute x v j s inp c =
    bindE (login_user x v inp c) (\<lambda>e. token_pair_for x j s (us_ID e))"

definition refresh_user :: "jwtlib \<Rightarrow> jwt_service \<Rightarrow> int \<Rightarrow> string \<Rightarrow> string go_result" where
  "refresh_user j s now refreshToken =
    (case Adapter_ValidateToken j s now refreshToken of
       Inl _ \<Rightarrow> Inl (Sentinel ErrInvalidCredentials)
     | Inr c \<Rightarrow> if tc_TokenType c \<noteq> TokenTypeRefresh then Inl (Sentinel ErrInvalidCredentials)
               else Inr (tc_UserID c))"

definition Refresh_Execute :: "ext \<Rightarrow> jwtlib \<Rightarrow> jwt_service \<Rightarrow> int \<Rightarrow> string \<Rightarrow> token_pair go_result" where
  "Refresh_Execute x j s now refreshToken =
    bindE (refresh_user j s now refreshToken) (\<lambda>userID. token_pair_for x j s userID)"

text \<open>\<^verbatim>\<open>generateDummyHash\<close>: the hash the failing branches of the login compare with, so
  that they take the time of a real comparison. The 32 random bytes are an argument.\<close>

definition generateDummyHash :: "idlib \<Rightarrow> int \<Rightarrow> string option \<Rightarrow> string go_result" where
  "generateDummyHash v cost0 randRead =
    (let cost = (if cost0 < bcrypt_MinCost \<or> bcrypt_MaxCost < cost0 then DefaultBcryptCost else cost0);
         secret = (case randRead of None \<Rightarrow> ''login-dummy-secret-fallback-32by'' | Some b \<Rightarrow> b)
     in case v_bcrypt v 0 secret cost of
          Inl _ \<Rightarrow> v_bcrypt v 1 secret DefaultBcryptCost
        | Inr hash \<Rightarrow> Inr hash)"

end
