(* ===== verification/Web_Auth.thy ===== *)
theory Web_Auth
  imports Health Web_Types Rate_Limit Idempotency Role_UC Auth_UC Account_UC Catalog_UC Statement_UC Ofx_Parser "HOL-Library.AList"
begin

text \<open>
  The state behind a request, the server's settings, and the middlewares that decide who may
  pass: \<^verbatim>\<open>service_key.go\<close>, \<^verbatim>\<open>jwt.go\<close>,
  \<^verbatim>\<open>permission_loader.go\<close> and \<^verbatim>\<open>authorization.go\<close> of
  \<^verbatim>\<open>internal/infrastructure/web/middleware\<close>, with the adapter
  \<^verbatim>\<open>cmd/api/permission_repo_adapter.go\<close>.
\<close>

text \<open>The data of successful answers.\<close>

datatype http_data =
    DUserCreated user_create_output | DUser user_output | DUserUpdated user_update_output
  | DUsers user_list_output
  | DRoleCreated role_create_output | DRoles role_list_output | DRoleDeleted string string
  | DAccountCreated account_create_output | DAccount account_output | DAccounts account_list_output
  | DAccountUpdated account_update_output
  | DStmt stmt_output | DStmts list_output | DImported import_output
  | DCategory category_output | DCategories "category_output list"
  | DTag tag_output | DTags "tag_output list"
  | DTokens token_pair
  | DHealth string string | DReady string "health_status list option"

text \<open>The database, and Redis by the kind of key.\<close>

record world =
  w_cluster :: cluster
  w_users :: "user_output kv"
  w_names :: "string list kv"
  w_idem :: "http_data idem_entry kv"
  w_rate :: "int kv"

section \<open>Service keys\<close>

fun split_on :: "char \<Rightarrow> string \<Rightarrow> string list" where
  "split_on c [] = [[]]"
| "split_on c (a # s) =
    (if a = c then [] # split_on c s
     else case split_on c s of [] \<Rightarrow> [[a]] | p # ps \<Rightarrow> (a # p) # ps)"

definition service_pair :: "string \<Rightarrow> (string \<times> string) option" where
  "service_pair pair = (case split2 (CHR '':'') (TrimSpace pair) of
      (n, None) \<Rightarrow> None
    | (n, Some k) \<Rightarrow>
        let serviceName = TrimSpace n; serviceKey = TrimSpace k
        in if serviceName \<noteq> [] \<and> serviceKey \<noteq> [] then Some (serviceName, serviceKey) else None)"

text \<open>The Go map is an association list with one entry for a name.\<close>

definition ParseServiceKeys :: "string \<Rightarrow> (string \<times> string) list" where
  "ParseServiceKeys raw =
    (if raw = [] then []
     else fold (\<lambda>pair keys. case service_pair pair of None \<Rightarrow> keys | Some (n, k) \<Rightarrow> AList.update n k keys)
            (split_on (CHR '','') raw) [])"

record service_key_config =
  sk_Enabled :: bool
  sk_Keys :: "(string \<times> string) list"

definition hashKey :: "string \<Rightarrow> int list" where
  "hashKey key = sha256 key"

text \<open>The comparison of the hashes takes constant time, also for an unknown service; only its
  result is modelled.\<close>

definition ServiceKeyAuth :: "service_key_config \<Rightarrow> http_request \<Rightarrow> gin_ctx \<Rightarrow> 'd response + gin_ctx" where
  "ServiceKeyAuth config q ctx =
    (if \<not> sk_Enabled config then Inr ctx
     else if sk_Keys config = [] then Inl (SendError 503 ''service authentication not configured'')
     else let serviceName = q_Header q ''Service-Name''; serviceKey = q_Header q ''Service-Key'' in
     if serviceName = [] \<or> serviceKey = [] then Inl (SendError 401 ''unauthorized'')
     else case map_of (sk_Keys config) serviceName of
       None \<Rightarrow> Inl (SendError 401 ''unauthorized'')
     | Some expectedKey \<Rightarrow>
         if hashKey expectedKey \<noteq> hashKey serviceKey then Inl (SendError 401 ''unauthorized'')
         else Inr (ctx\<lparr>k_ServiceKey := Some serviceName\<rparr>))"

section \<open>Tokens\<close>

definition JWTAuth :: "jwtlib \<Rightarrow> jwt_service \<Rightarrow> int \<Rightarrow> http_request \<Rightarrow> gin_ctx \<Rightarrow> 'd response + gin_ctx" where
  "JWTAuth j s now q ctx =
    (let authHeader = q_Header q ''Authorization'' in
     if authHeader = [] then Inl (SendError 401 ''unauthorized'')
     else case split2 (CHR '' '') authHeader of
       (_, None) \<Rightarrow> Inl (SendError 401 ''unauthorized'')
     | (scheme, Some tokenString) \<Rightarrow>
         if map asciiFold scheme \<noteq> map asciiFold ''Bearer'' then Inl (SendError 401 ''unauthorized'')
         else case Adapter_ValidateToken j s now tokenString of
           Inl _ \<Rightarrow> Inl (SendError 401 ''unauthorized'')
         | Inr c \<Rightarrow>
             if tc_TokenType c \<noteq> TokenTypeAccess then Inl (SendError 401 ''unauthorized'')
             else Inr (ctx\<lparr>k_UserID := Some (tc_UserID c)\<rparr>))"

section \<open>Permissions\<close>

definition adapter_GetUserPermissions :: "ext \<Rightarrow> string \<Rightarrow> cluster \<Rightarrow> string list go_result" where
  "adapter_GetUserPermissions x userID c =
    bindE (ParseID (x_uuid_ok x) userID) (\<lambda>i. GetUserPermissions x i c)"

definition adapter_GetUserRoles :: "ext \<Rightarrow> string \<Rightarrow> cluster \<Rightarrow> string list go_result" where
  "adapter_GetUserRoles x userID c =
    bindE (ParseID (x_uuid_ok x) userID) (\<lambda>i. GetUserRoles x i c)"

text \<open>Both reads of \<^verbatim>\<open>CachedPermissionLoader\<close>: the cache, then the database, then
  the cache is filled. A loader without a cache is one with a nil client.\<close>

definition cached_names :: "ext \<Rightarrow> redis_client \<Rightarrow> int \<Rightarrow> string \<Rightarrow> string list go_result \<Rightarrow> string list kv \<Rightarrow>
    string list go_result \<times> string list kv" where
  "cached_names x r now cacheKey load m =
    (case RedisClient_Get x r now cacheKey m of
       Inr cached \<Rightarrow> (Inr cached, m)
     | Inl _ \<Rightarrow> (case load of
         Inl dbErr \<Rightarrow> (Inl dbErr, m)
       | Inr names \<Rightarrow> (Inr names, snd (RedisClient_Set x r now cacheKey names m))))"

definition GetPermissions :: "ext \<Rightarrow> redis_client \<Rightarrow> int \<Rightarrow> string \<Rightarrow> cluster \<Rightarrow> string list kv \<Rightarrow>
    string list go_result \<times> string list kv" where
  "GetPermissions x r now userID c m =
    cached_names x r now (perms_key userID) (adapter_GetUserPermissions x userID c) m"

definition GetRoles :: "ext \<Rightarrow> redis_client \<Rightarrow> int \<Rightarrow> string \<Rightarrow> cluster \<Rightarrow> string list kv \<Rightarrow>
    string list go_result \<times> string list kv" where
  "GetRoles x r now userID c m =
    cached_names x r now (roles_key userID) (adapter_GetUserRoles x userID c) m"

definition RequirePermission :: "ext \<Rightarrow> redis_client \<Rightarrow> int \<Rightarrow> string \<Rightarrow> cluster \<Rightarrow> gin_ctx \<Rightarrow> string list kv \<Rightarrow>
    ('d response + gin_ctx) \<times> string list kv" where
  "RequirePermission x r now requiredPermission c ctx m =
    (case k_UserID ctx of
       None \<Rightarrow> (Inl (SendError 401 ''user not authenticated''), m)
     | Some userID \<Rightarrow>
         if userID = [] then (Inl (SendError 401 ''user not authenticated''), m)
         else case GetPermissions x r now userID c m of
           (Inl loadErr, m) \<Rightarrow> (Inl (SendError 500 ''internal server error''), m)
         | (Inr perms, m) \<Rightarrow>
             if requiredPermission \<notin> set perms then (Inl (SendError 403 ''forbidden''), m)
             else (case GetRoles x r now userID c m of
               (Inl rolesErr, m) \<Rightarrow> (Inl (SendError 500 ''internal server error''), m)
             | (Inr rs, m) \<Rightarrow> (Inr (ctx\<lparr>k_Permissions := Some perms, k_Roles := Some rs\<rparr>), m)))"

section \<open>Who is asking\<close>

text \<open>\<^verbatim>\<open>internal/infrastructure/web/handler/auth_helpers.go\<close>.\<close>

definition isServiceKeyRequest :: "gin_ctx \<Rightarrow> bool" where
  "isServiceKeyRequest ctx \<longleftrightarrow> k_ServiceKey ctx \<noteq> None"

definition isAdmin :: "gin_ctx \<Rightarrow> bool" where
  "isAdmin ctx = (case k_Roles ctx of None \<Rightarrow> False | Some rs \<Rightarrow> ''admin'' \<in> set rs)"

definition isAdminOrOwner :: "gin_ctx \<Rightarrow> string \<Rightarrow> bool" where
  "isAdminOrOwner ctx resourceUserID =
    (if isServiceKeyRequest ctx then True
     else if (case k_UserID ctx of None \<Rightarrow> [] | Some u \<Rightarrow> u) = resourceUserID then True
     else isAdmin ctx)"

definition getRequiredJWTUserID :: "gin_ctx \<Rightarrow> string option" where
  "getRequiredJWTUserID ctx = (case k_UserID ctx of
      None \<Rightarrow> None | Some u \<Rightarrow> if u = [] then None else Some u)"

definition ownershipUserID :: "gin_ctx \<Rightarrow> string" where
  "ownershipUserID ctx =
    (if isServiceKeyRequest ctx \<or> isAdmin ctx then []
     else case getRequiredJWTUserID ctx of None \<Rightarrow> [] | Some u \<Rightarrow> u)"

section \<open>Lemmas\<close>

lemma JWTAuth_Inr:
  "JWTAuth j s now q ctx = (Inr ctx' :: 'd response + gin_ctx) \<longleftrightarrow>
    (\<exists>scheme t c. split2 (CHR '' '') (q_Header q ''Authorization'') = (scheme, Some t) \<and>
      q_Header q ''Authorization'' \<noteq> [] \<and> map asciiFold scheme = map asciiFold ''Bearer'' \<and>
      Adapter_ValidateToken j s now t = Inr c \<and> tc_TokenType c = TokenTypeAccess \<and>
      ctx' = ctx\<lparr>k_UserID := Some (tc_UserID c)\<rparr>)"
  by (auto simp: JWTAuth_def Let_def split: prod.splits option.splits sum.splits if_splits)

lemma ServiceKeyAuth_Inr:
  "ServiceKeyAuth cfg q ctx = (Inr ctx' :: 'd response + gin_ctx) \<longleftrightarrow>
    (\<not> sk_Enabled cfg \<and> ctx' = ctx) \<or>
    (sk_Enabled cfg \<and> q_Header q ''Service-Name'' \<noteq> [] \<and> q_Header q ''Service-Key'' \<noteq> [] \<and>
     (\<exists>k. map_of (sk_Keys cfg) (q_Header q ''Service-Name'') = Some k \<and> sha256 k = sha256 (q_Header q ''Service-Key'')) \<and>
     ctx' = ctx\<lparr>k_ServiceKey := Some (q_Header q ''Service-Name'')\<rparr>)"
  by (auto simp: ServiceKeyAuth_def hashKey_def Let_def split: option.splits if_splits)

lemma RequirePermission_Inr:
  assumes "RequirePermission x r now p c ctx m = (Inr ctx' :: 'd response + gin_ctx, m')"
  obtains u perms rs m1 where "k_UserID ctx = Some u" "u \<noteq> []"
    "GetPermissions x r now u c m = (Inr perms, m1)" "p \<in> set perms"
    "GetRoles x r now u c m1 = (Inr rs, m')" "ctx' = ctx\<lparr>k_Permissions := Some perms, k_Roles := Some rs\<rparr>"
  using assms by (auto simp: RequirePermission_def split: option.splits if_splits prod.splits sum.splits)

end
