(* ===== verification/Handlers.thy ===== *)
theory Handlers
  imports Web_Auth
begin

text \<open>
  \<^verbatim>\<open>internal/infrastructure/web/handler\<close>: every handler, from binding to the status
  of the answer. Binding JSON bodies, query strings and multipart forms is
  \<^verbatim>\<open>gin\<close> with its validator, the record \<^verbatim>\<open>bind_lib\<close>: each field returns the
  bound input, with the fields a handler fills in itself left empty. Spans, logs and metrics are
  left out.
\<close>

datatype 'a bound = Bound 'a | BindEOF | BindError

datatype upload = FileTooLarge | FileMissing | FileUnreadable | FileBytes string

record bind_lib =
  b_user_create :: "string option \<Rightarrow> user_create_input bound"
  b_user_list :: "string \<Rightarrow> user_filter bound"
  b_user_update :: "string option \<Rightarrow> user_update_input bound"
  b_set_password :: "string option \<Rightarrow> set_password_input bound"
  b_change_password :: "string option \<Rightarrow> change_password_input bound"
  b_role_create :: "string option \<Rightarrow> role_create_input bound"
  b_role_list :: "string \<Rightarrow> role_filter bound"
  b_assignment :: "string option \<Rightarrow> string bound"
  b_login :: "string option \<Rightarrow> login_input bound"
  b_refresh :: "string option \<Rightarrow> string bound"
  b_account_create :: "string option \<Rightarrow> account_create_input bound"
  b_account_list :: "string \<Rightarrow> account_list_input bound"
  b_account_update :: "string option \<Rightarrow> account_update_input bound"
  b_stmt_create :: "string option \<Rightarrow> create_input bound"
  b_reverse :: "string option \<Rightarrow> reverse_input bound"
  b_stmt_list :: "string \<Rightarrow> list_input bound"
  b_update_category :: "string option \<Rightarrow> update_category_input bound"
  b_replace_tags :: "string option \<Rightarrow> replace_tags_input bound"
  b_category_create :: "string option \<Rightarrow> (string \<times> string) bound"
  b_category_list :: "string \<Rightarrow> (string \<times> string) bound"
  b_category_update :: "string option \<Rightarrow> string bound"
  b_tag_create :: "string option \<Rightarrow> string bound"
  b_tag_list :: "string \<Rightarrow> string bound"
  b_tag_update :: "string option \<Rightarrow> string bound"
  b_file :: "string option \<Rightarrow> upload"

text \<open>What a request runs against: the environment of the calls, the libraries, the clock, a
  new UUID for the request, what the health checks find (an error text or nothing) and the pages of
  \<^verbatim>\<open>gin-swagger\<close>; and the dependencies wired at start.\<close>

record env =
  e_ext :: ext
  e_id :: idlib
  e_jwt :: jwtlib
  e_ofx :: ofx_lib
  e_bind :: bind_lib
  e_now :: int
  e_new_uuid :: string
  e_check :: "string \<Rightarrow> string option"
  e_swagger :: "http_request \<Rightarrow> http_data response"

record server =
  sv_jwt :: jwt_service
  sv_cache :: redis_client
  sv_perm_cache :: redis_client
  sv_idem :: "idem_store option"
  sv_rate :: "(rl_config \<times> rl_config) option"
  sv_keys :: service_key_config
  sv_bcryptCost :: int
  sv_checker :: "health_check list"
  sv_ServiceName :: string
  sv_SwaggerEnabled :: bool
  sv_Env :: string
  sv_TrustedProxies :: "string list"

type_synonym http_handler = "server \<Rightarrow> env \<Rightarrow> http_request \<Rightarrow> gin_ctx \<Rightarrow> world \<Rightarrow> http_data response \<times> world"

definition reply :: "nat \<Rightarrow> ('a \<Rightarrow> http_data) \<Rightarrow> 'a go_result \<Rightarrow> http_data response" where
  "reply status d r = (case r of Inl (Panic m) \<Rightarrow> panicked | Inl e \<Rightarrow> sendHandledError e | Inr a \<Rightarrow> SendSuccess status (d a))"

definition reply_empty :: "'a go_result \<Rightarrow> http_data response" where
  "reply_empty r = (case r of Inl e \<Rightarrow> sendHandledError e | Inr a \<Rightarrow> SendStatus 204)"

definition bad_body :: "http_data response" where "bad_body = SendError 400 ''invalid request body''"
definition bad_query :: "http_data response" where "bad_query = SendError 400 ''invalid query parameters''"
definition no_user :: "http_data response" where "no_user = SendError 401 ''authentication required''"

text \<open>Writing back the part of the world an operation changes.\<close>

definition on_cluster :: "(cluster \<Rightarrow> 'r \<times> cluster) \<Rightarrow> world \<Rightarrow> 'r \<times> world" where
  "on_cluster f w = (case f (w_cluster w) of (r, c) \<Rightarrow> (r, w\<lparr>w_cluster := c\<rparr>))"

text \<open>Bind the body or answer 400.\<close>

definition with_body :: "'a bound \<Rightarrow> ('a \<Rightarrow> http_data response \<times> world) \<Rightarrow> world \<Rightarrow> http_data response \<times> world" where
  "with_body b k w = (case b of Bound a \<Rightarrow> k a | _ \<Rightarrow> (bad_body, w))"

definition with_query :: "'a bound \<Rightarrow> ('a \<Rightarrow> http_data response \<times> world) \<Rightarrow> world \<Rightarrow> http_data response \<times> world" where
  "with_query b k w = (case b of Bound a \<Rightarrow> k a | _ \<Rightarrow> (bad_query, w))"

definition with_user :: "gin_ctx \<Rightarrow> (string \<Rightarrow> http_data response \<times> world) \<Rightarrow> world \<Rightarrow> http_data response \<times> world" where
  "with_user ctx k w = (case getRequiredJWTUserID ctx of None \<Rightarrow> (no_user, w) | Some u \<Rightarrow> k u)"

section \<open>Users and passwords\<close>

definition UserHandler_Create :: http_handler where
  "UserHandler_Create sv e q ctx w =
    with_body (b_user_create (e_bind e) (q_Body q)) (\<lambda>req.
      case on_cluster (UserCreate_Execute (e_ext e) (e_id e) req) w of
        (r, w) \<Rightarrow> (reply 201 DUserCreated r, w)) w"

definition user_get :: "server \<Rightarrow> env \<Rightarrow> string \<Rightarrow> world \<Rightarrow> user_output go_result \<times> world" where
  "user_get sv e i w =
    (case UserGet_Execute (e_ext e) (e_id e) (sv_cache sv) (e_now e) i (w_cluster w) (w_users w) of
       (r, m) \<Rightarrow> (r, w\<lparr>w_users := m\<rparr>))"

definition UserHandler_GetByID :: http_handler where
  "UserHandler_GetByID sv e q ctx w =
    (if \<not> isAdminOrOwner ctx (q_Param q ''id'') then (SendError 403 ''forbidden'', w)
     else case user_get sv e (q_Param q ''id'') w of (r, w) \<Rightarrow> (reply 200 DUser r, w))"

text \<open>A caller who is neither a service nor an administrator gets the list of himself.\<close>

definition UserHandler_List :: http_handler where
  "UserHandler_List sv e q ctx w =
    with_query (b_user_list (e_bind e) (q_Query q)) (\<lambda>req.
      if \<not> isServiceKeyRequest ctx \<and> \<not> isAdmin ctx
      then (case user_get sv e (case k_UserID ctx of None \<Rightarrow> [] | Some u \<Rightarrow> u) w of
         (r, w) \<Rightarrow> (reply 200 (\<lambda>u. DUsers \<lparr> ulo_Data = [u], ulo_Page = 1, ulo_Limit = 1, ulo_Total = 1, ulo_TotalPages = 1 \<rparr>) r, w))
      else (reply 200 DUsers (UserList_Execute (e_ext e) (e_id e) req (w_cluster w)), w)) w"

definition UserHandler_Update :: http_handler where
  "UserHandler_Update sv e q ctx w =
    (if \<not> isAdminOrOwner ctx (q_Param q ''id'') then (SendError 403 ''forbidden'', w)
     else with_body (b_user_update (e_bind e) (q_Body q)) (\<lambda>req.
       case UserUpdate_Execute (e_ext e) (e_id e) (sv_cache sv) (req\<lparr>uui_ID := q_Param q ''id''\<rparr>) (w_cluster w) (w_users w) of
         (r, c, m) \<Rightarrow> (reply 200 DUserUpdated r, w\<lparr>w_cluster := c, w_users := m\<rparr>)) w)"

definition UserHandler_Delete :: http_handler where
  "UserHandler_Delete sv e q ctx w =
    (if \<not> isAdminOrOwner ctx (q_Param q ''id'') then (SendError 403 ''forbidden'', w)
     else case UserDelete_Execute (e_ext e) (sv_cache sv) (q_Param q ''id'') (w_cluster w) (w_users w) of
         (r, c, m) \<Rightarrow> (reply_empty r, w\<lparr>w_cluster := c, w_users := m\<rparr>))"

definition PasswordHandler_SetPassword :: http_handler where
  "PasswordHandler_SetPassword sv e q ctx w =
    with_body (b_set_password (e_bind e) (q_Body q)) (\<lambda>req.
      case on_cluster (SetPassword_Execute (e_ext e) (e_id e) (sv_bcryptCost sv) req) w of
        (r, w) \<Rightarrow> (reply_empty r, w)) w"

definition PasswordHandler_ChangePassword :: http_handler where
  "PasswordHandler_ChangePassword sv e q ctx w =
    with_body (b_change_password (e_bind e) (q_Body q)) (\<lambda>req.
      case k_UserID ctx of
        None \<Rightarrow> (SendError 401 ''unauthorized'', w)
      | Some u \<Rightarrow>
          if u = [] then (SendError 401 ''unauthorized'', w)
          else case on_cluster (ChangePassword_Execute (e_ext e) (e_id e) (sv_bcryptCost sv) (req\<lparr>cpi_UserID := u\<rparr>)) w of
            (r, w) \<Rightarrow> (reply_empty r, w)) w"

section \<open>Authentication\<close>

definition AuthHandler_Login :: http_handler where
  "AuthHandler_Login sv e q ctx w =
    with_body (b_login (e_bind e) (q_Body q)) (\<lambda>req.
      (reply 200 DTokens (Login_Execute (e_ext e) (e_id e) (e_jwt e) (sv_jwt sv) req (w_cluster w)), w)) w"

definition AuthHandler_Refresh :: http_handler where
  "AuthHandler_Refresh sv e q ctx w =
    with_body (b_refresh (e_bind e) (q_Body q)) (\<lambda>refreshToken.
      (reply 200 DTokens (Refresh_Execute (e_ext e) (e_jwt e) (sv_jwt sv) (e_now e) refreshToken), w)) w"

section \<open>Roles\<close>

definition RoleHandler_Create :: http_handler where
  "RoleHandler_Create sv e q ctx w =
    with_body (b_role_create (e_bind e) (q_Body q)) (\<lambda>req.
      case on_cluster (RoleCreate_Execute (e_ext e) req) w of (r, w) \<Rightarrow> (reply 201 DRoleCreated r, w)) w"

definition RoleHandler_List :: http_handler where
  "RoleHandler_List sv e q ctx w =
    with_query (b_role_list (e_bind e) (q_Query q)) (\<lambda>req.
      (reply 200 DRoles (RoleList_Execute (e_ext e) (e_id e) req (w_cluster w)), w)) w"

definition RoleHandler_Delete :: http_handler where
  "RoleHandler_Delete sv e q ctx w =
    (case on_cluster (RoleDelete_Execute (e_ext e) (q_Param q ''id'')) w of
       (r, w) \<Rightarrow> (reply 200 (\<lambda>(i, t). DRoleDeleted i t) r, w))"

definition RoleHandler_AssignRole :: http_handler where
  "RoleHandler_AssignRole sv e q ctx w =
    with_body (b_assignment (e_bind e) (q_Body q)) (\<lambda>userID.
      case AssignRole_Execute (e_ext e) (sv_cache sv) userID (q_Param q ''id'') (w_cluster w) (w_names w) of
        (r, c, m) \<Rightarrow> (reply_empty r, w\<lparr>w_cluster := c, w_names := m\<rparr>)) w"

definition RoleHandler_RevokeRole :: http_handler where
  "RoleHandler_RevokeRole sv e q ctx w =
    with_body (b_assignment (e_bind e) (q_Body q)) (\<lambda>userID.
      case RevokeRole_Execute (e_ext e) (sv_cache sv) userID (q_Param q ''id'') (w_cluster w) (w_names w) of
        (r, c, m) \<Rightarrow> (reply_empty r, w\<lparr>w_cluster := c, w_names := m\<rparr>)) w"

section \<open>Accounts\<close>

definition AccountHandler_Create :: http_handler where
  "AccountHandler_Create sv e q ctx w =
    with_body (b_account_create (e_bind e) (q_Body q)) (\<lambda>req.
    with_user ctx (\<lambda>u.
      case on_cluster (AccountCreate_Execute (e_ext e) (req\<lparr>aci_UserID := u\<rparr>)) w of
        (r, w) \<Rightarrow> (reply 201 DAccountCreated r, w)) w) w"

definition AccountHandler_GetByID :: http_handler where
  "AccountHandler_GetByID sv e q ctx w =
    (reply 200 DAccount (AccountGet_Execute (e_ext e) (q_Param q ''id'') (ownershipUserID ctx) (w_cluster w)), w)"

definition AccountHandler_List :: http_handler where
  "AccountHandler_List sv e q ctx w =
    with_query (b_account_list (e_bind e) (q_Query q)) (\<lambda>req.
    with_user ctx (\<lambda>u.
      (reply 200 DAccounts (AccountList_Execute (e_ext e) (req\<lparr>ali_UserID := u\<rparr>) (w_cluster w)), w)) w) w"

definition AccountHandler_Update :: http_handler where
  "AccountHandler_Update sv e q ctx w =
    with_body (b_account_update (e_bind e) (q_Body q)) (\<lambda>req.
      case on_cluster (AccountUpdate_Execute (e_ext e)
             (req\<lparr>aui_ID := q_Param q ''id'', aui_RequestingUserID := ownershipUserID ctx\<rparr>)) w of
        (r, w) \<Rightarrow> (reply 200 DAccountUpdated r, w)) w"

definition AccountHandler_Delete :: http_handler where
  "AccountHandler_Delete sv e q ctx w =
    (case on_cluster (AccountDelete_Execute (e_ext e) (q_Param q ''id'') (ownershipUserID ctx)) w of
       (r, w) \<Rightarrow> (reply_empty r, w))"

section \<open>Statements\<close>

definition StatementHandler_Create :: http_handler where
  "StatementHandler_Create sv e q ctx w =
    with_body (b_stmt_create (e_bind e) (q_Body q)) (\<lambda>req.
      case on_cluster (Create_Execute (e_ext e)
             (req\<lparr>ci_AccountID := q_Param q ''id'', ci_RequestingUserID := ownershipUserID ctx\<rparr>)) w of
        (r, w) \<Rightarrow> (reply 201 DStmt r, w)) w"

text \<open>An empty body is allowed.\<close>

definition StatementHandler_Reverse :: http_handler where
  "StatementHandler_Reverse sv e q ctx w =
    (let go = (\<lambda>req. case on_cluster (Reverse_Execute (e_ext e)
             (req\<lparr>ri_AccountID := q_Param q ''id'', ri_StatementID := q_Param q ''statement_id'',
                  ri_RequestingUserID := ownershipUserID ctx\<rparr>)) w of
           (r, w) \<Rightarrow> (reply 201 DStmt r, w))
     in case b_reverse (e_bind e) (q_Body q) of
          Bound req \<Rightarrow> go req
        | BindEOF \<Rightarrow> go \<lparr> ri_StatementID = [], ri_AccountID = [], ri_RequestingUserID = [], ri_Description = [] \<rparr>
        | BindError \<Rightarrow> (bad_body, w))"

definition StatementHandler_List :: http_handler where
  "StatementHandler_List sv e q ctx w =
    with_query (b_stmt_list (e_bind e) (q_Query q)) (\<lambda>req.
      (reply 200 DStmts (List_Execute (e_ext e)
         (req\<lparr>li_AccountID := q_Param q ''id'', li_RequestingUserID := ownershipUserID ctx\<rparr>) (w_cluster w)), w)) w"

definition StatementHandler_GetByID :: http_handler where
  "StatementHandler_GetByID sv e q ctx w =
    (reply 200 DStmt (Get_Execute (e_ext e) (q_Param q ''statement_id'') (q_Param q ''id'') (ownershipUserID ctx) (w_cluster w)), w)"

text \<open>The importer's parser is \<^verbatim>\<open>ofx.Parser\<close>.\<close>

definition ofx_transactions :: "ofx_lib \<Rightarrow> string \<Rightarrow> ofx_txn list go_result" where
  "ofx_transactions l content = bindE (ofx_Parse l (Inr content)) (\<lambda>(header, txns). Inr txns)"

definition StatementHandler_Import :: http_handler where
  "StatementHandler_Import sv e q ctx w =
    (case b_file (e_bind e) (q_Body q) of
       FileTooLarge \<Rightarrow> (SendError 400 ''file too large (max 5MB)'', w)
     | FileMissing \<Rightarrow> (SendError 400 ''file is required'', w)
     | FileUnreadable \<Rightarrow> (SendError 400 ''failed to read uploaded file'', w)
     | FileBytes content \<Rightarrow>
         (case on_cluster (Import_Execute (ofx_transactions (e_ofx e)) (e_ext e)
             \<lparr> ii_AccountID = q_Param q ''id'', ii_RequestingUserID = ownershipUserID ctx, ii_FileContent = content \<rparr>) w of
           (r, w) \<Rightarrow> (reply 200 DImported r, w)))"

definition StatementMetadataHandler_UpdateCategory :: http_handler where
  "StatementMetadataHandler_UpdateCategory sv e q ctx w =
    with_body (b_update_category (e_bind e) (q_Body q)) (\<lambda>req.
      case on_cluster (UpdateCategory_Execute (e_ext e)
             (req\<lparr>uc_StatementID := q_Param q ''id'', uc_RequestingUserID := ownershipUserID ctx\<rparr>)) w of
        (r, w) \<Rightarrow> (reply 200 DStmt r, w)) w"

definition StatementMetadataHandler_ReplaceTags :: http_handler where
  "StatementMetadataHandler_ReplaceTags sv e q ctx w =
    with_body (b_replace_tags (e_bind e) (q_Body q)) (\<lambda>req.
      case on_cluster (ReplaceTags_Execute (e_ext e)
             (req\<lparr>rt_StatementID := q_Param q ''id'', rt_RequestingUserID := ownershipUserID ctx\<rparr>)) w of
        (r, w) \<Rightarrow> (reply 200 DStmt r, w)) w"

section \<open>Categories and tags\<close>

definition CategoryHandler_Create :: http_handler where
  "CategoryHandler_Create sv e q ctx w =
    with_body (b_category_create (e_bind e) (q_Body q)) (\<lambda>(name, kind).
    with_user ctx (\<lambda>u.
      case on_cluster (CategoryCreate_Execute (e_ext e) u name kind) w of (r, w) \<Rightarrow> (reply 201 DCategory r, w)) w) w"

definition CategoryHandler_List :: http_handler where
  "CategoryHandler_List sv e q ctx w =
    with_query (b_category_list (e_bind e) (q_Query q)) (\<lambda>(kind, scope).
    with_user ctx (\<lambda>u.
      (reply 200 DCategories (CategoryList_Execute (e_ext e) u kind scope (w_cluster w)), w)) w) w"

definition CategoryHandler_Update :: http_handler where
  "CategoryHandler_Update sv e q ctx w =
    with_body (b_category_update (e_bind e) (q_Body q)) (\<lambda>name.
    with_user ctx (\<lambda>u.
      case on_cluster (CategoryUpdate_Execute (e_ext e) u (q_Param q ''id'') name) w of
        (r, w) \<Rightarrow> (reply 200 DCategory r, w)) w) w"

definition CategoryHandler_Delete :: http_handler where
  "CategoryHandler_Delete sv e q ctx w =
    with_user ctx (\<lambda>u.
      case on_cluster (CategoryDelete_Execute (e_ext e) u (q_Param q ''id'')) w of (r, w) \<Rightarrow> (reply_empty r, w)) w"

definition TagHandler_Create :: http_handler where
  "TagHandler_Create sv e q ctx w =
    with_body (b_tag_create (e_bind e) (q_Body q)) (\<lambda>name.
    with_user ctx (\<lambda>u.
      case on_cluster (TagCreate_Execute (e_ext e) u name) w of (r, w) \<Rightarrow> (reply 201 DTag r, w)) w) w"

definition TagHandler_List :: http_handler where
  "TagHandler_List sv e q ctx w =
    with_query (b_tag_list (e_bind e) (q_Query q)) (\<lambda>scope.
    with_user ctx (\<lambda>u.
      (reply 200 DTags (TagList_Execute (e_ext e) u scope (w_cluster w)), w)) w) w"

definition TagHandler_Update :: http_handler where
  "TagHandler_Update sv e q ctx w =
    with_body (b_tag_update (e_bind e) (q_Body q)) (\<lambda>name.
    with_user ctx (\<lambda>u.
      case on_cluster (TagUpdate_Execute (e_ext e) u (q_Param q ''id'') name) w of
        (r, w) \<Rightarrow> (reply 200 DTag r, w)) w) w"

definition TagHandler_Delete :: http_handler where
  "TagHandler_Delete sv e q ctx w =
    with_user ctx (\<lambda>u.
      case on_cluster (TagDelete_Execute (e_ext e) u (q_Param q ''id'')) w of (r, w) \<Rightarrow> (reply_empty r, w)) w"

end
