(* ===== verification/Router.thy ===== *)
theory Router
  imports Handlers
begin

text \<open>
  \<^verbatim>\<open>internal/infrastructure/web/router\<close>: the table of routes with the middlewares of
  each, and the chain a request passes: recovery, tracing, metrics and the request log, then
  idempotency, the global rate limit and the route. \<^verbatim>\<open>gin\<close> matches the path: a
  request comes with the pattern it matched, empty when there is none. A request is served at one
  instant; tracing, metrics and logs are left out, except the request identifier.
\<close>

section \<open>The request identifier\<close>

definition requestIDMaxLen :: nat where "requestIDMaxLen = 64"

definition validRequestID :: "string \<Rightarrow> bool" where
  "validRequestID s \<longleftrightarrow> s \<noteq> [] \<and>
    list_all (\<lambda>c. (97 \<le> byte c \<and> byte c \<le> 122) \<or> (65 \<le> byte c \<and> byte c \<le> 90) \<or>
      (48 \<le> byte c \<and> byte c \<le> 57) \<or> c = CHR ''-'') s"

definition request_id :: "string \<Rightarrow> http_request \<Rightarrow> string" where
  "request_id new_uuid q =
    (let r = (if q_Header q ''Request-ID'' = [] then q_Header q ''X-Request-ID'' else q_Header q ''Request-ID'')
     in if r = [] \<or> requestIDMaxLen < length r \<or> \<not> validRequestID r then new_uuid else r)"

section \<open>The table\<close>

datatype access =
    Public
  | AuthLimited
  | ServiceOnly
  | Permission string
  | PermissionKey string

record route =
  rt_Method :: string
  rt_Path :: string
  rt_Access :: access
  rt_Handler :: http_handler

definition route :: "string \<Rightarrow> string \<Rightarrow> access \<Rightarrow> http_handler \<Rightarrow> route" where
  "route meth path acc h = \<lparr> rt_Method = meth, rt_Path = path, rt_Access = acc, rt_Handler = h \<rparr>"

definition health_handler :: http_handler where
  "health_handler sv e q ctx w = (SendSuccess 200 (DHealth ''ok'' (sv_ServiceName sv)), w)"

definition ready_handler :: http_handler where
  "ready_handler sv e q ctx w =
    (case RunAll (e_check e) (sv_checker sv) of (healthy, statuses) \<Rightarrow>
       (SendSuccess (if healthy then 200 else 503)
          (DReady (if healthy then ''ready'' else ''not ready'')
             (if sv_Env sv = ''development'' then Some statuses else None)), w))"

definition swagger_handler :: http_handler where
  "swagger_handler sv e q ctx w = (e_swagger e q, w)"

definition registerSwaggerRoutes :: "route list" where
  "registerSwaggerRoutes = [route ''GET'' ''/swagger/*any'' Public swagger_handler]"

definition registerHealthRoutes :: "route list" where
  "registerHealthRoutes =
    [route ''GET'' ''/health'' Public health_handler,
     route ''GET'' ''/ready'' Public ready_handler]"

definition RegisterAuthRoutes :: "route list" where
  "RegisterAuthRoutes =
    [route ''POST'' ''/auth/login'' AuthLimited AuthHandler_Login,
     route ''POST'' ''/auth/refresh'' AuthLimited AuthHandler_Refresh]"

definition RegisterSetPasswordRoute :: "route list" where
  "RegisterSetPasswordRoute = [route ''POST'' ''/users/password'' ServiceOnly PasswordHandler_SetPassword]"

definition RegisterUserRoutes :: "route list" where
  "RegisterUserRoutes =
    [route ''POST'' ''/users'' (Permission ''user:write'') UserHandler_Create,
     route ''GET'' ''/users'' (Permission ''user:read'') UserHandler_List,
     route ''GET'' ''/users/:id'' (Permission ''user:read'') UserHandler_GetByID,
     route ''PUT'' ''/users/:id'' (Permission ''user:write'') UserHandler_Update,
     route ''DELETE'' ''/users/:id'' (Permission ''user:delete'') UserHandler_Delete]"

definition RegisterChangePasswordRoute :: "route list" where
  "RegisterChangePasswordRoute =
    [route ''PUT'' ''/users/password'' (Permission ''user:write'') PasswordHandler_ChangePassword]"

definition RegisterAccountRoutes :: "route list" where
  "RegisterAccountRoutes =
    [route ''POST'' ''/accounts'' (Permission ''account:write'') AccountHandler_Create,
     route ''GET'' ''/accounts'' (Permission ''account:read'') AccountHandler_List,
     route ''GET'' ''/accounts/:id'' (Permission ''account:read'') AccountHandler_GetByID,
     route ''PUT'' ''/accounts/:id'' (Permission ''account:update'') AccountHandler_Update,
     route ''DELETE'' ''/accounts/:id'' (Permission ''account:delete'') AccountHandler_Delete]"

definition RegisterStatementRoutes :: "route list" where
  "RegisterStatementRoutes =
    [route ''POST'' ''/accounts/:id/statements'' (PermissionKey ''statement:write'') StatementHandler_Create,
     route ''POST'' ''/accounts/:id/statements/import'' (PermissionKey ''statement:write'') StatementHandler_Import,
     route ''GET'' ''/accounts/:id/statements'' (Permission ''statement:read'') StatementHandler_List,
     route ''GET'' ''/accounts/:id/statements/:statement_id'' (Permission ''statement:read'') StatementHandler_GetByID,
     route ''POST'' ''/accounts/:id/statements/:statement_id/reverse'' (PermissionKey ''statement:write'') StatementHandler_Reverse]"

definition RegisterStatementMetadataRoutes :: "route list" where
  "RegisterStatementMetadataRoutes =
    [route ''PATCH'' ''/statements/:id/category'' (Permission ''statement:write'') StatementMetadataHandler_UpdateCategory,
     route ''PUT'' ''/statements/:id/tags'' (Permission ''statement:write'') StatementMetadataHandler_ReplaceTags]"

definition RegisterRoleRoutes :: "route list" where
  "RegisterRoleRoutes =
    [route ''POST'' ''/roles'' (Permission ''role:write'') RoleHandler_Create,
     route ''GET'' ''/roles'' (Permission ''role:read'') RoleHandler_List,
     route ''DELETE'' ''/roles/:id'' (Permission ''role:delete'') RoleHandler_Delete,
     route ''POST'' ''/roles/:id/assign'' (Permission ''role:write'') RoleHandler_AssignRole,
     route ''POST'' ''/roles/:id/revoke'' (Permission ''role:write'') RoleHandler_RevokeRole]"

definition RegisterCategoryRoutes :: "route list" where
  "RegisterCategoryRoutes =
    [route ''POST'' ''/categories'' (Permission ''category:write'') CategoryHandler_Create,
     route ''GET'' ''/categories'' (Permission ''category:read'') CategoryHandler_List,
     route ''PATCH'' ''/categories/:id'' (Permission ''category:write'') CategoryHandler_Update,
     route ''DELETE'' ''/categories/:id'' (Permission ''category:write'') CategoryHandler_Delete]"

definition RegisterTagRoutes :: "route list" where
  "RegisterTagRoutes =
    [route ''POST'' ''/tags'' (Permission ''tag:write'') TagHandler_Create,
     route ''GET'' ''/tags'' (Permission ''tag:read'') TagHandler_List,
     route ''PATCH'' ''/tags/:id'' (Permission ''tag:write'') TagHandler_Update,
     route ''DELETE'' ''/tags/:id'' (Permission ''tag:write'') TagHandler_Delete]"

definition Setup :: "server \<Rightarrow> route list" where
  "Setup sv =
    (if sv_SwaggerEnabled sv then registerSwaggerRoutes else []) @ registerHealthRoutes @
    RegisterAuthRoutes @ RegisterSetPasswordRoute @ RegisterUserRoutes @ RegisterChangePasswordRoute @
    RegisterAccountRoutes @ RegisterStatementRoutes @ RegisterStatementMetadataRoutes @
    RegisterRoleRoutes @ RegisterCategoryRoutes @ RegisterTagRoutes"

definition find_route :: "server \<Rightarrow> http_request \<Rightarrow> route option" where
  "find_route sv q = List.find (\<lambda>r. rt_Method r = q_Method q \<and> rt_Path r = q_FullPath q) (Setup sv)"

section \<open>The chain\<close>

type_synonym served = "world \<Rightarrow> http_data response \<times> world"

text \<open>\<^verbatim>\<open>middleware.RateLimit\<close>, when there is one.\<close>

definition with_rate :: "rl_config option \<Rightarrow> env \<Rightarrow> http_request \<Rightarrow> served \<Rightarrow> served" where
  "with_rate cfg e q k w =
    (case cfg of
       None \<Rightarrow> k w
     | Some cfg \<Rightarrow> (case rate_gate (e_ext e) (e_now e) cfg q (w_rate w) of
         (Inl r, m) \<Rightarrow> (r, w\<lparr>w_rate := m\<rparr>)
       | (Inr hs, m) \<Rightarrow> (case k (w\<lparr>w_rate := m\<rparr>) of (r, w) \<Rightarrow> (add_headers hs r, w))))"

text \<open>\<^verbatim>\<open>middleware.Idempotency\<close>, when there is a store. After a panic the response is
  neither stored nor the key released.\<close>

definition with_idempotency :: "idem_store option \<Rightarrow> env \<Rightarrow> http_request \<Rightarrow> served \<Rightarrow> served" where
  "with_idempotency store e q k w =
    (case store of
       None \<Rightarrow> k w
     | Some st \<Rightarrow> (case idem_begin (e_ext e) st (e_now e) q (w_idem w) of
         (IdemPass, m) \<Rightarrow> k (w\<lparr>w_idem := m\<rparr>)
       | (IdemAnswer r, m) \<Rightarrow> (r, w\<lparr>w_idem := m\<rparr>)
       | (IdemCapture key fp, m) \<Rightarrow> (case k (w\<lparr>w_idem := m\<rparr>) of
           (r, w) \<Rightarrow> (r, if p_Status r = 0 then w
                         else w\<lparr>w_idem := idem_finish (e_ext e) st (e_now e) key fp r (w_idem w)\<rparr>))))"

definition with_permission :: "server \<Rightarrow> env \<Rightarrow> http_request \<Rightarrow> string \<Rightarrow> bool \<Rightarrow> http_handler \<Rightarrow> served" where
  "with_permission sv e q p key h w =
    (case ServiceKeyAuth (sv_keys sv) q empty_ctx of
       Inl r \<Rightarrow> (r, w)
     | Inr ctx \<Rightarrow> (case JWTAuth (e_jwt e) (sv_jwt sv) (e_now e) q ctx of
         Inl r \<Rightarrow> (r, w)
       | Inr ctx \<Rightarrow> (case RequirePermission (e_ext e) (sv_perm_cache sv) (e_now e) p (w_cluster w) ctx (w_names w) of
           (Inl r, m) \<Rightarrow> (r, w\<lparr>w_names := m\<rparr>)
         | (Inr ctx, m) \<Rightarrow> (case if key then require_key (sv_idem sv) q else None of
             Some r \<Rightarrow> (r, w\<lparr>w_names := m\<rparr>)
           | None \<Rightarrow> h sv e q ctx (w\<lparr>w_names := m\<rparr>)))))"

definition run_route :: "server \<Rightarrow> env \<Rightarrow> http_request \<Rightarrow> route \<Rightarrow> served" where
  "run_route sv e q r w =
    (case rt_Access r of
       Public \<Rightarrow> rt_Handler r sv e q empty_ctx w
     | AuthLimited \<Rightarrow> with_rate (map_option snd (sv_rate sv)) e q (rt_Handler r sv e q empty_ctx) w
     | ServiceOnly \<Rightarrow> (case ServiceKeyAuth (sv_keys sv) q empty_ctx of
         Inl a \<Rightarrow> (a, w)
       | Inr ctx \<Rightarrow> rt_Handler r sv e q ctx w)
     | Permission p \<Rightarrow> with_permission sv e q p False (rt_Handler r) w
     | PermissionKey p \<Rightarrow> with_permission sv e q p True (rt_Handler r) w)"

text \<open>A path without a route gets the 404 of \<^verbatim>\<open>gin\<close>.\<close>

definition routed :: "server \<Rightarrow> env \<Rightarrow> http_request \<Rightarrow> served" where
  "routed sv e q w = (case find_route sv q of None \<Rightarrow> (SendStatus 404, w) | Some r \<Rightarrow> run_route sv e q r w)"

definition serve_http :: "server \<Rightarrow> env \<Rightarrow> http_request \<Rightarrow> served" where
  "serve_http sv e q w =
    (case with_idempotency (sv_idem sv) e q
            (with_rate (map_option fst (sv_rate sv)) e q (routed sv e q)) w of
       (r, w) \<Rightarrow> (recovered (add_headers [(''Request-ID'', request_id (e_new_uuid e) q)] r), w))"

section \<open>The chain and the database\<close>

text \<open>The contract of a middleware in front of the routes: it leaves the database and the caches of
  names alone, so a change of the database is one the rest of the chain made, from the same database.\<close>

locale transparent =
  fixes mw :: "(world \<Rightarrow> http_data response \<times> world) \<Rightarrow> world \<Rightarrow> http_data response \<times> world"
  assumes forwards: "mw k w = (r, w') \<Longrightarrow> w_cluster w' \<noteq> w_cluster w \<Longrightarrow>
    \<exists>v r1 w1. k v = (r1, w1) \<and> w_cluster w1 = w_cluster w' \<and> w_cluster v = w_cluster w \<and> w_names v = w_names w"
begin

lemma keeps: "(\<And>v. w_cluster (snd (k v)) = w_cluster v) \<Longrightarrow> w_cluster (snd (mw k w)) = w_cluster w"
  using forwards[of k w "fst (mw k w)" "snd (mw k w)"] by (metis prod.collapse snd_conv)

end

text \<open>Two such middlewares, one around the other, are one.\<close>

locale chained = outer: transparent front_mw + inner: transparent back_mw for front_mw back_mw

sublocale chained \<subseteq> both: transparent "\<lambda>k. front_mw (back_mw k)"
proof
  fix k w r w'
  assume a: "front_mw (back_mw k) w = (r, w')" "w_cluster w' \<noteq> w_cluster w"
  from outer.forwards[OF a] obtain v r1 w1 where 1: "back_mw k v = (r1, w1)" "w_cluster w1 = w_cluster w'"
    "w_cluster v = w_cluster w" "w_names v = w_names w" by blast
  with a(2) inner.forwards[OF 1(1)] show "\<exists>v r1 w1. k v = (r1, w1) \<and> w_cluster w1 = w_cluster w' \<and>
      w_cluster v = w_cluster w \<and> w_names v = w_names w" by auto
qed

interpretation limited: transparent "with_rate cfg e q" for cfg e q
proof
  fix k w r w'
  assume a: "with_rate cfg e q k w = (r, w')" "w_cluster w' \<noteq> w_cluster w"
  show "\<exists>v r1 w1. k v = (r1, w1) \<and> w_cluster w1 = w_cluster w' \<and> w_cluster v = w_cluster w \<and> w_names v = w_names w"
  proof (cases cfg)
    case None
    then show ?thesis using a by (auto simp: with_rate_def)
  next
    case (Some c)
    then obtain m r1 w1 where "k (w\<lparr>w_rate := m\<rparr>) = (r1, w1)" "w_cluster w1 = w_cluster w'"
      using a by (auto simp: with_rate_def split: prod.splits sum.splits)
    then show ?thesis by (intro exI[of _ "w\<lparr>w_rate := m\<rparr>"]) simp
  qed
qed

interpretation replayed: transparent "with_idempotency st e q" for st e q
proof
  fix k w r w'
  assume a: "with_idempotency st e q k w = (r, w')" "w_cluster w' \<noteq> w_cluster w"
  show "\<exists>v r1 w1. k v = (r1, w1) \<and> w_cluster w1 = w_cluster w' \<and> w_cluster v = w_cluster w \<and> w_names v = w_names w"
  proof (cases st)
    case None
    then show ?thesis using a by (auto simp: with_idempotency_def)
  next
    case (Some s)
    then have "\<exists>m r1 w1. k (w\<lparr>w_idem := m\<rparr>) = (r1, w1) \<and> w_cluster w1 = w_cluster w'"
      using a
      by (cases "idem_begin (e_ext e) s (e_now e) q (w_idem w)"; cases "fst (idem_begin (e_ext e) s (e_now e) q (w_idem w))")
        (fastforce simp: with_idempotency_def split: prod.splits if_splits)+
    then show ?thesis by (elim exE) (rule exI, rule exI, rule exI, erule conjE, intro conjI, assumption, assumption, simp_all)
  qed
qed

interpretation front: chained "with_idempotency st e q" "with_rate cfg e q" for st cfg e q ..

end
