(* ===== verification/Startup.thy ===== *)
theory Startup
  imports Config Router
begin

text \<open>
  From the configuration to a running server: \<^verbatim>\<open>cmd/api/server.go\<close> (validation, the
  database cluster, the dependencies), \<^verbatim>\<open>pkg/database\<close>, the constructor of the Redis
  client and the list of trusted proxies. What opening and pinging a server gives is the record
  \<^verbatim>\<open>boot\<close>. Telemetry, logging, listening and shutting down are left out.
\<close>

datatype open_outcome = Opened | OpenFails go_error | PingFails go_error

record boot =
  bo_open :: "string \<Rightarrow> open_outcome"
  bo_redis_url_ok :: "string \<Rightarrow> bool"
  bo_redis_ping :: "go_error option"
  bo_cidrs_ok :: "string list \<Rightarrow> bool"

section \<open>The database cluster\<close>

record db_pool =
  dp_DSN :: string
  dp_MaxOpenConns :: i64
  dp_MaxIdleConns :: i64
  dp_ConnMaxLifetime :: int
  dp_ConnMaxIdleTime :: int

record db_cluster =
  dc_writer :: db_pool
  dc_reader :: "db_pool option"

definition NewConnection :: "boot \<Rightarrow> db_pool \<Rightarrow> db_pool go_result" where
  "NewConnection b cfg =
    (case bo_open b (dp_DSN cfg) of
       OpenFails e \<Rightarrow> Inl (Wrapped ''failed to open database'' e)
     | PingFails e \<Rightarrow> Inl (Wrapped ''failed to ping database'' e)
     | Opened \<Rightarrow> Inr cfg)"

text \<open>A reader that cannot be reached is only logged.\<close>

definition NewDBCluster :: "boot \<Rightarrow> db_pool \<Rightarrow> db_pool option \<Rightarrow> db_cluster go_result" where
  "NewDBCluster b writerCfg readerCfg =
    (case NewConnection b writerCfg of
       Inl writerErr \<Rightarrow> Inl (Wrapped ''failed to connect writer'' writerErr)
     | Inr writer \<Rightarrow> Inr \<lparr> dc_writer = writer, dc_reader =
         (case readerCfg of
            None \<Rightarrow> None
          | Some cfg \<Rightarrow> if dp_DSN cfg \<noteq> [] then (case NewConnection b cfg of Inl _ \<Rightarrow> None | Inr r \<Rightarrow> Some r)
                       else None) \<rparr>)"

definition DBCluster_Writer :: "db_cluster \<Rightarrow> db_pool" where
  "DBCluster_Writer c = dc_writer c"

definition DBCluster_Reader :: "db_cluster \<Rightarrow> db_pool" where
  "DBCluster_Reader c = (case dc_reader c of Some r \<Rightarrow> r | None \<Rightarrow> dc_writer c)"

definition HasSeparateReader :: "db_cluster \<Rightarrow> bool" where
  "HasSeparateReader c \<longleftrightarrow> dc_reader c \<noteq> None"

definition PingAll :: "(db_pool \<Rightarrow> go_error option) \<Rightarrow> db_cluster \<Rightarrow> unit go_result" where
  "PingAll ping c =
    (case ping (dc_writer c) of
       Some e \<Rightarrow> Inl (Wrapped ''writer ping failed'' e)
     | None \<Rightarrow> (case dc_reader c of
         None \<Rightarrow> Inr ()
       | Some r \<Rightarrow> (case ping r of Some e \<Rightarrow> Inl (Wrapped ''reader ping failed'' e) | None \<Rightarrow> Inr ())))"

definition writer_pool :: "db_config \<Rightarrow> db_pool" where
  "writer_pool c =
    \<lparr> dp_DSN = GetWriterDSN c, dp_MaxOpenConns = cdb_MaxOpenConns c, dp_MaxIdleConns = cdb_MaxIdleConns c,
      dp_ConnMaxLifetime = cdb_ConnMaxLifetime c, dp_ConnMaxIdleTime = cdb_ConnMaxIdleTime c \<rparr>"

definition reader_pool :: "db_config \<Rightarrow> db_pool option" where
  "reader_pool c =
    (if cdb_ReplicaEnabled c then Some
       \<lparr> dp_DSN = GetReaderDSN c, dp_MaxOpenConns = cdb_ReplicaMaxOpenConns c,
         dp_MaxIdleConns = cdb_ReplicaMaxIdleConns c, dp_ConnMaxLifetime = cdb_ReplicaConnMaxLifetime c,
         dp_ConnMaxIdleTime = cdb_ReplicaConnMaxIdleTime c \<rparr>
     else None)"

section \<open>Redis and the proxies\<close>

text \<open>A disabled cache is a nil client without an error.\<close>

definition NewRedisClient :: "boot \<Rightarrow> redis_config \<Rightarrow> redis_client go_result" where
  "NewRedisClient b cfg =
    (if \<not> crd_Enabled cfg then Inr None
     else if \<not> bo_redis_url_ok b (crd_URL cfg) then Inl (LibError ''redis: invalid URL'')
     else case bo_redis_ping b of
       Some pingErr \<Rightarrow> Inl pingErr
     | None \<Rightarrow> Inr (Some (case ParseDuration (crd_TTL cfg) of None \<Rightarrow> 300000000000 | Some ttl \<Rightarrow> ttl)))"

definition splitAndTrim :: "string \<Rightarrow> string list" where
  "splitAndTrim raw =
    (if raw = [] then [] else filter (\<lambda>t. t \<noteq> []) (map TrimSpace (split_on (CHR '','') raw)))"

definition configureTrustedProxies :: "boot \<Rightarrow> string \<Rightarrow> string list" where
  "configureTrustedProxies b raw = (let cidrs = splitAndTrim raw in if bo_cidrs_ok b cidrs then cidrs else [])"

section \<open>The dependencies\<close>

text \<open>\<^verbatim>\<open>d, _ := time.ParseDuration(s)\<close>.\<close>

definition parsed :: "string \<Rightarrow> int" where
  "parsed s = (case ParseDuration s of None \<Rightarrow> 0 | Some d \<Rightarrow> d)"

definition health_checks :: "bool \<Rightarrow> redis_client \<Rightarrow> health_check list" where
  "health_checks separate_reader r =
    (let cs = Health_Register ''database_writer'' True [];
         cs = (if separate_reader then Health_Register ''database_reader'' False cs else cs)
     in if r \<noteq> None then Health_Register ''redis'' False cs else cs)"

definition idempotency_store :: "redis_client \<Rightarrow> idem_config \<Rightarrow> idem_store option" where
  "idempotency_store r c =
    (if cid_Enabled c \<and> r \<noteq> None
     then Some \<lparr> st_ttl = parsed (cid_TTL c), st_lockTTL = parsed (cid_LockTTL c) \<rparr> else None)"

definition rate_limits :: "redis_client \<Rightarrow> rate_config \<Rightarrow> (rl_config \<times> rl_config) option" where
  "rate_limits r c =
    (if crl_Enabled c \<and> r \<noteq> None
     then Some (\<lparr> rc_Limit = sint (crl_Requests c), rc_Window = parsed (crl_Window c),
                  rc_FailClosed = False, rc_UnmatchedKey = [] \<rparr>,
                \<lparr> rc_Limit = sint (crl_AuthRequests c), rc_Window = parsed (crl_AuthWindow c),
                  rc_FailClosed = True, rc_UnmatchedKey = [] \<rparr>)
     else None)"

definition permission_cache :: "redis_client \<Rightarrow> redis_config \<Rightarrow> redis_client" where
  "permission_cache r c =
    (if r \<noteq> None
     then RedisClient_WithTTL r (case ParseDuration (crd_PermissionsTTL c) of None \<Rightarrow> 300000000000 | Some t \<Rightarrow> t)
     else None)"

definition buildDependencies :: "boot \<Rightarrow> db_cluster \<Rightarrow> config \<Rightarrow> server" where
  "buildDependencies b cl cfg =
    (let r = (case NewRedisClient b (c_Redis cfg) of Inl _ \<Rightarrow> None | Inr r \<Rightarrow> r) in
     \<lparr> sv_jwt = \<lparr> js_secretKey = cjw_Secret (c_JWT cfg), js_accessTTL = parsed (cjw_AccessTTL (c_JWT cfg)),
                  js_refreshTTL = parsed (cjw_RefreshTTL (c_JWT cfg)) \<rparr>,
       sv_cache = r,
       sv_perm_cache = permission_cache r (c_Redis cfg),
       sv_idem = idempotency_store r (c_Idempotency cfg),
       sv_rate = rate_limits r (c_RateLimit cfg),
       sv_keys = \<lparr> sk_Enabled = cau_Enabled (c_Auth cfg), sk_Keys = ParseServiceKeys (cau_ServiceKeys (c_Auth cfg)) \<rparr>,
       sv_bcryptCost = sint (cjw_BcryptCost (c_JWT cfg)),
       sv_checker = health_checks (HasSeparateReader cl) r,
       sv_ServiceName = cot_ServiceName (c_Otel cfg),
       sv_SwaggerEnabled = csw_Enabled (c_Swagger cfg),
       sv_Env = csv_Env (c_Server cfg),
       sv_TrustedProxies = configureTrustedProxies b (csv_TrustedProxies (c_Server cfg)) \<rparr>)"

definition Start :: "boot \<Rightarrow> config \<Rightarrow> server go_result" where
  "Start b cfg =
    (case Validate cfg of
       Inl e \<Rightarrow> Inl (Wrapped ''invalid configuration'' e)
     | Inr _ \<Rightarrow> bindE (NewDBCluster b (writer_pool (c_DB cfg)) (reader_pool (c_DB cfg))) (\<lambda>cl.
         Inr (buildDependencies b cl cfg)))"

lemma Start_Inr:
  "Start b cfg = Inr sv \<longleftrightarrow> Validate cfg = Inr () \<and>
    (\<exists>cl. NewDBCluster b (writer_pool (c_DB cfg)) (reader_pool (c_DB cfg)) = Inr cl \<and>
      sv = buildDependencies b cl cfg)"
  by (cases "NewDBCluster b (writer_pool (c_DB cfg)) (reader_pool (c_DB cfg))")
    (auto simp: Start_def split: sum.splits)

lemma parsed_Some: "ParseDuration s \<noteq> None \<Longrightarrow> ParseDuration s = Some (parsed s)"
  by (auto simp: parsed_def)

end
