(* ===== verification/Web_Demo.thy ===== *)
theory Web_Demo
  imports Startup Wallet_Demo
begin

text \<open>
  A concrete server and its libraries, for the closed instances of the theorems about requests:
  two signed tokens, binding that accepts one body for each kind of input, a user with a role.
\<close>

definition demo_claims :: "string \<Rightarrow> int \<Rightarrow> claims" where
  "demo_claims kind ttl =
    \<lparr> cl_UserID = ''u1'', cl_TokenType = kind, cl_ExpiresAt = Some ((unix_ns demo_time + ttl) div 1000000000),
      cl_IssuedAt = Some (unix_ns demo_time div 1000000000) \<rparr>"

definition demo_jwt_service :: jwt_service where
  "demo_jwt_service =
    \<lparr> js_secretKey = ''0123456789abcdef0123456789abcdef'', js_accessTTL = 900000000000, js_refreshTTL = 604800000000000 \<rparr>"

definition demo_access :: claims where "demo_access = demo_claims ''access'' 900000000000"
definition demo_refresh :: claims where "demo_refresh = demo_claims ''refresh'' 604800000000000"

definition demo_jwtlib :: jwtlib where
  "demo_jwtlib =
    \<lparr> j_sign = (\<lambda>alg key c. if alg = ''HS256'' \<and> c = demo_access then Inr ''aaa''
         else if alg = ''HS256'' \<and> c = demo_refresh then Inr ''rrr'' else Inl (LibError ''signing'')),
      j_decode = (\<lambda>t. if t = ''aaa'' then Some (''HS256'', demo_access)
         else if t = ''rrr'' then Some (''HS256'', demo_refresh) else None),
      j_verify = (\<lambda>alg key t. True),
      j_claims_ok = (\<lambda>now c. case cl_ExpiresAt c of None \<Rightarrow> True | Some e \<Rightarrow> now < e * 1000000000) \<rparr>"

lemma demo_jwtlib_ok: "jwtlib_ok demo_jwtlib"
  by (auto simp: jwtlib_ok_def demo_jwtlib_def split: if_splits)

definition demo_idlib :: idlib where
  "demo_idlib =
    \<lparr> v_mail_ok = (\<lambda>s. CHR 0x40 \<in> set s), v_letter = (\<lambda>_. False), v_digit = (\<lambda>_. False), v_special = (\<lambda>_. False),
      v_bcrypt = (\<lambda>n pw cost. if 4 \<le> cost \<and> cost \<le> 31
        then Inr (''$2a$'' @ dec_pad 2 (nat cost) @ ''$'' @ replicate 53 (CHR ''x'')) else Inl (LibError ''bcrypt: cost'')),
      v_compare = (\<lambda>h pw. True), v_scan_users = (\<lambda>rs. rs), v_scan_roles = (\<lambda>rs. rs) \<rparr>"

definition demo_text :: "string option \<Rightarrow> string bound" where
  "demo_text b = (case b of None \<Rightarrow> BindError | Some [] \<Rightarrow> BindEOF | Some s \<Rightarrow> Bound s)"

definition demo_body :: "'a \<Rightarrow> string option \<Rightarrow> 'a bound" where
  "demo_body a b = (case b of None \<Rightarrow> BindError | Some [] \<Rightarrow> BindEOF | Some s \<Rightarrow> Bound a)"

definition demo_binds :: bind_lib where
  "demo_binds =
    \<lparr> b_user_create = demo_body \<lparr> uci_Name = ''Bia'', uci_Email = ''bia@x.org'' \<rparr>,
      b_user_list = (\<lambda>_. BindError), b_user_update = (\<lambda>_. BindError),
      b_set_password = demo_body \<lparr> spi_UserID = ''u1'', spi_Password = ''senha-12-forte'', spi_PasswordConfirmation = ''senha-12-forte'' \<rparr>,
      b_change_password = (\<lambda>_. BindError),
      b_role_create = (\<lambda>_. BindError), b_role_list = (\<lambda>_. BindError), b_assignment = demo_text,
      b_login = demo_body \<lparr> lgi_Email = ''ana@x.org'', lgi_Password = ''senha-12-forte'' \<rparr>,
      b_refresh = demo_text,
      b_account_create = (\<lambda>_. BindError), b_account_list = (\<lambda>_. BindError), b_account_update = (\<lambda>_. BindError),
      b_stmt_create = demo_body demo_credit_input, b_reverse = (\<lambda>_. BindEOF), b_stmt_list = (\<lambda>_. BindError),
      b_update_category = (\<lambda>_. BindError), b_replace_tags = (\<lambda>_. BindError),
      b_category_create = (\<lambda>_. BindError), b_category_list = (\<lambda>_. BindError), b_category_update = demo_text,
      b_tag_create = demo_text, b_tag_list = demo_text \<circ> Some, b_tag_update = demo_text,
      b_file = (\<lambda>_. FileMissing) \<rparr>"

definition demo_env :: "string \<Rightarrow> env" where
  "demo_env p =
    \<lparr> e_ext = demo_ext p, e_id = demo_idlib, e_jwt = demo_jwtlib,
      e_ofx = \<lparr> l_decode = (\<lambda>_ _. Inr []), l_upper = (\<lambda>s. s), l_conv = (\<lambda>_. 0) \<rparr>,
      e_bind = demo_binds, e_now = unix_ns demo_time, e_new_uuid = ''req-1'', e_check = (\<lambda>_. None),
      e_swagger = (\<lambda>_. SendStatus 200) \<rparr>"

definition demo_server :: server where
  "demo_server =
    \<lparr> sv_jwt = demo_jwt_service, sv_cache = None, sv_perm_cache = None, sv_idem = None, sv_rate = None,
      sv_keys = \<lparr> sk_Enabled = False, sk_Keys = [] \<rparr>, sv_bcryptCost = 12, sv_checker = [],
      sv_ServiceName = ''financial-wallet'', sv_SwaggerEnabled = False, sv_Env = ''development'',
      sv_TrustedProxies = [] \<rparr>"

definition demo_rbac :: "cluster \<Rightarrow> cluster" where
  "demo_rbac c = c\<lparr>primary := (primary c)\<lparr>
     roles := [\<lparr> rd_ID = ''m1'', rd_Name = ''member'', rd_Description = [], rd_CreatedAt = demo_time, rd_UpdatedAt = demo_time \<rparr>],
     permissions := [\<lparr> pm_ID = ''p1'', pm_Name = ''statement:write'' \<rparr>, \<lparr> pm_ID = ''p2'', pm_Name = ''tag:write'' \<rparr>],
     role_permissions := [(''m1'', ''p1''), (''m1'', ''p2'')],
     user_roles := [\<lparr> ur_UserID = ''u1'', ur_RoleID = ''m1'', ur_CreatedAt = demo_time \<rparr>]\<rparr>\<rparr>"

definition demo_world :: "cluster \<Rightarrow> world" where
  "demo_world c =
    \<lparr> w_cluster = demo_rbac c, w_users = (\<lambda>k. None), w_names = (\<lambda>k. None), w_idem = (\<lambda>k. None), w_rate = (\<lambda>k. None) \<rparr>"

definition demo_request :: "string \<Rightarrow> string \<Rightarrow> string \<Rightarrow> string option \<Rightarrow> http_request" where
  "demo_request meth path i body =
    \<lparr> q_Method = meth, q_FullPath = path,
      q_Header = (\<lambda>h. if h = ''Authorization'' then ''Bearer aaa'' else []),
      q_Param = (\<lambda>p. if p = ''id'' then i else []), q_Query = [], q_Body = body, q_ClientIP = ''10.0.0.1'' \<rparr>"

end
