(* ===== verification/Auth_Properties.thy ===== *)
theory Auth_Properties
  imports Web_Demo
begin

text \<open>
  Tokens, logins and passwords: the two kinds of token are never taken for each other, a login
  tells nothing but yes or no, and a password that was set opens the account as long as its hash is
  one the check accepts.
\<close>

section \<open>Tokens\<close>

lemma issued_token:
  assumes "jwtlib_ok j" "generateToken j s t0 u kind ttl = Inr tok"
  shows "ValidateToken j s now tok =
    (if now < (t0 + ttl) div 1000000000 * 1000000000
     then Inr \<lparr> cl_UserID = u, cl_TokenType = kind, cl_ExpiresAt = Some ((t0 + ttl) div 1000000000),
                cl_IssuedAt = Some (t0 div 1000000000) \<rparr>
     else Inl ErrInvalidToken)"
proof -
  let ?c = "\<lparr> cl_UserID = u, cl_TokenType = kind, cl_ExpiresAt = Some ((t0 + ttl) div 1000000000),
              cl_IssuedAt = Some (t0 div 1000000000) \<rparr>"
  have "j_decode j tok = Some (''HS256'', ?c) \<and> j_verify j ''HS256'' (js_secretKey s) tok"
    using assms unfolding jwtlib_ok_def generateToken_def by blast
  moreover have "j_claims_ok j now ?c \<longleftrightarrow> now < (t0 + ttl) div 1000000000 * 1000000000"
    using assms(1) unfolding jwtlib_ok_def by simp
  ultimately show ?thesis by (simp add: ValidateToken_def)
qed

lemma split_bearer: "split2 (CHR '' '') (''Bearer '' @ tok) = (''Bearer'', Some tok)"
  by (simp add: split2_def)

lemma JWTAuth_bearer:
  assumes "q_Header q ''Authorization'' = ''Bearer '' @ tok"
  shows "JWTAuth j s now q ctx = (case ValidateToken j s now tok of
      Inl _ \<Rightarrow> Inl (SendError 401 ''unauthorized'')
    | Inr c \<Rightarrow> if cl_TokenType c \<noteq> TokenTypeAccess then Inl (SendError 401 ''unauthorized'')
               else Inr (ctx\<lparr>k_UserID := Some (cl_UserID c)\<rparr>))"
  using assms split_bearer[of tok]
  by (simp add: JWTAuth_def Let_def Adapter_ValidateToken_def split: sum.splits)

text \<open>C13. The two tokens of a pair are never taken for each other, whatever the instant: the access
  token authenticates exactly its user until the second it expires and never refreshes; the refresh
  token refreshes for exactly its user until it expires and never authenticates a request. The signing
  library is assumed to decode what it signed and to refuse expired claims.\<close>

theorem token_kinds_apart:
  assumes "jwtlib_ok j" "token_pair_for x j s u = Inr p"
    "q_Header qa ''Authorization'' = ''Bearer '' @ tp_AccessToken p"
    "q_Header qr ''Authorization'' = ''Bearer '' @ tp_RefreshToken p"
  defines "until \<equiv> (\<lambda>n ttl. (unix_ns (x_clock x n) + ttl) div 1000000000 * 1000000000)"
  shows "(JWTAuth j s now qa ctx :: 'd response + gin_ctx) =
      (if now < until 0 (js_accessTTL s) then Inr (ctx\<lparr>k_UserID := Some u\<rparr>) else Inl (SendError 401 ''unauthorized'')) \<and>
    refresh_user j s now (tp_AccessToken p) = Inl (Sentinel ErrInvalidCredentials) \<and>
    refresh_user j s now (tp_RefreshToken p) =
      (if now < until 1 (js_refreshTTL s) then Inr u else Inl (Sentinel ErrInvalidCredentials)) \<and>
    (JWTAuth j s now qr ctx :: 'd response + gin_ctx) = Inl (SendError 401 ''unauthorized'')"
proof -
  from assms(2) obtain a r where g:
    "generateToken j s (unix_ns (x_clock x 0)) u TokenTypeAccess (js_accessTTL s) = Inr a"
    "generateToken j s (unix_ns (x_clock x 1)) u TokenTypeRefresh (js_refreshTTL s) = Inr r"
    "tp_AccessToken p = a" "tp_RefreshToken p = r"
    by (auto simp: token_pair_for_def GenerateAccessToken_def GenerateRefreshToken_def)
  note va = issued_token[OF assms(1) g(1), of now, folded until_def]
  note vr = issued_token[OF assms(1) g(2), of now, folded until_def]
  have "TokenTypeAccess \<noteq> TokenTypeRefresh" by (simp add: TokenTypeAccess_def TokenTypeRefresh_def)
  then show ?thesis
    using JWTAuth_bearer[OF assms(3), of j s now ctx] JWTAuth_bearer[OF assms(4), of j s now ctx] va vr g(3,4)
    by (simp add: refresh_user_def Adapter_ValidateToken_def until_def del: One_nat_def split: if_splits)
qed

lemma demo_pair: "token_pair_for (demo_ext []) demo_jwtlib demo_jwt_service ''u1'' =
    Inr \<lparr> tp_AccessToken = ''aaa'', tp_RefreshToken = ''rrr'' \<rparr>"
  by code_simp

theorem token_kinds_apart_witness:
  "refresh_user demo_jwtlib demo_jwt_service (unix_ns demo_time) ''aaa'' = Inl (Sentinel ErrInvalidCredentials) \<and>
   refresh_user demo_jwtlib demo_jwt_service (unix_ns demo_time + 604799999999999) ''rrr'' = Inr ''u1''"
proof -
  let ?q = "\<lambda>t. (demo_request ''GET'' [] [] None)\<lparr>q_Header := (\<lambda>h. ''Bearer '' @ t)\<rparr>"
  show ?thesis
    using token_kinds_apart[OF demo_jwtlib_ok demo_pair, of "?q ''aaa''" "?q ''rrr''" "unix_ns demo_time" empty_ctx]
      token_kinds_apart[OF demo_jwtlib_ok demo_pair, of "?q ''aaa''" "?q ''rrr''" "unix_ns demo_time + 604799999999999" empty_ctx]
    by (auto simp add: demo_ext_def demo_jwt_service_def demo_time_def)
qed

section \<open>Login\<close>

lemma login_user_Inr:
  "login_user x v inp c = Inr e \<longleftrightarrow>
    v_mail_ok v (lgi_Email inp) \<and> UserRepository_FindByEmail x v (lgi_Email inp) c = Inr e \<and>
    us_Active e \<and> us_PasswordHash e \<noteq> [] \<and> isValidBcryptHash (us_PasswordHash e) \<and>
    v_compare v (us_PasswordHash e) (lgi_Password inp)"
  by (auto simp: login_user_def NewEmail_def CheckPassword_def split: sum.splits if_splits)

lemma login_user_Inl: "login_user x v inp c = Inl err \<Longrightarrow> err = Sentinel ErrInvalidCredentials"
  by (auto simp: login_user_def split: sum.splits if_splits)

text \<open>C15. A login tells an outsider only whether it worked: when signing does not fail, every failure
  is the error answered with 401 and the text \<^verbatim>\<open>invalid credentials\<close>, be it an
  unknown or malformed address, an inactive user, a user without a password, a wrong password or an
  unreachable database; and a success is a pair of tokens, both issued for an active user with that
  address whose stored hash accepts that password.\<close>

theorem login_says_yes_or_no:
  assumes "\<And>alg k c. \<exists>t. j_sign j alg k c = Inr t"
  shows "case Login_Execute x v j s inp c of
      Inl e \<Rightarrow> e = Sentinel ErrInvalidCredentials \<and> HandleError e = (401, ''invalid credentials'')
    | Inr p \<Rightarrow> \<exists>r\<in>set (users (reader c)). \<exists>h. pg_str x None (lgi_Email inp) = Inr (u_Email r) \<and>
        u_Active r \<and> u_PasswordHash r = Some h \<and> v_compare v h (lgi_Password inp) \<and>
        token_pair_for x j s (u_ID r) = Inr p"
proof (cases "login_user x v inp c")
  case (Inl e)
  then show ?thesis using login_user_Inl[OF Inl]
    by (simp add: Login_Execute_def) code_simp
next
  case (Inr e)
  from Inr[unfolded login_user_Inr] have f: "UserRepository_FindByEmail x v (lgi_Email inp) c = Inr e"
    and e: "us_Active e" "us_PasswordHash e \<noteq> []" "v_compare v (us_PasswordHash e) (lgi_Password inp)" by auto
  then obtain m r where r: "pg_str x None (lgi_Email inp) = Inr m"
    "List.find (\<lambda>r. u_Email r = m) (users (reader c)) = Some r" "toUser x v r = Inr e"
    by (auto simp: UserRepository_FindByEmail_def find_user_Inr)
  then have "r \<in> set (users (reader c))" "u_Email r = m" by (auto simp: find_Some_iff)
  moreover have "u_Active r" "us_ID e = u_ID r" "u_PasswordHash r = Some (us_PasswordHash e)"
    using r(3) e by (auto simp: toUser_Inr split: option.splits)
  moreover obtain p where "token_pair_for x j s (us_ID e) = Inr p"
  proof -
    obtain a where a: "GenerateAccessToken j s (unix_ns (x_clock x 0)) (us_ID e) = Inr a"
      unfolding GenerateAccessToken_def generateToken_def using assms by blast
    obtain t where t: "GenerateRefreshToken j s (unix_ns (x_clock x 1)) (us_ID e) = Inr t"
      unfolding GenerateRefreshToken_def generateToken_def using assms by blast
    from a t show thesis by (intro that) (simp add: token_pair_for_def)
  qed
  ultimately show ?thesis using r(1) e Inr by (auto simp: Login_Execute_def)
qed

text \<open>A library that signs everything; an unknown address and a wrong user are told the same.\<close>

theorem login_says_yes_or_no_witness:
  "\<exists>e. Login_Execute (demo_ext []) demo_idlib (demo_jwtlib\<lparr>j_sign := (\<lambda>alg key c. Inr ''t'')\<rparr>) demo_jwt_service
      \<lparr> lgi_Email = ''bob@x.org'', lgi_Password = ''p'' \<rparr> demo_start = Inl e \<and> HandleError e = (401, ''invalid credentials'')"
  using login_says_yes_or_no[where j = "demo_jwtlib\<lparr>j_sign := (\<lambda>alg key c. Inr ''t'')\<rparr>" and x = "demo_ext []"
      and v = demo_idlib and s = demo_jwt_service and inp = "\<lparr> lgi_Email = ''bob@x.org'', lgi_Password = ''p'' \<rparr>"
      and c = demo_start]
  by (auto simp: demo_start_def reader_def demo_user_def empty_db_def split: sum.splits)

section \<open>Passwords\<close>

text \<open>What \<^verbatim>\<open>bcrypt\<close> documents: a hash verifies its password, is 60 bytes of ASCII, and
  starts with the version and the two digits of the cost.\<close>

definition bcrypt_ok :: "idlib \<Rightarrow> bool" where
  "bcrypt_ok v \<longleftrightarrow> (\<forall>n pw cost h. v_bcrypt v n pw cost = Inr h \<longrightarrow>
    bcrypt_MinCost \<le> cost \<and> cost \<le> bcrypt_MaxCost \<and> v_compare v h pw \<and> length h = 60 \<and>
    take 7 h = ''$2a$'' @ dec_pad 2 (nat cost) @ ''$'' \<and> list_all (\<lambda>c. 32 \<le> byte c \<and> byte c < 127) h)"

lemma bcrypt_cost:
  assumes "take 7 h = ''$2a$'' @ dec_pad 2 (nat cost) @ ''$''" "length h = 60" "4 \<le> cost" "cost \<le> 31"
  shows "isValidBcryptHash h \<longleftrightarrow> cost \<le> 16"
proof -
  have n: "h ! i = (''$2a$'' @ dec_pad 2 (nat cost) @ ''$'') ! i" if "i < 7" for i
    using that assms(1) nth_take[of i 7 h] by simp
  have d: "dec_pad 2 (nat cost) = [dig (nat cost div 10 mod 10), dig (nat cost mod 10)]"
    by (simp add: numeral_2_eq_2)
  have b: "byte_digit (dig m) = int m" if "m < 10" for m
    using that by (simp add: byte_digit_def byte_dig)
  have "byte_digit (h ! 4) * 10 + byte_digit (h ! 5) = cost"
  proof -
    have "nat cost div 10 mod 10 = nat cost div 10" using assms(4) by (simp add: nat_le_iff)
    then have "h ! 4 = dig (nat cost div 10)" "h ! 5 = dig (nat cost mod 10)" "nat cost div 10 < 10"
      using n[of 4] n[of 5] assms(4) by (simp_all add: d nat_le_iff)
    moreover have "int (nat cost div 10) * 10 + int (nat cost mod 10) = int (nat cost)"
      using arg_cong[OF div_mult_mod_eq[of "nat cost" 10], of int] by (simp only: of_nat_add of_nat_mult of_nat_numeral)
    ultimately show ?thesis using b assms(3) by simp
  qed
  moreover have "h ! 0 = CHR ''$''" "h ! 1 = CHR ''2''" "h ! 2 = CHR ''a''" "h ! 3 = CHR ''$''" "h ! 6 = CHR ''$''"
    using n[of 0] n[of 1] n[of 2] n[of 3] n[of 6] by (simp_all add: d)
  ultimately show ?thesis
    using assms(2-4) by (simp add: isValidBcryptHash_def Let_def bcrypt_MinCost_def)
qed

lemma distinct_key: "distinct (map k xs) \<Longrightarrow> a \<in> set xs \<Longrightarrow> b \<in> set xs \<Longrightarrow> k a = k b \<Longrightarrow> a = b"
  by (auto simp: distinct_map inj_on_def)

lemma find_update_where:
  assumes "\<And>a. P (f a) = P a"
  shows "List.find P (update_where h f xs) = map_option (\<lambda>a. if h a then f a else a) (List.find P xs)"
  using assms by (induction xs) (auto simp: update_where_def)

lemma SetPassword_Inr:
  assumes "SetPassword_Execute x v cost inp c = (Inr (), c')" "ext_ok x" "bcrypt_ok v" "replica c = None"
    "distinct (map u_ID (users (primary c)))"
  obtains i r h where "x_pg_uuid x (spi_UserID inp) = Some i" "r \<in> set (users (primary c))" "u_ID r = i" "u_Active r"
    "x_uuid_ok x i" "v_mail_ok v (u_Email r)" "u_PasswordHash r = None \<or> u_PasswordHash r = Some []"
    "v_bcrypt v 0 (spi_Password inp) (if cost \<le> 0 then DefaultBcryptCost else cost) = Inr h"
    "spi_Password inp = spi_PasswordConfirmation inp" "ValidatePasswordStrength v (spi_Password inp) = Inr ()"
    "c' = c\<lparr>primary := (primary c)\<lparr>users := update_where (\<lambda>r. u_ID r = i \<and> u_Active r)
       (\<lambda>r. r\<lparr>u_PasswordHash := Some h, u_UpdatedAt := x_pg_time x (x_clock x 0)\<rparr>) (users (primary c))\<rparr>\<rparr>"
proof -
  obtain uid h where p: "SetPassword_prepare x v cost inp c = Inr (uid, h)"
    "UserRepository_UpdatePassword x (x_clock x 0) uid h c = (Inr (), c')"
    using assms(1) by (auto simp: SetPassword_Execute_def split: sum.splits)
  then obtain e where e: "uid = spi_UserID inp" "UserRepository_FindByID x v uid c = Inr e" "us_PasswordHash e = []"
    "spi_Password inp = spi_PasswordConfirmation inp" "NewPassword v 0 (spi_Password inp) cost = Inr h"
    by (auto simp: SetPassword_prepare_def split: if_splits)
  from UserFind_Inr[OF e(2)] obtain i r where r: "x_pg_uuid x uid = Some i"
    "List.find (\<lambda>r. u_ID r = i) (users (reader c)) = Some r" "r \<in> set (users (reader c))" "u_ID r = i" "toUser x v r = Inr e"
    by metis
  have rd: "reader c = primary c" using assms(4) by (simp add: reader_def)
  have b: "v_bcrypt v 0 (spi_Password inp) (if cost \<le> 0 then DefaultBcryptCost else cost) = Inr h"
    "ValidatePasswordStrength v (spi_Password inp) = Inr ()"
    using e(5) by (auto simp: NewPassword_def)
  have "list_all (\<lambda>c. 32 \<le> byte c \<and> byte c < 127) h" "length h = 60"
    using assms(3) b(1) unfolding bcrypt_ok_def by blast+
  then have t: "x_pg_text x (Some 255) h = Inr h"
    using assms(2) unfolding ext_ok_def by simp
  from p(2) obtain n where n: "exec x ''users.UpdatePassword'' (set_password_hash x (x_clock x 0) uid h) c = (Inr n, c')" "n \<noteq> 0"
    unfolding UserRepository_UpdatePassword_def affected_Inr by blast
  from exec_ok[OF n(1)] obtain d where d: "set_password_hash x (x_clock x 0) uid h (primary c) = Inr (n, d)" "c' = c\<lparr>primary := d\<rparr>" by blast
  have d': "n = count_where (\<lambda>r. u_ID r = i \<and> u_Active r) (users (primary c))"
    "d = (primary c)\<lparr>users := update_where (\<lambda>r. u_ID r = i \<and> u_Active r)
       (\<lambda>r. r\<lparr>u_PasswordHash := Some h, u_UpdatedAt := x_pg_time x (x_clock x 0)\<rparr>) (users (primary c))\<rparr>"
    using d(1) r(1) t by (auto simp: set_password_hash_def pg_str_def Let_def)
  then obtain r' where r': "r' \<in> set (users (primary c))" "u_ID r' = i" "u_Active r'"
    using n(2) by (auto simp: count_where_def filter_empty_conv)
  then have "r' = r" using r(3,4) rd by (intro distinct_key[OF assms(5)]) simp_all
  then show thesis
    using that[of i r h] r e(1,3,4) b d(2) d'(2) r' rd
    by (auto simp: toUser_Inr split: option.splits)
qed


lemma demo_bcrypt_ok: "bcrypt_ok demo_idlib"
proof -
  have p: "dec_pad 2 (nat n) = [dig (nat n div 10 mod 10), dig (nat n mod 10)]" for n :: int
    by (simp add: numeral_2_eq_2)
  show ?thesis
    by (auto simp: bcrypt_ok_def demo_idlib_def bcrypt_MinCost_def bcrypt_MaxCost_def p byte_dig split: if_splits)
      (simp add: list_all_iff)
qed

definition demo_set_password :: set_password_input where
  "demo_set_password = \<lparr> spi_UserID = ''u1'', spi_Password = ''senha-12-forte'', spi_PasswordConfirmation = ''senha-12-forte'' \<rparr>"


end
