(* ===== verification/Access_Properties.thy ===== *)
theory Access_Properties
  imports Auth_Properties Idempotency_Properties
begin

text \<open>
  Who may do what: the guards in front of the handlers, the context a handler sees behind them, and
  the isolation of one user's accounts from another's over HTTP.
\<close>

section \<open>The guards of a route\<close>

text \<open>What the guards of a route with a permission establish.\<close>

definition authorized :: "server \<Rightarrow> env \<Rightarrow> http_request \<Rightarrow> string \<Rightarrow> cluster \<Rightarrow> string list kv \<Rightarrow> bool" where
  "authorized sv e q p c m \<longleftrightarrow>
    (\<exists>scheme tok cl perms m'. split2 (CHR '' '') (q_Header q ''Authorization'') = (scheme, Some tok) \<and>
      map asciiFold scheme = ''BEARER'' \<and>
      ValidateToken (e_jwt e) (sv_jwt sv) (e_now e) tok = Inr cl \<and> cl_TokenType cl = TokenTypeAccess \<and>
      cl_UserID cl \<noteq> [] \<and>
      GetPermissions (e_ext e) (sv_perm_cache sv) (e_now e) (cl_UserID cl) c m = (Inr perms, m') \<and> p \<in> set perms)"

definition service_key_ok :: "server \<Rightarrow> http_request \<Rightarrow> bool" where
  "service_key_ok sv q \<longleftrightarrow> sk_Enabled (sv_keys sv) \<longrightarrow>
    (\<exists>k. map_of (sk_Keys (sv_keys sv)) (q_Header q ''Service-Name'') = Some k \<and> hashKey k = hashKey (q_Header q ''Service-Key''))"

lemma bearer_fold: "map asciiFold ''Bearer'' = ''BEARER''"
  by code_simp

lemma JWTAuth_user:
  assumes "JWTAuth j s now q ctx = (Inr ctx' :: 'd response + gin_ctx)"
  obtains scheme tok cl where "split2 (CHR '' '') (q_Header q ''Authorization'') = (scheme, Some tok)"
    "map asciiFold scheme = ''BEARER''" "ValidateToken j s now tok = Inr cl" "cl_TokenType cl = TokenTypeAccess"
    "ctx' = ctx\<lparr>k_UserID := Some (cl_UserID cl)\<rparr>"
  using assms unfolding JWTAuth_Inr bearer_fold Adapter_ValidateToken_def by fastforce

lemma permission_reached:
  assumes "with_permission sv e q p key h w = (r, w')" "w_cluster w' \<noteq> w_cluster w"
  shows "service_key_ok sv q \<and> authorized sv e q p (w_cluster w) (w_names w)"
proof -
  obtain c1 where 1: "ServiceKeyAuth (sv_keys sv) q empty_ctx = (Inr c1 :: http_data response + gin_ctx)"
    using assms by (cases "ServiceKeyAuth (sv_keys sv) q empty_ctx :: http_data response + gin_ctx")
      (auto simp: with_permission_def)
  obtain c2 where 2: "JWTAuth (e_jwt e) (sv_jwt sv) (e_now e) q c1 = (Inr c2 :: http_data response + gin_ctx)"
    using assms 1 by (cases "JWTAuth (e_jwt e) (sv_jwt sv) (e_now e) q c1 :: http_data response + gin_ctx")
      (auto simp: with_permission_def)
  obtain c3 m where 3: "RequirePermission (e_ext e) (sv_perm_cache sv) (e_now e) p (w_cluster w) c2 (w_names w) =
      (Inr c3 :: http_data response + gin_ctx, m)"
    using assms 1 2
    by (cases "RequirePermission (e_ext e) (sv_perm_cache sv) (e_now e) p (w_cluster w) c2 (w_names w)
          :: (http_data response + gin_ctx) \<times> string list kv"; cases "fst (RequirePermission (e_ext e) (sv_perm_cache sv) (e_now e) p (w_cluster w) c2 (w_names w)
          :: (http_data response + gin_ctx) \<times> string list kv)")
      (auto simp: with_permission_def)
  from JWTAuth_user[OF 2] obtain scheme tok cl where j:
    "split2 (CHR '' '') (q_Header q ''Authorization'') = (scheme, Some tok)" "map asciiFold scheme = ''BEARER''"
    "ValidateToken (e_jwt e) (sv_jwt sv) (e_now e) tok = Inr cl" "cl_TokenType cl = TokenTypeAccess"
    "c2 = c1\<lparr>k_UserID := Some (cl_UserID cl)\<rparr>" by blast
  from RequirePermission_Inr[OF 3] j(5) have "cl_UserID cl \<noteq> [] \<and>
      (\<exists>perms m1. GetPermissions (e_ext e) (sv_perm_cache sv) (e_now e) (cl_UserID cl) (w_cluster w) (w_names w) = (Inr perms, m1) \<and>
        p \<in> set perms)" by (metis gin_ctx.select_convs(1) gin_ctx.surjective gin_ctx.update_convs(1) option.inject)
  moreover have "service_key_ok sv q"
    using 1 by (auto simp: ServiceKeyAuth_Inr service_key_ok_def hashKey_def)
  ultimately show ?thesis using j by (auto simp: authorized_def)
qed

lemmas routes = registerHealthRoutes_def registerSwaggerRoutes_def RegisterAuthRoutes_def
  RegisterSetPasswordRoute_def RegisterUserRoutes_def RegisterChangePasswordRoute_def
  RegisterAccountRoutes_def RegisterStatementRoutes_def RegisterStatementMetadataRoutes_def
  RegisterRoleRoutes_def RegisterCategoryRoutes_def RegisterTagRoutes_def route_def

text \<open>The routes without a token: health, readiness, documentation, login and refresh, none of
  which writes to the database, and the first password.\<close>

lemma route_kinds:
  "r \<in> set (Setup sv) \<Longrightarrow>
    (\<exists>p. rt_Access r = Permission p \<or> rt_Access r = PermissionKey p) \<or>
    (rt_Access r = ServiceOnly \<and> rt_Method r = ''POST'' \<and> rt_Path r = ''/users/password'') \<or>
    (rt_Access r \<in> {Public, AuthLimited} \<and>
      rt_Handler r \<in> {swagger_handler, health_handler, ready_handler, AuthHandler_Login, AuthHandler_Refresh})"
  by (auto simp: Setup_def routes split: if_splits)

lemma public_keeps:
  assumes "h \<in> {swagger_handler, health_handler, ready_handler, AuthHandler_Login, AuthHandler_Refresh}"
  shows "snd (h sv e q ctx w) = w"
  using assms
  by (auto simp: swagger_handler_def health_handler_def ready_handler_def AuthHandler_Login_def
      AuthHandler_Refresh_def with_body_def split: bound.splits prod.splits)

lemma find_routeD: "find_route sv q = Some r \<Longrightarrow> r \<in> set (Setup sv) \<and> rt_Method r = q_Method q \<and> rt_Path r = q_FullPath q"
  unfolding find_route_def by (auto simp: find_Some_iff)

lemma route_reached:
  assumes "run_route sv e q r w = (resp, w')" "w_cluster w' \<noteq> w_cluster w" "find_route sv q = Some r"
  shows "service_key_ok sv q \<and>
    ((q_Method q = ''POST'' \<and> q_FullPath q = ''/users/password'') \<or>
     (\<exists>p. rt_Access r \<in> {Permission p, PermissionKey p} \<and> authorized sv e q p (w_cluster w) (w_names w)))"
proof -
  note r = find_routeD[OF assms(3)]
  consider p where "rt_Access r = Permission p \<or> rt_Access r = PermissionKey p"
    | "rt_Access r = ServiceOnly" "rt_Method r = ''POST''" "rt_Path r = ''/users/password''"
    | "rt_Access r \<in> {Public, AuthLimited}"
      "rt_Handler r \<in> {swagger_handler, health_handler, ready_handler, AuthHandler_Login, AuthHandler_Refresh}"
    using route_kinds[of r sv] r by blast
  then show ?thesis
  proof cases
    case 1
    then show ?thesis using assms(1,2) permission_reached[of sv e q p _ "rt_Handler r" w resp w']
      by (auto simp: run_route_def)
  next
    case 2
    then show ?thesis using assms(1,2) r
      by (auto simp: run_route_def ServiceKeyAuth_Inr service_key_ok_def hashKey_def split: sum.splits)
  next
    case 3
    then have False using assms(1,2) public_keeps[OF 3(2)] limited.forwards[of _ e q "rt_Handler r sv e q empty_ctx" w resp w']
      by (auto simp: run_route_def) (metis snd_conv world.select_convs(1) world.surjective world.update_convs(5))+
    then show ?thesis ..
  qed
qed



section \<open>What the handler is told\<close>

lemma guarded_context:
  assumes "with_permission sv e q p key h w = (r, w')"
  obtains "w_cluster w' = w_cluster w" "\<And>d. p_Body r \<noteq> DataBody d"
  | c1 c2 c3 m where
    "ServiceKeyAuth (sv_keys sv) q empty_ctx = (Inr c1 :: http_data response + gin_ctx)"
    "JWTAuth (e_jwt e) (sv_jwt sv) (e_now e) q c1 = (Inr c2 :: http_data response + gin_ctx)"
    "RequirePermission (e_ext e) (sv_perm_cache sv) (e_now e) p (w_cluster w) c2 (w_names w) =
      (Inr c3 :: http_data response + gin_ctx, m)"
    "h sv e q c3 (w\<lparr>w_names := m\<rparr>) = (r, w')"
proof -
  show thesis
  proof (cases "ServiceKeyAuth (sv_keys sv) q empty_ctx :: http_data response + gin_ctx")
    case (Inl a)
    then have "\<exists>n m. a = SendError n m"
      by (auto simp: ServiceKeyAuth_def Let_def split: if_splits option.splits)
    with Inl assms show thesis by (intro that(1)) (auto simp: with_permission_def)
  next
    case 1: (Inr c1)
    show thesis
    proof (cases "JWTAuth (e_jwt e) (sv_jwt sv) (e_now e) q c1 :: http_data response + gin_ctx")
      case (Inl a)
      then have "\<exists>n m. a = SendError n m"
        by (auto simp: JWTAuth_def Let_def split: if_splits option.splits prod.splits sum.splits)
      with 1 Inl assms show thesis by (intro that(1)) (auto simp: with_permission_def)
    next
      case 2: (Inr c2)
      obtain g m where g: "RequirePermission (e_ext e) (sv_perm_cache sv) (e_now e) p (w_cluster w) c2 (w_names w) =
          (g :: http_data response + gin_ctx, m)" by fastforce
      show thesis
      proof (cases g)
        case (Inl a)
        then have "\<exists>n m. a = SendError n m"
          using g by (auto simp: RequirePermission_def split: if_splits option.splits prod.splits sum.splits)
        with 1 2 g Inl assms show thesis by (intro that(1)) (auto simp: with_permission_def)
      next
        case 3: (Inr c3)
        show thesis
        proof (cases "if key then require_key (sv_idem sv) q else (None :: http_data response option)")
          case None
          with 1 2 3 g assms show thesis by (intro that(2)) (auto simp: with_permission_def)
        next
          case (Some a)
          then have "\<exists>n m. a = SendError n m" by (auto simp: require_key_def split: if_splits option.splits)
          with 1 2 3 g Some assms show thesis by (intro that(1)) (auto simp: with_permission_def)
        qed
      qed
    qed
  qed
qed

lemma ServiceKeyAuth_ctx:
  "ServiceKeyAuth k q empty_ctx = (Inr c :: 'd response + gin_ctx) \<Longrightarrow>
    k_Roles c = None \<and> k_UserID c = None \<and> (k_ServiceKey c \<noteq> None \<longleftrightarrow> sk_Enabled k)"
  by (auto simp: ServiceKeyAuth_Inr empty_ctx_def)

text \<open>On whose behalf a handler acts: behind the guards of a route with a permission, the user of
  the context is the token's, and the owner that the use cases compare with is that user, unless the
  user is an administrator or service keys are switched on. With service keys on, every request that
  got this far names a service, and so no ownership is checked for anybody: every token with the
  permission may act on every user's records.\<close>

theorem ownership_scope:
  assumes "ServiceKeyAuth k q empty_ctx = (Inr c1 :: http_data response + gin_ctx)"
    "JWTAuth j s now q c1 = (Inr c2 :: http_data response + gin_ctx)"
    "RequirePermission x r now p cl c2 m = (Inr c3 :: http_data response + gin_ctx, m')"
  shows "\<exists>tok c perms rs. snd (split2 (CHR '' '') (q_Header q ''Authorization'')) = Some tok \<and>
    ValidateToken j s now tok = Inr c \<and> cl_UserID c \<noteq> [] \<and> k_UserID c3 = Some (cl_UserID c) \<and>
    k_Permissions c3 = Some perms \<and> p \<in> set perms \<and> k_Roles c3 = Some rs \<and>
    ownershipUserID c3 = (if sk_Enabled k \<or> ''admin'' \<in> set rs then [] else cl_UserID c) \<and>
    (\<forall>i. isAdminOrOwner c3 i \<longleftrightarrow> sk_Enabled k \<or> ''admin'' \<in> set rs \<or> i = cl_UserID c)"
proof -
  from JWTAuth_user[OF assms(2)] obtain scheme tok c where t:
    "split2 (CHR '' '') (q_Header q ''Authorization'') = (scheme, Some tok)"
    "ValidateToken j s now tok = Inr c" "c2 = c1\<lparr>k_UserID := Some (cl_UserID c)\<rparr>" by metis
  from RequirePermission_Inr[OF assms(3)] obtain u perms rs m1 where p: "k_UserID c2 = Some u" "u \<noteq> []" "p \<in> set perms"
    "c3 = c2\<lparr>k_Permissions := Some perms, k_Roles := Some rs\<rparr>" by metis
  then show ?thesis
    using t ServiceKeyAuth_ctx[OF assms(1)]
    by (auto simp: ownershipUserID_def isServiceKeyRequest_def isAdmin_def isAdminOrOwner_def getRequiredJWTUserID_def)
qed

text \<open>A user with a role, seen through a nil cache.\<close>

lemma demo_names:
  "GetPermissions (demo_ext []) None now ''u1'' (demo_rbac demo_start) m = (Inr [''statement:write'', ''tag:write''], m)"
  "GetRoles (demo_ext []) None now ''u1'' (demo_rbac demo_start) m = (Inr [''member''], m)"
proof -
  have "adapter_GetUserPermissions (demo_ext []) ''u1'' (demo_rbac demo_start) = Inr [''statement:write'', ''tag:write'']"
    "adapter_GetUserRoles (demo_ext []) ''u1'' (demo_rbac demo_start) = Inr [''member'']" by code_simp+
  then show "GetPermissions (demo_ext []) None now ''u1'' (demo_rbac demo_start) m = (Inr [''statement:write'', ''tag:write''], m)"
    "GetRoles (demo_ext []) None now ''u1'' (demo_rbac demo_start) m = (Inr [''member''], m)"
    by (simp_all add: GetPermissions_def GetRoles_def cached_names_def RedisClient_Get_def RedisClient_Set_def)
qed

lemma demo_token: "ValidateToken demo_jwtlib demo_jwt_service (unix_ns demo_time) ''aaa'' = Inr demo_access"
  by code_simp

text \<open>A plain user of a deployment with service keys: no owner is compared.\<close>

definition demo_keyed_request :: http_request where
  "demo_keyed_request = (demo_request ''GET'' ''/accounts/:id'' ''a00'' None)\<lparr>q_Header := (\<lambda>h.
     if h = ''Authorization'' then ''Bearer aaa'' else if h = ''Service-Name'' then ''bff''
     else if h = ''Service-Key'' then ''s3cret'' else [])\<rparr>"

theorem ownership_scope_witness:
  "\<exists>c3. fst (RequirePermission (demo_ext []) None (unix_ns demo_time) ''tag:write'' (demo_rbac demo_start)
        (empty_ctx\<lparr>k_ServiceKey := Some ''bff'', k_UserID := Some ''u1''\<rparr>) (\<lambda>k. None)) = (Inr c3 :: http_data response + gin_ctx) \<and>
    ownershipUserID c3 = [] \<and> isAdminOrOwner c3 ''u2''"
proof -
  let ?k = "\<lparr> sk_Enabled = True, sk_Keys = [(''bff'', ''s3cret'')] \<rparr>"
  let ?c1 = "empty_ctx\<lparr>k_ServiceKey := Some ''bff''\<rparr>"
  let ?c2 = "empty_ctx\<lparr>k_ServiceKey := Some ''bff'', k_UserID := Some ''u1''\<rparr>"
  let ?c3 = "?c2\<lparr>k_Permissions := Some [''statement:write'', ''tag:write''], k_Roles := Some [''member'']\<rparr>"
  have 1: "ServiceKeyAuth ?k demo_keyed_request empty_ctx = (Inr ?c1 :: http_data response + gin_ctx)"
    by (simp add: ServiceKeyAuth_def demo_keyed_request_def Let_def)
  have 2: "JWTAuth demo_jwtlib demo_jwt_service (unix_ns demo_time) demo_keyed_request ?c1 = (Inr ?c2 :: http_data response + gin_ctx)"
    using JWTAuth_bearer[of demo_keyed_request "''aaa''" demo_jwtlib demo_jwt_service "unix_ns demo_time" ?c1] demo_token
    by (simp add: demo_keyed_request_def demo_access_def demo_claims_def TokenTypeAccess_def)
  have 3: "RequirePermission (demo_ext []) None (unix_ns demo_time) ''tag:write'' (demo_rbac demo_start) ?c2 (\<lambda>k. None) =
      (Inr ?c3 :: http_data response + gin_ctx, \<lambda>k. None)"
    by (simp add: RequirePermission_def demo_names)
  show ?thesis using ownership_scope[OF 1 2 3] 3 by auto
qed

section \<open>Isolation of the tenants\<close>

definition account_handlers :: "http_handler set" where
  "account_handlers =
    {AccountHandler_GetByID, AccountHandler_Update, AccountHandler_Delete, StatementHandler_Create,
     StatementHandler_Reverse, StatementHandler_List, StatementHandler_GetByID, StatementHandler_Import}"

lemma not_owned:
  assumes "\<And>a. AccountRepository_FindByID x i c = Inr a \<Longrightarrow> a_UserID a \<noteq> u" "u \<noteq> []"
  shows "\<exists>e. owned_account x i u c = Inl e" "\<exists>e. account_of x i u c = Inl e"
  using assms by (cases "AccountRepository_FindByID x i c"; auto simp: owned_account_def account_of_def)+

lemma reply_error [simp]: "p_Body (reply n d (Inl e)) \<noteq> DataBody b" "p_Body (reply_empty (Inl e)) \<noteq> DataBody b"
  by (auto simp: reply_def reply_empty_def sendHandledError_def SendError_def panicked_def split: go_error.splits prod.splits)

lemma foreign_writes:
  assumes "\<And>a. AccountRepository_FindByID x i c = Inr a \<Longrightarrow> a_UserID a \<noteq> u" "u \<noteq> []"
  shows "\<exists>e. Create_Execute x (ci\<lparr>ci_AccountID := i, ci_RequestingUserID := u\<rparr>) c = (Inl e, c)"
    "\<exists>e. Reverse_Execute x (ri\<lparr>ri_AccountID := i, ri_StatementID := s, ri_RequestingUserID := u\<rparr>) c = (Inl e, c)"
    "\<exists>e. Import_Execute parse x \<lparr> ii_AccountID = i, ii_RequestingUserID = u, ii_FileContent = f \<rparr> c = (Inl e, c)"
    "\<exists>e. AccountUpdate_Execute x (ui\<lparr>aui_ID := i, aui_RequestingUserID := u\<rparr>) c = (Inl e, c)"
    "\<exists>e. AccountDelete_Execute x i u c = (Inl e, c)"
    "\<exists>e. AccountGet_Execute x i u c = Inl e" "\<exists>e. Get_Execute x s i u c = Inl e"
    "\<exists>e. List_Execute x (li\<lparr>li_AccountID := i, li_RequestingUserID := u\<rparr>) c = Inl e"
proof -
  from not_owned[of x i c u, OF assms] obtain e1 e2 where o: "owned_account x i u c = Inl e1" "account_of x i u c = Inl e2"
    by blast
  show "\<exists>e. Create_Execute x (ci\<lparr>ci_AccountID := i, ci_RequestingUserID := u\<rparr>) c = (Inl e, c)"
    using o by (cases "x_uuid_ok x i") (simp_all add: Create_Execute_def Create_prepare_def ParseID_def)
  show "\<exists>e. Reverse_Execute x (ri\<lparr>ri_AccountID := i, ri_StatementID := s, ri_RequestingUserID := u\<rparr>) c = (Inl e, c)"
    using o by (cases "x_uuid_ok x i"; cases "x_uuid_ok x s") (simp_all add: Reverse_Execute_def Reverse_prepare_def ParseID_def)
  show "\<exists>e. Import_Execute parse x \<lparr> ii_AccountID = i, ii_RequestingUserID = u, ii_FileContent = f \<rparr> c = (Inl e, c)"
    using o by (cases "x_uuid_ok x i") (simp_all add: Import_Execute_def Import_prepare_def ParseID_def)
  show "\<exists>e. AccountUpdate_Execute x (ui\<lparr>aui_ID := i, aui_RequestingUserID := u\<rparr>) c = (Inl e, c)"
    using o by (cases "x_uuid_ok x i") (simp_all add: AccountUpdate_Execute_def AccountUpdate_prepare_def ParseID_def)
  show "\<exists>e. AccountDelete_Execute x i u c = (Inl e, c)"
    using o assms(2) by (cases "x_uuid_ok x i") (simp_all add: AccountDelete_Execute_def AccountDelete_prepare_def ParseID_def)
  show "\<exists>e. AccountGet_Execute x i u c = Inl e"
    using o by (cases "x_uuid_ok x i") (simp_all add: AccountGet_Execute_def ParseID_def)
  show "\<exists>e. Get_Execute x s i u c = Inl e"
    using o by (cases "x_uuid_ok x i"; cases "x_uuid_ok x s") (simp_all add: Get_Execute_def ParseID_def)
  show "\<exists>e. List_Execute x (li\<lparr>li_AccountID := i, li_RequestingUserID := u\<rparr>) c = Inl e"
    using o by (cases "x_uuid_ok x i") (simp_all add: List_Execute_def ParseID_def)
qed

text \<open>A handler whose use case fails leaves the database alone and answers without data.\<close>

definition refused :: "http_data response \<times> world \<Rightarrow> world \<Rightarrow> bool" where
  "refused rw w \<longleftrightarrow> w_cluster (snd rw) = w_cluster w \<and> (\<forall>d. p_Body (fst rw) \<noteq> DataBody d)"

lemma refused_error [simp]: "refused (reply n d (Inl e), w) w" "refused (reply_empty (Inl e), w) w"
  by (simp_all add: refused_def)

lemma refused_binding:
  "(\<And>a. refused (k a) w) \<Longrightarrow> refused (with_body b k w) w" "(\<And>a. refused (k a) w) \<Longrightarrow> refused (with_query b k w) w"
  by (cases b; simp add: with_body_def with_query_def refused_def bad_body_def bad_query_def)+

lemma refused_on_cluster:
  "\<exists>e. f (w_cluster w) = (Inl e, w_cluster w) \<Longrightarrow> refused (case on_cluster f w of (r, w) \<Rightarrow> (reply n d r, w)) w"
  "\<exists>e. g (w_cluster w) = (Inl e, w_cluster w) \<Longrightarrow> refused (case on_cluster g w of (r, w) \<Rightarrow> (reply_empty r, w)) w"
  by (auto simp: on_cluster_def)

lemma foreign_handlers:
  assumes "h \<in> account_handlers" "ownershipUserID ctx = u" "u \<noteq> []"
    "\<And>a. AccountRepository_FindByID (e_ext e) (q_Param q ''id'') (w_cluster w) = Inr a \<Longrightarrow> a_UserID a \<noteq> u"
  shows "refused (h sv e q ctx w) w"
proof -
  note f = foreign_writes[of "e_ext e" "q_Param q ''id''" "w_cluster w" u, OF assms(4,3)]
  have "refused (AccountHandler_GetByID sv e q ctx w) w"
    using f(6) assms(2) by (auto simp: AccountHandler_GetByID_def)
  moreover have "refused (AccountHandler_Update sv e q ctx w) w"
    using f(4) assms(2) by (auto simp: AccountHandler_Update_def intro!: refused_binding refused_on_cluster)
  moreover have "refused (AccountHandler_Delete sv e q ctx w) w"
    using f(5) assms(2) by (auto simp: AccountHandler_Delete_def intro!: refused_on_cluster)
  moreover have "refused (StatementHandler_Create sv e q ctx w) w"
    using f(1) assms(2) by (auto simp: StatementHandler_Create_def intro!: refused_binding refused_on_cluster)
  moreover have "refused (StatementHandler_Reverse sv e q ctx w) w"
  proof -
    have "refused (case on_cluster (Reverse_Execute (e_ext e) (req\<lparr>ri_AccountID := q_Param q ''id'',
        ri_StatementID := q_Param q ''statement_id'', ri_RequestingUserID := ownershipUserID ctx\<rparr>)) w of
        (r, w) \<Rightarrow> (reply 201 DStmt r, w)) w" for req
      unfolding assms(2) by (rule refused_on_cluster(1)) (rule f(2))
    moreover have "refused (bad_body, w) w" by (simp add: refused_def bad_body_def)
    ultimately show ?thesis
      unfolding StatementHandler_Reverse_def Let_def by (cases "b_reverse (e_bind e) (q_Body q)") (simp_all only: bound.case)
  qed
  moreover have "refused (StatementHandler_List sv e q ctx w) w"
    using f(8) assms(2) by (auto simp: StatementHandler_List_def intro!: refused_binding) (metis refused_error(1))
  moreover have "refused (StatementHandler_GetByID sv e q ctx w) w"
    using f(7) assms(2) by (auto simp: StatementHandler_GetByID_def) (metis refused_error(1))
  moreover have "refused (StatementHandler_Import sv e q ctx w) w"
    using f(3) assms(2) by (cases "b_file (e_bind e) (q_Body q)")
      (auto simp: StatementHandler_Import_def intro!: refused_on_cluster, auto simp: refused_def)
  ultimately show ?thesis using assms(1) by (auto simp: account_handlers_def)
qed

lemma account_routes:
  "r \<in> set (Setup sv) \<Longrightarrow> starts_with ''/accounts/:id'' (rt_Path r) \<Longrightarrow>
    rt_Handler r \<in> account_handlers \<and> (\<exists>p. rt_Access r = Permission p \<or> rt_Access r = PermissionKey p)"
  by (auto simp: Setup_def routes starts_with_def account_handlers_def split: if_splits)


text \<open>The token's user \<^verbatim>\<open>u1\<close> asks for an account of \<^verbatim>\<open>u2\<close>.\<close>

definition demo_foreign :: cluster where
  "demo_foreign = demo_start\<lparr>primary := (primary demo_start)\<lparr>accounts := [demo_account\<lparr>ad_UserID := ''u2''\<rparr>]\<rparr>\<rparr>"


end
