(* ===== verification/Rate_Properties.thy ===== *)
theory Rate_Properties
  imports Web_Demo
begin

text \<open>
  The rate limits: one limiter admits exactly its limit in a window; the two limiters in front of
  the login count in one counter.
\<close>

text \<open>C17. A limiter admits exactly its limit in each window: of the calls for one key that fall into
  the window opened by the first of them, the first \<^verbatim>\<open>limit\<close> are allowed and all later ones
  are not; and once the window is over the key is free again, so the next call opens a new one.\<close>

theorem rate_limit_exact:
  assumes "kv_get t0 k m = None" "0 \<le> window" "x_fault x (''ratelimit.Allow/'' @ k) 0 = None"
    "\<forall>t\<in>set ts. t < t0 + window div 1000000 * 1000000"
  shows "fst (allow_run x k limit window (t0 # ts) m) = map (\<lambda>i. 1 + int i \<le> limit) [0..<Suc (length ts)] \<and>
    (\<forall>t. kv_get t k (snd (allow_run x k limit window (t0 # ts) m)) = None \<longleftrightarrow> t0 + window div 1000000 * 1000000 \<le> t)"
proof -
  let ?e = "t0 + window div 1000000 * 1000000"
  obtain res where r: "RateLimit_Allow x t0 k limit window m = (Inr res, m(k := Some (1, Some ?e)))" "rr_Allowed res = (1 \<le> limit)"
    using Allow_first[OF assms(1-3)] by blast
  have c: "counter k 1 ?e (m(k := Some (1, Some ?e)))" by (simp add: counter_def)
  note run = allow_run_live[OF c _ assms(4,3), of limit window]
  have l: "map (\<lambda>i. 1 + int i \<le> limit) [0..<Suc (length ts)] = (1 \<le> limit) # map (\<lambda>i. 1 + 1 + int i \<le> limit) [0..<length ts]"
    by (simp add: upt_conv_Cons map_Suc_upt[symmetric] comp_def algebra_simps del: upt_Suc)
  show ?thesis
    using run r unfolding l
    by (auto simp only: allow_run.simps split_beta prod.case sum.case fst_conv snd_conv counter_def kv_get_def
        option.case zero_less_one not_less simp_thms split: if_splits)
qed

theorem rate_limit_exact_witness:
  "fst (allow_run (demo_ext []) ''k'' 2 60000000000 [5, 6, 7] (\<lambda>k. None)) = [True, True, False]"
  using rate_limit_exact[of 5 "''k''" "\<lambda>k. None" 60000000000 "demo_ext []" "[6, 7]" 2]
  by (simp add: kv_get_def demo_ext_def upt_conv_Cons)

section \<open>The limiter of the login\<close>

lemma gate_live:
  assumes "counter (rl_key cfg q) n ex m" "now < ex" "0 < n" "x_fault x (''ratelimit.Allow/'' @ rl_key cfg q) 0 = None"
  shows "\<exists>g. rate_gate x now cfg q m = (g :: 'd response + (string \<times> string) list, m(rl_key cfg q := Some (n + 1, Some ex))) \<and>
    (if n + 1 \<le> rc_Limit cfg then \<exists>hs. g = Inr hs else \<exists>r. g = Inl r \<and> p_Status r = 429)"
  using Allow_next[OF assms, of "rc_Limit cfg" "rc_Window cfg"] by (auto simp: rate_gate_def)

lemma gate_first:
  assumes "kv_get now (rl_key cfg q) m = None" "0 \<le> rc_Window cfg" "1 \<le> rc_Limit cfg"
    "x_fault x (''ratelimit.Allow/'' @ rl_key cfg q) 0 = None"
  shows "\<exists>hs. rate_gate x now cfg q m = (Inr hs :: 'd response + (string \<times> string) list,
    m(rl_key cfg q := Some (1, Some (now + rc_Window cfg div 1000000 * 1000000))))"
  using Allow_first[OF assms(1,2,4), of "rc_Limit cfg"] assms(3) by (auto simp: rate_gate_def)

text \<open>The two limiters of a login route around a handler that answers 204, at a list of instants:
  the statuses in order.\<close>

definition login_chain :: "rl_config \<Rightarrow> rl_config \<Rightarrow> env \<Rightarrow> http_request \<Rightarrow> int \<Rightarrow> served" where
  "login_chain g a e q t =
    with_rate (Some g) (e\<lparr>e_now := t\<rparr>) q (with_rate (Some a) (e\<lparr>e_now := t\<rparr>) q (\<lambda>w. (SendStatus 204, w)))"

lemma login_route_chain:
  assumes "find_route sv q = Some r" "rt_Access r = AuthLimited" "sv_rate sv = Some (g, a)"
  shows "with_rate (map_option fst (sv_rate sv)) e q (routed sv e q) w =
    with_rate (Some g) e q (with_rate (Some a) e q (rt_Handler r sv e q empty_ctx)) w"
proof -
  have "routed sv e q = with_rate (Some a) e q (rt_Handler r sv e q empty_ctx)"
    using assms by (intro ext) (simp add: routed_def run_route_def)
  then show ?thesis using assms(3) by simp
qed

fun login_run :: "rl_config \<Rightarrow> rl_config \<Rightarrow> env \<Rightarrow> http_request \<Rightarrow> int list \<Rightarrow> world \<Rightarrow> nat list \<times> world" where
  "login_run g a e q [] w = ([], w)"
| "login_run g a e q (t # ts) w =
    (case login_chain g a e q t w of (r, w) \<Rightarrow>
      (case login_run g a e q ts w of (ss, w) \<Rightarrow> (p_Status r # ss, w)))"

lemma same_key: "q_FullPath q \<noteq> [] \<Longrightarrow> rl_key g q = rl_key a q"
  by (simp add: rl_key_def Let_def)

lemma login_chain_live:
  assumes "q_FullPath q \<noteq> []" "x_fault (e_ext e) (''ratelimit.Allow/'' @ rl_key g q) 0 = None"
    "counter (rl_key g q) n ex (w_rate w)" "t < ex" "0 < n" "n + 2 \<le> rc_Limit g"
  shows "\<exists>r w'. login_chain g a e q t w = (r, w') \<and> p_Status r = (if n + 2 \<le> rc_Limit a then 204 else 429) \<and>
    counter (rl_key g q) (n + 2) ex (w_rate w')"
proof -
  let ?k = "rl_key g q"
  let ?m1 = "(w_rate w)(?k := Some (n + 1, Some ex))"
  note k = same_key[OF assms(1), of g a]
  obtain hs where 1: "rate_gate (e_ext e) t g q (w_rate w) = (Inr hs :: http_data response + (string \<times> string) list, ?m1)"
    using gate_live[of g q n ex "w_rate w" t "e_ext e", OF assms(3-5,2)] assms(6) by auto
  have c: "counter (rl_key a q) (n + 1) ex ?m1" by (simp add: counter_def k)
  obtain g2 where 2: "rate_gate (e_ext e) t a q ?m1 = (g2 :: http_data response + (string \<times> string) list, ?m1(?k := Some (n + 1 + 1, Some ex)))"
    "if n + 1 + 1 \<le> rc_Limit a then \<exists>hs. g2 = Inr hs else \<exists>r. g2 = Inl r \<and> p_Status r = 429"
    using gate_live[of a q "n + 1" ex ?m1 t "e_ext e", OF c assms(4)] assms(2,5) k by auto
  show ?thesis
    using 1 2 by (auto simp: login_chain_def with_rate_def counter_def split: if_splits)
qed

lemma login_run_live:
  assumes "q_FullPath q \<noteq> []" "x_fault (e_ext e) (''ratelimit.Allow/'' @ rl_key g q) 0 = None"
    "counter (rl_key g q) n ex (w_rate w)" "\<forall>t\<in>set ts. t < ex" "0 < n" "n + 2 * int (length ts) \<le> rc_Limit g"
  shows "fst (login_run g a e q ts w) = map (\<lambda>i. if n + 2 + 2 * int i \<le> rc_Limit a then 204 else 429) [0..<length ts]"
  using assms(3-)
proof (induction ts arbitrary: n w)
  case (Cons t ts)
  obtain r w' where r: "login_chain g a e q t w = (r, w')" "p_Status r = (if n + 2 \<le> rc_Limit a then 204 else 429)"
    "counter (rl_key g q) (n + 2) ex (w_rate w')"
    using login_chain_live[OF assms(1,2) Cons.prems(1), of t a] Cons.prems by auto
  have "fst (login_run g a e q ts w') = map (\<lambda>i. if n + 2 + 2 + 2 * int i \<le> rc_Limit a then 204 else 429) [0..<length ts]"
    using Cons.IH[OF r(3)] Cons.prems by simp
  then show ?case
    using r by (simp add: upt_conv_Cons map_Suc_upt[symmetric] comp_def algebra_simps split_beta del: upt_Suc)
qed simp

text \<open>C18. The limiter of the login routes builds the same key as the global limiter in front of it, so
  every request counts twice and the auth limit admits half of what it says: of the login requests of
  one client within the global window, the first \<^verbatim>\<open>AuthRequests div 2\<close> reach the handler and
  the others are answered 429, while the window of the auth limiter is never used. (The global limit
  is large enough for the requests considered.)\<close>

theorem auth_limit_counts_twice:
  assumes "q_FullPath q \<noteq> []" "x_fault (e_ext e) (''ratelimit.Allow/'' @ rl_key g q) 0 = None"
    "kv_get t0 (rl_key g q) (w_rate w) = None" "0 \<le> rc_Window g"
    "\<forall>t\<in>set (t0 # ts). t < t0 + rc_Window g div 1000000 * 1000000"
    "2 * int (length (t0 # ts)) \<le> rc_Limit g"
  shows "fst (login_run g a e q (t0 # ts) w) =
    map (\<lambda>i. if int i < rc_Limit a div 2 then 204 else 429) [0..<length (t0 # ts)]"
proof -
  let ?k = "rl_key g q"
  let ?ex = "t0 + rc_Window g div 1000000 * 1000000"
  let ?m1 = "(w_rate w)(?k := Some (1, Some ?ex))"
  note k = same_key[OF assms(1), of g a]
  have two: "2 + 2 * int i \<le> A \<longleftrightarrow> int i < A div 2" for i and A :: int by linarith
  obtain hs where 1: "rate_gate (e_ext e) t0 g q (w_rate w) = (Inr hs :: http_data response + (string \<times> string) list, ?m1)"
    using gate_first[OF assms(3,4) _ assms(2)] assms(6) by auto
  have c: "counter (rl_key a q) 1 ?ex ?m1" by (simp add: counter_def k)
  obtain g2 where 2: "rate_gate (e_ext e) t0 a q ?m1 = (g2 :: http_data response + (string \<times> string) list, ?m1(?k := Some (1 + 1, Some ?ex)))"
    "if 1 + 1 \<le> rc_Limit a then \<exists>hs. g2 = Inr hs else \<exists>r. g2 = Inl r \<and> p_Status r = 429"
    using gate_live[OF c, of t0 "e_ext e"] assms(2,5) k by auto
  obtain r w' where r: "login_chain g a e q t0 w = (r, w')" "p_Status r = (if 2 \<le> rc_Limit a then 204 else 429)"
    "counter ?k 2 ?ex (w_rate w')"
    using 1 2 by (auto simp: login_chain_def with_rate_def counter_def split: if_splits)
  have "fst (login_run g a e q ts w') = map (\<lambda>i. if 2 + 2 + 2 * int i \<le> rc_Limit a then 204 else 429) [0..<length ts]"
    using login_run_live[OF assms(1,2) r(3), of ts a] assms(5,6) by simp
  then have "fst (login_run g a e q (t0 # ts) w) =
      map (\<lambda>i. if 2 + 2 * int i \<le> rc_Limit a then 204 else 429) [0..<length (t0 # ts)]"
    using r by (simp add: upt_conv_Cons map_Suc_upt[symmetric] comp_def algebra_simps split_beta del: upt_Suc)
  then show ?thesis unfolding two .
qed

definition demo_limits :: "rl_config \<times> rl_config" where
  "demo_limits =
    (\<lparr> rc_Limit = 100, rc_Window = 60000000000, rc_FailClosed = False, rc_UnmatchedKey = [] \<rparr>,
     \<lparr> rc_Limit = 5, rc_Window = 60000000000, rc_FailClosed = True, rc_UnmatchedKey = [] \<rparr>)"

theorem auth_limit_counts_twice_witness:
  "fst (login_run (fst demo_limits) (snd demo_limits) (demo_env []) (demo_request ''POST'' ''/auth/login'' [] None)
     [10, 20, 30, 40] (demo_world demo_start)) = [204, 204, 429, 429]"
  using auth_limit_counts_twice[of "demo_request ''POST'' ''/auth/login'' [] None" "demo_env []" "fst demo_limits" 10
      "demo_world demo_start" "[20, 30, 40]" "snd demo_limits"]
  by (simp add: demo_request_def demo_env_def demo_ext_def demo_limits_def demo_world_def kv_get_def upt_conv_Cons)

end
