(* ===== verification/Cache_Properties.thy ===== *)
theory Cache_Properties
  imports Web_Demo
begin

text \<open>
  The two caches. The cached read of a user agrees with the database as long as the calls use
  canonical identifiers and nothing fails half-way; permissions follow an assignment or a revocation
  at once. (Deleting a role drops no cached permissions, so nothing of the kind holds for it.)
\<close>

definition no_faults :: "ext \<Rightarrow> bool" where
  "no_faults x \<longleftrightarrow> (\<forall>site n. x_fault x site n = None)"

section \<open>What a user looks like\<close>

definition user_view :: "ext \<Rightarrow> idlib \<Rightarrow> cluster \<Rightarrow> string \<Rightarrow> user_output option" where
  "user_view x v c i = (case List.find (\<lambda>r. u_ID r = i) (users (primary c)) of
      None \<Rightarrow> None
    | Some r \<Rightarrow> (case toUser x v r of Inl _ \<Rightarrow> None | Inr e \<Rightarrow> Some (user_to_output e)))"

text \<open>Equal but for the time of the last change, which a password change moves too.\<close>

definition agrees :: "ext \<Rightarrow> idlib \<Rightarrow> cluster \<Rightarrow> string \<Rightarrow> user_output \<Rightarrow> bool" where
  "agrees x v c i u \<longleftrightarrow> x_pg_uuid x i = Some i \<longrightarrow>
    (\<exists>w. user_view x v c i = Some w \<and> u\<lparr>uo_UpdatedAt := []\<rparr> = w\<lparr>uo_UpdatedAt := []\<rparr>)"

record user_state =
  uc_cluster :: cluster
  uc_cache :: "user_output kv"

text \<open>Calls with one database: each in its own environment, at its own instant, with the same
  conversions and without failures, and with canonical identifiers. There is no replica.\<close>

definition same_db :: "ext \<Rightarrow> ext \<Rightarrow> bool" where
  "same_db x y \<longleftrightarrow> x_pg_uuid y = x_pg_uuid x \<and> x_uuid_ok y = x_uuid_ok x \<and> no_faults y"

inductive user_call :: "ext \<Rightarrow> idlib \<Rightarrow> int \<Rightarrow> user_state \<Rightarrow> user_state \<Rightarrow> bool" for x v ttl where
  Get: "same_db x y \<Longrightarrow> x_pg_uuid x i = Some i \<Longrightarrow>
    UserGet_Execute y v (Some ttl) now i (uc_cluster s) (uc_cache s) = (res, m) \<Longrightarrow> user_call x v ttl s (s\<lparr>uc_cache := m\<rparr>)"
| Create: "same_db x y \<Longrightarrow> UserCreate_Execute y v inp (uc_cluster s) = (res1, c) \<Longrightarrow> user_call x v ttl s (s\<lparr>uc_cluster := c\<rparr>)"
| Update: "same_db x y \<Longrightarrow> x_pg_uuid x (uui_ID inp2) = Some (uui_ID inp2) \<Longrightarrow>
    UserUpdate_Execute y v (Some ttl) inp2 (uc_cluster s) (uc_cache s) = (res2, c, m) \<Longrightarrow>
    user_call x v ttl s \<lparr> uc_cluster = c, uc_cache = m \<rparr>"
| Delete: "same_db x y \<Longrightarrow> x_pg_uuid x i = Some i \<Longrightarrow>
    UserDelete_Execute y (Some ttl) i (uc_cluster s) (uc_cache s) = (res3, c, m) \<Longrightarrow> user_call x v ttl s \<lparr> uc_cluster = c, uc_cache = m \<rparr>"
| SetPassword: "same_db x y \<Longrightarrow> SetPassword_Execute y v cost inp4 (uc_cluster s) = (res4, c) \<Longrightarrow>
    user_call x v ttl s (s\<lparr>uc_cluster := c\<rparr>)"
| ChangePassword: "same_db x y \<Longrightarrow> ChangePassword_Execute y v cost inp5 (uc_cluster s) = (res4, c) \<Longrightarrow>
    user_call x v ttl s (s\<lparr>uc_cluster := c\<rparr>)"

inductive user_calls :: "ext \<Rightarrow> idlib \<Rightarrow> int \<Rightarrow> user_state \<Rightarrow> user_state \<Rightarrow> bool" for x v ttl where
  Refl: "user_calls x v ttl s s"
| Step: "user_calls x v ttl s t \<Longrightarrow> user_call x v ttl t u \<Longrightarrow> user_calls x v ttl s u"

definition coherent_state :: "ext \<Rightarrow> idlib \<Rightarrow> user_state \<Rightarrow> bool" where
  "coherent_state x v s \<longleftrightarrow> replica (uc_cluster s) = None \<and>
    redis_kv.coherent user_key (agrees x v (uc_cluster s)) (uc_cache s)"

section \<open>The effect of the calls on the view\<close>

lemma inj_user_key: "inj user_key"
  unfolding user_key_def by (rule inj_prefix)

lemma find_update_id:
  assumes "\<And>a. u_ID (f a) = u_ID a"
  shows "List.find (\<lambda>a. u_ID a = i) (update_where h f xs) = map_option (\<lambda>a. if h a then f a else a) (List.find (\<lambda>a. u_ID a = i) xs)"
  using assms by (induction xs) (auto simp: update_where_def)

lemma view_other:
  assumes "\<And>a. u_ID (f a) = u_ID a" "\<And>a. h a \<Longrightarrow> u_ID a \<noteq> i"
  shows "user_view x v (c\<lparr>primary := (primary c)\<lparr>users := update_where h f (users (primary c))\<rparr>\<rparr>) i = user_view x v c i"
proof (cases "List.find (\<lambda>a. u_ID a = i) (users (primary c))")
  case (Some a)
  then have "\<not> h a" using assms(2)[of a] by (auto simp: find_Some_iff)
  with Some show ?thesis by (simp add: user_view_def find_update_id[OF assms(1)])
qed (simp add: user_view_def find_update_id[OF assms(1)])

lemma view_password:
  assumes "agrees x v c i u" "\<And>a. f a = a\<lparr>u_PasswordHash := p, u_UpdatedAt := t\<rparr>"
  shows "agrees x v (c\<lparr>primary := (primary c)\<lparr>users := update_where h f (users (primary c))\<rparr>\<rparr>) i u"
proof -
  have i: "u_ID (f a) = u_ID a" for a by (simp add: assms(2))
  show ?thesis
    using assms(1)
    by (auto simp: agrees_def user_view_def find_update_id[where f = f, OF i] assms(2) toUser_def NewEmail_def ParseID_def
        user_to_output_def split: option.splits sum.splits if_splits)
qed

lemma find_snoc: "List.find P (xs @ [a]) = (case List.find P xs of None \<Rightarrow> if P a then Some a else None | Some b \<Rightarrow> Some b)"
  by (induction xs) auto

lemma view_append:
  assumes "agrees x v c i u"
  shows "agrees x v (c\<lparr>primary := (primary c)\<lparr>users := users (primary c) @ [n]\<rparr>\<rparr>) i u"
  using assms by (auto simp: agrees_def user_view_def find_snoc split: option.splits)

lemma same_db_toUser: "same_db x y \<Longrightarrow> toUser y v r = toUser x v r"
  by (simp add: same_db_def toUser_def)

lemma same_db_fault: "same_db x y \<Longrightarrow> x_fault y site n = None"
  by (simp add: same_db_def no_faults_def)

lemma exec_faultless: "same_db x y \<Longrightarrow> exec y site q c = (case q (primary c) of
    Inl e \<Rightarrow> (Inl e, c) | Inr (n, d) \<Rightarrow> (Inr n, c\<lparr>primary := d\<rparr>))"
  by (simp add: exec_def same_db_fault)

lemma FindByID_view:
  assumes "same_db x y" "x_pg_uuid x i = Some i" "replica c = None" "UserRepository_FindByID y v i c = Inr e"
  shows "user_view x v c i = Some (user_to_output e)" "us_ID e = i"
proof -
  from UserFind_Inr[OF assms(4)] obtain j r where r: "x_pg_uuid y i = Some j"
    "List.find (\<lambda>r. u_ID r = j) (users (reader c)) = Some r" "toUser y v r = Inr e" "us_ID e = j" by metis
  then have "j = i" using assms(1,2) by (simp add: same_db_def)
  then show "user_view x v c i = Some (user_to_output e)" "us_ID e = i"
    using r assms(3) same_db_toUser[OF assms(1)] by (simp_all add: user_view_def reader_def)
qed

text \<open>A write that touches one user, with that user's key deleted; and a write that touches none.\<close>

lemma coherent_after_write:
  assumes "coherent_state x v s" "\<And>k. k \<noteq> i \<Longrightarrow> user_view x v c k = user_view x v (uc_cluster s) k" "replica c = None"
  shows "coherent_state x v \<lparr> uc_cluster = c, uc_cache = kv_del (user_key i) (uc_cache s) \<rparr>"
proof -
  have "redis_kv.coherent user_key (agrees x v c) (kv_del (user_key i) (uc_cache s))"
    using assms(1) redis_kv.coherent_change[of user_key "agrees x v (uc_cluster s)" "uc_cache s" i "agrees x v c"]
    by (simp add: coherent_state_def inj_user_key agrees_def[abs_def] assms(2))
  then show ?thesis using assms(3) by (simp add: coherent_state_def)
qed

lemma coherent_more:
  assumes "coherent_state x v s" "\<And>k u. agrees x v (uc_cluster s) k u \<Longrightarrow> agrees x v c k u" "replica c = None"
  shows "coherent_state x v (s\<lparr>uc_cluster := c\<rparr>)"
  using assms redis_kv.coherent_mono[of user_key "agrees x v (uc_cluster s)" "uc_cache s" "agrees x v c"]
  by (simp add: coherent_state_def)

lemma Get_coherent:
  assumes "coherent_state x v s" "same_db x y" "x_pg_uuid x i = Some i"
    "UserGet_Execute y v r now i (uc_cluster s) (uc_cache s) = (res, m)"
  shows "coherent_state x v (s\<lparr>uc_cache := m\<rparr>) \<and> (\<forall>u. res = Inr u \<longrightarrow> agrees x v (uc_cluster s) i u)"
proof -
  have co: "redis_kv.coherent user_key (agrees x v (uc_cluster s)) (uc_cache s)" and rep: "replica (uc_cluster s) = None"
    using assms(1) by (simp_all add: coherent_state_def)
  show ?thesis
  proof (cases "x_uuid_ok y i")
    case False
    then show ?thesis using assms(1,4) by (auto simp: UserGet_Execute_def ParseID_def)
  next
    case ok: True
    show ?thesis
    proof (cases "RedisClient_Get y r now (user_key i) (uc_cache s)")
      case (Inr u)
      then have "agrees x v (uc_cluster s) i u" using redis_kv.coherent_look[OF co] by (auto simp: Get_cases)
      then show ?thesis using assms(1,4) ok Inr by (auto simp: UserGet_Execute_def ParseID_def)
    next
      case (Inl miss)
      show ?thesis
      proof (cases "UserRepository_FindByID y v i (uc_cluster s)")
        case (Inl e)
        then show ?thesis using assms(1,4) ok \<open>RedisClient_Get y r now (user_key i) (uc_cache s) = Inl miss\<close>
          by (auto simp: UserGet_Execute_def ParseID_def)
      next
        case (Inr e)
        have a: "agrees x v (uc_cluster s) i (user_to_output e)"
          using FindByID_view(1)[OF assms(2,3) rep Inr] by (simp add: agrees_def)
        have m: "m = snd (RedisClient_Set y r now (user_key i) (user_to_output e) (uc_cache s))" "res = Inr (user_to_output e)"
          using assms(4) ok Inl Inr by (auto simp: UserGet_Execute_def ParseID_def)
        have "redis_kv.coherent user_key (agrees x v (uc_cluster s)) m"
          using Set_outcome[of y r now "user_key i" "user_to_output e" "uc_cache s"] m(1) co
            redis_kv.coherent_put[OF co inj_user_key a] by auto
        then show ?thesis using a m(2) rep by (simp add: coherent_state_def)
      qed
    qed
  qed
qed

text \<open>A write without failures reports an error and changes nothing, or reports the rows it changed.\<close>

lemma affected_effect:
  assumes "same_db x y" "affected none (exec y site q c) = (res, c')"
  shows "(\<exists>e. res = Inl e) \<and> c' = c \<or>
    (\<exists>n d. q (primary c) = Inr (n, d) \<and> c' = c\<lparr>primary := d\<rparr> \<and> res = (if n = 0 then Inl (Sentinel none) else Inr ()))"
proof (cases "q (primary c)")
  case (Inr p)
  then show ?thesis
    using assms(2) by (cases p; cases "fst p = 0") (simp_all add: exec_faultless[OF assms(1)] affected_def)
qed (use assms(2) in \<open>auto simp: exec_faultless[OF assms(1)] affected_def\<close>)

text \<open>A write that hits only one user.\<close>

definition touches :: "string \<Rightarrow> cluster \<Rightarrow> cluster \<Rightarrow> bool" where
  "touches i c c' \<longleftrightarrow> (\<exists>h f. (\<forall>a. u_ID (f a) = u_ID a) \<and> (\<forall>a. h a \<longrightarrow> u_ID a = i) \<and>
    c' = c\<lparr>primary := (primary c)\<lparr>users := update_where h f (users (primary c))\<rparr>\<rparr>)"

lemma touches_coherent:
  assumes "touches i (uc_cluster s) c" "coherent_state x v s"
  shows "coherent_state x v \<lparr> uc_cluster = c, uc_cache = kv_del (user_key i) (uc_cache s) \<rparr>"
proof -
  from assms(1) obtain h f where t: "\<And>a. u_ID (f a) = u_ID a" "\<And>a. h a \<Longrightarrow> u_ID a = i"
    "c = (uc_cluster s)\<lparr>primary := (primary (uc_cluster s))\<lparr>users := update_where h f (users (primary (uc_cluster s)))\<rparr>\<rparr>"
    unfolding touches_def by blast
  show ?thesis
    using assms(2) unfolding t(3)
    by (intro coherent_after_write view_other t(1)) (auto simp: coherent_state_def dest: t(2))
qed

lemma hits_effect:
  assumes "same_db x y" "affected none (exec y site q c) = (res, c')"
    "\<And>n d. q (primary c) = Inr (n, d) \<Longrightarrow> \<exists>h f. n = count_where h (users (primary c)) \<and>
      d = (primary c)\<lparr>users := update_where h f (users (primary c))\<rparr> \<and>
      (\<forall>a. u_ID (f a) = u_ID a) \<and> (\<forall>a. h a \<longrightarrow> u_ID a = i)"
  shows "(\<exists>e. res = Inl e) \<and> c' = c \<or> res = Inr () \<and> touches i c c'"
  using affected_effect[OF assms(1,2)]
proof (elim disjE exE conjE)
  fix n d assume q: "q (primary c) = Inr (n, d)" "c' = c\<lparr>primary := d\<rparr>" "res = (if n = 0 then Inl (Sentinel none) else Inr ())"
  from assms(3)[OF q(1)] obtain h f where h: "n = count_where h (users (primary c))"
      "d = (primary c)\<lparr>users := update_where h f (users (primary c))\<rparr>"
      "\<forall>a. u_ID (f a) = u_ID a" "\<forall>a. h a \<longrightarrow> u_ID a = i" by blast
  show ?thesis
  proof (cases "n = 0")
    case True
    then have "update_where h f (users (primary c)) = users (primary c)"
      using h(1) by (intro update_where_id) (simp add: count_where_0)
    then show ?thesis using q h True by simp
  next
    case False
    then show ?thesis using q h by (auto simp: touches_def)
  qed
qed simp

lemma Update_effect:
  assumes "same_db x y" "x_pg_uuid x (us_ID e) = Some (us_ID e)" "UserRepository_Update y e c = (res, c')"
  shows "(\<exists>e. res = Inl e) \<and> c' = c \<or> res = Inr () \<and> touches (us_ID e) c c'"
  using assms(3) unfolding UserRepository_Update_def
proof (rule hits_effect[OF assms(1)])
  fix n d assume "update_user y (fromDomainUser e) (primary c) = Inr (n, d)"
  then obtain nm ml i where "pg_id y (us_ID e) = Inr i"
    "n = count_where (\<lambda>r. u_ID r = i) (users (primary c))"
    "d = (primary c)\<lparr>users := update_where (\<lambda>r. u_ID r = i) (\<lambda>r. r\<lparr>u_Name := nm, u_Email := ml, u_Active := u_Active (fromDomainUser e),
      u_UpdatedAt := x_pg_time y (u_UpdatedAt (fromDomainUser e))\<rparr>) (users (primary c))\<rparr>"
    by (auto simp: update_user_def fromDomainUser_def Let_def split: if_splits)
  moreover then have "i = us_ID e" using assms(1,2) by (simp add: same_db_def)
  ultimately show "\<exists>h f. n = count_where h (users (primary c)) \<and>
      d = (primary c)\<lparr>users := update_where h f (users (primary c))\<rparr> \<and>
      (\<forall>a. u_ID (f a) = u_ID a) \<and> (\<forall>a. h a \<longrightarrow> u_ID a = us_ID e)"
    by (intro exI[of _ "\<lambda>r. u_ID r = i"] exI[of _ "\<lambda>r. r\<lparr>u_Name := nm, u_Email := ml, u_Active := u_Active (fromDomainUser e),
      u_UpdatedAt := x_pg_time y (u_UpdatedAt (fromDomainUser e))\<rparr>"]) simp
qed

lemma Delete_effect:
  assumes "same_db x y" "x_pg_uuid x i = Some i" "UserRepository_Delete y now i c = (res, c')"
  shows "(\<exists>e. res = Inl e) \<and> c' = c \<or> res = Inr () \<and> touches i c c'"
  using assms(3) unfolding UserRepository_Delete_def
proof (rule hits_effect[OF assms(1)])
  fix n d assume "deactivate_user y now i (primary c) = Inr (n, d)"
  then have "n = count_where (\<lambda>r. u_ID r = i \<and> u_Active r) (users (primary c))"
    "d = (primary c)\<lparr>users := update_where (\<lambda>r. u_ID r = i \<and> u_Active r)
      (\<lambda>r. r\<lparr>u_Active := False, u_UpdatedAt := x_pg_time y now\<rparr>) (users (primary c))\<rparr>"
    using assms(1,2) by (auto simp: deactivate_user_def same_db_def Let_def)
  then show "\<exists>h f. n = count_where h (users (primary c)) \<and>
      d = (primary c)\<lparr>users := update_where h f (users (primary c))\<rparr> \<and>
      (\<forall>a. u_ID (f a) = u_ID a) \<and> (\<forall>a. h a \<longrightarrow> u_ID a = i)"
    by (intro exI[of _ "\<lambda>r. u_ID r = i \<and> u_Active r"] exI[of _ "\<lambda>r. r\<lparr>u_Active := False, u_UpdatedAt := x_pg_time y now\<rparr>"])
      simp
qed

lemma write_replica: "same_db x y \<Longrightarrow> exec y site q c = (res, c') \<Longrightarrow> replica c' = replica c"
  by (cases "q (primary c)") (auto simp: exec_faultless)

lemma UpdatePassword_agrees:
  assumes "same_db x y" "UserRepository_UpdatePassword y now uid h c = (res, c')"
  shows "replica c' = replica c" "agrees x v c i u \<Longrightarrow> agrees x v c' i u"
  using affected_effect[OF assms(1) assms(2)[unfolded UserRepository_UpdatePassword_def]]
  by (auto simp: set_password_hash_def Let_def intro!: view_password)

lemma Create_agrees:
  assumes "same_db x y" "UserRepository_Create y e c = (res, c')"
  shows "replica c' = replica c" "agrees x v c i u \<Longrightarrow> agrees x v c' i u"
  using assms(2)
  by (auto simp: UserRepository_Create_def exec_faultless[OF assms(1)] insert_user_def intro!: view_append
      split: sum.splits prod.splits if_splits)

section \<open>Every call keeps the cache in step\<close>

lemma prepared_id:
  assumes "UserUpdate_prepare y v inp c = Inr e"
  obtains e0 where "UserRepository_FindByID y v (uui_ID inp) c = Inr e0" "us_ID e = us_ID e0"
  using assms
  by (auto simp: UserUpdate_prepare_def ParseID_def Let_def User_UpdateName_def User_UpdateEmail_def
      split: option.splits if_splits)

lemma Update_coherent:
  assumes "coherent_state x v s" "same_db x y" "x_pg_uuid x (uui_ID inp) = Some (uui_ID inp)"
    "UserUpdate_Execute y v (Some ttl) inp (uc_cluster s) (uc_cache s) = (res, c, m)"
  shows "coherent_state x v \<lparr> uc_cluster = c, uc_cache = m \<rparr>"
proof (cases "UserUpdate_prepare y v inp (uc_cluster s)")
  case (Inl err)
  then show ?thesis using assms(1,4) by (simp add: UserUpdate_Execute_def coherent_state_def)
next
  case (Inr e)
  then obtain e0 where "UserRepository_FindByID y v (uui_ID inp) (uc_cluster s) = Inr e0" "us_ID e = us_ID e0"
    by (rule prepared_id)
  then have i: "us_ID e = uui_ID inp"
    using FindByID_view(2)[OF assms(2,3), of "uc_cluster s" v e0] assms(1) by (simp add: coherent_state_def)
  obtain res1 c1 where u: "UserRepository_Update y e (uc_cluster s) = (res1, c1)" by fastforce
  from Update_effect[OF assms(2) _ u] assms(3) i
  have "(\<exists>e. res1 = Inl e) \<and> c1 = uc_cluster s \<or> res1 = Inr () \<and> touches (uui_ID inp) (uc_cluster s) c1" by simp
  then show ?thesis
    using assms(1,4) Inr u touches_coherent[of "uui_ID inp" s c1 x v]
    by (auto simp: UserUpdate_Execute_def Delete_done same_db_fault[OF assms(2)] coherent_state_def)
qed

lemma Delete_coherent:
  assumes "coherent_state x v s" "same_db x y" "x_pg_uuid x i = Some i"
    "UserDelete_Execute y (Some ttl) i (uc_cluster s) (uc_cache s) = (res, c, m)"
  shows "coherent_state x v \<lparr> uc_cluster = c, uc_cache = m \<rparr>"
proof (cases "x_uuid_ok y i")
  case False
  then show ?thesis using assms(1,4) by (auto simp: UserDelete_Execute_def ParseID_def coherent_state_def)
next
  case True
  obtain res1 c1 where u: "UserRepository_Delete y (x_clock y 0) i (uc_cluster s) = (res1, c1)" by fastforce
  from Delete_effect[OF assms(2,3) u] show ?thesis
    using assms(1,4) True u touches_coherent[of i s c1 x v]
    by (auto simp: UserDelete_Execute_def ParseID_def Delete_done same_db_fault[OF assms(2)] coherent_state_def)
qed

lemma call_coherent: "user_call x v ttl s t \<Longrightarrow> coherent_state x v s \<Longrightarrow> coherent_state x v t"
proof (induction rule: user_call.induct)
  case (Get y i now s res m)
  then show ?case using Get_coherent by blast
next
  case (Create y inp s res1 c)
  then show ?case
    by (intro coherent_more)
      (auto simp: UserCreate_Execute_def coherent_state_def split: sum.splits prod.splits dest: Create_agrees)
next
  case (Update y inp2 s res2 c m)
  then show ?case using Update_coherent by blast
next
  case (Delete y i s res3 c m)
  then show ?case using Delete_coherent by blast
next
  case (SetPassword y cost inp4 s res4 c)
  then show ?case
    by (intro coherent_more)
      (auto simp: SetPassword_Execute_def coherent_state_def split: sum.splits prod.splits dest: UpdatePassword_agrees)
next
  case (ChangePassword y cost inp5 s res4 c)
  then show ?case
    by (intro coherent_more)
      (auto simp: ChangePassword_Execute_def coherent_state_def split: sum.splits prod.splits dest: UpdatePassword_agrees)
qed

lemma calls_coherent: "user_calls x v ttl s t \<Longrightarrow> coherent_state x v s \<Longrightarrow> coherent_state x v t"
  by (induction rule: user_calls.induct) (auto intro: call_coherent)

text \<open>C10. A read of a user answers what the database holds, cached or not: start with an empty cache
  and make any sequence of reads, creations, updates, deletions and password changes, each at its own
  instant, with canonical identifiers, without failures and without a replica; then whatever a read
  answers agrees with the row of the user as it is now, except for the time of its last change, which
  a password change moves without dropping the cached copy.\<close>

theorem cached_user_is_fresh:
  assumes "user_calls x v ttl \<lparr> uc_cluster = c0, uc_cache = (\<lambda>k. None) \<rparr> s" "replica c0 = None"
    "same_db x y" "x_pg_uuid x i = Some i"
    "UserGet_Execute y v (Some ttl) now i (uc_cluster s) (uc_cache s) = (Inr u, m)"
  shows "\<exists>w. user_view x v (uc_cluster s) i = Some w \<and> u\<lparr>uo_UpdatedAt := []\<rparr> = w\<lparr>uo_UpdatedAt := []\<rparr>"
proof -
  have "coherent_state x v \<lparr> uc_cluster = c0, uc_cache = (\<lambda>k. None) \<rparr>"
    using assms(2) by (simp add: coherent_state_def redis_kv.coherent_def kv_get_def)
  from Get_coherent[OF calls_coherent[OF assms(1) this] assms(3-5)] assms(4) show ?thesis
    by (auto simp: agrees_def)
qed

definition demo_answer :: user_output where
  "demo_answer = \<lparr> uo_ID = ''u1'', uo_Name = ''Ana'', uo_Email = ''ana@x.org'', uo_Active = True,
    uo_CreatedAt = formatRFC3339 demo_time, uo_UpdatedAt = formatRFC3339 demo_time \<rparr>"

lemma demo_read:
  "UserGet_Execute (demo_ext []) demo_idlib (Some 300000000000) 0 ''u1'' demo_start (\<lambda>k. None) =
    (Inr demo_answer, (\<lambda>k. None)(''user:u1'' := Some (demo_answer, Some 300000000000)))"
  "UserGet_Execute (demo_ext []) demo_idlib (Some 300000000000) 1 ''u1'' demo_start
      ((\<lambda>k. None)(''user:u1'' := Some (demo_answer, Some 300000000000))) =
    (Inr demo_answer, (\<lambda>k. None)(''user:u1'' := Some (demo_answer, Some 300000000000)))"
  by (simp_all add: UserGet_Execute_def ParseID_def user_key_def RedisClient_Get_def redis_read_def redis_write_def attempt_def
      kv_get_def kv_set_def expiry_def RedisClient_Set_def UserRepository_FindByID_def find_user_def reader_def pg_id_def
      toUser_def NewEmail_def demo_ext_def demo_idlib_def demo_start_def demo_user_def demo_answer_def user_to_output_def)

lemma demo_same_db: "same_db (demo_ext []) (demo_ext [])"
  by (simp add: same_db_def no_faults_def demo_ext_def)

theorem cached_user_is_fresh_witness:
  "\<exists>w. user_view (demo_ext []) demo_idlib demo_start ''u1'' = Some w \<and> demo_answer\<lparr>uo_UpdatedAt := []\<rparr> = w\<lparr>uo_UpdatedAt := []\<rparr>"
proof -
  let ?m = "(\<lambda>k. None)(''user:u1'' := Some (demo_answer, Some 300000000000))"
  have i: "x_pg_uuid (demo_ext []) ''u1'' = Some ''u1''" by (simp add: demo_ext_def)
  have "user_call (demo_ext []) demo_idlib 300000000000 \<lparr> uc_cluster = demo_start, uc_cache = \<lambda>k. None \<rparr>
      (\<lparr> uc_cluster = demo_start, uc_cache = \<lambda>k. None \<rparr>\<lparr>uc_cache := ?m\<rparr>)"
    by (rule user_call.Get[OF demo_same_db i, where now = 0]) (simp add: demo_read(1))
  then have "user_calls (demo_ext []) demo_idlib 300000000000 \<lparr> uc_cluster = demo_start, uc_cache = \<lambda>k. None \<rparr>
      \<lparr> uc_cluster = demo_start, uc_cache = ?m \<rparr>"
    using user_calls.Step[OF user_calls.Refl] by simp
  from cached_user_is_fresh[OF this _ demo_same_db i, of 1 demo_answer ?m] demo_read(2) show ?thesis
    by (simp add: demo_start_def)
qed

section \<open>Roles\<close>

definition granted :: "db \<Rightarrow> string \<Rightarrow> string \<Rightarrow> bool" where
  "granted d u p \<longleftrightarrow> (\<exists>a\<in>set (user_roles d). ur_UserID a = u \<and>
    (\<exists>q\<in>set (permissions d). (ur_RoleID a, pm_ID q) \<in> set (role_permissions d) \<and> pm_Name q = p))"

lemma permission_rows_granted: "p \<in> set (permission_rows u d) \<longleftrightarrow> granted d u p"
  by (fastforce simp: permission_rows_def granted_def)

lemma set_distinct_names [simp]: "set (distinct_names x ns) = set ns"
  by (simp add: distinct_names_def)

lemma invalidate_done:
  assumes "no_faults x"
  shows "r = None \<or> kv_get now (perms_key u) (invalidateUserAuthCache x r u m) = None"
  using assms
  by (cases r) (simp_all add: invalidateUserAuthCache_def Delete_done no_faults_def kv_get_def kv_del_def)

lemma GetPermissions_missed:
  assumes "no_faults y" "x_pg_uuid y u = Some u" "x_uuid_ok y u" "replica c = None"
    "r = None \<or> kv_get now (perms_key u) m = None"
  shows "\<exists>ps. fst (GetPermissions y r now u c m) = Inr ps \<and> (\<forall>p. p \<in> set ps \<longleftrightarrow> granted (primary c) u p)"
proof -
  have "RedisClient_Get y r now (perms_key u) m \<noteq> Inr ps" for ps using assms(5) by (auto simp: Get_cases)
  then obtain e where "RedisClient_Get y r now (perms_key u) m = Inl e"
    by (cases "RedisClient_Get y r now (perms_key u) m") auto
  then show ?thesis
    using assms(1-4)
    by (simp add: GetPermissions_def cached_names_def adapter_GetUserPermissions_def ParseID_def GetUserPermissions_def
        attempt_def no_faults_def reader_def permission_rows_granted pg_id_def)
qed

lemma Assignment_ids: "Assignment_prepare x u k c = Inr (i, j) \<Longrightarrow> i = u \<and> j = k"
  by (auto simp: Assignment_prepare_def ParseID_def split: if_splits)

lemma affected_done:
  assumes "no_faults x" "affected none (exec x site q c) = (Inr (), c')"
  obtains n d where "q (primary c) = Inr (n, d)" "c' = c\<lparr>primary := d\<rparr>" "n \<noteq> 0"
proof -
  obtain n where "exec x site q c = (Inr n, c')" "n \<noteq> 0" using assms(2) by (auto simp: affected_Inr)
  with that exec_ok[of x site q c n c'] show thesis by blast
qed

lemma Assign_done:
  assumes "no_faults x" "x_pg_uuid x u = Some u" "x_pg_uuid x k = Some k" "replica c = None"
    "AssignRole_Execute x r u k c m = (Inr (), c', m')"
  shows "m' = invalidateUserAuthCache x r u m \<and> replica c' = None \<and>
    (\<exists>a\<in>set (user_roles (primary c')). ur_UserID a = u \<and> ur_RoleID a = k)"
proof -
  obtain i j where p: "Assignment_prepare x u k c = Inr (i, j)"
    "RoleRepository_AssignRole x (x_clock x 0) i j c = (Inr (), c')" "m' = invalidateUserAuthCache x r u m"
    using assms(5) by (auto simp: AssignRole_Execute_def split: sum.splits prod.splits)
  with Assignment_ids have "RoleRepository_AssignRole x (x_clock x 0) u k c = (Inr (), c')" by blast
  then obtain n d where "insert_user_role x (x_clock x 0) u k (primary c) = Inr (n, d)" "c' = c\<lparr>primary := d\<rparr>" "n \<noteq> 0"
    unfolding RoleRepository_AssignRole_def by (rule affected_done[OF assms(1)])
  then show ?thesis using p(3) assms(2-4) by (auto simp: insert_user_role_def pg_id_def split: if_splits)
qed

lemma Revoke_done:
  assumes "no_faults x" "x_pg_uuid x u = Some u" "x_pg_uuid x k = Some k" "replica c = None"
    "RevokeRole_Execute x r u k c m = (Inr (), c', m')"
  shows "m' = invalidateUserAuthCache x r u m \<and> replica c' = None \<and>
    \<not> (\<exists>a\<in>set (user_roles (primary c')). ur_UserID a = u \<and> ur_RoleID a = k)"
proof -
  obtain i j where p: "Assignment_prepare x u k c = Inr (i, j)"
    "RoleRepository_RevokeRole x i j c = (Inr (), c')" "m' = invalidateUserAuthCache x r u m"
    using assms(5) by (auto simp: RevokeRole_Execute_def split: sum.splits prod.splits)
  with Assignment_ids have "RoleRepository_RevokeRole x u k c = (Inr (), c')" by blast
  then obtain n d where "delete_user_role x u k (primary c) = Inr (n, d)" "c' = c\<lparr>primary := d\<rparr>" "n \<noteq> 0"
    unfolding RoleRepository_RevokeRole_def by (rule affected_done[OF assms(1)])
  then show ?thesis using p(3) assms(2-4) by (auto simp: delete_user_role_def assigned_def pg_id_def)
qed

text \<open>C14. Assigning and revoking a role take effect at once, whatever the permission cache held: after
  the call succeeds, the next permission check of the user reads the database, at any instant, and
  finds exactly the permissions the roles of the user grant; a revoked role is not among them, an
  assigned one is. (Canonical identifiers, no failures, no replica.)\<close>

theorem roles_take_effect_at_once:
  assumes "no_faults x" "no_faults y" "x_pg_uuid x u = Some u" "x_pg_uuid x k = Some k"
    "x_pg_uuid y u = Some u" "x_uuid_ok y u" "replica c = None"
    "if assign then AssignRole_Execute x r u k c m = (Inr (), c', m') else RevokeRole_Execute x r u k c m = (Inr (), c', m')"
  shows "(assign \<longleftrightarrow> (\<exists>a\<in>set (user_roles (primary c')). ur_UserID a = u \<and> ur_RoleID a = k)) \<and>
    (\<exists>ps. fst (GetPermissions y r now u c' m') = Inr ps \<and> (\<forall>p. p \<in> set ps \<longleftrightarrow> granted (primary c') u p))"
proof -
  have "m' = invalidateUserAuthCache x r u m \<and> replica c' = None \<and>
      (assign \<longleftrightarrow> (\<exists>a\<in>set (user_roles (primary c')). ur_UserID a = u \<and> ur_RoleID a = k))"
  proof (cases assign)
    case True
    with assms(8) have "AssignRole_Execute x r u k c m = (Inr (), c', m')" by simp
    from Assign_done[OF assms(1,3,4,7) this] True show ?thesis by blast
  next
    case False
    with assms(8) have "RevokeRole_Execute x r u k c m = (Inr (), c', m')" by simp
    from Revoke_done[OF assms(1,3,4,7) this] False show ?thesis by blast
  qed
  then have m: "m' = invalidateUserAuthCache x r u m" "replica c' = None"
    and a: "assign \<longleftrightarrow> (\<exists>a\<in>set (user_roles (primary c')). ur_UserID a = u \<and> ur_RoleID a = k)" by blast+
  have "r = None \<or> kv_get now (perms_key u) m' = None" unfolding m(1) by (rule invalidate_done[OF assms(1)])
  from GetPermissions_missed[OF assms(2,5,6) m(2) this] a show ?thesis by blast
qed

theorem roles_take_effect_at_once_witness:
  "case RevokeRole_Execute (demo_ext []) (Some 300) ''u1'' ''m1'' (demo_rbac demo_start)
      (\<lambda>k. if k = ''permissions:user:u1'' then Some ([''tag:write''], None) else None) of
     (res, c', m') \<Rightarrow> res = Inr () \<and> fst (GetPermissions (demo_ext []) (Some 300) 7 ''u1'' c' m') = Inr []"
proof -
  let ?m = "(\<lambda>k. if k = ''permissions:user:u1'' then Some ([''tag:write''], None) else None) :: string list kv"
  obtain res c' m' where e: "RevokeRole_Execute (demo_ext []) (Some 300) ''u1'' ''m1'' (demo_rbac demo_start) ?m = (res, c', m')"
    by (metis prod_cases3)
  have f: "no_faults (demo_ext [])" "x_pg_uuid (demo_ext []) ''u1'' = Some ''u1''" "x_pg_uuid (demo_ext []) ''m1'' = Some ''m1''"
    "x_uuid_ok (demo_ext []) ''u1''" "replica (demo_rbac demo_start) = None"
    by (simp_all add: no_faults_def demo_ext_def demo_rbac_def demo_start_def)
  have r: "res = Inr ()" "user_roles (primary c') = []"
    using e
    by (auto simp: RevokeRole_Execute_def Assignment_prepare_def ParseID_def RoleRepository_FindByID_def find_role_def
        RoleRepository_RevokeRole_def affected_def exec_def delete_user_role_def attempt_def reader_def pg_id_def toRole_def
        count_where_def assigned_def demo_ext_def demo_rbac_def demo_start_def demo_user_def empty_db_def)
  from roles_take_effect_at_once[where assign = False, OF f(1,1,2,3,2,4,5), of "Some 300" ?m c' m' 7] e r
  obtain ps where "fst (GetPermissions (demo_ext []) (Some 300) 7 ''u1'' c' m') = Inr ps" "set ps = {}"
    by (auto simp: granted_def)
  then show ?thesis using e r by simp
qed

end
