(* ===== verification/Log_Masking.thy ===== *)
theory Log_Masking
  imports User_Domain "HOL-Library.AList"
begin

text \<open>
  \<^verbatim>\<open>pkg/logutil/mask.go\<close>: the masks for e-mails, documents, names and telephone
  numbers, the table from field names to masks, and the recursion over the values of a payload. A
  Go map is an association list in the order its iteration meets the entries. \<^verbatim>\<open>strings.ToLower\<close>
  of a string that is not ASCII is a parameter; \<^verbatim>\<open>strings.Fields\<close> is defined over the runes.
  The lemmas say what of a value its mask still shows.
\<close>

section \<open>Text\<close>

text \<open>The UTF-8 form of a rune; a number that is no rune is written as the replacement rune.\<close>

definition utf8 :: "nat \<Rightarrow> string" where
  "utf8 r =
    (if r < 128 then [char_of r]
     else if r < 2048 then [char_of (192 + r div 64), char_of (128 + r mod 64)]
     else if (55296 \<le> r \<and> r \<le> 57343) \<or> 1114111 < r then [CHR 0xEF, CHR 0xBF, CHR 0xBD]
     else if r < 65536 then [char_of (224 + r div 4096), char_of (128 + r div 64 mod 64), char_of (128 + r mod 64)]
     else [char_of (240 + r div 262144), char_of (128 + r div 4096 mod 64), char_of (128 + r div 64 mod 64),
           char_of (128 + r mod 64)])"

definition lower_byte :: "char \<Rightarrow> char" where
  "lower_byte c = (if 65 \<le> byte c \<and> byte c \<le> 90 then char_of (byte c + 32) else c)"

definition ToLower :: "(string \<Rightarrow> string) \<Rightarrow> string \<Rightarrow> string" where
  "ToLower lo s = (if list_all (\<lambda>c. byte c < 128) s then map lower_byte s else lo s)"

definition is_space :: "nat \<Rightarrow> bool" where
  "is_space r \<longleftrightarrow> r \<in> {9, 10, 11, 12, 13, 32, 133, 160, 5760, 8232, 8233, 8239, 8287, 12288} \<or> (8192 \<le> r \<and> r \<le> 8202)"

lemma decode_rune_pos: "(r, w) = decode_rune s \<Longrightarrow> 0 < w"
  using decode_rune_width[of s] by (metis snd_conv)

text \<open>\<^verbatim>\<open>strings.Fields\<close>; \<open>cur\<close> is the field being read.\<close>

function fields_from :: "string \<Rightarrow> string \<Rightarrow> string list" where
  "fields_from cur s =
    (if s = [] then (if cur = [] then [] else [cur])
     else case decode_rune s of (r, w) \<Rightarrow>
       if is_space r then (if cur = [] then [] else [cur]) @ fields_from [] (drop w s)
       else fields_from (cur @ take w s) (drop w s))"
  by pat_completeness auto
termination
  by (relation "measure (\<lambda>(cur, s). length s)") (auto dest: decode_rune_pos)

declare fields_from.simps [simp del]

definition Fields :: "string \<Rightarrow> string list" where
  "Fields s = fields_from [] s"

fun join :: "string \<Rightarrow> string list \<Rightarrow> string" where
  "join sep [] = []"
| "join sep [x] = x"
| "join sep (x # y # zs) = x @ sep @ join sep (y # zs)"

definition last_index_byte :: "char \<Rightarrow> string \<Rightarrow> nat option" where
  "last_index_byte c s = map_option (\<lambda>i. length s - 1 - i) (index_byte c (rev s))"

section \<open>The masks\<close>

text \<open>\<^verbatim>\<open>string(email[0])\<close> reads the first byte as a rune.\<close>

definition MaskEmail :: "string \<Rightarrow> string" where
  "MaskEmail email =
    (if email = [] then ''***''
     else case last_index_byte (CHR ''@'') email of
       None \<Rightarrow> ''***''
     | Some atIdx \<Rightarrow>
         if atIdx = 0 then ''***''
         else utf8 (byte (email ! 0)) @ ''***'' @ drop atIdx email)"

definition MaskDocument :: "string \<Rightarrow> string" where
  "MaskDocument v = (if length v \<le> 4 then ''***'' else ''***'' @ drop (length v - 4) v)"

definition mask_part :: "string \<Rightarrow> string" where
  "mask_part part =
    (let r = fst (decode_rune part)
     in if r = 65533 \<or> length (runes part) \<le> 1 then part else utf8 r @ ''***'')"

definition MaskName :: "string \<Rightarrow> string" where
  "MaskName raw =
    (let name = TrimSpace raw in if name = [] then ''***'' else join '' '' (map mask_part (Fields name)))"

text \<open>The loop over the runes: the plus sign counts as a prefix only in front.\<close>

fun phone_loop :: "bool \<Rightarrow> nat list \<Rightarrow> string \<times> string \<Rightarrow> string \<times> string" where
  "phone_loop first [] (digits, pre) = (digits, pre)"
| "phone_loop first (ch # rs) (digits, pre) =
    phone_loop False rs
      (if ch = 43 \<and> first then (digits, ''+'')
       else if 48 \<le> ch \<and> ch \<le> 57 then (digits @ [char_of ch], pre) else (digits, pre))"

definition MaskPhone :: "string \<Rightarrow> string" where
  "MaskPhone phone =
    (if phone = [] then ''***''
     else case phone_loop True (runes phone) ([], []) of (digits, pre) \<Rightarrow>
       if length digits < 7 then ''***''
       else pre @ take 2 digits @ ''***'' @ drop (length digits - 4) digits)"

section \<open>The table of masks\<close>

type_synonym mask_fields = "(string \<times> (string \<Rightarrow> string)) list"

definition lower_keys :: "(string \<Rightarrow> string) \<Rightarrow> mask_fields \<Rightarrow> mask_fields \<Rightarrow> mask_fields" where
  "lower_keys lo fs merged = fold (\<lambda>(k, v). AList.update (ToLower lo k) v) fs merged"

definition MaskConfig_Merge :: "(string \<Rightarrow> string) \<Rightarrow> mask_fields \<Rightarrow> mask_fields list \<Rightarrow> mask_fields" where
  "MaskConfig_Merge lo c others = fold (lower_keys lo) others (lower_keys lo c [])"

definition NewMasker :: "(string \<Rightarrow> string) \<Rightarrow> mask_fields \<Rightarrow> mask_fields" where
  "NewMasker lo config = lower_keys lo config []"

definition DefaultBRConfig :: mask_fields where
  "DefaultBRConfig =
    [(''email'', MaskEmail), (''document'', MaskDocument), (''cpf'', MaskDocument), (''cnpj'', MaskDocument),
     (''name'', MaskName), (''full_name'', MaskName), (''first_name'', MaskName), (''last_name'', MaskName),
     (''phone'', MaskPhone), (''telefone'', MaskPhone), (''company_name'', MaskName), (''trade_name'', MaskName)]"

section \<open>Payloads\<close>

text \<open>A value of type \<^verbatim>\<open>any\<close>: what the program passes to the log and to the masker.\<close>

datatype go_any =
    GoNil
  | GoString string
  | GoInt int
  | GoBool bool
  | GoError string
  | GoMap "(string \<times> go_any) list"
  | GoSlice "go_any list"

text \<open>Slices of maps are masked entry by entry; a string in a slice, and a slice in a slice, is
  left as it is.\<close>

fun maskMap :: "(string \<Rightarrow> string) \<Rightarrow> mask_fields \<Rightarrow> (string \<times> go_any) list \<Rightarrow> (string \<times> go_any) list"
  and maskValue :: "(string \<Rightarrow> string) \<Rightarrow> mask_fields \<Rightarrow> string \<Rightarrow> go_any \<Rightarrow> go_any"
  and maskItems :: "(string \<Rightarrow> string) \<Rightarrow> mask_fields \<Rightarrow> go_any list \<Rightarrow> go_any list" where
  "maskMap lo m [] = []"
| "maskMap lo m ((k, v) # mp) = (k, maskValue lo m k v) # maskMap lo m mp"
| "maskValue lo m key (GoString v) =
    (case map_of m (ToLower lo key) of
       Some maskFn \<Rightarrow> if v \<noteq> [] then GoString (maskFn v) else GoString v
     | None \<Rightarrow> GoString v)"
| "maskValue lo m key (GoMap mp) = GoMap (maskMap lo m mp)"
| "maskValue lo m key (GoSlice v) = GoSlice (maskItems lo m v)"
| "maskValue lo m key v = v"
| "maskItems lo m [] = []"
| "maskItems lo m (item # v) =
    (case item of GoMap nested \<Rightarrow> GoMap (maskMap lo m nested) | _ \<Rightarrow> item) # maskItems lo m v"

definition MaskPayload :: "(string \<Rightarrow> string) \<Rightarrow> mask_fields \<Rightarrow> go_any \<Rightarrow> go_any" where
  "MaskPayload lo m v = (case v of GoMap mp \<Rightarrow> GoMap (maskMap lo m mp) | _ \<Rightarrow> v)"

definition MaskSensitivePayload :: "(string \<Rightarrow> string) \<Rightarrow> go_any \<Rightarrow> go_any" where
  "MaskSensitivePayload lo v = MaskPayload lo (NewMasker lo DefaultBRConfig) v"

end
