(* ===== verification/Logging.thy ===== *)
theory Logging
  imports Log_Masking Http_Errors
begin

text \<open>
  \<^verbatim>\<open>pkg/logutil\<close>: the log context carried through the layers, the handlers that mask and
  fan out log records, and the loggers \<^verbatim>\<open>cmd/api/server.go\<close> builds from them;
  \<^verbatim>\<open>pkg/telemetry/span.go\<close>: what an error leaves on a span and in the log. The handler that
  ends a chain (the JSON writer on standard output, the OpenTelemetry bridge) is a \<open>sink\<close>: its
  name, its level, whether it fails, and the attributes and groups it was given. Of
  \<^verbatim>\<open>log/slog\<close> the model has the values, the arguments of a call read as attributes, and the
  empty groups it drops. Time and source position of a record are left out.
\<close>

section \<open>Values and attributes\<close>

datatype slog_value =
    KString string
  | KInt int
  | KBool bool
  | KGroup "(string \<times> slog_value) list"
  | KAny go_any

type_synonym slog_attrs = "(string \<times> slog_value) list"

fun AnyValue :: "go_any \<Rightarrow> slog_value" where
  "AnyValue (GoString s) = KString s"
| "AnyValue (GoInt i) = KInt i"
| "AnyValue (GoBool b) = KBool b"
| "AnyValue v = KAny v"

text \<open>\<^verbatim>\<open>slog\<close> reads its arguments in pairs.\<close>

fun argsToAttrs :: "go_any list \<Rightarrow> slog_attrs" where
  "argsToAttrs [] = []"
| "argsToAttrs [GoString s] = [(''!BADKEY'', KString s)]"
| "argsToAttrs (GoString k # v # rest) = (k, AnyValue v) # argsToAttrs rest"
| "argsToAttrs (v # rest) = (''!BADKEY'', AnyValue v) # argsToAttrs rest"

fun empty_group :: "string \<times> slog_value \<Rightarrow> bool" where
  "empty_group (k, KGroup []) = True"
| "empty_group _ = False"

text \<open>\<^verbatim>\<open>GroupValue\<close> and \<^verbatim>\<open>Record.AddAttrs\<close> both leave out empty groups.\<close>

definition keep_attrs :: "slog_attrs \<Rightarrow> slog_attrs" where
  "keep_attrs as = filter (\<lambda>a. \<not> empty_group a) as"

record slog_record =
  lr_Level :: int
  lr_Message :: string
  lr_Attrs :: slog_attrs

section \<open>Handlers\<close>

datatype scope_op = ScopeAttrs slog_attrs | ScopeGroup string

record sink =
  sn_Name :: string
  sn_Level :: int
  sn_Error :: "go_error option"
  sn_Scope :: "scope_op list"

datatype log_handler =
    Sink sink
  | MaskingHandler mask_fields log_handler
  | FanoutHandler log_handler "log_handler list"

fun maskAttr :: "(string \<Rightarrow> string) \<Rightarrow> mask_fields \<Rightarrow> string \<times> slog_value \<Rightarrow> string \<times> slog_value"
  and maskAttrs :: "(string \<Rightarrow> string) \<Rightarrow> mask_fields \<Rightarrow> slog_attrs \<Rightarrow> slog_attrs" where
  "maskAttr lo m (key, KGroup groupAttrs) = (key, KGroup (keep_attrs (maskAttrs lo m groupAttrs)))"
| "maskAttr lo m (key, KString strVal) =
    (case map_of m (ToLower lo key) of
       None \<Rightarrow> (key, KString strVal)
     | Some maskFn \<Rightarrow>
         if strVal \<noteq> []
         then let masked = maskFn strVal in (key, KString (if masked = strVal then ''***'' else masked))
         else (key, KString strVal))"
| "maskAttr lo m attr = attr"
| "maskAttrs lo m [] = []"
| "maskAttrs lo m (a # as) = maskAttr lo m a # maskAttrs lo m as"

fun Handler_Enabled :: "int \<Rightarrow> log_handler \<Rightarrow> bool" where
  "Handler_Enabled level (Sink s) \<longleftrightarrow> sn_Level s \<le> level"
| "Handler_Enabled level (MaskingHandler m wrapped) \<longleftrightarrow> Handler_Enabled level wrapped"
| "Handler_Enabled level (FanoutHandler prim secs) \<longleftrightarrow>
    Handler_Enabled level prim \<or> list_ex (Handler_Enabled level) secs"

text \<open>The record a masking handler passes on.\<close>

definition masked_record :: "(string \<Rightarrow> string) \<Rightarrow> mask_fields \<Rightarrow> slog_record \<Rightarrow> slog_record" where
  "masked_record lo m r = r\<lparr>lr_Attrs := keep_attrs (maskAttrs lo m (lr_Attrs r))\<rparr>"

text \<open>Handling a record: what reaches which sink, in order, and the error that is returned. The
  errors of secondary handlers go to the standard error stream.\<close>

type_synonym deliveries = "(sink \<times> slog_record) list"

fun Handler_Handle :: "(string \<Rightarrow> string) \<Rightarrow> slog_record \<Rightarrow> log_handler \<Rightarrow> deliveries \<times> go_error option" where
  "Handler_Handle lo r (Sink s) = ([(s, r)], sn_Error s)"
| "Handler_Handle lo r (MaskingHandler m wrapped) =
    Handler_Handle lo (masked_record lo m r) wrapped"
| "Handler_Handle lo r (FanoutHandler prim secs) =
    (case Handler_Handle lo r prim of
       (out, Some primaryErr) \<Rightarrow> (out, Some primaryErr)
     | (out, None) \<Rightarrow> (out @ concat (map (\<lambda>sec. fst (Handler_Handle lo r sec)) secs), None))"

fun Handler_WithAttrs :: "(string \<Rightarrow> string) \<Rightarrow> slog_attrs \<Rightarrow> log_handler \<Rightarrow> log_handler" where
  "Handler_WithAttrs lo as (Sink s) = Sink (s\<lparr>sn_Scope := sn_Scope s @ [ScopeAttrs as]\<rparr>)"
| "Handler_WithAttrs lo as (MaskingHandler m wrapped) =
    MaskingHandler m (Handler_WithAttrs lo (maskAttrs lo m as) wrapped)"
| "Handler_WithAttrs lo as (FanoutHandler prim secs) =
    FanoutHandler (Handler_WithAttrs lo as prim) (map (Handler_WithAttrs lo as) secs)"

fun Handler_WithGroup :: "string \<Rightarrow> log_handler \<Rightarrow> log_handler" where
  "Handler_WithGroup name (Sink s) = Sink (s\<lparr>sn_Scope := sn_Scope s @ [ScopeGroup name]\<rparr>)"
| "Handler_WithGroup name (MaskingHandler m wrapped) = MaskingHandler m (Handler_WithGroup name wrapped)"
| "Handler_WithGroup name (FanoutHandler prim secs) =
    FanoutHandler (Handler_WithGroup name prim) (map (Handler_WithGroup name) secs)"

section \<open>Loggers\<close>

definition NewFanoutHandler :: "log_handler \<Rightarrow> log_handler list \<Rightarrow> log_handler" where
  "NewFanoutHandler prim secs = FanoutHandler prim secs"

definition NewMaskingHandler :: "mask_fields \<Rightarrow> log_handler \<Rightarrow> log_handler" where
  "NewMaskingHandler masker wrapped = MaskingHandler masker wrapped"

definition setupLogger :: "(string \<Rightarrow> string) \<Rightarrow> sink \<Rightarrow> log_handler" where
  "setupLogger lo stdout =
    (let masked = NewMaskingHandler (NewMasker lo DefaultBRConfig) (Sink stdout) in NewFanoutHandler masked [])"

definition setupLoggerWithOtel :: "(string \<Rightarrow> string) \<Rightarrow> sink \<Rightarrow> sink \<Rightarrow> log_handler" where
  "setupLoggerWithOtel lo stdout otelHandler =
    (let masker = NewMasker lo DefaultBRConfig;
         maskedStdout = NewMaskingHandler masker (Sink stdout);
         maskedOtel = NewMaskingHandler masker (Sink otelHandler)
     in NewFanoutHandler maskedStdout [maskedOtel])"

text \<open>\<^verbatim>\<open>slog.Log\<close>: nothing happens below the level of every sink.\<close>

definition slog_log :: "(string \<Rightarrow> string) \<Rightarrow> log_handler \<Rightarrow> int \<Rightarrow> string \<Rightarrow> go_any list \<Rightarrow> deliveries" where
  "slog_log lo h level msg args =
    (if Handler_Enabled level h
     then fst (Handler_Handle lo
       \<lparr> lr_Level = level, lr_Message = msg, lr_Attrs = keep_attrs (argsToAttrs args) \<rparr> h)
     else [])"

section \<open>The log context\<close>

record log_context =
  lc_RequestID :: string
  lc_TraceID :: string
  lc_CallerService :: string
  lc_Step :: string
  lc_Resource :: string
  lc_Action :: string
  lc_Extra :: "(string \<times> go_any) list"

definition zero_context :: log_context where
  "zero_context = \<lparr> lc_RequestID = [], lc_TraceID = [], lc_CallerService = [], lc_Step = [],
    lc_Resource = [], lc_Action = [], lc_Extra = [] \<rparr>"

definition Inject :: "log_context option \<Rightarrow> log_context \<Rightarrow> log_context option" where
  "Inject ctx lc = Some lc"

definition Extract :: "log_context option \<Rightarrow> log_context \<times> bool" where
  "Extract ctx = (case ctx of None \<Rightarrow> (zero_context, False) | Some lc \<Rightarrow> (lc, True))"

definition WithStep :: "string \<Rightarrow> log_context \<Rightarrow> log_context" where
  "WithStep step lc = lc\<lparr>lc_Step := step\<rparr>"

definition WithResource :: "string \<Rightarrow> log_context \<Rightarrow> log_context" where
  "WithResource resource lc = lc\<lparr>lc_Resource := resource\<rparr>"

definition WithAction :: "string \<Rightarrow> log_context \<Rightarrow> log_context" where
  "WithAction action lc = lc\<lparr>lc_Action := action\<rparr>"

definition WithContext :: "log_context option \<Rightarrow> string \<Rightarrow> string \<Rightarrow> string \<Rightarrow> log_context option" where
  "WithContext ctx step resource action =
    Inject ctx (WithAction action (WithResource resource (WithStep step (fst (Extract ctx)))))"

definition ToSlogAttrs :: "log_context \<Rightarrow> go_any list" where
  "ToSlogAttrs lc =
    (let field = (\<lambda>k v. if v = [] then [] else [GoString k, GoString v]) in
     field ''request_id'' (lc_RequestID lc) @ field ''trace_id'' (lc_TraceID lc) @
     field ''caller_service'' (lc_CallerService lc) @ field ''step'' (lc_Step lc) @
     field ''resource'' (lc_Resource lc) @ field ''action'' (lc_Action lc) @
     concat (map (\<lambda>(k, v). [GoString k, v]) (lc_Extra lc)))"

definition contextArgsFromCtx :: "log_context option \<Rightarrow> go_any list" where
  "contextArgsFromCtx ctx = (case Extract ctx of (lc, ok) \<Rightarrow> if ok then ToSlogAttrs lc else [])"

definition LogInfo :: "(string \<Rightarrow> string) \<Rightarrow> log_handler \<Rightarrow> log_context option \<Rightarrow> string \<Rightarrow> go_any list \<Rightarrow> deliveries" where
  "LogInfo lo h ctx msg extraArgs = slog_log lo h 0 msg (contextArgsFromCtx ctx @ extraArgs)"

definition LogWarn :: "(string \<Rightarrow> string) \<Rightarrow> log_handler \<Rightarrow> log_context option \<Rightarrow> string \<Rightarrow> go_any list \<Rightarrow> deliveries" where
  "LogWarn lo h ctx msg extraArgs = slog_log lo h 4 msg (contextArgsFromCtx ctx @ extraArgs)"

definition LogError :: "(string \<Rightarrow> string) \<Rightarrow> log_handler \<Rightarrow> log_context option \<Rightarrow> string \<Rightarrow> go_any list \<Rightarrow> deliveries" where
  "LogError lo h ctx msg extraArgs = slog_log lo h 8 msg (contextArgsFromCtx ctx @ extraArgs)"

definition domainErrorCodes :: "string list" where
  "domainErrorCodes = [''NOT_FOUND'', ''INVALID_REQUEST'', ''CONFLICT'', ''VALIDATION'', ''DUPLICATE'',
    ''FORBIDDEN'', ''UNAUTHORIZED'']"

text \<open>The text of the error and the stack trace are arguments.\<close>

definition ErrorLogFields :: "string \<Rightarrow> string \<Rightarrow> string \<Rightarrow> go_any list" where
  "ErrorLogFields errText stack code =
    [GoString ''error.message'', GoString errText, GoString ''error.code'', GoString code] @
    (if code \<notin> set domainErrorCodes then [GoString ''error.stack'', GoString stack] else [])"

end
