(* ===== verification/Tracing.thy ===== *)
theory Tracing
  imports Logging Router
begin

text \<open>
  What a request leaves in the log and on its span: \<^verbatim>\<open>pkg/telemetry/span.go\<close> and the
  middleware \<^verbatim>\<open>middleware/logger.go\<close>. A span is the list of calls made on it; a nil
  span is \<open>None\<close>. The text of an error (\<^verbatim>\<open>Error()\<close>) is a parameter.
\<close>

section \<open>Spans\<close>

datatype span_status = StatusError | StatusOk

datatype span_call =
    RecordError go_error
  | SetStatus span_status string
  | SetAttributes "(string \<times> string) list"

type_synonym span = "span_call list option"

definition span_add :: "span \<Rightarrow> span_call list \<Rightarrow> span" where
  "span_add sp cs = map_option (\<lambda>calls. calls @ cs) sp"

definition FailSpan :: "span \<Rightarrow> go_error option \<Rightarrow> string \<Rightarrow> span" where
  "FailSpan sp err msg =
    (case (sp, err) of
       (None, _) \<Rightarrow> sp
     | (_, None) \<Rightarrow> sp
     | (Some _, Some e) \<Rightarrow> span_add sp [RecordError e, SetStatus StatusError msg])"

definition WarnSpan :: "span \<Rightarrow> (string \<times> string) list \<Rightarrow> span" where
  "WarnSpan sp as = (if sp = None \<or> as = [] then sp else span_add sp [SetAttributes as])"

definition OkSpan :: "span \<Rightarrow> span" where
  "OkSpan sp = span_add sp [SetStatus StatusOk []]"

definition ResultAttrKey :: string where "ResultAttrKey = ''app.result''"

text \<open>A nil error is not expected, and \<^verbatim>\<open>err.Error()\<close> on it panics.\<close>

definition ClassifyErrorWithKey :: "(string \<Rightarrow> string) \<Rightarrow> log_handler \<Rightarrow> (go_error \<Rightarrow> string) \<Rightarrow> sentinel list \<Rightarrow>
    log_context option \<Rightarrow> span \<Rightarrow> go_error option \<Rightarrow> string \<Rightarrow> string \<Rightarrow> string \<Rightarrow> (span \<times> deliveries) go_result" where
  "ClassifyErrorWithKey lo h errText sentinels ctx sp err key0 resultAttr baseMsg =
    (let key = (if key0 = [] then ResultAttrKey else key0) in
     case err of
       None \<Rightarrow> Inl (Panic ''nil pointer dereference'')
     | Some e \<Rightarrow>
         if IsExpected sentinels err
         then Inr (WarnSpan sp [(key, resultAttr)],
                   LogWarn lo h ctx baseMsg
                     [GoString ''result'', GoString resultAttr, GoString ''error'', GoString (errText e)])
         else Inr (FailSpan sp err baseMsg,
                   LogError lo h ctx (baseMsg @ '': unexpected'') [GoString ''error'', GoString (errText e)]))"

definition ClassifyError :: "(string \<Rightarrow> string) \<Rightarrow> log_handler \<Rightarrow> (go_error \<Rightarrow> string) \<Rightarrow> sentinel list \<Rightarrow>
    log_context option \<Rightarrow> span \<Rightarrow> go_error option \<Rightarrow> string \<Rightarrow> string \<Rightarrow> (span \<times> deliveries) go_result" where
  "ClassifyError lo h errText sentinels ctx sp err resultAttr baseMsg =
    ClassifyErrorWithKey lo h errText sentinels ctx sp err ResultAttrKey resultAttr baseMsg"

section \<open>The log of a request\<close>

text \<open>The middleware logs the start of a request, runs the rest of the chain and logs its end at a
  level that depends on the status; a panic in the rest unwinds it before the second line. The path of the URL, the trace identifier and the two instants
  are arguments.\<close>

definition completed_log :: "(string \<Rightarrow> string) \<Rightarrow> log_handler \<Rightarrow> log_context option \<Rightarrow> nat \<Rightarrow> go_any list \<Rightarrow> deliveries" where
  "completed_log lo h ctx status fs =
    (if 500 \<le> status then LogError lo h ctx ''request completed'' fs
     else if 400 \<le> status then LogWarn lo h ctx ''request completed'' fs
     else LogInfo lo h ctx ''request completed'' fs)"

definition Logger :: "(string \<Rightarrow> string) \<Rightarrow> log_handler \<Rightarrow> string \<Rightarrow> string \<Rightarrow> string \<Rightarrow> int \<Rightarrow> int \<Rightarrow> http_request \<Rightarrow>
    (log_context option \<Rightarrow> 'w \<Rightarrow> 'd response \<times> 'w) \<Rightarrow> 'w \<Rightarrow> 'd response \<times> 'w \<times> deliveries" where
  "Logger lo h new_uuid traceID path start end_time q rest w =
    (let requestID = request_id new_uuid q;
         ctx = Inject None (zero_context\<lparr>lc_RequestID := requestID, lc_TraceID := traceID, lc_Step := ''middleware''\<rparr>);
         started = LogInfo lo h ctx ''request started''
           [GoString ''method'', GoString (q_Method q), GoString ''path'', GoString path,
            GoString ''client_ip'', GoString (q_ClientIP q)]
     in case rest ctx w of (r, w) \<Rightarrow>
       (add_headers [(''Request-ID'', requestID)] r, w, started @
          (if p_Status r = 0 then []
           else completed_log lo h ctx (p_Status r)
             [GoString ''method'', GoString (q_Method q), GoString ''path'', GoString path,
              GoString ''status'', GoInt (int (p_Status r)),
              GoString ''duration_ms'', GoInt ((end_time - start) div 1000000)])))"

end
