(* ===== verification/Telemetry.thy ===== *)
theory Telemetry
  imports Startup Tracing
begin

text \<open>
  The metrics of the program: \<^verbatim>\<open>pkg/telemetry\<close> (the HTTP instruments with their Apdex
  classes, the gauges of a connection pool, the providers and their shutdown),
  \<^verbatim>\<open>infrastructure/telemetry\<close> (the business metrics), \<^verbatim>\<open>pkg/otellog\<close>, the
  exporters of \<^verbatim>\<open>otelgrpc\<close>, the middleware that measures a request, and the part of
  \<^verbatim>\<open>cmd/api/server.go\<close> that sets them up. Whether the OpenTelemetry library accepts an
  instrument, an exporter or a resource is given by the record \<open>otel_lib\<close>; an instrument keeps
  what was added to it, oldest first.
\<close>

record instrument =
  in_Name :: string
  in_Description :: string
  in_Unit :: string

record otel_lib =
  ot_instrument :: "instrument \<Rightarrow> go_error option"
  ot_resource :: "string \<Rightarrow> go_error option"
  ot_trace_exporter :: "string \<Rightarrow> bool \<Rightarrow> go_error option"
  ot_metric_exporter :: "string \<Rightarrow> bool \<Rightarrow> go_error option"
  ot_log_exporter :: "string \<Rightarrow> bool \<Rightarrow> go_error option"

definition make_instrument :: "otel_lib \<Rightarrow> string \<Rightarrow> string \<Rightarrow> string \<Rightarrow> instrument go_result" where
  "make_instrument ot name description unit =
    (let i = \<lparr> in_Name = name, in_Description = description, in_Unit = unit \<rparr> in
     case ot_instrument ot i of Some e \<Rightarrow> Inl e | None \<Rightarrow> Inr i)"

section \<open>HTTP metrics\<close>

record apdex_thresholds =
  ap_Satisfied :: int
  ap_Tolerating :: int

definition DefaultApdexThresholds :: apdex_thresholds where
  "DefaultApdexThresholds = \<lparr> ap_Satisfied = 500000000, ap_Tolerating = 2000000000 \<rparr>"

record http_metrics =
  hm_RequestCount :: instrument
  hm_RequestDuration :: instrument
  hm_SlowRequests :: instrument
  hm_ApdexSatisfied :: instrument
  hm_ApdexTolerating :: instrument
  hm_ApdexFrustrated :: instrument
  hm_Thresholds :: apdex_thresholds

definition NewHTTPMetrics :: "otel_lib \<Rightarrow> http_metrics go_result" where
  "NewHTTPMetrics ot =
    bindE (make_instrument ot ''http_requests_total'' ''Total number of HTTP requests'' ''{request}'') (\<lambda>requestCount.
    bindE (make_instrument ot ''http_request_duration_seconds'' ''HTTP request duration in seconds'' ''s'') (\<lambda>requestDuration.
    bindE (make_instrument ot ''http_slow_requests_total''
        ''Total number of slow HTTP requests (> tolerating threshold)'' ''{request}'') (\<lambda>slowRequests.
    bindE (make_instrument ot ''http_apdex_satisfied_total'' ''Apdex: satisfied requests'' ''{request}'') (\<lambda>apdexSatisfied.
    bindE (make_instrument ot ''http_apdex_tolerating_total'' ''Apdex: tolerating requests'' ''{request}'') (\<lambda>apdexTolerating.
    bindE (make_instrument ot ''http_apdex_frustrated_total'' ''Apdex: frustrated requests'' ''{request}'') (\<lambda>apdexFrustrated.
    Inr \<lparr> hm_RequestCount = requestCount, hm_RequestDuration = requestDuration, hm_SlowRequests = slowRequests,
          hm_ApdexSatisfied = apdexSatisfied, hm_ApdexTolerating = apdexTolerating,
          hm_ApdexFrustrated = apdexFrustrated, hm_Thresholds = DefaultApdexThresholds \<rparr>))))))"

text \<open>What the instruments have recorded: per instrument, the attributes of each call and its
  amount (a duration in nanoseconds for the histogram).\<close>

type_synonym attributes = "(string \<times> string) list"
type_synonym measurements = "(instrument \<times> attributes \<times> int) list"

definition RecordRequest :: "http_metrics option \<Rightarrow> string \<Rightarrow> string \<Rightarrow> nat \<Rightarrow> int \<Rightarrow> measurements \<Rightarrow> measurements" where
  "RecordRequest m mth path statusCode duration ms =
    (case m of
       None \<Rightarrow> ms
     | Some m \<Rightarrow>
         let attrs = [(''http.method'', mth), (''http.route'', path), (''http.status_code'', dec_str statusCode)];
             routeAttrs = [(''http.route'', path)]
         in ms @ [(hm_RequestCount m, attrs, 1), (hm_RequestDuration m, attrs, duration)] @
           (if duration \<le> ap_Satisfied (hm_Thresholds m) then [(hm_ApdexSatisfied m, routeAttrs, 1)]
            else if duration \<le> ap_Tolerating (hm_Thresholds m) then [(hm_ApdexTolerating m, routeAttrs, 1)]
            else [(hm_ApdexFrustrated m, routeAttrs, 1), (hm_SlowRequests m, routeAttrs, 1)]))"

text \<open>The middleware: health checks are not measured, and a panic (status 0) unwinds it. The path of
  the URL and the time the rest of the chain took are arguments.\<close>

definition Metrics :: "http_metrics option \<Rightarrow> string \<Rightarrow> int \<Rightarrow> http_request \<Rightarrow> nat \<Rightarrow> measurements \<Rightarrow> measurements" where
  "Metrics httpMetrics path duration q status ms =
    (if starts_with ''/health'' path \<or> starts_with ''/ready'' path then ms
     else if status = 0 then ms
     else if httpMetrics = None then ms
     else let path = (if q_FullPath q = [] then path else q_FullPath q)
          in RecordRequest httpMetrics (q_Method q) path status duration ms)"

section \<open>Business metrics\<close>

record business_metrics =
  bm_UsersCreated :: instrument
  bm_UsersUpdated :: instrument
  bm_UsersDeleted :: instrument
  bm_OperationDuration :: instrument

definition NewMetrics :: "otel_lib \<Rightarrow> business_metrics go_result" where
  "NewMetrics ot =
    bindE (make_instrument ot ''users_created_total'' ''Total number of users created'' ''{user}'') (\<lambda>usersCreated.
    bindE (make_instrument ot ''users_updated_total'' ''Total number of users updated'' ''{user}'') (\<lambda>usersUpdated.
    bindE (make_instrument ot ''users_deleted_total'' ''Total number of users deleted (soft delete)'' ''{user}'') (\<lambda>usersDeleted.
    bindE (make_instrument ot ''users_operation_duration_seconds'' ''Duration of users operations in seconds'' ''s'') (\<lambda>operationDuration.
    Inr \<lparr> bm_UsersCreated = usersCreated, bm_UsersUpdated = usersUpdated, bm_UsersDeleted = usersDeleted,
          bm_OperationDuration = operationDuration \<rparr>))))"

definition RecordCreate :: "business_metrics option \<Rightarrow> measurements \<Rightarrow> measurements" where
  "RecordCreate m ms = (case m of None \<Rightarrow> ms | Some m \<Rightarrow> ms @ [(bm_UsersCreated m, [], 1)])"

definition RecordUpdate :: "business_metrics option \<Rightarrow> measurements \<Rightarrow> measurements" where
  "RecordUpdate m ms = (case m of None \<Rightarrow> ms | Some m \<Rightarrow> ms @ [(bm_UsersUpdated m, [], 1)])"

definition RecordDelete :: "business_metrics option \<Rightarrow> measurements \<Rightarrow> measurements" where
  "RecordDelete m ms = (case m of None \<Rightarrow> ms | Some m \<Rightarrow> ms @ [(bm_UsersDeleted m, [], 1)])"

definition RecordDuration :: "business_metrics option \<Rightarrow> int \<Rightarrow> string \<Rightarrow> measurements \<Rightarrow> measurements" where
  "RecordDuration m duration operation ms =
    (case m of None \<Rightarrow> ms | Some m \<Rightarrow> ms @ [(bm_OperationDuration m, [(''operation'', operation)], duration)])"

section \<open>Connection pools\<close>

record pool_stats =
  ps_OpenConnections :: int
  ps_InUse :: int
  ps_Idle :: int
  ps_MaxOpenConnections :: int
  ps_WaitCount :: int

text \<open>A gauge is an instrument with the attribute it observes under and what it reads from the
  statistics of the pool.\<close>

type_synonym pool_gauge = "instrument \<times> (string \<times> string) \<times> (pool_stats \<Rightarrow> int)"

definition pool_gauge_table :: "(string \<times> string \<times> (pool_stats \<Rightarrow> int)) list" where
  "pool_gauge_table =
    [(''db_pool_open_connections'', ''Number of open connections in the pool'', ps_OpenConnections),
     (''db_pool_in_use_connections'', ''Number of connections currently in use'', ps_InUse),
     (''db_pool_idle_connections'', ''Number of idle connections in the pool'', ps_Idle),
     (''db_pool_max_open_connections'', ''Maximum number of open connections configured'', ps_MaxOpenConnections),
     (''db_pool_wait_count'', ''Total number of connections waited for'', ps_WaitCount)]"

text \<open>The gauges are registered one after the other; those before a failure stay.\<close>

fun register_gauges :: "otel_lib \<Rightarrow> string \<times> string \<Rightarrow> (string \<times> string \<times> (pool_stats \<Rightarrow> int)) list \<Rightarrow>
    pool_gauge list \<times> go_error option" where
  "register_gauges ot poolAttr [] = ([], None)"
| "register_gauges ot poolAttr ((name, description, read) # rest) =
    (case make_instrument ot name description ''{connection}'' of
       Inl e \<Rightarrow> ([], Some e)
     | Inr i \<Rightarrow> (case register_gauges ot poolAttr rest of (gs, err) \<Rightarrow> ((i, poolAttr, read) # gs, err)))"

definition RegisterDBPoolMetrics :: "otel_lib \<Rightarrow> db_pool option \<Rightarrow> string \<Rightarrow> pool_gauge list \<times> go_error option" where
  "RegisterDBPoolMetrics ot pool poolName =
    (if pool = None then ([], None) else register_gauges ot (''db.pool.name'', poolName) pool_gauge_table)"

section \<open>Providers\<close>

record telemetry_options =
  to_spanExporter :: bool
  to_metricExporter :: bool

record telemetry_provider =
  tp_tp :: bool
  tp_mp :: bool
  tp_httpMetrics :: "http_metrics option"

definition empty_provider :: telemetry_provider where
  "empty_provider = \<lparr> tp_tp = False, tp_mp = False, tp_httpMetrics = None \<rparr>"

definition WithTraceExporter :: "telemetry_options \<Rightarrow> telemetry_options" where
  "WithTraceExporter opt = opt\<lparr>to_spanExporter := True\<rparr>"

definition WithMetricExporter :: "telemetry_options \<Rightarrow> telemetry_options" where
  "WithMetricExporter opt = opt\<lparr>to_metricExporter := True\<rparr>"

definition Exporters :: "otel_lib \<Rightarrow> string \<Rightarrow> bool \<Rightarrow> (telemetry_options \<Rightarrow> telemetry_options) list go_result" where
  "Exporters ot CollectorURL Insecure =
    (case ot_trace_exporter ot CollectorURL Insecure of
       Some traceErr \<Rightarrow> Inl traceErr
     | None \<Rightarrow> (case ot_metric_exporter ot CollectorURL Insecure of
         Some metricErr \<Rightarrow> Inl metricErr
       | None \<Rightarrow> Inr [WithTraceExporter, WithMetricExporter]))"

definition telemetry_Setup :: "otel_lib \<Rightarrow> string \<Rightarrow> bool \<Rightarrow> (telemetry_options \<Rightarrow> telemetry_options) list \<Rightarrow>
    telemetry_provider go_result" where
  "telemetry_Setup ot ServiceName Enabled opts =
    (if \<not> Enabled then Inr empty_provider
     else let opt = fold (\<lambda>f. f) opts \<lparr> to_spanExporter = False, to_metricExporter = False \<rparr> in
       if \<not> to_spanExporter opt \<and> \<not> to_metricExporter opt then Inr empty_provider
       else case ot_resource ot ServiceName of
         Some resErr \<Rightarrow> Inl resErr
       | None \<Rightarrow> bindE (NewHTTPMetrics ot) (\<lambda>httpMetrics.
           Inr \<lparr> tp_tp = to_spanExporter opt, tp_mp = to_metricExporter opt, tp_httpMetrics = Some httpMetrics \<rparr>))"

text \<open>Which providers are shut down, in order, and the first error. What each shutdown gives is an
  argument.\<close>

definition telemetry_Shutdown :: "go_error option \<Rightarrow> go_error option \<Rightarrow> telemetry_provider \<Rightarrow> string list \<times> go_error option" where
  "telemetry_Shutdown tpErr mpErr p =
    (if tp_tp p \<and> tpErr \<noteq> None then ([''traces''], tpErr)
     else let stopped = (if tp_tp p then [''traces''] else []) in
       if tp_mp p then (stopped @ [''metrics''], mpErr) else (stopped, None))"

definition otellog_Setup :: "otel_lib \<Rightarrow> string \<Rightarrow> bool \<Rightarrow> bool \<Rightarrow> bool go_result" where
  "otellog_Setup ot ServiceName Enabled exporter =
    (if \<not> Enabled then Inr False
     else if \<not> exporter then Inr False
     else case ot_resource ot ServiceName of Some resErr \<Rightarrow> Inl resErr | None \<Rightarrow> Inr True)"

definition otellog_Shutdown :: "go_error option \<Rightarrow> bool option \<Rightarrow> go_error option" where
  "otellog_Shutdown lpErr p = (if p = None \<or> p = Some False then None else lpErr)"

section \<open>Startup\<close>

text \<open>Whatever fails here, the program goes on without it. \<^verbatim>\<open>setupOtelLogs\<close> gives
  whether a provider was registered.\<close>

definition setupOtelLogs :: "otel_lib \<Rightarrow> string \<Rightarrow> bool \<Rightarrow> string \<Rightarrow> bool" where
  "setupOtelLogs ot collectorURL insecure serviceName =
    (if collectorURL = [] then False
     else case ot_log_exporter ot collectorURL insecure of
       Some _ \<Rightarrow> False
     | None \<Rightarrow> (case otellog_Setup ot serviceName True True of Inl _ \<Rightarrow> False | Inr lp \<Rightarrow> lp))"

definition exporter_options :: "otel_lib \<Rightarrow> otel_config \<Rightarrow> (telemetry_options \<Rightarrow> telemetry_options) list" where
  "exporter_options ot c =
    (if cot_CollectorURL c = [] then []
     else case Exporters ot (cot_CollectorURL c) (cot_Insecure c) of Inl _ \<Rightarrow> [] | Inr opts \<Rightarrow> opts)"

text \<open>\<^verbatim>\<open>tp\<close> is nil when the setup fails.\<close>

definition start_telemetry :: "otel_lib \<Rightarrow> otel_config \<Rightarrow> telemetry_provider option" where
  "start_telemetry ot c =
    (case telemetry_Setup ot (cot_ServiceName c) (cot_CollectorURL c \<noteq> []) (exporter_options ot c) of
       Inl tpErr \<Rightarrow> None | Inr tp \<Rightarrow> Some tp)"

definition start_logger :: "(string \<Rightarrow> string) \<Rightarrow> sink \<Rightarrow> sink \<Rightarrow> otel_config \<Rightarrow> log_handler" where
  "start_logger lo stdout otelHandler c =
    (if cot_CollectorURL c = [] then setupLogger lo stdout else setupLoggerWithOtel lo stdout otelHandler)"

definition pool_gauges :: "otel_lib \<Rightarrow> db_cluster \<Rightarrow> pool_gauge list" where
  "pool_gauges ot cl =
    fst (RegisterDBPoolMetrics ot (Some (DBCluster_Writer cl)) ''writer'') @
    (if HasSeparateReader cl then fst (RegisterDBPoolMetrics ot (Some (DBCluster_Reader cl)) ''reader'') else [])"

definition http_metrics_of :: "telemetry_provider option \<Rightarrow> http_metrics option" where
  "http_metrics_of tp = (case tp of None \<Rightarrow> None | Some p \<Rightarrow> tp_httpMetrics p)"

end
