(* ===== verification/Logging_Properties.thy ===== *)
theory Logging_Properties
  imports Telemetry
begin

text \<open>
  What the logs and the metrics of the program show: how much of a sensitive value its mask leaves
  visible, that nothing else about it reaches a sink whatever the nesting and the logger's scope, that
  an error raises an alert only where the client is answered with an error of the server, and that the
  Apdex counters add up to the request counter.
\<close>

section \<open>The default table\<close>

lemma lower_key: "list_all (\<lambda>c. byte c < 128) k \<Longrightarrow> ToLower lo k = map lower_byte k"
  by (simp add: ToLower_def)

lemma default_masker: "NewMasker lo DefaultBRConfig = DefaultBRConfig"
  by (simp add: NewMasker_def lower_keys_def DefaultBRConfig_def ToLower_def lower_byte_def)

section \<open>What a mask shows\<close>

lemma phone_loop_digits:
  "phone_loop False rs (ds, pre) = (ds @ map char_of (filter (\<lambda>r. 48 \<le> r \<and> r \<le> 57) rs), pre)"
  by (induction rs arbitrary: ds) simp_all

lemma runes_ascii: "list_all (\<lambda>c. byte c < 128) s \<Longrightarrow> runes s = map byte s"
proof (induction s)
  case (Cons c s)
  then have "decode_rune (c # s) = (byte c, 1)" by (simp add: decode_rune_def Let_def)
  with Cons show ?case by (subst runes.simps) simp
qed (simp add: runes.simps)

lemma digits_ascii: "list_all is_digit ds \<Longrightarrow> list_all (\<lambda>c. byte c < 128) ds"
  by (auto simp: list_all_iff is_digit_def)

lemma digit_runes: "list_all is_digit ds \<Longrightarrow> filter (\<lambda>r. 48 \<le> r \<and> r \<le> 57) (map byte ds) = map byte ds"
  by (auto simp: list_all_iff is_digit_def filter_id_conv)

lemma MaskPhone_digits:
  assumes "list_all is_digit ds" "7 \<le> length ds"
  shows "MaskPhone (CHR ''+'' # ds) = ''+'' @ take 2 ds @ ''***'' @ drop (length ds - 4) ds"
    "MaskPhone ds = take 2 ds @ ''***'' @ drop (length ds - 4) ds"
proof -
  have r: "runes (CHR ''+'' # ds) = 43 # map byte ds" "runes ds = map byte ds"
    using runes_ascii[of "CHR ''+'' # ds"] runes_ascii[of ds] digits_ascii[OF assms(1)] by simp_all
  have m: "map (char_of \<circ> byte) ds = ds" by (simp add: map_idI)
  show "MaskPhone (CHR ''+'' # ds) = ''+'' @ take 2 ds @ ''***'' @ drop (length ds - 4) ds"
    using assms(2) m by (simp add: MaskPhone_def r phone_loop_digits digit_runes[OF assms(1)] del: filter_map)
  obtain d es where d: "ds = d # es" using assms(2) by (cases ds) auto
  then have "is_digit d" "list_all is_digit es" using assms(1) by simp_all
  then have "phone_loop True (map byte ds) ([], []) = (ds, [])"
    using m by (auto simp: d phone_loop_digits digit_runes is_digit_def simp del: filter_map)
  then show "MaskPhone ds = take 2 ds @ ''***'' @ drop (length ds - 4) ds"
    using assms(2) r(2) by (simp add: MaskPhone_def d)
qed

lemma MaskDocument_long: "4 < length s \<Longrightarrow> MaskDocument s = ''***'' @ drop (length s - 4) s"
  by (simp add: MaskDocument_def)

lemma MaskEmail_at:
  assumes "byte c < 128" "CHR ''@'' \<notin> set d"
  shows "MaskEmail (c # l @ CHR ''@'' # d) = c # ''***@'' @ d"
proof -
  have "index_byte (CHR ''@'') (rev d @ CHR ''@'' # rev (c # l)) = Some (length (rev d))"
    by (rule index_byte_app) (use assms(2) in simp)
  then have "last_index_byte (CHR ''@'') (c # l @ CHR ''@'' # d) = Some (Suc (length l))"
    by (simp add: last_index_byte_def)
  then show ?thesis using assms(1) by (simp add: MaskEmail_def utf8_def)
qed

section \<open>Values that look alike\<close>

text \<open>Two attributes look alike when they agree except in strings under a key of the table that have
  the same mask, neither being its own mask already.\<close>

inductive alike :: "(string \<Rightarrow> string) \<Rightarrow> mask_fields \<Rightarrow> string \<times> slog_value \<Rightarrow> string \<times> slog_value \<Rightarrow> bool"
  for lo m where
  alike_same: "alike lo m a a"
| alike_masked: "map_of m (ToLower lo k) = Some f \<Longrightarrow> s \<noteq> [] \<Longrightarrow> t \<noteq> [] \<Longrightarrow> f s = f t \<Longrightarrow> f s \<noteq> s \<Longrightarrow> f t \<noteq> t \<Longrightarrow>
    alike lo m (k, KString s) (k, KString t)"
| alike_group: "list_all2 (alike lo m) as bs \<Longrightarrow> alike lo m (k, KGroup as) (k, KGroup bs)"

lemma maskAttrs_map: "maskAttrs lo m as = map (maskAttr lo m) as"
  by (induction as) simp_all

lemma alike_mask: "alike lo m a b \<Longrightarrow> maskAttr lo m a = maskAttr lo m b"
proof (induction rule: alike.induct)
  case (alike_group as bs k)
  have "map (maskAttr lo m) as = map (maskAttr lo m) bs"
    using alike_group.IH by (induction rule: list_all2_induct) simp_all
  then show ?case by (simp add: maskAttrs_map)
qed (simp_all add: Let_def)

lemma alike_mask_all: "list_all2 (alike lo m) as bs \<Longrightarrow> maskAttrs lo m as = maskAttrs lo m bs"
  by (induction rule: list_all2_induct) (simp_all add: alike_mask)

lemma alike_empty: "alike lo m a b \<Longrightarrow> empty_group a = empty_group b"
proof (induction rule: alike.induct)
  case (alike_group as bs k)
  then show ?case by (cases as; cases bs) auto
qed simp_all

lemma alike_keep: "list_all2 (alike lo m) as bs \<Longrightarrow> list_all2 (alike lo m) (keep_attrs as) (keep_attrs bs)"
  by (induction rule: list_all2_induct) (auto simp: keep_attrs_def alike_empty)

section \<open>Guarded handlers\<close>

text \<open>Every sink of the handler is behind a masker with this table.\<close>

fun guarded :: "mask_fields \<Rightarrow> log_handler \<Rightarrow> bool" where
  "guarded m (Sink s) \<longleftrightarrow> False"
| "guarded m (MaskingHandler m' wrapped) \<longleftrightarrow> m' = m"
| "guarded m (FanoutHandler p ss) \<longleftrightarrow> guarded m p \<and> list_all (guarded m) ss"

definition scoped :: "(string \<Rightarrow> string) \<Rightarrow> scope_op \<Rightarrow> log_handler \<Rightarrow> log_handler" where
  "scoped lo op h = (case op of ScopeAttrs as \<Rightarrow> Handler_WithAttrs lo as h | ScopeGroup n \<Rightarrow> Handler_WithGroup n h)"

definition alike_op :: "(string \<Rightarrow> string) \<Rightarrow> mask_fields \<Rightarrow> scope_op \<Rightarrow> scope_op \<Rightarrow> bool" where
  "alike_op lo m p q \<longleftrightarrow> p = q \<or> (\<exists>as bs. p = ScopeAttrs as \<and> q = ScopeAttrs bs \<and> list_all2 (alike lo m) as bs)"

lemma guarded_WithAttrs: "guarded m h \<Longrightarrow> guarded m (Handler_WithAttrs lo as h)"
  by (induction h) (auto simp: list_all_iff)

lemma guarded_WithGroup: "guarded m h \<Longrightarrow> guarded m (Handler_WithGroup n h)"
  by (induction h) (auto simp: list_all_iff)

lemma WithAttrs_alike:
  "guarded m h \<Longrightarrow> list_all2 (alike lo m) as bs \<Longrightarrow> Handler_WithAttrs lo as h = Handler_WithAttrs lo bs h"
  by (induction h) (auto simp: list_all_iff alike_mask_all)

lemma Handle_alike:
  "guarded m h \<Longrightarrow> list_all2 (alike lo m) as bs \<Longrightarrow>
    Handler_Handle lo \<lparr> lr_Level = l, lr_Message = msg, lr_Attrs = as \<rparr> h =
    Handler_Handle lo \<lparr> lr_Level = l, lr_Message = msg, lr_Attrs = bs \<rparr> h"
proof (induction h)
  case (FanoutHandler p ss)
  then have "\<And>sec. sec \<in> set ss \<Longrightarrow>
      Handler_Handle lo \<lparr> lr_Level = l, lr_Message = msg, lr_Attrs = as \<rparr> sec =
      Handler_Handle lo \<lparr> lr_Level = l, lr_Message = msg, lr_Attrs = bs \<rparr> sec"
    by (simp add: list_all_iff)
  with FanoutHandler show ?case by (simp cong: map_cong)
qed (simp_all add: alike_mask_all masked_record_def)

lemma scoped_alike:
  "guarded m h \<Longrightarrow> alike_op lo m p q \<Longrightarrow> scoped lo p h = scoped lo q h \<and> guarded m (scoped lo q h)"
  by (auto simp: alike_op_def scoped_def guarded_WithAttrs guarded_WithGroup WithAttrs_alike split: scope_op.splits)

lemma scopes_alike:
  assumes "list_all2 (alike_op lo m) ops ops'" "guarded m h"
  shows "fold (scoped lo) ops h = fold (scoped lo) ops' h \<and> guarded m (fold (scoped lo) ops' h)"
  using assms
proof (induction arbitrary: h rule: list_all2_induct)
  case (Cons p ps q qs)
  from scoped_alike[OF Cons.prems Cons.hyps(1)] Cons.IH[of "scoped lo q h"] show ?case by simp
qed simp

lemma start_logger_guarded: "guarded DefaultBRConfig (start_logger lo out otel c)"
  by (simp add: start_logger_def setupLogger_def setupLoggerWithOtel_def Let_def NewFanoutHandler_def
      NewMaskingHandler_def default_masker)

lemma lowered: "ToLower id ''Document'' = ''document''" "map lower_byte ''Phone'' = ''phone''"
  by code_simp+

text \<open>C36. The logs show of a sensitive value only what its mask shows: two calls of the logger that
  differ only in strings under the keys of the default table (in any letter case, at any depth of
  groups, in the arguments of the call or in the attributes the logger was given before) and whose
  masks agree deliver exactly the same records, in the same order, to standard output and to
  OpenTelemetry. A string that is its own mask is excepted, since it is replaced by three stars.\<close>

theorem logs_show_only_masks:
  assumes "list_all2 (alike_op lo DefaultBRConfig) ops ops'"
    "list_all2 (alike lo DefaultBRConfig) (argsToAttrs xs) (argsToAttrs ys)"
  shows "slog_log lo (fold (scoped lo) ops (start_logger lo out otel c)) level msg xs =
    slog_log lo (fold (scoped lo) ops' (start_logger lo out otel c)) level msg ys"
proof -
  note h = scopes_alike[OF assms(1) start_logger_guarded[of lo out otel c]]
  from Handle_alike[OF conjunct2[OF h] alike_keep[OF assms(2)], of level msg] h show ?thesis
    by (simp add: slog_log_def)
qed

theorem logs_show_only_masks_witness:
  "let log = (\<lambda>doc. slog_log id (start_logger id \<lparr> sn_Name = ''stdout'', sn_Level = 0, sn_Error = None, sn_Scope = [] \<rparr>
        \<lparr> sn_Name = ''otel'', sn_Level = 0, sn_Error = None, sn_Scope = [] \<rparr>
        \<lparr> cot_ServiceName = ''wallet'', cot_CollectorURL = ''collector'', cot_Insecure = True \<rparr>) 0 ''user created''
      [GoString ''Document'', GoString doc])
   in log ''12345678901'' = log ''99945678901''"
proof -
  have "list_all2 (alike id DefaultBRConfig) (argsToAttrs [GoString ''Document'', GoString ''12345678901''])
      (argsToAttrs [GoString ''Document'', GoString ''99945678901''])"
    using alike_masked[of DefaultBRConfig id "''Document''" MaskDocument "''12345678901''" "''99945678901''"] lowered
    by (simp add: DefaultBRConfig_def MaskDocument_def)
  then show ?thesis
    unfolding Let_def by (rule logs_show_only_masks[of id "[]" "[]", simplified fold_simps id_apply, OF list.rel_intros(1)])
qed



section \<open>Alerts\<close>

text \<open>C38. An error raises an alert exactly when it is no expected outcome: if it wraps one of the
  domain's sentinels the client is answered with a status of the 400 family, the span gets the outcome
  as an attribute and keeps its status, and the log line is a warning; otherwise the span is marked as
  failed, the log line is an error, and unless it carries an application code the client sees 500 with
  the generic message.\<close>

theorem alerts_are_server_errors:
  "case ClassifyError lo h errText handler_init ctx (Some calls) (Some e) res msg of
     Inl p \<Rightarrow> False
   | Inr (sp, out) \<Rightarrow>
       if \<exists>s. errors_is e s
       then fst (HandleError e) \<in> {400, 401, 403, 404, 409, 422} \<and>
         sp = Some (calls @ [SetAttributes [(''app.result'', res)]]) \<and>
         out = LogWarn lo h ctx msg [GoString ''result'', GoString res, GoString ''error'', GoString (errText e)]
       else (as_app_error e = None \<longrightarrow> HandleError e = (500, ''internal server error'')) \<and>
         sp = Some (calls @ [RecordError e, SetStatus StatusError msg]) \<and>
         out = LogError lo h ctx (msg @ '': unexpected'') [GoString ''error'', GoString (errText e)]"
proof (cases "\<exists>s. errors_is e s")
  case True
  then obtain s where s: "errors_is e s" by blast
  then have "fst (HandleError e) \<in> {400, 401, 403, 404, 409, 422}"
    using domainErrors_total[of s] by (auto simp: HandleError_sentinel httpStatus_def)
  with True s show ?thesis
    by (simp add: ClassifyError_def ClassifyErrorWithKey_def IsExpected_iff ResultAttrKey_def WarnSpan_def span_add_def)
next
  case False
  then show ?thesis
    by (auto simp: ClassifyError_def ClassifyErrorWithKey_def IsExpected_iff ResultAttrKey_def FailSpan_def span_add_def
        HandleError_unknown)
qed

theorem alerts_are_server_errors_witness:
  "HandleError ErrNoRows = (500, ''internal server error'')"
  using alerts_are_server_errors[where e = ErrNoRows and lo = id and errText = "\<lambda>_. []" and ctx = None and calls = "[]"
    and res = "[]" and msg = "[]" and h = "Sink \<lparr> sn_Name = [], sn_Level = 0, sn_Error = None, sn_Scope = [] \<rparr>"]
  by (simp split: sum.splits prod.splits)

section \<open>The Apdex counters\<close>

text \<open>What was added to an instrument for a route.\<close>

definition total :: "instrument \<Rightarrow> string \<Rightarrow> measurements \<Rightarrow> int" where
  "total i path ms = sum_list (map (\<lambda>(j, as, n). if j = i \<and> (''http.route'', path) \<in> set as then n else 0) ms)"

lemma total_append [simp]: "total i path (ms @ ns) = total i path ms + total i path ns"
  by (simp add: total_def)

lemma total_simps [simp]: "total i path [] = 0"
  "total i path ((j, as, n) # ms) = (if j = i \<and> (''http.route'', path) \<in> set as then n else 0) + total i path ms"
  by (simp_all add: total_def)

lemma make_instrument_name: "make_instrument ot n d u = Inr i \<Longrightarrow> in_Name i = n"
  by (auto simp: make_instrument_def Let_def split: option.splits)

lemma http_names: "distinct [''http_requests_total'', ''http_request_duration_seconds'', ''http_slow_requests_total'',
    ''http_apdex_satisfied_total'', ''http_apdex_tolerating_total'', ''http_apdex_frustrated_total'']"
  by simp

lemma instruments_apart:
  assumes "NewHTTPMetrics ot = Inr m"
  shows "distinct [hm_RequestCount m, hm_RequestDuration m, hm_SlowRequests m, hm_ApdexSatisfied m,
    hm_ApdexTolerating m, hm_ApdexFrustrated m]"
proof -
  from assms obtain a b c d e f where i: "in_Name a = ''http_requests_total''"
    "in_Name b = ''http_request_duration_seconds''" "in_Name c = ''http_slow_requests_total''"
    "in_Name d = ''http_apdex_satisfied_total''" "in_Name e = ''http_apdex_tolerating_total''"
    "in_Name f = ''http_apdex_frustrated_total''"
    and m: "m = \<lparr> hm_RequestCount = a, hm_RequestDuration = b, hm_SlowRequests = c, hm_ApdexSatisfied = d,
      hm_ApdexTolerating = e, hm_ApdexFrustrated = f, hm_Thresholds = DefaultApdexThresholds \<rparr>"
    unfolding NewHTTPMetrics_def bindE_Inr by (blast dest: make_instrument_name)
  have "distinct (map in_Name [a, b, c, d, e, f])" using http_names by (simp only: list.map i)
  then show ?thesis unfolding m by (simp only: http_metrics.simps distinct_map)
qed

definition balanced :: "http_metrics \<Rightarrow> string \<Rightarrow> measurements \<Rightarrow> bool" where
  "balanced m path ms \<longleftrightarrow>
    total (hm_ApdexSatisfied m) path ms + total (hm_ApdexTolerating m) path ms + total (hm_ApdexFrustrated m) path ms =
      total (hm_RequestCount m) path ms \<and>
    total (hm_SlowRequests m) path ms = total (hm_ApdexFrustrated m) path ms"

lemma route_member:
  "(''http.route'', path) \<in> set [(''http.method'', a), (''http.route'', p), (''http.status_code'', b)] \<longleftrightarrow> p = path"
  "(''http.route'', path) \<in> set [(''http.route'', p)] \<longleftrightarrow> p = path"
  by auto

lemma class_totals:
  fixes d :: int
  assumes "distinct [r, u, w, a, b, c]" "x \<in> {[(a, y, 1)], [(b, y, 1)], [(c, y, 1), (w, y, 1)]}"
    "(''http.route'', path) \<in> set y \<longleftrightarrow> (''http.route'', path) \<in> set z"
  defines "n \<equiv> [(r, z, 1), (u, z, d)] @ x"
  shows "total a path n + total b path n + total c path n = total r path n" "total w path n = total c path n"
  using assms by auto

lemma RecordRequest_balanced:
  assumes "NewHTTPMetrics ot = Inr m" "balanced m path ms"
  shows "balanced m path (RecordRequest (Some m) mth p status d ms)"
proof -
  let ?y = "[(''http.route'', p)]" and ?z = "[(''http.method'', mth), (''http.route'', p), (''http.status_code'', dec_str status)]"
  define x where "x = (if d \<le> ap_Satisfied (hm_Thresholds m) then [(hm_ApdexSatisfied m, ?y, 1)]
    else if d \<le> ap_Tolerating (hm_Thresholds m) then [(hm_ApdexTolerating m, ?y, 1)]
    else [(hm_ApdexFrustrated m, ?y, 1), (hm_SlowRequests m, ?y, 1 :: int)])"
  have r: "RecordRequest (Some m) mth p status d ms = ms @ [(hm_RequestCount m, ?z, 1), (hm_RequestDuration m, ?z, d)] @ x"
    by (simp only: RecordRequest_def Let_def option.case x_def)
  have x: "x \<in> {[(hm_ApdexSatisfied m, ?y, 1)], [(hm_ApdexTolerating m, ?y, 1)],
      [(hm_ApdexFrustrated m, ?y, 1), (hm_SlowRequests m, ?y, 1)]}"
    unfolding x_def by (simp only: insert_iff split: if_split) simp
  have z: "(''http.route'', path) \<in> set ?y \<longleftrightarrow> (''http.route'', path) \<in> set ?z" by (simp only: route_member)
  from class_totals[OF instruments_apart[OF assms(1)] x z, of d] assms(2) show ?thesis
    unfolding balanced_def r total_append by linarith
qed

lemma Metrics_balanced:
  "NewHTTPMetrics ot = Inr m \<Longrightarrow> balanced m path ms \<Longrightarrow> balanced m path (Metrics (Some m) p d q status ms)"
  by (simp add: Metrics_def Let_def RecordRequest_balanced)

text \<open>The counters of a route add up: whatever requests were measured, the satisfied, tolerating and
  frustrated ones together are the requests counted, and the slow ones are the frustrated ones.\<close>

lemma metrics_add_up:
  assumes "NewHTTPMetrics ot = Inr m"
  shows "balanced m path (fold (\<lambda>(p, d, q, status). Metrics (Some m) p d q status) reqs [])"
proof -
  have "balanced m path ms \<Longrightarrow> balanced m path (fold (\<lambda>(p, d, q, status). Metrics (Some m) p d q status) reqs ms)" for ms
    by (induction reqs arbitrary: ms) (auto simp: Metrics_balanced[OF assms])
  then show ?thesis by (simp add: balanced_def)
qed

end
