(* ===== verification/Process.thy ===== *)
theory Process
  imports Telemetry
begin

text \<open>
  The two programs as processes: \<^verbatim>\<open>cmd/api\<close> from its configuration to its exit code,
  with the order in which what was opened is closed, and \<^verbatim>\<open>cmd/migrate\<close>. What the
  network, the signals and the migration library (\<^verbatim>\<open>goose\<close>) give are records of
  outcomes.
\<close>

section \<open>The HTTP server\<close>

record http_server =
  hs_Addr :: string
  hs_ReadHeaderTimeout :: int
  hs_ReadTimeout :: int
  hs_WriteTimeout :: int
  hs_IdleTimeout :: int
  hs_MaxHeaderBytes :: int

definition newServer :: "string \<Rightarrow> http_server" where
  "newServer port =
    \<lparr> hs_Addr = '':'' @ port, hs_ReadHeaderTimeout = 10 * 1000000000, hs_ReadTimeout = 30 * 1000000000,
      hs_WriteTimeout = 30 * 1000000000, hs_IdleTimeout = 120 * 1000000000, hs_MaxHeaderBytes = push_bit 20 1 \<rparr>"

text \<open>Either listening fails first, with an error that is not the closing of the server, or a signal
  arrives and the server is shut down.\<close>

datatype first_event = ListenFails go_error | Interrupted

record process_events =
  pe_first :: "http_server \<Rightarrow> first_event"
  pe_shutdown :: "go_error option"

definition runWithGracefulShutdown :: "process_events \<Rightarrow> http_server \<Rightarrow> go_error option" where
  "runWithGracefulShutdown p srv =
    (case pe_first p srv of
       ListenFails listenErr \<Rightarrow> Some listenErr
     | Interrupted \<Rightarrow> (case pe_shutdown p of Some shutdownErr \<Rightarrow> Some shutdownErr | None \<Rightarrow> None))"

section \<open>cmd/api\<close>

text \<open>Deferred calls run last in, first out, whatever ends \<^verbatim>\<open>Start\<close>; their errors are
  only logged.\<close>

datatype deferred = CloseCluster | ShutdownLogs | ShutdownTelemetry

definition Start_process :: "otel_lib \<Rightarrow> boot \<Rightarrow> process_events \<Rightarrow> config \<Rightarrow> go_error option \<times> deferred list" where
  "Start_process ot b p cfg =
    (case Validate cfg of
       Inl validateErr \<Rightarrow> (Some (Wrapped ''invalid configuration'' validateErr), [])
     | Inr _ \<Rightarrow>
         let stack = (if start_telemetry ot (c_Otel cfg) \<noteq> None then [ShutdownTelemetry] else []);
             stack = ShutdownLogs # stack
         in (case NewDBCluster b (writer_pool (c_DB cfg)) (reader_pool (c_DB cfg)) of
               Inl clusterErr \<Rightarrow> (Some clusterErr, stack)
             | Inr cluster \<Rightarrow> (runWithGracefulShutdown p (newServer (csv_Port (c_Server cfg))), CloseCluster # stack)))"

text \<open>The exit code.\<close>

definition api_main :: "otel_lib \<Rightarrow> boot \<Rightarrow> process_events \<Rightarrow> getenv \<Rightarrow> int" where
  "api_main ot b p env = (if fst (Start_process ot b p (Load env)) \<noteq> None then 1 else 0)"

lemma Start_process_server:
  "snd (Start_process ot b p cfg) = CloseCluster # ds \<Longrightarrow> \<exists>sv. Start b cfg = Inr sv"
  by (auto simp: Start_process_def Start_def Let_def split: sum.splits)

lemma Start_process_closes:
  "Start b cfg = Inr sv \<Longrightarrow>
    Start_process ot b p cfg = (runWithGracefulShutdown p (newServer (csv_Port (c_Server cfg))),
      [CloseCluster, ShutdownLogs] @ (if start_telemetry ot (c_Otel cfg) \<noteq> None then [ShutdownTelemetry] else []))"
  by (auto simp: Start_process_def Start_Inr Let_def)

lemma api_main_zero:
  "api_main ot b p env = 0 \<longleftrightarrow> (\<exists>sv. Start b (Load env) = Inr sv) \<and>
    pe_first p (newServer (csv_Port (c_Server (Load env)))) = Interrupted \<and> pe_shutdown p = None"
  by (cases "Validate (Load env)";
      cases "NewDBCluster b (writer_pool (c_DB (Load env))) (reader_pool (c_DB (Load env)))")
    (auto simp: api_main_def Start_process_def Start_def runWithGracefulShutdown_def Let_def
      split: first_event.splits option.splits)

section \<open>cmd/migrate\<close>

text \<open>\<^verbatim>\<open>filepath.Clean\<close> on slash-separated paths, \<^verbatim>\<open>Dir\<close> and
  \<^verbatim>\<open>Join\<close>.\<close>

definition path_step :: "bool \<Rightarrow> string \<Rightarrow> string list \<Rightarrow> string list" where
  "path_step rooted c st =
    (if c = [] \<or> c = ''.'' then st
     else if c = ''..'' then (if st \<noteq> [] \<and> last st \<noteq> ''..'' then butlast st else if rooted then st else st @ [c])
     else st @ [c])"

definition path_clean :: "string \<Rightarrow> string" where
  "path_clean p =
    (let rooted = (p \<noteq> [] \<and> hd p = CHR ''/'');
         st = fold (path_step rooted) (split_on (CHR ''/'') p) [];
         s = (if rooted then ''/'' else []) @ join ''/'' st
     in if s = [] then ''.'' else s)"

definition path_dir :: "string \<Rightarrow> string" where
  "path_dir p = path_clean (case last_index_byte (CHR ''/'') p of None \<Rightarrow> [] | Some i \<Rightarrow> take (i + 1) p)"

definition path_join :: "string list \<Rightarrow> string" where
  "path_join ps = (let es = filter (\<lambda>p. p \<noteq> []) ps in if es = [] then [] else path_clean (join ''/'' es))"

record migrator =
  mg_open :: "string \<Rightarrow> open_outcome"
  mg_stat_migrations :: bool
  mg_caller :: "string option"
  mg_dialect :: "go_error option"
  mg_up :: "string \<Rightarrow> go_error option"

definition getMigrationsDir :: "migrator \<Rightarrow> string" where
  "getMigrationsDir g =
    (if mg_stat_migrations g then ''./migrations''
     else case mg_caller g of
       None \<Rightarrow> ''./migrations''
     | Some currentFile \<Rightarrow>
         path_join [path_dir currentFile, ''..'', ''..'', ''internal'', ''infrastructure'', ''db'', ''postgres'', ''migration''])"

text \<open>Opening is lazy: the connection is made by the ping. Migrations always run on the writer.\<close>

definition migrate_run :: "migrator \<Rightarrow> getenv \<Rightarrow> go_error option" where
  "migrate_run g env =
    (case mg_open g (GetWriterDSN (c_DB (Load env))) of
       OpenFails openErr \<Rightarrow> Some (Wrapped ''opening database connection'' openErr)
     | PingFails pingErr \<Rightarrow> Some (Wrapped ''pinging database'' pingErr)
     | Opened \<Rightarrow> (case mg_dialect g of
         Some dialectErr \<Rightarrow> Some (Wrapped ''setting goose dialect'' dialectErr)
       | None \<Rightarrow> (case mg_up g (getMigrationsDir g) of
           Some upErr \<Rightarrow> Some (Wrapped ''running migrations'' upErr)
         | None \<Rightarrow> None)))"

definition migrate_main :: "migrator \<Rightarrow> getenv \<Rightarrow> int" where
  "migrate_main g env = (if migrate_run g env \<noteq> None then 1 else 0)"

lemma development_migrations:
  "mg_caller g = Some ''/app/cmd/migrate/main.go'' \<Longrightarrow> \<not> mg_stat_migrations g \<Longrightarrow>
    getMigrationsDir g = ''/app/internal/infrastructure/db/postgres/migration''"
proof -
  have "path_join [path_dir ''/app/cmd/migrate/main.go'', ''..'', ''..'', ''internal'', ''infrastructure'', ''db'', ''postgres'', ''migration'']
      = ''/app/internal/infrastructure/db/postgres/migration''"
    by code_simp
  then show "mg_caller g = Some ''/app/cmd/migrate/main.go'' \<Longrightarrow> \<not> mg_stat_migrations g \<Longrightarrow>
    getMigrationsDir g = ''/app/internal/infrastructure/db/postgres/migration''"
    by (simp add: getMigrationsDir_def)
qed

end
