(* ===== verification/Spec2Isabelle.thy ===== *)
theory Spec2Isabelle
  imports Ledger_Properties Reversal_Properties Import_Properties Metadata_Properties Catalog_Properties
    Account_Properties List_Properties Ofx_Properties Ofx_Search Idempotency_Properties Access_Properties
    Rate_Properties Cache_Properties Startup_Properties Logging_Properties Process
begin

text \<open>
  A verification of the financial wallet, an HTTP service in Go over PostgreSQL and Redis: users with
  roles keep accounts, post statements (credits and debits) to them, reverse them, import them from
  OFX files, and label them with categories and tags.

  \<^bold>\<open>How the program is put together.\<close> \<^verbatim>\<open>cmd/api\<close> reads the environment, validates it, opens a writer and
  an optional reader database and an optional Redis, and builds the repositories, use cases, handlers
  and routes. A request runs through recovery, tracing, metrics, the request log, idempotency and the
  global rate limit; then through the guards of its route (service key, bearer token, permission) into
  a handler, which binds the input, calls one use case and translates its answer or error to JSON. Use
  cases (\<^verbatim>\<open>internal/usecases\<close>) check and build entities of the domain
  (\<^verbatim>\<open>internal/domain\<close>) and call repositories
  (\<^verbatim>\<open>internal/infrastructure/db/postgres/repository\<close>), which run SQL. The ledger lives in two
  transactions of the statement repository that lock an account, append statements with their running
  balance and rewrite the balance of the account.

  \<^bold>\<open>The model.\<close> State is explicit: \<^verbatim>\<open>db\<close> has a list of rows per table, \<^verbatim>\<open>cluster\<close> a primary and an
  optional replica that may lag, \<^verbatim>\<open>kv\<close> a Redis with expiry, \<^verbatim>\<open>world\<close> all of them behind a request. Go's
  \<^verbatim>\<open>(value, error)\<close> is a sum, a panic is an error value that no code handles before the recovery
  middleware, \<^verbatim>\<open>int64\<close> is a 64-bit word, strings are byte lists, durations and instants are integers
  in nanoseconds. What is not in the repository enters through records of functions: \<^verbatim>\<open>ext\<close> (clock, new
  identifiers, UUID syntax, the conversions of PostgreSQL, and for every call whether it is refused or
  its reply is lost), \<^verbatim>\<open>idlib\<close> (mail addresses, Unicode tables, bcrypt), \<^verbatim>\<open>jwtlib\<close>, \<^verbatim>\<open>ofx_lib\<close> (the XML
  decoder), \<^verbatim>\<open>bind_lib\<close> (binding by \<^verbatim>\<open>gin\<close>), \<^verbatim>\<open>boot\<close>, \<^verbatim>\<open>otel_lib\<close>, \<^verbatim>\<open>migrator\<close>. Every call gets
  its own environment, so clocks, identifiers and failures vary freely between calls.

  \<^bold>\<open>Theories and code.\<close>
  \<^item> The language: Wallet_Prelude (results, traversals, words), Go_Strings, Go_Base64, Go_Time,
    Go_Time_Format, Go_Duration, Go_Float, Sha256 define what the program uses of Go's library.
  \<^item> Domain: Domain_Errors (sentinels, wrapped errors, \<^verbatim>\<open>pkg/vo\<close>), Entities (accounts, statements,
    categories, tags), User_Domain (users, roles, passwords).
  \<^item> Storage: Postgres (the tables of the migrations with their constraints, single statements and
    transactions), Pagination, Account_Repo, Catalog_Repo, Statement_Repo, User_Repo; Redis.
  \<^item> Use cases: Account_UC, Catalog_UC, Statement_UC, User_UC, Role_UC, Auth_UC (with \<^verbatim>\<open>pkg/jwt\<close>).
  \<^item> OFX: Ofx_Amount, Ofx_Date, Ofx_Parser, Ofx_Search (\<^verbatim>\<open>pkg/ofx\<close>).
  \<^item> Web: Http_Errors (\<^verbatim>\<open>handler/error.go\<close>, \<^verbatim>\<open>pkg/apperror\<close>), Web_Types, Web_Auth, Rate_Limit,
    Idempotency, Health, Handlers, Router (\<^verbatim>\<open>internal/infrastructure/web\<close>, \<^verbatim>\<open>pkg/ratelimit\<close>,
    \<^verbatim>\<open>pkg/idempotency\<close>, \<^verbatim>\<open>pkg/health\<close>).
  \<^item> Observation: Log_Masking, Logging (\<^verbatim>\<open>pkg/logutil\<close>), Tracing (\<^verbatim>\<open>span.go\<close>, \<^verbatim>\<open>logger.go\<close>), Telemetry
    (\<^verbatim>\<open>pkg/telemetry\<close>, \<^verbatim>\<open>pkg/otellog\<close>, \<^verbatim>\<open>infrastructure/telemetry\<close>).
  \<^item> Processes: Config (\<^verbatim>\<open>config\<close>), Startup and Process (\<^verbatim>\<open>cmd/api\<close>, \<^verbatim>\<open>cmd/migrate\<close>, \<^verbatim>\<open>pkg/database\<close>).
  \<^item> Wallet_Demo and Web_Demo are concrete instances for the closed witnesses.

  Names are those of the code (\<^verbatim>\<open>Create_Execute\<close>, \<^verbatim>\<open>StatementRepository_Create\<close>, \<^verbatim>\<open>HandleError\<close>), with
  the type in front where Go has a method and a prefix where two packages use one name.

  \<^bold>\<open>Interfaces.\<close> Wallet_Steps states the contract of a writing operation (\<^verbatim>\<open>write_op\<close>) and interprets
  it for every repository write; the program is the transition system \<^verbatim>\<open>wallet_step\<close> whose steps are
  single writes with any environment and copies to the replica, so an invariant of \<^verbatim>\<open>reachable\<close> holds
  under every interleaving of requests. \<^verbatim>\<open>visible_catalog\<close> and \<^verbatim>\<open>owned_catalog\<close> are the contracts of
  the two catalogs, \<^verbatim>\<open>cache_aside\<close> that of the cache, \<^verbatim>\<open>transparent\<close> (and \<^verbatim>\<open>chained\<close>, two of them) that of
  a middleware; each is interpreted on the model's operations. Idempotency has a step relation over
  requests in flight and a specification it refines.

  \<^bold>\<open>What is shown.\<close>
  \<^item> Ledger, Ledger_Properties: in every reachable state each balance is the sum of the account's
    statements and every \<^verbatim>\<open>balance_after\<close> continues the one before; keys, references and checks hold;
    at most one reversal per statement and one import per FITID; a request creates exactly the
    statement it answers with.
  \<^item> Reversal_Properties, Import_Properties, Metadata_Properties: reversals cancel and are final, also
    when two race; an import posts each transaction once and a second import posts none; a refused
    request changes nothing; foreign accounts are invisible; labels change nothing else.
  \<^item> List_Properties, Account_Properties, Catalog_Properties: bounds of pages, a cursor continues its
    page, round trips, what updates and deletions may change and who may make them.
  \<^item> Ofx_Properties, Ofx_Search: amounts and dates round-trip, SGML becomes closed XML, the search for
    the body ends on every input.
  \<^item> Idempotency_Properties, Rate_Properties: one answer per key, replayed on a retry; a limiter admits
    exactly its limit per window.
  \<^item> Access_Properties, Auth_Properties, Cache_Properties: no write without the guards of its route, one
    user's accounts are closed to another (while service keys are off), access and refresh tokens are
    never confused, a login says only yes or no, cached users and permissions follow the database.
  \<^item> Logging_Properties, Startup_Properties, Process: the logs show only masks, alerts are raised exactly for
    unexpected errors, the Apdex counters add up, a started server has validated settings and is shut
    down in order.

  \<^bold>\<open>Loops and bounds.\<close> Structural loops are \<^verbatim>\<open>fun\<close>, others \<^verbatim>\<open>function\<close> with a measure. The loops of
  \<^verbatim>\<open>indexFoldASCII\<close> and of \<^verbatim>\<open>ParseDuration\<close> are partial functions proved to return. No fuel is used.

  \<^bold>\<open>Not modelled.\<close> The spans the use cases open around their calls, with their attributes, and the log
  lines of use cases have no effect on answers or data and are left out, as is \<^verbatim>\<open>singleflight\<close>, which
  shares one read among concurrent ones. \<^verbatim>\<open>gin\<close> (binding, route matching, recovery),
  \<^verbatim>\<open>net/http\<close>, \<^verbatim>\<open>lib/pq\<close>, \<^verbatim>\<open>sqlx\<close>, go-redis, golang-jwt, bcrypt, goose and the OpenTelemetry SDK are
  libraries: parameters or outcomes of the model. One request is served at one instant, but its
  repository calls may interleave with others where the theorems speak of reachable states.
  Mocks and the generated Swagger document (\<^verbatim>\<open>internal/mocks\<close>, \<^verbatim>\<open>docs\<close>) are no part of the program; the
  bodies of responses are values before their JSON encoding.
\<close>

end
